(* ===== verification/Prelude.thy ===== *)
theory Prelude
  imports Main "HOL-Library.Word" "HOL-Library.Sublist"
begin

text \<open>
  Shared vocabulary of the development: bytes and C++ strings, little-endian packing, the
  collections of simplification rules the component theories extend, and the list facts that
  several components use.

  A \<^verbatim>\<open>std::string\<close> or \<^verbatim>\<open>std::string_view\<close> is a \<^typ>\<open>string\<close>: Isabelle's \<^typ>\<open>char\<close> has
  exactly 256 values, as \<^verbatim>\<open>char\<close> has. A \<^verbatim>\<open>std::byte\<close> is an \<^typ>\<open>8 word\<close>.
\<close>

unbundle bit_operations_syntax

named_theorems wire_defs \<open>constants of the wire contract (command and frame class numbers)\<close>
named_theorems scan_simps \<open>how the scanners step over a known prefix\<close>
named_theorems frame_rules \<open>fields that an operation leaves alone\<close>
named_theorems inv_intros \<open>preservation of the invariants\<close>

type_synonym u8 = "8 word"
type_synonym u16 = "16 word"
type_synonym u32 = "32 word"
type_synonym u64 = "64 word"
type_synonym bytes = "u8 list"

type_synonym cmd_id = u64
type_synonym correlation_id = u64
type_synonym external_id = string
type_synonym json_text = string

section \<open>Bytes and characters\<close>

definition byte_of_char :: "char \<Rightarrow> u8" where
  "byte_of_char c = word_of_nat (of_char c)"

definition char_of_byte :: "u8 \<Rightarrow> char" where
  "char_of_byte b = char_of (unat b)"

abbreviation bytes_of_string :: "string \<Rightarrow> bytes" where
  "bytes_of_string s \<equiv> map byte_of_char s"

abbreviation string_of_bytes :: "bytes \<Rightarrow> string" where
  "string_of_bytes bs \<equiv> map char_of_byte bs"

lemma of_char_less_256 [simp]: "(of_char c :: nat) < 256"
  by simp

lemma char_of_byte_of_char [simp]: "char_of_byte (byte_of_char c) = c"
  by (simp add: char_of_byte_def byte_of_char_def unat_of_nat)

lemma byte_of_char_of_byte [simp]: "byte_of_char (char_of_byte b) = b"
proof -
  have "unat b < 256"
    using unsigned_less [of b] by simp
  then have "of_char (char_of (unat b) :: char) = unat b"
    by simp
  then show ?thesis
    by (simp add: char_of_byte_def byte_of_char_def)
qed

lemma string_of_bytes_of_string [simp]: "string_of_bytes (bytes_of_string s) = s"
  by (simp add: comp_def)

section \<open>Little-endian integers\<close>

text \<open>
  The frame header is a packed struct that the code copies with \<^verbatim>\<open>memcpy\<close> (receive) and
  \<^verbatim>\<open>reinterpret_cast\<close> (send), so integers travel in the byte order of the host, which is
  little-endian on the platforms the SDK is built for.
\<close>

fun le_encode :: "nat \<Rightarrow> nat \<Rightarrow> bytes" where
  "le_encode 0 v = []"
| "le_encode (Suc n) v = word_of_nat (v mod 256) # le_encode n (v div 256)"

fun le_decode :: "bytes \<Rightarrow> nat" where
  "le_decode [] = 0"
| "le_decode (b # bs) = unat b + 256 * le_decode bs"

lemma length_le_encode [simp]: "length (le_encode n v) = n"
  by (induction n arbitrary: v) auto

lemma le_decode_encode: "le_decode (le_encode n v) = v mod 256 ^ n"
proof (induction n arbitrary: v)
  case 0
  then show ?case by simp
next
  case (Suc n)
  have "unat (word_of_nat (v mod 256) :: u8) = v mod 256"
    by (simp add: unat_of_nat)
  with Suc show ?case
    by (simp add: mod_mult2_eq)
qed

lemma le_decode_bound: "le_decode bs < 256 ^ length bs"
proof (induction bs)
  case (Cons b bs)
  have "unat b < 256"
    using unsigned_less [of b] by simp
  with Cons show ?case
    by simp
qed simp

lemma le_encode_decode: "le_encode (length bs) (le_decode bs) = bs"
proof (induction bs)
  case (Cons b bs)
  have "unat b < 256"
    using unsigned_less [of b] by simp
  with Cons show ?case
    by simp
qed simp

section \<open>Lists\<close>

lemma takeWhile_append_stop:
  "\<forall>x \<in> set xs. P x \<Longrightarrow> ys = [] \<or> \<not> P (hd ys) \<Longrightarrow> takeWhile P (xs @ ys) = xs"
  by (induction xs) (auto simp: takeWhile_eq_Nil_iff)

lemma dropWhile_append_stop:
  "\<forall>x \<in> set xs. P x \<Longrightarrow> ys = [] \<or> \<not> P (hd ys) \<Longrightarrow> dropWhile P (xs @ ys) = ys"
  by (induction xs) (auto simp: dropWhile_eq_self_iff)

lemma length_dropWhile_le [simp]: "length (dropWhile P xs) \<le> length xs"
  by (induction xs) auto

lemma suffix_take_eq:
  "suffix r s \<Longrightarrow> take (length s - length r) s @ r = s"
  by (auto simp: suffix_def)

lemma map_of_rev_distinct: "distinct (map fst kvs) \<Longrightarrow> map_of (rev kvs) = map_of kvs"
  by (rule map_of_eqI) (auto simp: rev_map [symmetric] intro!: ext)

section \<open>Keyed stores\<close>

text \<open>
  What the code relies on where it keeps values by key (the members of a JSON object, the
  instances of the host): a lookup sees the last value put under the key.
\<close>

locale kv_store =
  fixes get :: "'m \<Rightarrow> 'k \<Rightarrow> 'v" and put :: "'m \<Rightarrow> 'k \<Rightarrow> 'v \<Rightarrow> 'm" and absent :: 'v and empty :: 'm
  assumes get_empty: "get empty k = absent"
    and get_put: "get (put m k v) k' = (if k = k' then v else get m k')"
begin

definition put_all :: "'m \<Rightarrow> ('k \<times> 'v) list \<Rightarrow> 'm" where
  "put_all = foldl (\<lambda>m (k, v). put m k v)"

lemma get_put_all:
  "get (put_all m kvs) k = (case map_of (rev kvs) k of None \<Rightarrow> get m k | Some v \<Rightarrow> v)"
  unfolding put_all_def
  by (induction kvs arbitrary: m) (auto simp: get_put map_add_def split: option.splits)

lemma get_put_all_distinct:
  "distinct (map fst kvs) \<Longrightarrow> get (put_all empty kvs) k = (case map_of kvs k of None \<Rightarrow> absent | Some v \<Rightarrow> v)"
  by (simp add: get_put_all get_empty map_of_rev_distinct split: option.split)

end

end
