(* ===== verification/Ipc_Command.thy ===== *)
theory Ipc_Command
  imports Prelude
begin

text \<open>
  The command numbers of the sidecar contract and their frame classes:
  \<^verbatim>\<open>include/phi/adapter/v1/ipc_command.h\<close>, the \<^verbatim>\<open>MessageType\<close> enum of
  \<^verbatim>\<open>include/phi/adapter/v1/types.h\<close> and the classification at the end of
  \<^verbatim>\<open>include/phi/adapter/v1/frame.h\<close>.

  Both enums have a fixed underlying type and are built from the wire with \<^verbatim>\<open>static_cast\<close>,
  so a value of the C++ type is any value of the underlying integer, named or not: they are
  words here, with one constant per enumerator.
\<close>

type_synonym ipc_command = u16
type_synonym message_type = u8

section \<open>Enumerators\<close>

definition SyncAdapterBootstrap :: ipc_command where [wire_defs]: "SyncAdapterBootstrap = 0x0101"
definition SyncAdapterConfigChanged :: ipc_command where [wire_defs]: "SyncAdapterConfigChanged = 0x0102"
definition SyncAdapterInstanceRemoved :: ipc_command where [wire_defs]: "SyncAdapterInstanceRemoved = 0x0103"
definition CmdChannelInvoke :: ipc_command where [wire_defs]: "CmdChannelInvoke = 0x0201"
definition CmdAdapterActionInvoke :: ipc_command where [wire_defs]: "CmdAdapterActionInvoke = 0x0202"
definition CmdDeviceNameUpdate :: ipc_command where [wire_defs]: "CmdDeviceNameUpdate = 0x0203"
definition CmdDeviceEffectInvoke :: ipc_command where [wire_defs]: "CmdDeviceEffectInvoke = 0x0204"
definition CmdSceneInvoke :: ipc_command where [wire_defs]: "CmdSceneInvoke = 0x0205"
definition CmdAdaptersStreamStart :: ipc_command where [wire_defs]: "CmdAdaptersStreamStart = 0x0206"
definition CmdAdaptersStreamStop :: ipc_command where [wire_defs]: "CmdAdaptersStreamStop = 0x0207"
definition ResponseFactoryDescriptor :: ipc_command where [wire_defs]: "ResponseFactoryDescriptor = 0x1001"
definition EventFactoryDescriptorUpdated :: ipc_command where [wire_defs]: "EventFactoryDescriptorUpdated = 0x1002"
definition EventAdapterMetaUpdated :: ipc_command where [wire_defs]: "EventAdapterMetaUpdated = 0x1003"
definition EventConnectionStateChanged :: ipc_command where [wire_defs]: "EventConnectionStateChanged = 0x1004"
definition EventLog :: ipc_command where [wire_defs]: "EventLog = 0x1005"
definition EventDeviceUpdated :: ipc_command where [wire_defs]: "EventDeviceUpdated = 0x1101"
definition EventDeviceRemoved :: ipc_command where [wire_defs]: "EventDeviceRemoved = 0x1102"
definition EventChannelUpdated :: ipc_command where [wire_defs]: "EventChannelUpdated = 0x1201"
definition EventChannelStateUpdated :: ipc_command where [wire_defs]: "EventChannelStateUpdated = 0x1202"
definition EventRoomUpdated :: ipc_command where [wire_defs]: "EventRoomUpdated = 0x1301"
definition EventRoomRemoved :: ipc_command where [wire_defs]: "EventRoomRemoved = 0x1302"
definition EventGroupUpdated :: ipc_command where [wire_defs]: "EventGroupUpdated = 0x1401"
definition EventGroupRemoved :: ipc_command where [wire_defs]: "EventGroupRemoved = 0x1402"
definition EventSceneUpdated :: ipc_command where [wire_defs]: "EventSceneUpdated = 0x1501"
definition EventSceneRemoved :: ipc_command where [wire_defs]: "EventSceneRemoved = 0x1502"
definition EventStreamOpen :: ipc_command where [wire_defs]: "EventStreamOpen = 0x1601"
definition EventStreamData :: ipc_command where [wire_defs]: "EventStreamData = 0x1602"
definition EventStreamError :: ipc_command where [wire_defs]: "EventStreamError = 0x1603"
definition EventStreamEnd :: ipc_command where [wire_defs]: "EventStreamEnd = 0x1604"
definition ResultCmd :: ipc_command where [wire_defs]: "ResultCmd = 0x2001"
definition ResultAction :: ipc_command where [wire_defs]: "ResultAction = 0x2002"

definition MsgRequest :: message_type where [wire_defs]: "MsgRequest = 3"
definition MsgResponse :: message_type where [wire_defs]: "MsgResponse = 4"
definition MsgEvent :: message_type where [wire_defs]: "MsgEvent = 5"

section \<open>Command ranges\<close>

definition toUint16 :: "ipc_command \<Rightarrow> u16" where
  "toUint16 value = value"

definition isSyncCommand :: "ipc_command \<Rightarrow> bool" where
  "isSyncCommand value = (let raw = toUint16 value in 0x0100 \<le> raw \<and> raw < 0x0200)"

definition isCmdCommand :: "ipc_command \<Rightarrow> bool" where
  "isCmdCommand value = (let raw = toUint16 value in 0x0200 \<le> raw \<and> raw < 0x1000)"

definition isEventCommand :: "ipc_command \<Rightarrow> bool" where
  "isEventCommand value = (let raw = toUint16 value in 0x1000 \<le> raw \<and> raw < 0x2000)"

definition isResultCommand :: "ipc_command \<Rightarrow> bool" where
  "isResultCommand value = (let raw = toUint16 value in 0x2000 \<le> raw \<and> raw < 0x3000)"

definition expectedMessageType :: "ipc_command \<Rightarrow> message_type" where
  "expectedMessageType command =
     (if command = ResponseFactoryDescriptor then MsgResponse
      else if isSyncCommand command \<or> isCmdCommand command then MsgRequest
      else if isResultCommand command then MsgResponse
      else MsgEvent)"

definition matchesMessageType :: "message_type \<Rightarrow> ipc_command \<Rightarrow> bool" where
  "matchesMessageType type command = (type = expectedMessageType command)"

lemmas command_range_defs =
  isSyncCommand_def isCmdCommand_def isEventCommand_def isResultCommand_def toUint16_def Let_def

section \<open>Classification\<close>

definition sync_commands :: "ipc_command list" where
  "sync_commands = [SyncAdapterBootstrap, SyncAdapterConfigChanged, SyncAdapterInstanceRemoved]"

definition cmd_commands :: "ipc_command list" where
  "cmd_commands = [CmdChannelInvoke, CmdAdapterActionInvoke, CmdDeviceNameUpdate, CmdDeviceEffectInvoke,
     CmdSceneInvoke, CmdAdaptersStreamStart, CmdAdaptersStreamStop]"

definition event_commands :: "ipc_command list" where
  "event_commands = [EventFactoryDescriptorUpdated, EventAdapterMetaUpdated, EventConnectionStateChanged,
     EventLog, EventDeviceUpdated, EventDeviceRemoved, EventChannelUpdated, EventChannelStateUpdated,
     EventRoomUpdated, EventRoomRemoved, EventGroupUpdated, EventGroupRemoved, EventSceneUpdated,
     EventSceneRemoved, EventStreamOpen, EventStreamData, EventStreamError, EventStreamEnd]"

definition response_commands :: "ipc_command list" where
  "response_commands = [ResponseFactoryDescriptor, ResultCmd, ResultAction]"

lemma expected_request_iff:
  "expectedMessageType c = MsgRequest \<longleftrightarrow> 0x0100 \<le> c \<and> c < 0x1000"
  by (auto simp: expectedMessageType_def command_range_defs wire_defs word_le_nat_alt word_less_nat_alt)

lemma command_classes:
  "\<forall>c \<in> set (sync_commands @ cmd_commands). expectedMessageType c = MsgRequest"
  "\<forall>c \<in> set event_commands. expectedMessageType c = MsgEvent"
  "\<forall>c \<in> set response_commands. expectedMessageType c = MsgResponse"
  by (simp_all add: sync_commands_def cmd_commands_def event_commands_def response_commands_def
      expectedMessageType_def command_range_defs wire_defs)

lemma ranges_disjoint:
  "\<not> (isSyncCommand c \<and> isCmdCommand c)"
  "\<not> (isSyncCommand c \<and> isEventCommand c)"
  "\<not> (isSyncCommand c \<and> isResultCommand c)"
  "\<not> (isCmdCommand c \<and> isEventCommand c)"
  "\<not> (isCmdCommand c \<and> isResultCommand c)"
  "\<not> (isEventCommand c \<and> isResultCommand c)"
  by (auto simp: command_range_defs word_le_nat_alt word_less_nat_alt)

lemma commands_distinct:
  "distinct (sync_commands @ cmd_commands @ event_commands @ response_commands)"
  by (simp add: sync_commands_def cmd_commands_def event_commands_def response_commands_def wire_defs)

end
