(* ===== verification/Frame.thy ===== *)
theory Frame
  imports Ipc_Command
begin

text \<open>
  The frame header of \<^verbatim>\<open>include/phi/adapter/v1/frame.h\<close>: the packed 20-byte struct, its
  validity check and its byte image.
\<close>

definition kFrameMagic :: bytes where
  "kFrameMagic = bytes_of_string ''PHIA''"

definition kProtocolVersion :: u16 where
  "kProtocolVersion = 1"

definition kMaxPayloadSize :: u32 where
  "kMaxPayloadSize = 2 * 1024 * 1024"

record frame_header =
  hdr_magic :: bytes
  hdr_version :: u16
  hdr_type :: u8
  hdr_flags :: u8
  hdr_payloadSize :: u32
  hdr_correlationId :: u64

definition default_header :: frame_header where
  "default_header = \<lparr>hdr_magic = kFrameMagic, hdr_version = kProtocolVersion, hdr_type = MsgEvent,
     hdr_flags = 0, hdr_payloadSize = 0, hdr_correlationId = 0\<rparr>"

definition kFrameHeaderSize :: nat where
  "kFrameHeaderSize = 20"

definition isValidFrameHeader :: "frame_header \<Rightarrow> bool" where
  "isValidFrameHeader header =
     (hdr_magic header = kFrameMagic \<and> hdr_version header = kProtocolVersion
      \<and> hdr_payloadSize header \<le> kMaxPayloadSize)"

definition messageType :: "frame_header \<Rightarrow> message_type" where
  "messageType header = hdr_type header"

section \<open>Byte image\<close>

text \<open>
  The object representation of the packed struct, which \<^verbatim>\<open>UdsEpollServer::send\<close> writes and
  \<^verbatim>\<open>UdsEpollServer::readClient\<close> copies back.
\<close>

definition header_bytes :: "frame_header \<Rightarrow> bytes" where
  "header_bytes h = hdr_magic h @ le_encode 2 (unat (hdr_version h)) @ [hdr_type h, hdr_flags h]
     @ le_encode 4 (unat (hdr_payloadSize h)) @ le_encode 8 (unat (hdr_correlationId h))"

definition header_of_bytes :: "bytes \<Rightarrow> frame_header" where
  "header_of_bytes bs = \<lparr>hdr_magic = take 4 bs,
     hdr_version = word_of_nat (le_decode (take 2 (drop 4 bs))),
     hdr_type = bs ! 6, hdr_flags = bs ! 7,
     hdr_payloadSize = word_of_nat (le_decode (take 4 (drop 8 bs))),
     hdr_correlationId = word_of_nat (le_decode (take 8 (drop 12 bs)))\<rparr>"

lemma length_kFrameMagic [simp]: "length kFrameMagic = 4"
  by (simp add: kFrameMagic_def)

lemma length_header_bytes:
  "length (hdr_magic h) = 4 \<Longrightarrow> length (header_bytes h) = kFrameHeaderSize"
  by (simp add: header_bytes_def kFrameHeaderSize_def)

lemma valid_header_magic: "isValidFrameHeader h \<Longrightarrow> length (hdr_magic h) = 4"
  by (simp add: isValidFrameHeader_def)

lemma valid_header_payload_bound:
  "isValidFrameHeader h \<Longrightarrow> unat (hdr_payloadSize h) \<le> 2097152"
  by (simp add: isValidFrameHeader_def kMaxPayloadSize_def word_le_nat_alt)

lemma le_decode_unat:
  "le_decode (le_encode 2 (unat (w :: u16))) = unat w"
  "le_decode (le_encode 4 (unat (x :: u32))) = unat x"
  "le_decode (le_encode 8 (unat (y :: u64))) = unat y"
proof -
  have "unat w < 2 ^ 16" "unat x < 2 ^ 32" "unat y < 2 ^ 64"
    using unsigned_less [where ?'a = nat, of w] unsigned_less [where ?'a = nat, of x]
      unsigned_less [where ?'a = nat, of y] by simp_all
  then show
    "le_decode (le_encode 2 (unat w)) = unat w"
    "le_decode (le_encode 4 (unat x)) = unat x"
    "le_decode (le_encode 8 (unat y)) = unat y"
    by (simp_all only: le_decode_encode) simp_all
qed

lemma header_roundtrip:
  assumes "length (hdr_magic h) = 4"
  shows "header_of_bytes (header_bytes h @ rest) = h"
proof -
  have tl: "drop 2 (le_encode 2 n) = []" "drop 4 (le_encode 4 n) = []" "take 2 (le_encode 2 n) = le_encode 2 n" 
     "take 4 (le_encode 4 n) = le_encode 4 n" "take 8 (le_encode 8 n) = le_encode 8 n" for n
    by simp_all
  show ?thesis
    using assms
    by (simp add: header_of_bytes_def header_bytes_def nth_append le_decode_unat tl
        del: le_encode.simps)
qed

end
