(* ===== verification/Json_Token.thy ===== *)
theory Json_Token
  imports Prelude
begin

text \<open>
  The JSON token scanners at the start of \<^verbatim>\<open>src/sidecar.cpp\<close> (\<^verbatim>\<open>skipWs\<close> to
  \<^verbatim>\<open>skipValueToken\<close>).

  The C++ scanners take the text and a cursor \<^verbatim>\<open>i\<close> by reference and only ever look at
  \<^verbatim>\<open>text[i..]\<close>; the model passes that suffix and returns the suffix at the new cursor. The
  \<^verbatim>\<open>bool\<close> result with its \<^verbatim>\<open>*error\<close> text is a sum: \<^const>\<open>Inl\<close> the message, \<^const>\<open>Inr\<close> the rest.
\<close>

type_synonym 'a parsed = "string + 'a"

abbreviation DQUOTE :: char where "DQUOTE \<equiv> CHR 0x22"
abbreviation BACKSLASH :: char where "BACKSLASH \<equiv> CHR 0x5C"

definition isWs :: "char \<Rightarrow> bool" where
  "isWs c = (c = CHR '' '' \<or> c = CHR 0x09 \<or> c = CHR 0x0A \<or> c = CHR 0x0D)"

fun skipWs :: "string \<Rightarrow> string" where
  "skipWs [] = []"
| "skipWs (c # s) = (if isWs c then skipWs s else c # s)"

definition trim :: "string \<Rightarrow> string" where
  "trim text = rev (skipWs (rev (skipWs text)))"

text \<open>The text between two cursors: \<^verbatim>\<open>text.substr(start, i - start)\<close>.\<close>

definition consumed :: "string \<Rightarrow> string \<Rightarrow> string" where
  "consumed s r = take (length s - length r) s"

section \<open>Strings and numbers\<close>

fun skipStringBody :: "string \<Rightarrow> string parsed" where
  "skipStringBody [] = Inl ''Unterminated JSON string''"
| "skipStringBody (ch # s) =
     (if ch = DQUOTE then Inr s
      else if ch = BACKSLASH then
        (case s of [] \<Rightarrow> Inl ''Invalid JSON string escape'' | _ # s' \<Rightarrow> skipStringBody s')
      else skipStringBody s)"

definition skipStringToken :: "string \<Rightarrow> string parsed" where
  "skipStringToken s =
     (case s of
        [] \<Rightarrow> Inl ''Expected JSON string''
      | ch # t \<Rightarrow> if ch \<noteq> DQUOTE then Inl ''Expected JSON string'' else skipStringBody t)"

definition isDigit :: "char \<Rightarrow> bool" where
  "isDigit c = (48 \<le> (of_char c :: nat) \<and> (of_char c :: nat) \<le> 57)"

fun skipDigits :: "string \<Rightarrow> bool \<Rightarrow> bool \<times> string" where
  "skipDigits [] anyDigit = (anyDigit, [])"
| "skipDigits (c # s) anyDigit = (if isDigit c then skipDigits s True else (anyDigit, c # s))"

definition skipOne :: "(char \<Rightarrow> bool) \<Rightarrow> string \<Rightarrow> string" where
  "skipOne P s = (case s of [] \<Rightarrow> [] | c # t \<Rightarrow> if P c then t else s)"

definition startsWith :: "(char \<Rightarrow> bool) \<Rightarrow> string \<Rightarrow> bool" where
  "startsWith P s = (case s of [] \<Rightarrow> False | c # _ \<Rightarrow> P c)"

definition isSign :: "char \<Rightarrow> bool" where
  "isSign c = (c = CHR ''-'' \<or> c = CHR ''+'')"

definition isExp :: "char \<Rightarrow> bool" where
  "isExp c = (c = CHR ''e'' \<or> c = CHR ''E'')"

definition isDot :: "char \<Rightarrow> bool" where
  "isDot c = (c = CHR ''.'')"

definition skipNumberToken :: "string \<Rightarrow> bool \<times> string" where
  "skipNumberToken s0 =
     (let s1 = skipOne isSign s0;
          (any1, s2) = skipDigits s1 False;
          (any2, s3) = (if startsWith isDot s2 then skipDigits (skipOne isDot s2) any1 else (any1, s2))
      in if startsWith isExp s3
         then skipDigits (skipOne isSign (skipOne isExp s3)) any2
         else (any2, s3))"

section \<open>Values\<close>

function (sequential) skipValueToken :: "string \<Rightarrow> string parsed"
  and skipArrayToken :: "string \<Rightarrow> string parsed"
  and skipArrayLoop :: "string \<Rightarrow> string parsed"
  and skipObjectToken :: "string \<Rightarrow> string parsed"
  and skipObjectLoop :: "string \<Rightarrow> string parsed"
where
  "skipValueToken s0 =
     (case skipWs s0 of
        [] \<Rightarrow> Inl ''Unexpected end of JSON''
      | ch # t \<Rightarrow>
          let s = ch # t in
          if ch = DQUOTE then skipStringToken s
          else if ch = CHR ''{'' then skipObjectToken s
          else if ch = CHR ''['' then skipArrayToken s
          else if ch = CHR ''t'' \<and> take 4 s = ''true'' then Inr (drop 4 s)
          else if ch = CHR ''f'' \<and> take 5 s = ''false'' then Inr (drop 5 s)
          else if ch = CHR ''n'' \<and> take 4 s = ''null'' then Inr (drop 4 s)
          else (case skipNumberToken s of
                  (anyDigit, r) \<Rightarrow> if anyDigit then Inr r else Inl ''Invalid JSON value''))"
| "skipArrayToken s =
     (case s of
        [] \<Rightarrow> Inl ''Expected JSON array''
      | ch # t \<Rightarrow>
          if ch \<noteq> CHR ''['' then Inl ''Expected JSON array''
          else if startsWith (\<lambda>c. c = CHR '']'') (skipWs t) then Inr (tl (skipWs t))
          else skipArrayLoop (skipWs t))"
| "skipArrayLoop s =
     (if s = [] then Inl ''Unterminated JSON array''
      else case skipValueToken s of
        Inl e \<Rightarrow> Inl e
      | Inr r0 \<Rightarrow>
          let r = skipWs r0 in
          if startsWith (\<lambda>c. c = CHR '','') r then skipArrayLoop (skipWs (tl r))
          else if startsWith (\<lambda>c. c = CHR '']'') r then Inr (tl r)
          else Inl ''Invalid JSON array'')"
| "skipObjectToken s =
     (case s of
        [] \<Rightarrow> Inl ''Expected JSON object''
      | ch # t \<Rightarrow>
          if ch \<noteq> CHR ''{'' then Inl ''Expected JSON object''
          else if startsWith (\<lambda>c. c = CHR ''}'') (skipWs t) then Inr (tl (skipWs t))
          else skipObjectLoop (skipWs t))"
| "skipObjectLoop s =
     (if s = [] then Inl ''Unterminated JSON object''
      else case skipStringToken s of
        Inl e \<Rightarrow> Inl e
      | Inr k0 \<Rightarrow>
          let k = skipWs k0 in
          if \<not> startsWith (\<lambda>c. c = CHR '':'') k then Inl ''Expected ':' in JSON object''
          else case skipValueToken (skipWs (tl k)) of
            Inl e \<Rightarrow> Inl e
          | Inr r0 \<Rightarrow>
              let r = skipWs r0 in
              if startsWith (\<lambda>c. c = CHR '','') r then skipObjectLoop (skipWs (tl r))
              else if startsWith (\<lambda>c. c = CHR ''}'') r then Inr (tl r)
              else Inl ''Invalid JSON object'')"
  by pat_completeness auto

text \<open>
  Every scanner that succeeds moves the cursor forward. The recursion is nested (the loops
  continue from where the value scanner stopped), so the fact is proved first on the domain of
  the recursion and then gives termination.
\<close>

lemma skipWs_eq_dropWhile: "skipWs s = dropWhile isWs s"
  by (induction s) auto

lemma length_skipWs: "length (skipWs s) \<le> length s"
  by (simp add: skipWs_eq_dropWhile)

lemma skipStringBody_less: "skipStringBody s = Inr r \<Longrightarrow> length r < length s"
  by (induction s rule: skipStringBody.induct) (auto split: if_splits list.splits)

lemma skipStringToken_less: "skipStringToken s = Inr r \<Longrightarrow> length r < length s"
  by (auto simp: skipStringToken_def dest!: skipStringBody_less split: list.splits if_splits)

lemma skipDigits_le: "skipDigits s a = (b, r) \<Longrightarrow> length r \<le> length s"
  by (induction s a rule: skipDigits.induct) (auto split: if_splits)

lemma skipDigits_less: "skipDigits s False = (True, r) \<Longrightarrow> length r < length s"
  by (cases s) (auto split: if_splits dest: skipDigits_le)

lemma length_skipOne: "length (skipOne P s) \<le> length s"
  by (auto simp: skipOne_def split: list.splits)

lemma startsWith_less: "startsWith P s \<Longrightarrow> length (skipOne P s) < length s"
  by (auto simp: skipOne_def startsWith_def split: list.splits)

lemma startsWith_tl_less: "startsWith P s \<Longrightarrow> length (tl s) < length s"
  by (auto simp: startsWith_def split: list.splits)

lemma skipNumberToken_less:
  assumes "skipNumberToken s = (True, r)"
  shows "length r < length s"
proof -
  obtain any1 s2 where d1: "skipDigits (skipOne isSign s) False = (any1, s2)"
    by fastforce
  obtain any2 s3 where d2:
    "(if startsWith isDot s2 then skipDigits (skipOne isDot s2) any1 else (any1, s2)) = (any2, s3)"
    by fastforce
  have s2: "length s2 \<le> length s" and a1: "any1 \<Longrightarrow> length s2 < length s"
    using skipDigits_le [OF d1] skipDigits_less [of "skipOne isSign s" s2] d1
      length_skipOne [of isSign s] by (auto intro: le_trans less_le_trans)
  have s3: "length s3 \<le> length s2" and a2: "length s3 < length s2 \<or> (any2 = any1 \<and> s3 = s2)"
    using d2 startsWith_less [of isDot s2] by (auto split: if_splits dest!: skipDigits_le)
  from assms d1 d2 have "(if startsWith isExp s3
      then skipDigits (skipOne isSign (skipOne isExp s3)) any2 else (any2, s3)) = (True, r)"
    by (simp add: skipNumberToken_def)
  then show ?thesis
    using s2 s3 a1 a2 startsWith_less [of isExp s3] length_skipOne [of isSign "skipOne isExp s3"]
    by (auto split: if_splits dest!: skipDigits_le)
qed

lemma take_eq_drop_less:
  "take n s = p \<Longrightarrow> length p = n \<Longrightarrow> 0 < n \<Longrightarrow> length (drop n s) < length s"
  by auto

lemma skipWs_Cons_le: "skipWs s = c # t \<Longrightarrow> length (c # t) \<le> length s"
  by (metis length_skipWs)

lemma skipWs_tl_less:
  "startsWith P (skipWs s) \<Longrightarrow> length (tl (skipWs s)) < length s"
  by (meson length_skipWs less_le_trans startsWith_tl_less)

abbreviation scan_dom :: "(string + string) + string + string + string \<Rightarrow> bool" where
  "scan_dom \<equiv> skipValueToken_skipArrayToken_skipArrayLoop_skipObjectToken_skipObjectLoop_dom"

lemma scan_less_dom:
  "scan_dom (Inl (Inl s1)) \<Longrightarrow> skipValueToken s1 = Inr r \<Longrightarrow> length r < length s1"
  "scan_dom (Inl (Inr s2)) \<Longrightarrow> skipArrayToken s2 = Inr r \<Longrightarrow> length r < length s2"
  "scan_dom (Inr (Inl s3)) \<Longrightarrow> skipArrayLoop s3 = Inr r \<Longrightarrow> length r < length s3"
  "scan_dom (Inr (Inr (Inl s4))) \<Longrightarrow> skipObjectToken s4 = Inr r \<Longrightarrow> length r < length s4"
  "scan_dom (Inr (Inr (Inr s5))) \<Longrightarrow> skipObjectLoop s5 = Inr r \<Longrightarrow> length r < length s5"
proof (induction s1 and s2 and s3 and s4 and s5 arbitrary: r and r and r and r and r
    rule: skipValueToken_skipArrayToken_skipArrayLoop_skipObjectToken_skipObjectLoop.pinduct)
  case (1 s0)
  show ?case
  proof (cases "skipWs s0")
    case Nil
    then show ?thesis
      using 1 by (simp add: skipValueToken.psimps)
  next
    case (Cons ch t)
    with 1 have "length r < length (ch # t)"
      by (auto simp: skipValueToken.psimps Let_def split: if_splits prod.splits
          dest!: skipStringToken_less skipNumberToken_less)
    with Cons show ?thesis
      by (metis length_skipWs less_le_trans)
  qed
next
  case (2 s)
  show ?case
  proof (cases s)
    case Nil
    then show ?thesis
      using 2 by (simp add: skipArrayToken.psimps)
  next
    case (Cons ch t)
    with 2 have "length r < length (skipWs t)"
      by (auto simp: skipArrayToken.psimps split: if_splits dest: startsWith_tl_less)
    with Cons show ?thesis
      using length_skipWs [of t] by simp
  qed
next
  case (3 s)
  from 3(1,4) obtain r0 where r0: "skipValueToken s = Inr r0" and ne: "s \<noteq> []"
    by (auto simp: skipArrayLoop.psimps split: if_splits sum.splits)
  have "length r0 < length s"
    using 3(2) ne r0 by simp
  moreover have "length r < length (skipWs r0)"
    using 3(1,4) ne r0 3(3) [OF ne r0 refl] length_skipWs [of "tl (skipWs r0)"]
    by (auto simp: skipArrayLoop.psimps Let_def split: if_splits dest: startsWith_tl_less)
  ultimately show ?case
    using length_skipWs [of r0] by simp
next
  case (4 s)
  show ?case
  proof (cases s)
    case Nil
    then show ?thesis
      using 4 by (simp add: skipObjectToken.psimps)
  next
    case (Cons ch t)
    with 4 have "length r < length (skipWs t)"
      by (auto simp: skipObjectToken.psimps split: if_splits dest: startsWith_tl_less)
    with Cons show ?thesis
      using length_skipWs [of t] by simp
  qed
next
  case (5 s)
  from 5(1,4) obtain k0 r0 where k0: "skipStringToken s = Inr k0" and ne: "s \<noteq> []"
    and col: "startsWith (\<lambda>c. c = CHR '':'') (skipWs k0)"
    and r0: "skipValueToken (skipWs (tl (skipWs k0))) = Inr r0"
    by (auto simp: skipObjectLoop.psimps Let_def split: if_splits sum.splits)
  have "length r0 < length (skipWs (tl (skipWs k0)))"
    using 5(2) [OF ne k0 refl] col r0 by simp
  moreover have "length r < length (skipWs r0)"
    using 5(1,4) ne k0 col r0 5(3) [OF ne k0 refl _ r0 refl] length_skipWs [of "tl (skipWs r0)"]
    by (auto simp: skipObjectLoop.psimps Let_def split: if_splits dest: startsWith_tl_less)
  ultimately show ?case
    using length_skipWs [of r0] length_skipWs [of "tl (skipWs k0)"] skipWs_tl_less [OF col]
      skipStringToken_less [OF k0] by linarith
qed

lemma scan_total: "All scan_dom"
proof (rule "skipValueToken_skipArrayToken_skipArrayLoop_skipObjectToken_skipObjectLoop.termination"
    [of "measure (\<lambda>x. case x of
    Inl (Inl s) \<Rightarrow> 3 * length s + 1
  | Inl (Inr s) \<Rightarrow> 3 * length s
  | Inr (Inl s) \<Rightarrow> 3 * length s + 2
  | Inr (Inr (Inl s)) \<Rightarrow> 3 * length s
  | Inr (Inr (Inr s)) \<Rightarrow> 3 * length s + 2)"], goal_cases)
  case 1
  then show ?case by simp
next
  case (2 s0 ch t x)
  then show ?case using skipWs_Cons_le [of s0 ch t] by simp
next
  case (3 s0 ch t x)
  then show ?case using skipWs_Cons_le [of s0 ch t] by simp
next
  case (4 s ch t)
  then show ?case using length_skipWs [of t] by simp
next
  case (5 s)
  then show ?case by simp
next
  case (6 s b x)
  then show ?case
    using scan_less_dom(1) [of s b] length_skipWs [of b] skipWs_tl_less [of _ b]
      length_skipWs [of "tl x"] by fastforce
next
  case (7 s ch t)
  then show ?case using length_skipWs [of t] by simp
next
  case (8 s b x)
  then show ?case
    using skipStringToken_less [of s b] skipWs_tl_less [of _ b] length_skipWs [of "tl x"] by fastforce
next
  case (9 s b x ba xa)
  then show ?case
    using skipStringToken_less [of s b] skipWs_tl_less [of _ b] length_skipWs [of "tl x"]
      scan_less_dom(1) [of "skipWs (tl x)" ba] skipWs_tl_less [of _ ba] length_skipWs [of "tl xa"]
    by fastforce
qed

termination skipValueToken
  by (rule scan_total)

declare skipValueToken.simps [simp del] skipArrayToken.simps [simp del] skipArrayLoop.simps [simp del]
  skipObjectToken.simps [simp del] skipObjectLoop.simps [simp del]

lemmas scan_unfolds = skipValueToken.simps skipArrayToken.simps skipArrayLoop.simps
  skipObjectToken.simps skipObjectLoop.simps

lemmas scan_less = scan_less_dom [OF scan_total [rule_format]]

section \<open>The cursor only moves forward over the text\<close>

lemma suffix_skipWs [intro]: "suffix (skipWs s) s"
  by (simp add: skipWs_eq_dropWhile suffix_dropWhile)

lemma suffix_skipOne [intro]: "suffix (skipOne P s) s"
  by (auto simp: skipOne_def suffix_ConsI split: list.splits)

lemma suffix_skipStringBody: "skipStringBody s = Inr r \<Longrightarrow> suffix r s"
  by (induction s rule: skipStringBody.induct)
    (auto split: if_splits list.splits intro: suffix_ConsI)

lemma suffix_skipStringToken: "skipStringToken s = Inr r \<Longrightarrow> suffix r s"
  by (auto simp: skipStringToken_def split: list.splits if_splits
      dest!: suffix_skipStringBody intro: suffix_ConsI)

lemma suffix_skipDigits: "skipDigits s a = (b, r) \<Longrightarrow> suffix r s"
  by (induction s a rule: skipDigits.induct) (auto split: if_splits intro: suffix_ConsI)

lemma suffix_skipWs_trans: "suffix r (skipWs s) \<Longrightarrow> suffix r s"
  using suffix_skipWs suffix_order.trans by blast

lemma suffix_skipOne_trans: "suffix r (skipOne P s) \<Longrightarrow> suffix r s"
  using suffix_skipOne suffix_order.trans by blast

lemma suffix_tl_trans: "suffix r (tl s) \<Longrightarrow> suffix r s"
  using suffix_tl suffix_order.trans by blast

lemmas suffix_dests = suffix_skipWs_trans suffix_skipOne_trans suffix_tl_trans

lemma suffix_skipNumberToken: "skipNumberToken s = (b, r) \<Longrightarrow> suffix r s"
  unfolding skipNumberToken_def Let_def
  by (auto split: prod.splits if_splits dest!: suffix_skipDigits suffix_dests
      intro: suffix_order.trans)

lemma suffix_scan:
  "skipValueToken s1 = Inr r \<Longrightarrow> suffix r s1"
  "skipArrayToken s2 = Inr r \<Longrightarrow> suffix r s2"
  "skipArrayLoop s3 = Inr r \<Longrightarrow> suffix r s3"
  "skipObjectToken s4 = Inr r \<Longrightarrow> suffix r s4"
  "skipObjectLoop s5 = Inr r \<Longrightarrow> suffix r s5"
proof (induction s1 and s2 and s3 and s4 and s5 arbitrary: r and r and r and r and r
    rule: skipValueToken_skipArrayToken_skipArrayLoop_skipObjectToken_skipObjectLoop.induct)
  case (1 s0)
  show ?case
  proof (cases "skipWs s0")
    case Nil
    then show ?thesis
      using 1 by (simp add: scan_unfolds)
  next
    case (Cons ch t)
    with 1 have "suffix r (ch # t)"
      by (auto simp: skipValueToken.simps Let_def split: if_splits prod.splits
          dest: suffix_skipStringToken suffix_skipNumberToken intro: suffix_drop suffix_ConsI)
    with Cons show ?thesis
      by (metis suffix_skipWs_trans)
  qed
next
  case (2 s)
  then show ?case
    by (auto simp: skipArrayToken.simps split: list.splits if_splits
        intro: suffix_ConsI suffix_skipWs_trans suffix_tl_trans suffix_tl)
next
  case (3 s)
  from 3(3) obtain r0 where r0: "skipValueToken s = Inr r0" and ne: "s \<noteq> []"
    by (auto simp: skipArrayLoop.simps [of s] split: if_splits sum.splits)
  have "suffix r0 s"
    using 3(1) ne r0 by simp
  moreover have "suffix r r0"
    using 3(3) ne r0 3(2) [OF ne r0 refl]
    by (auto simp: skipArrayLoop.simps [of s] Let_def split: if_splits dest!: suffix_dests
        intro: suffix_tl suffix_dests)
  ultimately show ?case
    using suffix_order.trans by blast
next
  case (4 s)
  then show ?case
    by (auto simp: skipObjectToken.simps split: list.splits if_splits
        intro: suffix_ConsI suffix_skipWs_trans suffix_tl_trans suffix_tl)
next
  case (5 s)
  from 5(3) obtain k0 r0 where k0: "skipStringToken s = Inr k0" and ne: "s \<noteq> []"
    and col: "startsWith (\<lambda>c. c = CHR '':'') (skipWs k0)"
    and r0: "skipValueToken (skipWs (tl (skipWs k0))) = Inr r0"
    by (auto simp: skipObjectLoop.simps [of s] Let_def split: if_splits sum.splits)
  have "suffix r0 k0"
    using 5(1) [OF ne k0 refl] col r0 by (auto dest!: suffix_dests)
  moreover have "suffix r r0"
    using 5(3) ne k0 col r0 5(2) [OF ne k0 refl _ r0 refl]
    by (auto simp: skipObjectLoop.simps [of s] Let_def split: if_splits dest!: suffix_dests
        intro: suffix_tl suffix_dests)
  ultimately show ?case
    using suffix_skipStringToken [OF k0] suffix_order.trans by blast
qed

end
