(* ===== verification/Number_Text.thy ===== *)
theory Number_Text
  imports Json_Token
begin

text \<open>
  Numbers as text: \<^verbatim>\<open>std::to_string\<close> and \<^verbatim>\<open>std::from_chars\<close> on integers, and the two
  floating-point conversions of \<^verbatim>\<open>src/sidecar.cpp\<close> (\<^verbatim>\<open>appendDoubleJson\<close>, \<^verbatim>\<open>parseDouble\<close>).

  Integers keep their width: an \<^verbatim>\<open>int64_t\<close> is a \<^typ>\<open>64 word\<close> read with \<^const>\<open>sint\<close>, a
  \<^verbatim>\<open>uint64_t\<close> one read with \<^const>\<open>unat\<close>. A \<^verbatim>\<open>double\<close> is a sign, a mantissa and a binary
  exponent (or an infinity or a NaN); conversions to and from decimal are exact rational
  arithmetic with rounding to nearest, ties to even, as IEEE 754 and the C++ library have it.
\<close>

type_synonym i64 = "64 word"
type_synonym i32 = "32 word"

section \<open>Decimal digits\<close>

definition digitChar :: "nat \<Rightarrow> char" where
  "digitChar d = char_of (48 + d)"

definition digitVal :: "char \<Rightarrow> nat" where
  "digitVal c = of_char c - 48"

fun decimal :: "nat \<Rightarrow> string" where
  "decimal n = (if n < 10 then [digitChar n] else decimal (n div 10) @ [digitChar (n mod 10)])"

declare decimal.simps [simp del]

fun digitsVal :: "nat \<Rightarrow> string \<Rightarrow> nat" where
  "digitsVal acc [] = acc"
| "digitsVal acc (c # cs) = digitsVal (10 * acc + digitVal c) cs"

lemma digitChar_numeral:
  "digitChar 0 = CHR ''0''" "digitChar 1 = CHR ''1''" "digitChar (Suc 0) = CHR ''1''"
  "digitChar 2 = CHR ''2''" "digitChar 3 = CHR ''3''" "digitChar 4 = CHR ''4''"
  "digitChar 5 = CHR ''5''" "digitChar 6 = CHR ''6''" "digitChar 7 = CHR ''7''"
  "digitChar 8 = CHR ''8''" "digitChar 9 = CHR ''9''"
  by (simp_all add: digitChar_def char_of_def bit_0)

lemma of_char_digitChar: "d < 10 \<Longrightarrow> (of_char (digitChar d) :: nat) = 48 + d"
  by (simp add: digitChar_def)

lemma digitVal_digitChar: "d < 10 \<Longrightarrow> digitVal (digitChar d) = d"
  by (simp add: digitVal_def of_char_digitChar)

lemma isDigit_digitChar: "d < 10 \<Longrightarrow> isDigit (digitChar d)"
  by (simp add: isDigit_def of_char_digitChar)

lemma decimal_digits: "\<forall>c \<in> set (decimal n). isDigit c"
proof (induction n rule: decimal.induct)
  case (1 n)
  show ?case
    using 1 by (subst decimal.simps) (auto simp: isDigit_digitChar)
qed

lemma decimal_not_Nil [simp]: "decimal n \<noteq> []"
  by (subst decimal.simps) simp

lemma digitsVal_append: "digitsVal a (xs @ ys) = digitsVal (digitsVal a xs) ys"
  by (induction xs arbitrary: a) auto

lemma digitsVal_decimal: "digitsVal 0 (decimal n) = n"
proof (induction n rule: decimal.induct)
  case (1 n)
  show ?case
    using 1 by (subst decimal.simps) (auto simp: digitsVal_append digitVal_digitChar)
qed

section \<open>Integers\<close>

definition intText :: "int \<Rightarrow> string" where
  "intText v = (if v < 0 then CHR ''-'' # decimal (nat (- v)) else decimal (nat v))"

text \<open>\<^verbatim>\<open>std::to_string\<close> on a signed and on an unsigned word.\<close>

definition toStringS :: "'a::len word \<Rightarrow> string" where
  "toStringS w = intText (sint w)"

definition toStringU :: "'a::len word \<Rightarrow> string" where
  "toStringU w = decimal (unat w)"

text \<open>
  \<^verbatim>\<open>std::from_chars\<close> in base 10 on the whole of \<^verbatim>\<open>[begin, end)\<close>: an optional minus sign (for a
  signed type only), at least one digit, no other character, and a value the type can hold.
\<close>

definition fromCharsS :: "string \<Rightarrow> 'a::len word option" where
  "fromCharsS s =
     (let neg = startsWith (\<lambda>c. c = CHR ''-'') s;
          ds = (if neg then tl s else s);
          v = (if neg then - int (digitsVal 0 ds) else int (digitsVal 0 ds))
      in if ds \<noteq> [] \<and> (\<forall>c \<in> set ds. isDigit c)
            \<and> - (2 ^ (LENGTH('a) - 1)) \<le> v \<and> v < 2 ^ (LENGTH('a) - 1)
         then Some (word_of_int v) else None)"

definition fromCharsU :: "string \<Rightarrow> 'a::len word option" where
  "fromCharsU s =
     (if s \<noteq> [] \<and> (\<forall>c \<in> set s. isDigit c) \<and> digitsVal 0 s < 2 ^ LENGTH('a)
      then Some (word_of_nat (digitsVal 0 s)) else None)"

definition parseInt64 :: "string \<Rightarrow> i64 option" where
  "parseInt64 token0 =
     (let token = trim token0 in if token = [] then None else fromCharsS token)"

definition parseUInt64 :: "string \<Rightarrow> u64 option" where
  "parseUInt64 token0 =
     (let token = trim token0 in if token = [] then None else fromCharsU token)"

definition parseIntOrDefault :: "string \<Rightarrow> i64 \<Rightarrow> i64" where
  "parseIntOrDefault token fallback =
     (if token \<noteq> [] then (case parseInt64 token of Some v \<Rightarrow> v | None \<Rightarrow> fallback) else fallback)"

lemma not_isWs_digit: "isDigit c \<Longrightarrow> \<not> isWs c"
  by (auto simp: isDigit_def isWs_def)

lemma skipWs_no_ws: "s = [] \<or> \<not> isWs (hd s) \<Longrightarrow> skipWs s = s"
  by (cases s) auto

lemma trim_no_ws: "s = [] \<or> (\<not> isWs (hd s) \<and> \<not> isWs (last s)) \<Longrightarrow> trim s = s"
  by (cases "s = []") (simp_all add: trim_def skipWs_no_ws hd_rev)

lemma decimal_ends: "isDigit (hd (decimal n))" "isDigit (last (decimal n))"
  by (rule bspec [OF decimal_digits hd_in_set [OF decimal_not_Nil]],
      rule bspec [OF decimal_digits last_in_set [OF decimal_not_Nil]])

lemma intText_not_Nil [simp]: "intText v \<noteq> []"
  by (simp add: intText_def)

lemma intText_ends: "\<not> isWs (hd (intText v))" "\<not> isWs (last (intText v))"
  using decimal_ends [of "nat v"] decimal_ends [of "nat (- v)"]
  by (auto simp: intText_def not_isWs_digit isWs_def [of "CHR ''-''"])

lemma trim_intText: "trim (intText v) = intText v"
  using intText_ends by (simp add: trim_no_ws)

lemma startsWith_minus_intText: "startsWith (\<lambda>c. c = CHR ''-'') (intText v) \<longleftrightarrow> v < 0"
proof -
  have "\<not> startsWith (\<lambda>c. c = CHR ''-'') (decimal n)" for n
    using decimal_digits [of n]
    by (cases "decimal n") (auto simp: startsWith_def isDigit_def)
  then show ?thesis
    by (auto simp: intText_def) (simp add: startsWith_def)
qed

lemma fromCharsS_intText:
  assumes "- (2 ^ (LENGTH('a) - 1)) \<le> v" and "v < 2 ^ (LENGTH('a) - 1)"
  shows "fromCharsS (intText v) = Some (word_of_int v :: 'a::len word)"
  using assms decimal_digits
  by (simp add: fromCharsS_def startsWith_minus_intText Let_def)
    (auto simp: intText_def digitsVal_decimal)

lemma sint_bounds:
  "- (2 ^ (LENGTH('a) - 1)) \<le> sint (w :: 'a::len word)" "sint w < 2 ^ (LENGTH('a) - 1)"
  using sint_greater_eq [of w] sint_less [of w] by simp_all

lemma sint_ucast:
  assumes "LENGTH('a) < LENGTH('b)"
  shows "sint (ucast (w :: 'a::len word) :: 'b::len word) = uint w"
proof -
  have "(2 :: int) ^ LENGTH('a) \<le> 2 ^ (LENGTH('b) - 1)"
    by (rule power_increasing) (use assms in simp_all)
  then have "uint w < 2 ^ (LENGTH('b) - 1)"
    using unsigned_less [where ?'a = int, of w] by linarith
  moreover have "- (2 ^ (LENGTH('b) - 1)) \<le> uint w"
    by (rule order_trans [of _ 0]) simp_all
  ultimately have "signed_take_bit (LENGTH('b) - 1) (uint w) = uint w"
    by (intro signed_take_bit_int_eq_self)
  then show ?thesis
    using sint_sbintrunc' [of "uint w", where ?'a = 'b] by simp
qed

lemma parseInt64_toString: "parseInt64 (toStringS w) = Some w"
  using sint_bounds [of w]
  by (simp add: parseInt64_def toStringS_def trim_intText fromCharsS_intText)

lemma fromCharsU_decimal:
  assumes "n < 2 ^ LENGTH('a)"
  shows "fromCharsU (decimal n) = Some (word_of_nat n :: 'a::len word)"
  using assms by (simp add: fromCharsU_def decimal_digits digitsVal_decimal)

lemma trim_decimal: "trim (decimal n) = decimal n"
  by (simp add: trim_no_ws decimal_ends not_isWs_digit)

lemma parseUInt64_toString: "parseUInt64 (toStringU w) = Some w"
  using unsigned_less [where ?'a = nat, of w]
  by (simp add: parseUInt64_def toStringU_def trim_decimal fromCharsU_decimal)

section \<open>Floating point\<close>

text \<open>
  \<open>Finite neg m e\<close> is the value \<open>m * 2 ^ e\<close>, negated when \<open>neg\<close> (so there are two zeros).
\<close>

datatype double = NaN | Infinity bool | Finite bool nat int

definition wf_double :: "double \<Rightarrow> bool" where
  "wf_double d = (case d of
     Finite neg m e \<Rightarrow> m < 2 ^ 53 \<and> - 1074 \<le> e \<and> e \<le> 971 \<and> (2 ^ 52 \<le> m \<or> e = - 1074)
   | _ \<Rightarrow> True)"

text \<open>The nearest integer to \<open>num / den\<close>, ties to even.\<close>

definition round_div :: "nat \<Rightarrow> nat \<Rightarrow> nat" where
  "round_div num den =
     (let q = num div den; r = num mod den in
      if 2 * r < den then q else if den < 2 * r then q + 1 else if even q then q else q + 1)"

text \<open>\<open>num / den\<close> scaled by \<open>b ^ k\<close> for a possibly negative \<open>k\<close>, as a pair.\<close>

definition scale :: "nat \<Rightarrow> int \<Rightarrow> nat \<Rightarrow> nat \<Rightarrow> nat \<times> nat" where
  "scale b k num den = (if 0 \<le> k then (num * b ^ nat k, den) else (num, den * b ^ nat (- k)))"

text \<open>The number of base-\<open>b\<close> digits of \<open>n\<close>, and the greatest \<open>X\<close> with \<open>b ^ X \<le> num / den\<close>.\<close>

fun base_length :: "nat \<Rightarrow> nat \<Rightarrow> nat" where
  "base_length b n = (if n = 0 \<or> b < 2 then 0 else Suc (base_length b (n div b)))"

declare base_length.simps [simp del]

definition magnitude :: "nat \<Rightarrow> nat \<Rightarrow> nat \<Rightarrow> int" where
  "magnitude b num den =
     (let d = int (base_length b num) - int (base_length b den);
          (n', d') = scale b (- d) num den
      in if d' \<le> n' then d else d - 1)"

definition to_decimal :: "nat \<Rightarrow> nat \<Rightarrow> nat \<Rightarrow> nat \<times> int" where
  "to_decimal P num den =
     (let X = magnitude 10 num den;
          (n', d') = scale 10 (int P - 1 - X) num den;
          q = round_div n' d'
      in if q = 10 ^ P then (10 ^ (P - 1), X + 1) else (q, X))"

definition stripZeros :: "string \<Rightarrow> string" where
  "stripZeros s = rev (dropWhile (\<lambda>c. c = CHR ''0'') (rev s))"

definition numberText :: "bool \<Rightarrow> string \<Rightarrow> string \<Rightarrow> string \<Rightarrow> string" where
  "numberText neg ip fp ex =
     (if neg then ''-'' else []) @ ip @ (if fp = [] then [] else CHR ''.'' # fp) @ ex"

text \<open>
  The significant digits of a value with exponent \<open>X\<close>, laid out as \<^verbatim>\<open>%.15g\<close> does: fixed notation
  for \<open>-4 \<le> X < 15\<close>, scientific with at least two exponent digits otherwise, trailing zeros of the
  fraction removed.
\<close>

definition generalText :: "bool \<Rightarrow> string \<Rightarrow> int \<Rightarrow> string" where
  "generalText neg ds X =
     (if 0 \<le> X \<and> X < 15 then numberText neg (take (nat X + 1) ds) (stripZeros (drop (nat X + 1) ds)) []
      else if - 4 \<le> X \<and> X < 0
      then numberText neg ''0'' (stripZeros (replicate (nat (- X) - 1) (CHR ''0'') @ ds)) []
      else numberText neg (take 1 ds) (stripZeros (drop 1 ds))
             (CHR ''e'' # (if X < 0 then CHR ''-'' else CHR ''+'')
                # (if nat \<bar>X\<bar> < 10 then ''0'' else []) @ decimal (nat \<bar>X\<bar>)))"

definition isfinite :: "double \<Rightarrow> bool" where
  "isfinite d = (case d of Finite _ _ _ \<Rightarrow> True | _ \<Rightarrow> False)"

definition doubleText :: "bool \<Rightarrow> nat \<Rightarrow> int \<Rightarrow> string" where
  "doubleText neg m e =
     (if m = 0 then numberText neg ''0'' [] []
      else let (num, den) = scale 2 e m 1; (q, X) = to_decimal 15 num den
           in generalText neg (decimal q) X)"

text \<open>\<^verbatim>\<open>appendDoubleJson\<close>.\<close>

definition appendDoubleJson :: "string \<Rightarrow> double \<Rightarrow> string" where
  "appendDoubleJson out value =
     out @ (case value of Finite neg m e \<Rightarrow> doubleText neg m e | _ \<Rightarrow> ''null'')"

text \<open>The double nearest to \<open>num / den\<close>; \<^const>\<open>None\<close> on overflow.\<close>

definition toDouble :: "bool \<Rightarrow> nat \<Rightarrow> nat \<Rightarrow> double option" where
  "toDouble neg num den =
     (if num = 0 then Some (Finite neg 0 (- 1074))
      else let e0 = max (magnitude 2 num den - 52) (- 1074);
               (n', d') = scale 2 (- e0) num den;
               q = round_div n' d';
               (m, e) = (if q = 2 ^ 53 then (2 ^ 52, e0 + 1) else (q, e0))
           in if 971 < e then None else Some (Finite neg m e))"

text \<open>
  \<^verbatim>\<open>parseDouble\<close>. The function tries \<^verbatim>\<open>std::from_chars\<close> and then a classic-locale stream; both
  must read the whole token. Together they accept an optional sign, digits with an optional
  point (at least one digit) and an optional exponent with at least one digit, and reject a
  value that overflows (the stream accepts one that underflows, which \<^verbatim>\<open>from_chars\<close> may reject).
\<close>

definition parseDouble :: "string \<Rightarrow> double option" where
  "parseDouble token0 =
     (let token = trim token0;
          neg = startsWith (\<lambda>c. c = CHR ''-'') token;
          s1 = skipOne isSign token;
          ip = takeWhile isDigit s1;
          s2 = dropWhile isDigit s1;
          s3 = skipOne isDot s2;
          fp = (if startsWith isDot s2 then takeWhile isDigit s3 else []);
          s4 = (if startsWith isDot s2 then dropWhile isDigit s3 else s2);
          hasExp = startsWith isExp s4;
          s5 = skipOne isExp s4;
          negExp = startsWith (\<lambda>c. c = CHR ''-'') s5;
          ed = (if hasExp then skipOne isSign s5 else s4);
          k = (if hasExp then (if negExp then - 1 else 1) * int (digitsVal 0 ed) else 0) - int (length fp)
      in if ip @ fp \<noteq> [] \<and> (if hasExp then ed \<noteq> [] \<and> (\<forall>c \<in> set ed. isDigit c) else s4 = [])
         then (case scale 10 k (digitsVal 0 (ip @ fp)) 1 of (num, den) \<Rightarrow> toDouble neg num den)
         else None)"

lemmas number_eval = decimal.simps base_length.simps doubleText_def to_decimal_def magnitude_def scale_def
  round_div_def generalText_def numberText_def stripZeros_def digitChar_numeral parseDouble_def toDouble_def
  trim_def isWs_def startsWith_def skipOne_def isSign_def isDigit_def isDot_def isExp_def digitVal_def

lemma doubleText_tenth: "doubleText False 0x1999999999999a (-56) = ''0.1''"
  by (simp add: number_eval)

lemma doubleText_minus_one: "doubleText True 1 0 = ''-1''"
  by (simp add: number_eval)

lemma doubleText_scientific: "doubleText False 3 (-20) = ''2.86102294921875e-06''"
  by (simp add: number_eval)

lemma parseDouble_42_5: "parseDouble ''42.5'' = Some (Finite False 5981343255101440 (-47))"
  by (simp add: number_eval)

end
