(* ===== verification/Contract_Types.thy ===== *)
theory Contract_Types
  imports Number_Text
begin

text \<open>
  The contract's value types: \<^verbatim>\<open>include/phi/adapter/v1/types.h\<close>, \<^verbatim>\<open>value.h\<close>, \<^verbatim>\<open>schema.h\<close>,
  \<^verbatim>\<open>device.h\<close>, \<^verbatim>\<open>channel.h\<close>, \<^verbatim>\<open>room.h\<close>, \<^verbatim>\<open>group.h\<close> and \<^verbatim>\<open>scene.h\<close>.

  An enum whose values the code builds only from enumerators is a \<open>datatype\<close> with a function for
  its underlying value. A flag set (\<^verbatim>\<open>ChannelFlags\<close>, ...) and \<^verbatim>\<open>DeviceEffect\<close>, which the request
  decoder casts from any integer, are words of the underlying width.
\<close>

section \<open>Scalars\<close>

datatype scalar_value =
    ScalarNull | ScalarBool bool | ScalarInt i64 | ScalarDouble double | ScalarString string

type_synonym scalar_list = "scalar_value list"

section \<open>Enumerations\<close>

datatype cmd_status =
    CmdStatus_Success | CmdStatus_Failure | CmdStatus_Timeout | CmdStatus_NotSupported
  | CmdStatus_InvalidArgument | CmdStatus_Busy | CmdStatus_TemporarilyOffline
  | CmdStatus_NotAuthorized | CmdStatus_NotImplemented | CmdStatus_InternalError

fun cmdStatusValue :: "cmd_status \<Rightarrow> u8" where
  "cmdStatusValue CmdStatus_Success = 0"
| "cmdStatusValue CmdStatus_Failure = 1"
| "cmdStatusValue CmdStatus_Timeout = 2"
| "cmdStatusValue CmdStatus_NotSupported = 3"
| "cmdStatusValue CmdStatus_InvalidArgument = 4"
| "cmdStatusValue CmdStatus_Busy = 5"
| "cmdStatusValue CmdStatus_TemporarilyOffline = 6"
| "cmdStatusValue CmdStatus_NotAuthorized = 7"
| "cmdStatusValue CmdStatus_NotImplemented = 8"
| "cmdStatusValue CmdStatus_InternalError = 255"

datatype action_result_type =
    ActionResultType_None | ActionResultType_Boolean | ActionResultType_Integer
  | ActionResultType_Float | ActionResultType_String | ActionResultType_StringList

fun actionResultTypeValue :: "action_result_type \<Rightarrow> u8" where
  "actionResultTypeValue ActionResultType_None = 0"
| "actionResultTypeValue ActionResultType_Boolean = 1"
| "actionResultTypeValue ActionResultType_Integer = 2"
| "actionResultTypeValue ActionResultType_Float = 3"
| "actionResultTypeValue ActionResultType_String = 4"
| "actionResultTypeValue ActionResultType_StringList = 5"

datatype device_class =
    DeviceClass_Unknown | DeviceClass_Light | DeviceClass_Switch | DeviceClass_Sensor
  | DeviceClass_Button | DeviceClass_Plug | DeviceClass_Cover | DeviceClass_Thermostat
  | DeviceClass_Gateway | DeviceClass_MediaPlayer | DeviceClass_Heater | DeviceClass_Gate
  | DeviceClass_Valve

fun deviceClassValue :: "device_class \<Rightarrow> u8" where
  "deviceClassValue DeviceClass_Unknown = 0"
| "deviceClassValue DeviceClass_Light = 1"
| "deviceClassValue DeviceClass_Switch = 2"
| "deviceClassValue DeviceClass_Sensor = 3"
| "deviceClassValue DeviceClass_Button = 4"
| "deviceClassValue DeviceClass_Plug = 5"
| "deviceClassValue DeviceClass_Cover = 6"
| "deviceClassValue DeviceClass_Thermostat = 7"
| "deviceClassValue DeviceClass_Gateway = 8"
| "deviceClassValue DeviceClass_MediaPlayer = 9"
| "deviceClassValue DeviceClass_Heater = 10"
| "deviceClassValue DeviceClass_Gate = 11"
| "deviceClassValue DeviceClass_Valve = 12"

datatype button_event_code =
    ButtonEventCode_None | ButtonEventCode_InitialPress | ButtonEventCode_DoublePress
  | ButtonEventCode_TriplePress | ButtonEventCode_QuadruplePress | ButtonEventCode_QuintuplePress
  | ButtonEventCode_LongPress | ButtonEventCode_LongPressRelease
  | ButtonEventCode_ShortPressRelease | ButtonEventCode_Repeat

fun buttonEventCodeValue :: "button_event_code \<Rightarrow> u8" where
  "buttonEventCodeValue ButtonEventCode_None = 0"
| "buttonEventCodeValue ButtonEventCode_InitialPress = 1"
| "buttonEventCodeValue ButtonEventCode_DoublePress = 2"
| "buttonEventCodeValue ButtonEventCode_TriplePress = 3"
| "buttonEventCodeValue ButtonEventCode_QuadruplePress = 4"
| "buttonEventCodeValue ButtonEventCode_QuintuplePress = 5"
| "buttonEventCodeValue ButtonEventCode_LongPress = 10"
| "buttonEventCodeValue ButtonEventCode_LongPressRelease = 11"
| "buttonEventCodeValue ButtonEventCode_ShortPressRelease = 12"
| "buttonEventCodeValue ButtonEventCode_Repeat = 20"

datatype rocker_mode =
    RockerMode_Unknown | RockerMode_SingleRocker | RockerMode_DualRocker | RockerMode_SinglePush
  | RockerMode_DualPush

fun rockerModeValue :: "rocker_mode \<Rightarrow> u8" where
  "rockerModeValue RockerMode_Unknown = 0"
| "rockerModeValue RockerMode_SingleRocker = 1"
| "rockerModeValue RockerMode_DualRocker = 2"
| "rockerModeValue RockerMode_SinglePush = 3"
| "rockerModeValue RockerMode_DualPush = 4"

datatype sensitivity_level =
    SensitivityLevel_Unknown | SensitivityLevel_Low | SensitivityLevel_Medium
  | SensitivityLevel_High | SensitivityLevel_VeryHigh | SensitivityLevel_Max

fun sensitivityLevelValue :: "sensitivity_level \<Rightarrow> u8" where
  "sensitivityLevelValue SensitivityLevel_Unknown = 0"
| "sensitivityLevelValue SensitivityLevel_Low = 1"
| "sensitivityLevelValue SensitivityLevel_Medium = 2"
| "sensitivityLevelValue SensitivityLevel_High = 3"
| "sensitivityLevelValue SensitivityLevel_VeryHigh = 4"
| "sensitivityLevelValue SensitivityLevel_Max = 5"

datatype operating_level =
    OperatingLevel_Unknown | OperatingLevel_Off | OperatingLevel_Low | OperatingLevel_Medium
  | OperatingLevel_High | OperatingLevel_Auto

fun operatingLevelValue :: "operating_level \<Rightarrow> u8" where
  "operatingLevelValue OperatingLevel_Unknown = 0"
| "operatingLevelValue OperatingLevel_Off = 1"
| "operatingLevelValue OperatingLevel_Low = 2"
| "operatingLevelValue OperatingLevel_Medium = 3"
| "operatingLevelValue OperatingLevel_High = 4"
| "operatingLevelValue OperatingLevel_Auto = 5"

datatype preset_mode =
    PresetMode_Unknown | PresetMode_Eco | PresetMode_Normal | PresetMode_Comfort | PresetMode_Sleep
  | PresetMode_Away | PresetMode_Boost

fun presetModeValue :: "preset_mode \<Rightarrow> u8" where
  "presetModeValue PresetMode_Unknown = 0"
| "presetModeValue PresetMode_Eco = 1"
| "presetModeValue PresetMode_Normal = 2"
| "presetModeValue PresetMode_Comfort = 3"
| "presetModeValue PresetMode_Sleep = 4"
| "presetModeValue PresetMode_Away = 5"
| "presetModeValue PresetMode_Boost = 6"

datatype channel_kind =
    ChannelKind_Unknown | ChannelKind_PowerOnOff | ChannelKind_ButtonEvent | ChannelKind_Brightness
  | ChannelKind_ColorTemperature | ChannelKind_ColorRGB | ChannelKind_ColorTemperaturePreset
  | ChannelKind_Volume | ChannelKind_Mute | ChannelKind_HdmiInput | ChannelKind_PlayPause
  | ChannelKind_Temperature | ChannelKind_Humidity | ChannelKind_Illuminance | ChannelKind_Motion
  | ChannelKind_Battery | ChannelKind_CO2 | ChannelKind_RelativeRotation
  | ChannelKind_ConnectivityStatus | ChannelKind_DeviceSoftwareUpdate | ChannelKind_SignalStrength
  | ChannelKind_Power | ChannelKind_Voltage | ChannelKind_Current | ChannelKind_Energy
  | ChannelKind_LinkQuality | ChannelKind_Duration | ChannelKind_Contact | ChannelKind_Tamper
  | ChannelKind_AmbientLightLevel | ChannelKind_MotionSensitivity | ChannelKind_PhValue
  | ChannelKind_OrpValue | ChannelKind_SaltPpm | ChannelKind_Conductivity | ChannelKind_TdsValue
  | ChannelKind_SpecificGravity | ChannelKind_WaterHardness | ChannelKind_FreeChlorine
  | ChannelKind_FilterPressure | ChannelKind_WaterFlow | ChannelKind_SceneTrigger

fun channelKindValue :: "channel_kind \<Rightarrow> u16" where
  "channelKindValue ChannelKind_Unknown = 0"
| "channelKindValue ChannelKind_PowerOnOff = 1"
| "channelKindValue ChannelKind_ButtonEvent = 2"
| "channelKindValue ChannelKind_Brightness = 10"
| "channelKindValue ChannelKind_ColorTemperature = 11"
| "channelKindValue ChannelKind_ColorRGB = 12"
| "channelKindValue ChannelKind_ColorTemperaturePreset = 13"
| "channelKindValue ChannelKind_Volume = 30"
| "channelKindValue ChannelKind_Mute = 31"
| "channelKindValue ChannelKind_HdmiInput = 32"
| "channelKindValue ChannelKind_PlayPause = 33"
| "channelKindValue ChannelKind_Temperature = 50"
| "channelKindValue ChannelKind_Humidity = 51"
| "channelKindValue ChannelKind_Illuminance = 52"
| "channelKindValue ChannelKind_Motion = 53"
| "channelKindValue ChannelKind_Battery = 54"
| "channelKindValue ChannelKind_CO2 = 55"
| "channelKindValue ChannelKind_RelativeRotation = 56"
| "channelKindValue ChannelKind_ConnectivityStatus = 57"
| "channelKindValue ChannelKind_DeviceSoftwareUpdate = 58"
| "channelKindValue ChannelKind_SignalStrength = 59"
| "channelKindValue ChannelKind_Power = 60"
| "channelKindValue ChannelKind_Voltage = 61"
| "channelKindValue ChannelKind_Current = 62"
| "channelKindValue ChannelKind_Energy = 63"
| "channelKindValue ChannelKind_LinkQuality = 64"
| "channelKindValue ChannelKind_Duration = 65"
| "channelKindValue ChannelKind_Contact = 66"
| "channelKindValue ChannelKind_Tamper = 67"
| "channelKindValue ChannelKind_AmbientLightLevel = 68"
| "channelKindValue ChannelKind_MotionSensitivity = 69"
| "channelKindValue ChannelKind_PhValue = 200"
| "channelKindValue ChannelKind_OrpValue = 201"
| "channelKindValue ChannelKind_SaltPpm = 202"
| "channelKindValue ChannelKind_Conductivity = 203"
| "channelKindValue ChannelKind_TdsValue = 204"
| "channelKindValue ChannelKind_SpecificGravity = 205"
| "channelKindValue ChannelKind_WaterHardness = 206"
| "channelKindValue ChannelKind_FreeChlorine = 207"
| "channelKindValue ChannelKind_FilterPressure = 208"
| "channelKindValue ChannelKind_WaterFlow = 209"
| "channelKindValue ChannelKind_SceneTrigger = 300"

datatype channel_data_type =
    ChannelDataType_Unknown | ChannelDataType_Bool | ChannelDataType_Int | ChannelDataType_Float
  | ChannelDataType_String | ChannelDataType_Color | ChannelDataType_Enum

fun channelDataTypeValue :: "channel_data_type \<Rightarrow> u8" where
  "channelDataTypeValue ChannelDataType_Unknown = 0"
| "channelDataTypeValue ChannelDataType_Bool = 1"
| "channelDataTypeValue ChannelDataType_Int = 2"
| "channelDataTypeValue ChannelDataType_Float = 3"
| "channelDataTypeValue ChannelDataType_String = 4"
| "channelDataTypeValue ChannelDataType_Color = 5"
| "channelDataTypeValue ChannelDataType_Enum = 6"

datatype connectivity_status =
    ConnectivityStatus_Unknown | ConnectivityStatus_Connected | ConnectivityStatus_Limited
  | ConnectivityStatus_Disconnected

fun connectivityStatusValue :: "connectivity_status \<Rightarrow> u8" where
  "connectivityStatusValue ConnectivityStatus_Unknown = 0"
| "connectivityStatusValue ConnectivityStatus_Connected = 1"
| "connectivityStatusValue ConnectivityStatus_Limited = 2"
| "connectivityStatusValue ConnectivityStatus_Disconnected = 3"

datatype scene_state =
    SceneState_Unknown | SceneState_Inactive | SceneState_ActiveStatic | SceneState_ActiveDynamic

fun sceneStateValue :: "scene_state \<Rightarrow> u8" where
  "sceneStateValue SceneState_Unknown = 0"
| "sceneStateValue SceneState_Inactive = 1"
| "sceneStateValue SceneState_ActiveStatic = 2"
| "sceneStateValue SceneState_ActiveDynamic = 3"

datatype scene_action =
    SceneAction_Activate | SceneAction_Deactivate | SceneAction_Dynamic

fun sceneActionValue :: "scene_action \<Rightarrow> u8" where
  "sceneActionValue SceneAction_Activate = 0"
| "sceneActionValue SceneAction_Deactivate = 1"
| "sceneActionValue SceneAction_Dynamic = 2"

datatype discovery_kind =
    DiscoveryKind_Mdns | DiscoveryKind_Ssdp | DiscoveryKind_NetScan | DiscoveryKind_Manual

fun discoveryKindValue :: "discovery_kind \<Rightarrow> u8" where
  "discoveryKindValue DiscoveryKind_Mdns = 0"
| "discoveryKindValue DiscoveryKind_Ssdp = 1"
| "discoveryKindValue DiscoveryKind_NetScan = 2"
| "discoveryKindValue DiscoveryKind_Manual = 3"

datatype channel_flag =
    ChannelFlag_None | ChannelFlag_Readable | ChannelFlag_Writable | ChannelFlag_Reportable
  | ChannelFlag_Retained | ChannelFlag_Inactive | ChannelFlag_NoTrigger | ChannelFlag_Suppress

fun channelFlagValue :: "channel_flag \<Rightarrow> u32" where
  "channelFlagValue ChannelFlag_None = 0"
| "channelFlagValue ChannelFlag_Readable = 0x1"
| "channelFlagValue ChannelFlag_Writable = 0x2"
| "channelFlagValue ChannelFlag_Reportable = 0x4"
| "channelFlagValue ChannelFlag_Retained = 0x8"
| "channelFlagValue ChannelFlag_Inactive = 0x10"
| "channelFlagValue ChannelFlag_NoTrigger = 0x20"
| "channelFlagValue ChannelFlag_Suppress = 0x40"

datatype device_flag =
    DeviceFlag_None | DeviceFlag_Wireless | DeviceFlag_Battery | DeviceFlag_Flushable
  | DeviceFlag_Ble

fun deviceFlagValue :: "device_flag \<Rightarrow> u32" where
  "deviceFlagValue DeviceFlag_None = 0"
| "deviceFlagValue DeviceFlag_Wireless = 0x1"
| "deviceFlagValue DeviceFlag_Battery = 0x2"
| "deviceFlagValue DeviceFlag_Flushable = 0x4"
| "deviceFlagValue DeviceFlag_Ble = 0x8"

datatype scene_flag =
    SceneFlag_None | SceneFlag_OriginAdapter | SceneFlag_SupportsDynamic
  | SceneFlag_SupportsDeactivate

fun sceneFlagValue :: "scene_flag \<Rightarrow> u32" where
  "sceneFlagValue SceneFlag_None = 0"
| "sceneFlagValue SceneFlag_OriginAdapter = 0x1"
| "sceneFlagValue SceneFlag_SupportsDynamic = 0x2"
| "sceneFlagValue SceneFlag_SupportsDeactivate = 0x4"

datatype adapter_flag =
    AdapterFlag_None | AdapterFlag_UseTls | AdapterFlag_CloudServices | AdapterFlag_EnableLogs
  | AdapterFlag_RequiresPolling | AdapterFlag_SupportsDiscovery | AdapterFlag_SupportsProbe
  | AdapterFlag_SupportsRename

fun adapterFlagValue :: "adapter_flag \<Rightarrow> u32" where
  "adapterFlagValue AdapterFlag_None = 0"
| "adapterFlagValue AdapterFlag_UseTls = 0x1"
| "adapterFlagValue AdapterFlag_CloudServices = 0x2"
| "adapterFlagValue AdapterFlag_EnableLogs = 0x4"
| "adapterFlagValue AdapterFlag_RequiresPolling = 0x8"
| "adapterFlagValue AdapterFlag_SupportsDiscovery = 0x10"
| "adapterFlagValue AdapterFlag_SupportsProbe = 0x20"
| "adapterFlagValue AdapterFlag_SupportsRename = 0x40"

datatype adapter_config_field_type =
    AdapterConfigFieldType_String | AdapterConfigFieldType_Password | AdapterConfigFieldType_Integer
  | AdapterConfigFieldType_Boolean | AdapterConfigFieldType_Hostname | AdapterConfigFieldType_Port
  | AdapterConfigFieldType_QrCode | AdapterConfigFieldType_Select | AdapterConfigFieldType_Action

fun adapterConfigFieldTypeValue :: "adapter_config_field_type \<Rightarrow> u8" where
  "adapterConfigFieldTypeValue AdapterConfigFieldType_String = 0"
| "adapterConfigFieldTypeValue AdapterConfigFieldType_Password = 1"
| "adapterConfigFieldTypeValue AdapterConfigFieldType_Integer = 2"
| "adapterConfigFieldTypeValue AdapterConfigFieldType_Boolean = 3"
| "adapterConfigFieldTypeValue AdapterConfigFieldType_Hostname = 4"
| "adapterConfigFieldTypeValue AdapterConfigFieldType_Port = 5"
| "adapterConfigFieldTypeValue AdapterConfigFieldType_QrCode = 6"
| "adapterConfigFieldTypeValue AdapterConfigFieldType_Select = 7"
| "adapterConfigFieldTypeValue AdapterConfigFieldType_Action = 8"

datatype adapter_config_label_position =
    AdapterConfigLabelPosition_Top | AdapterConfigLabelPosition_Left
  | AdapterConfigLabelPosition_Right

fun adapterConfigLabelPositionValue :: "adapter_config_label_position \<Rightarrow> u8" where
  "adapterConfigLabelPositionValue AdapterConfigLabelPosition_Top = 0"
| "adapterConfigLabelPositionValue AdapterConfigLabelPosition_Left = 1"
| "adapterConfigLabelPositionValue AdapterConfigLabelPosition_Right = 2"

datatype adapter_config_action_position =
    AdapterConfigActionPosition_None | AdapterConfigActionPosition_Inline
  | AdapterConfigActionPosition_Below

fun adapterConfigActionPositionValue :: "adapter_config_action_position \<Rightarrow> u8" where
  "adapterConfigActionPositionValue AdapterConfigActionPosition_None = 0"
| "adapterConfigActionPositionValue AdapterConfigActionPosition_Inline = 1"
| "adapterConfigActionPositionValue AdapterConfigActionPosition_Below = 2"

datatype adapter_config_visibility_op =
    AdapterConfigVisibilityOp_Equals | AdapterConfigVisibilityOp_Contains

fun adapterConfigVisibilityOpValue :: "adapter_config_visibility_op \<Rightarrow> u8" where
  "adapterConfigVisibilityOpValue AdapterConfigVisibilityOp_Equals = 0"
| "adapterConfigVisibilityOpValue AdapterConfigVisibilityOp_Contains = 1"

datatype adapter_config_field_flag =
    AdapterConfigFieldFlag_None | AdapterConfigFieldFlag_Required | AdapterConfigFieldFlag_Secret
  | AdapterConfigFieldFlag_ReadOnly | AdapterConfigFieldFlag_Transient
  | AdapterConfigFieldFlag_Multi | AdapterConfigFieldFlag_InstanceOnly

fun adapterConfigFieldFlagValue :: "adapter_config_field_flag \<Rightarrow> u8" where
  "adapterConfigFieldFlagValue AdapterConfigFieldFlag_None = 0"
| "adapterConfigFieldFlagValue AdapterConfigFieldFlag_Required = 0x1"
| "adapterConfigFieldFlagValue AdapterConfigFieldFlag_Secret = 0x2"
| "adapterConfigFieldFlagValue AdapterConfigFieldFlag_ReadOnly = 0x4"
| "adapterConfigFieldFlagValue AdapterConfigFieldFlag_Transient = 0x8"
| "adapterConfigFieldFlagValue AdapterConfigFieldFlag_Multi = 0x10"
| "adapterConfigFieldFlagValue AdapterConfigFieldFlag_InstanceOnly = 0x20"

datatype adapter_requirement =
    AdapterRequirement_None | AdapterRequirement_Host | AdapterRequirement_Port
  | AdapterRequirement_Username | AdapterRequirement_Password | AdapterRequirement_AppKey
  | AdapterRequirement_Token | AdapterRequirement_QrCode | AdapterRequirement_SupportsTls
  | AdapterRequirement_ManualConfirm | AdapterRequirement_UsesRetryInterval

fun adapterRequirementValue :: "adapter_requirement \<Rightarrow> u32" where
  "adapterRequirementValue AdapterRequirement_None = 0"
| "adapterRequirementValue AdapterRequirement_Host = 0x1"
| "adapterRequirementValue AdapterRequirement_Port = 0x2"
| "adapterRequirementValue AdapterRequirement_Username = 0x4"
| "adapterRequirementValue AdapterRequirement_Password = 0x8"
| "adapterRequirementValue AdapterRequirement_AppKey = 0x10"
| "adapterRequirementValue AdapterRequirement_Token = 0x20"
| "adapterRequirementValue AdapterRequirement_QrCode = 0x40"
| "adapterRequirementValue AdapterRequirement_SupportsTls = 0x80"
| "adapterRequirementValue AdapterRequirement_ManualConfirm = 0x100"
| "adapterRequirementValue AdapterRequirement_UsesRetryInterval = 0x200"

type_synonym device_effect = u16

section \<open>Bit masks\<close>

definition hasFlag :: "'a::len word \<Rightarrow> 'a word \<Rightarrow> bool" where
  "hasFlag val flag = (val AND flag = flag)"

definition kChannelFlagDefaultWrite :: u32 where
  "kChannelFlagDefaultWrite = channelFlagValue ChannelFlag_Readable OR channelFlagValue ChannelFlag_Writable
     OR channelFlagValue ChannelFlag_Reportable OR channelFlagValue ChannelFlag_Retained"

definition kChannelFlagDefaultRead :: u32 where
  "kChannelFlagDefaultRead = channelFlagValue ChannelFlag_Readable OR channelFlagValue ChannelFlag_Reportable
     OR channelFlagValue ChannelFlag_Retained"

lemma hasFlag_union: "hasFlag a f \<Longrightarrow> hasFlag b g \<Longrightarrow> hasFlag (a OR b) (f OR g)"
  by (auto simp: hasFlag_def bit_eq_iff bit_simps)

section \<open>Results\<close>

record cmd_response =
  cr_id :: cmd_id
  cr_status :: cmd_status
  cr_error :: string
  cr_errorParams :: scalar_list
  cr_errorContext :: string
  cr_finalValue :: scalar_value
  cr_tsMs :: i64

record action_response =
  ar_id :: cmd_id
  ar_status :: cmd_status
  ar_error :: string
  ar_errorParams :: scalar_list
  ar_errorContext :: string
  ar_resultType :: action_result_type
  ar_resultValue :: scalar_value
  ar_resultValueJson :: json_text
  ar_formValuesJson :: json_text
  ar_fieldChoicesJson :: json_text
  ar_reloadLayout :: bool
  ar_tsMs :: i64

text \<open>The default member initialisers.\<close>

definition emptyCmdResponse :: cmd_response where
  "emptyCmdResponse = \<lparr>cr_id = 0, cr_status = CmdStatus_Success, cr_error = [], cr_errorParams = [],
     cr_errorContext = [], cr_finalValue = ScalarNull, cr_tsMs = 0\<rparr>"

definition emptyActionResponse :: action_response where
  "emptyActionResponse = \<lparr>ar_id = 0, ar_status = CmdStatus_Success, ar_error = [], ar_errorParams = [],
     ar_errorContext = [], ar_resultType = ActionResultType_None, ar_resultValue = ScalarNull,
     ar_resultValueJson = [], ar_formValuesJson = [], ar_fieldChoicesJson = [], ar_reloadLayout = False,
     ar_tsMs = 0\<rparr>"

section \<open>Entities\<close>

record device_effect_descriptor =
  de_effect :: device_effect
  de_id :: string
  de_label :: string
  de_description :: string
  de_requiresParams :: bool
  de_metaJson :: json_text

record device =
  dev_name :: string
  dev_deviceClass :: device_class
  dev_flags :: u32
  dev_externalId :: external_id
  dev_manufacturer :: string
  dev_firmware :: string
  dev_model :: string
  dev_metaJson :: json_text
  dev_effects :: "device_effect_descriptor list"

record config_option =
  opt_value :: string
  opt_label :: string

record channel =
  ch_name :: string
  ch_externalId :: external_id
  ch_kind :: channel_kind
  ch_dataType :: channel_data_type
  ch_flags :: u32
  ch_unit :: string
  ch_minValue :: double
  ch_maxValue :: double
  ch_stepValue :: double
  ch_metaJson :: json_text
  ch_choices :: "config_option list"
  ch_lastValue :: scalar_value
  ch_lastUpdateMs :: i64
  ch_hasValue :: bool

record room =
  room_externalId :: external_id
  room_name :: string
  room_zone :: string
  room_deviceExternalIds :: "external_id list"
  room_metaJson :: json_text

record group =
  grp_externalId :: external_id
  grp_name :: string
  grp_zone :: string
  grp_deviceExternalIds :: "external_id list"
  grp_metaJson :: json_text

record scene =
  scn_externalId :: external_id
  scn_name :: string
  scn_description :: string
  scn_scopeExternalId :: external_id
  scn_scopeType :: string
  scn_avatarColor :: string
  scn_image :: string
  scn_presetTag :: string
  scn_state :: scene_state
  scn_flags :: u32
  scn_metaJson :: json_text

section \<open>Adapters\<close>

record adapter =
  ad_name :: string
  ad_host :: string
  ad_ip :: string
  ad_port :: u16
  ad_user :: string
  ad_password :: string
  ad_token :: string
  ad_pluginType :: string
  ad_externalId :: external_id
  ad_metaJson :: json_text
  ad_flags :: u32

definition emptyAdapter :: adapter where
  "emptyAdapter = \<lparr>ad_name = [], ad_host = [], ad_ip = [], ad_port = 0, ad_user = [], ad_password = [],
     ad_token = [], ad_pluginType = [], ad_externalId = [], ad_metaJson = [], ad_flags = 0\<rparr>"

record action_descriptor =
  act_id :: string
  act_label :: string
  act_description :: string
  act_hasForm :: bool
  act_danger :: bool
  act_cooldownMs :: i32
  act_confirmJson :: json_text
  act_metaJson :: json_text

record adapter_capabilities =
  cap_required :: u32
  cap_optional :: u32
  cap_flags :: u32
  cap_factoryActions :: "action_descriptor list"
  cap_instanceActions :: "action_descriptor list"
  cap_defaultsJson :: json_text

text \<open>\<^verbatim>\<open>AdapterDescriptor\<close> of \<^verbatim>\<open>include/phi/adapter/sdk/sidecar.h\<close>.\<close>

record adapter_descriptor =
  ds_pluginType :: string
  ds_displayName :: string
  ds_description :: string
  ds_apiVersion :: string
  ds_iconSvg :: string
  ds_imageBase64 :: string
  ds_timeoutMs :: i32
  ds_maxInstances :: i32
  ds_capabilities :: adapter_capabilities
  ds_configSchemaJson :: json_text

end
