(* ===== verification/Contract_Schema.thy ===== *)
theory Contract_Schema
  imports Contract_Types
begin

text \<open>
  The rest of the contract's data: the configuration schema of \<^verbatim>\<open>include/phi/adapter/v1/schema.h\<close>
  with its default values, and \<^verbatim>\<open>discovery.h\<close> and \<^verbatim>\<open>discovery_query.h\<close>. The SDK passes these through
  as they are (a descriptor carries the schema as JSON text), so they have records, their default
  values and \<^verbatim>\<open>DiscoveryQuery::isValid\<close>, and no encoders.

  A value \<^verbatim>\<open>default...\<close> is the object \<^verbatim>\<open>T{}\<close> of a struct \<^verbatim>\<open>T\<close>.
\<close>

section \<open>The configuration schema\<close>

record adapter_config_option =
  co_value :: string
  co_label :: string

record adapter_config_responsive_int =
  ri_xs :: i32
  ri_sm :: i32
  ri_md :: i32
  ri_lg :: i32
  ri_xl :: i32
  ri_xxl :: i32

definition defaultResponsiveInt :: adapter_config_responsive_int where
  "defaultResponsiveInt = \<lparr>ri_xs = 0, ri_sm = 0, ri_md = 0, ri_lg = 0, ri_xl = 0, ri_xxl = 0\<rparr>"

record adapter_config_field_visibility =
  fv_fieldKey :: string
  fv_value :: scalar_value
  fv_op :: adapter_config_visibility_op

definition defaultFieldVisibility :: adapter_config_field_visibility where
  "defaultFieldVisibility =
     \<lparr>fv_fieldKey = [], fv_value = ScalarNull, fv_op = AdapterConfigVisibilityOp_Equals\<rparr>"

record adapter_config_field_layout =
  fl_span :: adapter_config_responsive_int
  fl_position :: i32
  fl_hasLabelPosition :: bool
  fl_labelPosition :: adapter_config_label_position
  fl_labelSpan :: i32
  fl_controlSpan :: i32
  fl_hasActionPosition :: bool
  fl_actionPosition :: adapter_config_action_position
  fl_actionSpan :: i32

definition defaultFieldLayout :: adapter_config_field_layout where
  "defaultFieldLayout =
     \<lparr>fl_span = defaultResponsiveInt, fl_position = 0,
      fl_hasLabelPosition = False, fl_labelPosition = AdapterConfigLabelPosition_Left,
      fl_labelSpan = 0, fl_controlSpan = 0,
      fl_hasActionPosition = False, fl_actionPosition = AdapterConfigActionPosition_None,
      fl_actionSpan = 0\<rparr>"

record adapter_config_field =
  cf_key :: string
  cf_type :: adapter_config_field_type
  cf_label :: string
  cf_description :: string
  cf_actionId :: string
  cf_actionLabel :: string
  cf_placeholder :: string
  cf_defaultValue :: scalar_value
  cf_visibility :: adapter_config_field_visibility
  cf_layout :: adapter_config_field_layout
  cf_parentActionId :: string
  cf_options :: "adapter_config_option list"
  cf_metaJson :: json_text
  cf_flags :: u8

definition defaultConfigField :: adapter_config_field where
  "defaultConfigField =
     \<lparr>cf_key = [], cf_type = AdapterConfigFieldType_String, cf_label = [], cf_description = [],
      cf_actionId = [], cf_actionLabel = [], cf_placeholder = [], cf_defaultValue = ScalarNull,
      cf_visibility = defaultFieldVisibility, cf_layout = defaultFieldLayout,
      cf_parentActionId = [], cf_options = [], cf_metaJson = [],
      cf_flags = adapterConfigFieldFlagValue AdapterConfigFieldFlag_None\<rparr>"

record adapter_config_section_layout_defaults =
  ld_span :: adapter_config_responsive_int
  ld_labelPosition :: adapter_config_label_position
  ld_labelSpan :: i32
  ld_controlSpan :: i32
  ld_actionPosition :: adapter_config_action_position
  ld_actionSpan :: i32

definition defaultSectionLayoutDefaults :: adapter_config_section_layout_defaults where
  "defaultSectionLayoutDefaults =
     \<lparr>ld_span = defaultResponsiveInt, ld_labelPosition = AdapterConfigLabelPosition_Left,
      ld_labelSpan = 8, ld_controlSpan = 16,
      ld_actionPosition = AdapterConfigActionPosition_None, ld_actionSpan = 6\<rparr>"

record adapter_config_section_layout =
  sl_gridUnits :: i32
  sl_gutterX :: i32
  sl_gutterY :: i32
  sl_defaults :: adapter_config_section_layout_defaults

definition defaultSectionLayout :: adapter_config_section_layout where
  "defaultSectionLayout =
     \<lparr>sl_gridUnits = 24, sl_gutterX = 12, sl_gutterY = 8, sl_defaults = defaultSectionLayoutDefaults\<rparr>"

record adapter_config_section =
  cs_title :: string
  cs_description :: string
  cs_layout :: adapter_config_section_layout
  cs_fields :: "adapter_config_field list"

definition defaultConfigSection :: adapter_config_section where
  "defaultConfigSection =
     \<lparr>cs_title = [], cs_description = [], cs_layout = defaultSectionLayout, cs_fields = []\<rparr>"

record adapter_config_schema =
  sch_factory :: adapter_config_section
  sch_instance :: adapter_config_section

definition defaultConfigSchema :: adapter_config_schema where
  "defaultConfigSchema = \<lparr>sch_factory = defaultConfigSection, sch_instance = defaultConfigSection\<rparr>"

text \<open>The default spans of a section fit its grid: label and control together take all 24 units.\<close>

lemma default_layout_fills_grid:
  "ld_labelSpan (sl_defaults (cs_layout defaultConfigSection))
     + ld_controlSpan (sl_defaults (cs_layout defaultConfigSection))
   = sl_gridUnits (cs_layout defaultConfigSection)"
  by (simp add: defaultConfigSection_def defaultSectionLayout_def defaultSectionLayoutDefaults_def)

section \<open>Discovery\<close>

record discovery =
  di_pluginType :: string
  di_discoveredExternalId :: external_id
  di_label :: string
  di_hostname :: string
  di_ip :: string
  di_port :: u16
  di_kind :: discovery_kind
  di_serviceType :: string
  di_signal :: string
  di_metaJson :: json_text

definition defaultDiscovery :: discovery where
  "defaultDiscovery =
     \<lparr>di_pluginType = [], di_discoveredExternalId = [], di_label = [], di_hostname = [], di_ip = [],
      di_port = 0, di_kind = DiscoveryKind_Mdns, di_serviceType = [], di_signal = [], di_metaJson = []\<rparr>"

record discovery_query =
  dq_pluginType :: string
  dq_kind :: discovery_kind
  dq_mdnsServiceType :: string
  dq_ssdpSt :: string
  dq_defaultPort :: i32
  dq_hintsJson :: json_text

definition defaultDiscoveryQuery :: discovery_query where
  "defaultDiscoveryQuery =
     \<lparr>dq_pluginType = [], dq_kind = DiscoveryKind_Mdns, dq_mdnsServiceType = [], dq_ssdpSt = [],
      dq_defaultPort = 0, dq_hintsJson = []\<rparr>"

definition isValidQuery :: "discovery_query \<Rightarrow> bool" where
  "isValidQuery q =
     (if dq_pluginType q = [] then False
      else case dq_kind q of
        DiscoveryKind_Mdns \<Rightarrow> dq_mdnsServiceType q \<noteq> []
      | DiscoveryKind_Ssdp \<Rightarrow> dq_ssdpSt q \<noteq> []
      | DiscoveryKind_NetScan \<Rightarrow> True
      | DiscoveryKind_Manual \<Rightarrow> True)"

lemma default_query_invalid: "\<not> isValidQuery defaultDiscoveryQuery"
  by (simp add: isValidQuery_def defaultDiscoveryQuery_def)

end
