(* ===== verification/Json_Decode.thy ===== *)
theory Json_Decode
  imports Contract_Types Ipc_Command
begin

text \<open>
  The decoding half of \<^verbatim>\<open>src/sidecar.cpp\<close>: string tokens to UTF-8 text, objects to a member
  map, arrays to element tokens, and the scalar tokens of the protocol.
\<close>

section \<open>String tokens\<close>

definition hexVal :: "char \<Rightarrow> u32 option" where
  "hexVal c =
     (let n = (of_char c :: nat) in
      if 48 \<le> n \<and> n \<le> 57 then Some (word_of_nat (n - 48))
      else if 97 \<le> n \<and> n \<le> 102 then Some (word_of_nat (n - 97 + 10))
      else if 65 \<le> n \<and> n \<le> 70 then Some (word_of_nat (n - 65 + 10))
      else None)"

fun parseHexLoop :: "string \<Rightarrow> u32 \<Rightarrow> u32 option" where
  "parseHexLoop [] value = Some value"
| "parseHexLoop (c # cs) value =
     (case hexVal c of None \<Rightarrow> None | Some d \<Rightarrow> parseHexLoop cs (push_bit 4 value OR d))"

text \<open>\<^verbatim>\<open>parseHex4(text, pos)\<close> on the text from \<^verbatim>\<open>pos\<close> on.\<close>

definition parseHex4 :: "string \<Rightarrow> u32 option" where
  "parseHex4 s = (if length s < 4 then None else parseHexLoop (take 4 s) 0)"

definition charOfCode :: "u32 \<Rightarrow> char" where
  "charOfCode w = char_of (unat w)"

definition appendUtf8 :: "string \<Rightarrow> u32 \<Rightarrow> string" where
  "appendUtf8 out cp =
     (if cp < 0x80 then out @ [charOfCode cp]
      else if cp < 0x800
      then out @ [charOfCode (0xC0 OR drop_bit 6 cp), charOfCode (0x80 OR (cp AND 0x3F))]
      else if cp < 0x10000
      then out @ [charOfCode (0xE0 OR drop_bit 12 cp), charOfCode (0x80 OR (drop_bit 6 cp AND 0x3F)),
                  charOfCode (0x80 OR (cp AND 0x3F))]
      else out @ [charOfCode (0xF0 OR drop_bit 18 cp), charOfCode (0x80 OR (drop_bit 12 cp AND 0x3F)),
                  charOfCode (0x80 OR (drop_bit 6 cp AND 0x3F)), charOfCode (0x80 OR (cp AND 0x3F))])"

definition isHighSurrogate :: "u32 \<Rightarrow> bool" where
  "isHighSurrogate cp = (0xD800 \<le> cp \<and> cp \<le> 0xDBFF)"

definition isLowSurrogate :: "u32 \<Rightarrow> bool" where
  "isLowSurrogate cp = (0xDC00 \<le> cp \<and> cp \<le> 0xDFFF)"

text \<open>The \<^verbatim>\<open>case 'u'\<close> branch: the code point and the text after the escape, from the text after \<^verbatim>\<open>u\<close>.\<close>

definition decodeUnicodeEscape :: "string \<Rightarrow> (u32 \<times> string) parsed" where
  "decodeUnicodeEscape t =
     (case parseHex4 t of
        None \<Rightarrow> Inl ''Invalid unicode escape''
      | Some cp \<Rightarrow>
          let t' = drop 4 t in
          if isHighSurrogate cp then
            (if length t' < 6 \<or> t' ! 0 \<noteq> BACKSLASH \<or> t' ! 1 \<noteq> CHR ''u''
             then Inl ''Unpaired high surrogate in JSON string''
             else case parseHex4 (drop 2 t') of
               None \<Rightarrow> Inl ''Invalid low surrogate in JSON string''
             | Some low \<Rightarrow>
                 if \<not> isLowSurrogate low then Inl ''Invalid low surrogate in JSON string''
                 else Inr (0x10000 + push_bit 10 (cp - 0xD800) + (low - 0xDC00), drop 6 t'))
          else if isLowSurrogate cp then Inl ''Unpaired low surrogate in JSON string''
          else Inr (cp, t'))"

definition simpleEscape :: "char \<Rightarrow> char option" where
  "simpleEscape esc =
     (if esc = DQUOTE then Some DQUOTE
      else if esc = BACKSLASH then Some BACKSLASH
      else if esc = CHR ''/'' then Some (CHR ''/'')
      else if esc = CHR ''b'' then Some (CHR 0x08)
      else if esc = CHR ''f'' then Some (CHR 0x0C)
      else if esc = CHR ''n'' then Some (CHR 0x0A)
      else if esc = CHR ''r'' then Some (CHR 0x0D)
      else if esc = CHR ''t'' then Some (CHR 0x09)
      else None)"

lemma decodeUnicodeEscape_less: "decodeUnicodeEscape t = Inr (cp, r) \<Longrightarrow> length r < length t"
  by (auto simp: decodeUnicodeEscape_def parseHex4_def Let_def split: option.splits if_splits)

text \<open>
  The loop of \<^verbatim>\<open>decodeJsonString\<close> over \<^verbatim>\<open>token[i..]\<close> with the closing quote still in place: the
  loop ends when one character is left (\<^verbatim>\<open>i + 1 < token.size()\<close>), and an escape needs a
  character before that one.
\<close>

function (sequential) decodeLoop :: "string \<Rightarrow> string \<Rightarrow> string parsed" where
  "decodeLoop (ch # c2 # t) out =
     (if ch \<noteq> BACKSLASH then decodeLoop (c2 # t) (out @ [ch])
      else if t = [] then Inl ''Invalid JSON escape''
      else if c2 = CHR ''u'' then
        (case decodeUnicodeEscape t of
           Inl e \<Rightarrow> Inl e
         | Inr (cp, r) \<Rightarrow> decodeLoop r (appendUtf8 out cp))
      else
        (case simpleEscape c2 of
           None \<Rightarrow> Inl ''Unsupported JSON escape''
         | Some c \<Rightarrow> decodeLoop t (out @ [c])))"
| "decodeLoop _ out = Inr out"
  by pat_completeness auto
termination
  by (relation "measure (\<lambda>(s, out). length s)") (auto dest: decodeUnicodeEscape_less)

definition decodeJsonString :: "string \<Rightarrow> string parsed" where
  "decodeJsonString token0 =
     (let token = trim token0 in
      if length token < 2 \<or> hd token \<noteq> DQUOTE \<or> last token \<noteq> DQUOTE
      then Inl ''Expected JSON string token''
      else decodeLoop (tl token) [])"

definition decodeStringOrDefault :: "string \<Rightarrow> string \<Rightarrow> string" where
  "decodeStringOrDefault token dflt =
     (if token = [] then dflt
      else case decodeJsonString token of Inl _ \<Rightarrow> dflt | Inr v \<Rightarrow> v)"

section \<open>Member maps\<close>

text \<open>
  \<^verbatim>\<open>MemberMap\<close>: the members in order of first appearance. A key without escapes is a view into
  the text and a key with escapes one into \<^verbatim>\<open>ownedKeys\<close>; both are their text here.
\<close>

type_synonym member_map = "(string \<times> string) list"

fun insertOrAssign :: "member_map \<Rightarrow> string \<Rightarrow> string \<Rightarrow> member_map" where
  "insertOrAssign [] key val = [(key, val)]"
| "insertOrAssign ((k, v) # es) key val =
     (if k = key then (k, val) # es else (k, v) # insertOrAssign es key val)"

fun member :: "member_map \<Rightarrow> string \<Rightarrow> string" where
  "member [] key = []"
| "member ((k, v) # es) key = (if k = key then v else member es key)"

interpretation members: kv_store member insertOrAssign "[]" "[]"
proof
  show "member (insertOrAssign m k v) k' = (if k = k' then v else member m k')" for m k v k'
    by (induction m k v rule: insertOrAssign.induct) auto
qed simp

section \<open>Objects and arrays\<close>

definition decodeKey :: "string \<Rightarrow> string parsed" where
  "decodeKey keyToken =
     (if BACKSLASH \<notin> set keyToken then Inr (take (length keyToken - 2) (tl keyToken))
      else decodeJsonString keyToken)"

text \<open>One member, from the key to the value: key, value token and the text after it.\<close>

definition parseMember :: "string \<Rightarrow> (string \<times> string \<times> string) parsed" where
  "parseMember s =
     (case skipStringToken s of
        Inl e \<Rightarrow> Inl e
      | Inr k0 \<Rightarrow>
        (case decodeKey (consumed s k0) of
           Inl e \<Rightarrow> Inl e
         | Inr key \<Rightarrow>
             let k = skipWs k0 in
             if \<not> startsWith (\<lambda>c. c = CHR '':'') k then Inl ''Expected ':' in JSON object''
             else
               let v = skipWs (tl k) in
               (case skipValueToken v of
                  Inl e \<Rightarrow> Inl e
                | Inr r \<Rightarrow> Inr (key, trim (consumed v r), r))))"

lemma parseMember_less: "parseMember s = Inr (k, v, r) \<Longrightarrow> length r < length s"
proof -
  assume "parseMember s = Inr (k, v, r)"
  then obtain k0 where k0: "skipStringToken s = Inr k0"
    and col: "startsWith (\<lambda>c. c = CHR '':'') (skipWs k0)"
    and r: "skipValueToken (skipWs (tl (skipWs k0))) = Inr r"
    by (auto simp: parseMember_def Let_def split: sum.splits if_splits)
  show ?thesis
    using skipStringToken_less [OF k0] skipWs_tl_less [OF col] length_skipWs [of "tl (skipWs k0)"]
      scan_less(1) [OF r] by linarith
qed

lemma skipWs_next_less:
  "length r < length s \<Longrightarrow> startsWith P (skipWs r) \<Longrightarrow> length (skipWs (tl (skipWs r))) < length s"
  using length_skipWs [of "tl (skipWs r)"] skipWs_tl_less [of P r] by linarith

lemmas parseMember_next_less = skipWs_next_less [OF parseMember_less]

function parseMembersLoop :: "string \<Rightarrow> member_map \<Rightarrow> member_map parsed" where
  "parseMembersLoop s out =
     (if s = [] then Inl ''Unterminated JSON object''
      else case parseMember s of
        Inl e \<Rightarrow> Inl e
      | Inr (key, val, r0) \<Rightarrow>
          let out' = insertOrAssign out key val; r = skipWs r0 in
          if startsWith (\<lambda>c. c = CHR '','') r then parseMembersLoop (skipWs (tl r)) out'
          else if startsWith (\<lambda>c. c = CHR ''}'') r then Inr out'
          else Inl ''Invalid JSON object'')"
  by pat_completeness auto
termination
  by (relation "measure (\<lambda>(s, out). length s)") (auto intro: parseMember_next_less)

definition parseObjectMembers :: "string \<Rightarrow> member_map parsed" where
  "parseObjectMembers objectJson0 =
     (let objectJson = trim objectJson0 in
      if \<not> startsWith (\<lambda>c. c = CHR ''{'') objectJson then Inl ''Expected JSON object''
      else let s = skipWs (tl objectJson) in
        if startsWith (\<lambda>c. c = CHR ''}'') s then Inr [] else parseMembersLoop s [])"

function parseElementsLoop :: "string \<Rightarrow> string list \<Rightarrow> string list parsed" where
  "parseElementsLoop s out =
     (if s = [] then Inl ''Unterminated JSON array''
      else case skipValueToken s of
        Inl e \<Rightarrow> Inl e
      | Inr r0 \<Rightarrow>
          let out' = out @ [trim (consumed s r0)]; r = skipWs r0 in
          if startsWith (\<lambda>c. c = CHR '','') r then parseElementsLoop (skipWs (tl r)) out'
          else if startsWith (\<lambda>c. c = CHR '']'') r then Inr out'
          else Inl ''Invalid JSON array'')"
  by pat_completeness auto
termination
  by (relation "measure (\<lambda>(s, out). length s)") (auto intro: skipWs_next_less dest: scan_less)

definition parseArrayElements :: "string \<Rightarrow> string list parsed" where
  "parseArrayElements arrayJson0 =
     (let arrayJson = trim arrayJson0 in
      if \<not> startsWith (\<lambda>c. c = CHR ''['') arrayJson then Inl ''Expected JSON array''
      else let s = skipWs (tl arrayJson) in
        if startsWith (\<lambda>c. c = CHR '']'') s then Inr [] else parseElementsLoop s [])"

declare parseMembersLoop.simps [simp del] parseElementsLoop.simps [simp del]

section \<open>Protocol tokens\<close>

definition parseCmdIdToken :: "string \<Rightarrow> cmd_id option" where
  "parseCmdIdToken token0 =
     (let token = trim token0 in if token = [] then None else parseUInt64 token)"

definition parseIpcCommandToken :: "string \<Rightarrow> ipc_command option" where
  "parseIpcCommandToken token =
     (case parseInt64 token of
        None \<Rightarrow> None
      | Some raw \<Rightarrow> if sint raw \<le> 0 \<or> 0xFFFF < sint raw then None else Some (ucast raw))"

definition parseScalarValueToken :: "string \<Rightarrow> scalar_value option" where
  "parseScalarValueToken token0 =
     (let token = trim token0 in
      if token = [] then None
      else if hd token = DQUOTE then
        (case decodeJsonString token of Inl _ \<Rightarrow> None | Inr text \<Rightarrow> Some (ScalarString text))
      else if token = ''true'' then Some (ScalarBool True)
      else if token = ''false'' then Some (ScalarBool False)
      else if token = ''null'' then Some ScalarNull
      else if \<exists>c \<in> set token. isDot c \<or> isExp c then
        (case parseDouble token of None \<Rightarrow> None | Some d \<Rightarrow> Some (ScalarDouble d))
      else (case parseInt64 token of None \<Rightarrow> None | Some i \<Rightarrow> Some (ScalarInt i)))"

end
