(* ===== verification/Enum_Names.thy ===== *)
theory Enum_Names
  imports Contract_Types
begin

text \<open>
  Names of enum values: \<^verbatim>\<open>include/phi/adapter/v1/enum_names.h\<close>. An \<^verbatim>\<open>int\<close> is an \<^typ>\<open>i32\<close>; an
  \<^verbatim>\<open>int *\<close> output with a \<^verbatim>\<open>bool\<close> result is an option (the null-pointer guards have no counterpart).
\<close>

type_synonym enum_value_name = "i32 \<times> string"

text \<open>\<^verbatim>\<open>static_cast<int>\<close> of an unsigned enum.\<close>

definition staticCastInt :: "'a::len word \<Rightarrow> i32" where
  "staticCastInt w = ucast w"

definition lowerAscii :: "char \<Rightarrow> char" where
  "lowerAscii c =
     (let n = (of_char c :: nat) in if 65 \<le> n \<and> n \<le> 90 then char_of (n - 65 + 97) else c)"

definition equalsIgnoreCaseAscii :: "string \<Rightarrow> string \<Rightarrow> bool" where
  "equalsIgnoreCaseAscii lhs rhs =
     (length lhs = length rhs \<and> list_all (\<lambda>(a, b). lowerAscii a = lowerAscii b) (zip lhs rhs))"

definition findByValue :: "enum_value_name list \<Rightarrow> i32 \<Rightarrow> enum_value_name option" where
  "findByValue entries val = find (\<lambda>(v, n). v = val) entries"

definition findByName :: "enum_value_name list \<Rightarrow> string \<Rightarrow> enum_value_name option" where
  "findByName entries name = find (\<lambda>(v, n). equalsIgnoreCaseAscii n name) entries"

definition parseNumeric :: "string \<Rightarrow> i32 option" where
  "parseNumeric text = (if text = [] then None else fromCharsS text)"

definition valueToName :: "enum_value_name list \<Rightarrow> i32 \<Rightarrow> bool \<Rightarrow> string" where
  "valueToName entries val fallbackNumber =
     (case findByValue entries val of
        Some (v, n) \<Rightarrow> n
      | None \<Rightarrow> if fallbackNumber then toStringS val else [])"

definition maskToNames :: "enum_value_name list \<Rightarrow> i32 \<Rightarrow> string list" where
  "maskToNames entries bits =
     map snd (filter (\<lambda>(v, n). v \<noteq> 0 \<and> bits AND v = v) entries)"

definition parseNameToValue :: "enum_value_name list \<Rightarrow> string \<Rightarrow> i32 option" where
  "parseNameToValue entries name =
     (case parseNumeric name of
        Some v \<Rightarrow> Some v
      | None \<Rightarrow> map_option fst (findByName entries name))"

section \<open>Tables\<close>

definition kCmdStatusNames :: "enum_value_name list" where
  "kCmdStatusNames =
    [(staticCastInt (cmdStatusValue CmdStatus_Success), ''Success''),
     (staticCastInt (cmdStatusValue CmdStatus_Failure), ''Failure''),
     (staticCastInt (cmdStatusValue CmdStatus_Timeout), ''Timeout''),
     (staticCastInt (cmdStatusValue CmdStatus_NotSupported), ''NotSupported''),
     (staticCastInt (cmdStatusValue CmdStatus_InvalidArgument), ''InvalidArgument''),
     (staticCastInt (cmdStatusValue CmdStatus_Busy), ''Busy''),
     (staticCastInt (cmdStatusValue CmdStatus_TemporarilyOffline), ''TemporarilyOffline''),
     (staticCastInt (cmdStatusValue CmdStatus_NotAuthorized), ''NotAuthorized''),
     (staticCastInt (cmdStatusValue CmdStatus_NotImplemented), ''NotImplemented'')]"

definition kActionResultTypeNames :: "enum_value_name list" where
  "kActionResultTypeNames =
    [(staticCastInt (actionResultTypeValue ActionResultType_None), ''None''),
     (staticCastInt (actionResultTypeValue ActionResultType_Boolean), ''Boolean''),
     (staticCastInt (actionResultTypeValue ActionResultType_Integer), ''Integer''),
     (staticCastInt (actionResultTypeValue ActionResultType_Float), ''Float''),
     (staticCastInt (actionResultTypeValue ActionResultType_String), ''String''),
     (staticCastInt (actionResultTypeValue ActionResultType_StringList), ''StringList'')]"

definition kDeviceClassNames :: "enum_value_name list" where
  "kDeviceClassNames =
    [(staticCastInt (deviceClassValue DeviceClass_Unknown), ''Unknown''),
     (staticCastInt (deviceClassValue DeviceClass_Light), ''Light''),
     (staticCastInt (deviceClassValue DeviceClass_Switch), ''Switch''),
     (staticCastInt (deviceClassValue DeviceClass_Sensor), ''Sensor''),
     (staticCastInt (deviceClassValue DeviceClass_Button), ''Button''),
     (staticCastInt (deviceClassValue DeviceClass_Plug), ''Plug''),
     (staticCastInt (deviceClassValue DeviceClass_Cover), ''Cover''),
     (staticCastInt (deviceClassValue DeviceClass_Thermostat), ''Thermostat''),
     (staticCastInt (deviceClassValue DeviceClass_Gateway), ''Gateway''),
     (staticCastInt (deviceClassValue DeviceClass_MediaPlayer), ''MediaPlayer''),
     (staticCastInt (deviceClassValue DeviceClass_Heater), ''Heater''),
     (staticCastInt (deviceClassValue DeviceClass_Gate), ''Gate''),
     (staticCastInt (deviceClassValue DeviceClass_Valve), ''Valve'')]"

definition kButtonEventCodeNames :: "enum_value_name list" where
  "kButtonEventCodeNames =
    [(staticCastInt (buttonEventCodeValue ButtonEventCode_None), ''None''),
     (staticCastInt (buttonEventCodeValue ButtonEventCode_InitialPress), ''InitialPress''),
     (staticCastInt (buttonEventCodeValue ButtonEventCode_DoublePress), ''DoublePress''),
     (staticCastInt (buttonEventCodeValue ButtonEventCode_TriplePress), ''TriplePress''),
     (staticCastInt (buttonEventCodeValue ButtonEventCode_QuadruplePress), ''QuadruplePress''),
     (staticCastInt (buttonEventCodeValue ButtonEventCode_QuintuplePress), ''QuintuplePress''),
     (staticCastInt (buttonEventCodeValue ButtonEventCode_LongPress), ''LongPress''),
     (staticCastInt (buttonEventCodeValue ButtonEventCode_LongPressRelease), ''LongPressRelease''),
     (staticCastInt (buttonEventCodeValue ButtonEventCode_ShortPressRelease), ''ShortPressRelease''),
     (staticCastInt (buttonEventCodeValue ButtonEventCode_Repeat), ''Repeat'')]"

definition kRockerModeNames :: "enum_value_name list" where
  "kRockerModeNames =
    [(staticCastInt (rockerModeValue RockerMode_Unknown), ''Unknown''),
     (staticCastInt (rockerModeValue RockerMode_SingleRocker), ''SingleRocker''),
     (staticCastInt (rockerModeValue RockerMode_DualRocker), ''DualRocker''),
     (staticCastInt (rockerModeValue RockerMode_SinglePush), ''SinglePush''),
     (staticCastInt (rockerModeValue RockerMode_DualPush), ''DualPush'')]"

definition kSensitivityLevelNames :: "enum_value_name list" where
  "kSensitivityLevelNames =
    [(staticCastInt (sensitivityLevelValue SensitivityLevel_Unknown), ''Unknown''),
     (staticCastInt (sensitivityLevelValue SensitivityLevel_Low), ''Low''),
     (staticCastInt (sensitivityLevelValue SensitivityLevel_Medium), ''Medium''),
     (staticCastInt (sensitivityLevelValue SensitivityLevel_High), ''High''),
     (staticCastInt (sensitivityLevelValue SensitivityLevel_VeryHigh), ''VeryHigh''),
     (staticCastInt (sensitivityLevelValue SensitivityLevel_Max), ''Max'')]"

definition kOperatingLevelNames :: "enum_value_name list" where
  "kOperatingLevelNames =
    [(staticCastInt (operatingLevelValue OperatingLevel_Unknown), ''Unknown''),
     (staticCastInt (operatingLevelValue OperatingLevel_Off), ''Off''),
     (staticCastInt (operatingLevelValue OperatingLevel_Low), ''Low''),
     (staticCastInt (operatingLevelValue OperatingLevel_Medium), ''Medium''),
     (staticCastInt (operatingLevelValue OperatingLevel_High), ''High''),
     (staticCastInt (operatingLevelValue OperatingLevel_Auto), ''Auto'')]"

definition kPresetModeNames :: "enum_value_name list" where
  "kPresetModeNames =
    [(staticCastInt (presetModeValue PresetMode_Unknown), ''Unknown''),
     (staticCastInt (presetModeValue PresetMode_Eco), ''Eco''),
     (staticCastInt (presetModeValue PresetMode_Normal), ''Normal''),
     (staticCastInt (presetModeValue PresetMode_Comfort), ''Comfort''),
     (staticCastInt (presetModeValue PresetMode_Sleep), ''Sleep''),
     (staticCastInt (presetModeValue PresetMode_Away), ''Away''),
     (staticCastInt (presetModeValue PresetMode_Boost), ''Boost'')]"

definition kChannelKindNames :: "enum_value_name list" where
  "kChannelKindNames =
    [(staticCastInt (channelKindValue ChannelKind_Unknown), ''Unknown''),
     (staticCastInt (channelKindValue ChannelKind_PowerOnOff), ''PowerOnOff''),
     (staticCastInt (channelKindValue ChannelKind_ButtonEvent), ''ButtonEvent''),
     (staticCastInt (channelKindValue ChannelKind_Brightness), ''Brightness''),
     (staticCastInt (channelKindValue ChannelKind_ColorTemperature), ''ColorTemperature''),
     (staticCastInt (channelKindValue ChannelKind_ColorRGB), ''ColorRGB''),
     (staticCastInt (channelKindValue ChannelKind_ColorTemperaturePreset), ''ColorTemperaturePreset''),
     (staticCastInt (channelKindValue ChannelKind_Volume), ''Volume''),
     (staticCastInt (channelKindValue ChannelKind_Mute), ''Mute''),
     (staticCastInt (channelKindValue ChannelKind_HdmiInput), ''HdmiInput''),
     (staticCastInt (channelKindValue ChannelKind_PlayPause), ''PlayPause''),
     (staticCastInt (channelKindValue ChannelKind_Temperature), ''Temperature''),
     (staticCastInt (channelKindValue ChannelKind_Humidity), ''Humidity''),
     (staticCastInt (channelKindValue ChannelKind_Illuminance), ''Illuminance''),
     (staticCastInt (channelKindValue ChannelKind_Motion), ''Motion''),
     (staticCastInt (channelKindValue ChannelKind_Battery), ''Battery''),
     (staticCastInt (channelKindValue ChannelKind_CO2), ''CO2''),
     (staticCastInt (channelKindValue ChannelKind_RelativeRotation), ''RelativeRotation''),
     (staticCastInt (channelKindValue ChannelKind_ConnectivityStatus), ''ConnectivityStatus''),
     (staticCastInt (channelKindValue ChannelKind_DeviceSoftwareUpdate), ''DeviceSoftwareUpdate''),
     (staticCastInt (channelKindValue ChannelKind_SignalStrength), ''SignalStrength''),
     (staticCastInt (channelKindValue ChannelKind_Power), ''Power''),
     (staticCastInt (channelKindValue ChannelKind_Voltage), ''Voltage''),
     (staticCastInt (channelKindValue ChannelKind_Current), ''Current''),
     (staticCastInt (channelKindValue ChannelKind_Energy), ''Energy''),
     (staticCastInt (channelKindValue ChannelKind_LinkQuality), ''LinkQuality''),
     (staticCastInt (channelKindValue ChannelKind_Duration), ''Duration''),
     (staticCastInt (channelKindValue ChannelKind_Contact), ''Contact''),
     (staticCastInt (channelKindValue ChannelKind_Tamper), ''Tamper''),
     (staticCastInt (channelKindValue ChannelKind_AmbientLightLevel), ''AmbientLightLevel''),
     (staticCastInt (channelKindValue ChannelKind_MotionSensitivity), ''MotionSensitivity''),
     (staticCastInt (channelKindValue ChannelKind_PhValue), ''PhValue''),
     (staticCastInt (channelKindValue ChannelKind_OrpValue), ''OrpValue''),
     (staticCastInt (channelKindValue ChannelKind_SaltPpm), ''SaltPpm''),
     (staticCastInt (channelKindValue ChannelKind_Conductivity), ''Conductivity''),
     (staticCastInt (channelKindValue ChannelKind_TdsValue), ''TdsValue''),
     (staticCastInt (channelKindValue ChannelKind_SpecificGravity), ''SpecificGravity''),
     (staticCastInt (channelKindValue ChannelKind_WaterHardness), ''WaterHardness''),
     (staticCastInt (channelKindValue ChannelKind_FreeChlorine), ''FreeChlorine''),
     (staticCastInt (channelKindValue ChannelKind_FilterPressure), ''FilterPressure''),
     (staticCastInt (channelKindValue ChannelKind_WaterFlow), ''WaterFlow''),
     (staticCastInt (channelKindValue ChannelKind_SceneTrigger), ''SceneTrigger'')]"

definition kChannelDataTypeNames :: "enum_value_name list" where
  "kChannelDataTypeNames =
    [(staticCastInt (channelDataTypeValue ChannelDataType_Unknown), ''Unknown''),
     (staticCastInt (channelDataTypeValue ChannelDataType_Bool), ''Bool''),
     (staticCastInt (channelDataTypeValue ChannelDataType_Int), ''Int''),
     (staticCastInt (channelDataTypeValue ChannelDataType_Float), ''Float''),
     (staticCastInt (channelDataTypeValue ChannelDataType_String), ''String''),
     (staticCastInt (channelDataTypeValue ChannelDataType_Color), ''Color''),
     (staticCastInt (channelDataTypeValue ChannelDataType_Enum), ''Enum'')]"

definition kConnectivityStatusNames :: "enum_value_name list" where
  "kConnectivityStatusNames =
    [(staticCastInt (connectivityStatusValue ConnectivityStatus_Unknown), ''Unknown''),
     (staticCastInt (connectivityStatusValue ConnectivityStatus_Connected), ''Connected''),
     (staticCastInt (connectivityStatusValue ConnectivityStatus_Limited), ''Limited''),
     (staticCastInt (connectivityStatusValue ConnectivityStatus_Disconnected), ''Disconnected'')]"

definition kAdapterConfigFieldTypeNames :: "enum_value_name list" where
  "kAdapterConfigFieldTypeNames =
    [(staticCastInt (adapterConfigFieldTypeValue AdapterConfigFieldType_String), ''String''),
     (staticCastInt (adapterConfigFieldTypeValue AdapterConfigFieldType_Password), ''Password''),
     (staticCastInt (adapterConfigFieldTypeValue AdapterConfigFieldType_Integer), ''Integer''),
     (staticCastInt (adapterConfigFieldTypeValue AdapterConfigFieldType_Boolean), ''Boolean''),
     (staticCastInt (adapterConfigFieldTypeValue AdapterConfigFieldType_Hostname), ''Hostname''),
     (staticCastInt (adapterConfigFieldTypeValue AdapterConfigFieldType_Port), ''Port''),
     (staticCastInt (adapterConfigFieldTypeValue AdapterConfigFieldType_QrCode), ''QrCode''),
     (staticCastInt (adapterConfigFieldTypeValue AdapterConfigFieldType_Select), ''Select''),
     (staticCastInt (adapterConfigFieldTypeValue AdapterConfigFieldType_Action), ''Action'')]"

definition kAdapterConfigLabelPositionNames :: "enum_value_name list" where
  "kAdapterConfigLabelPositionNames =
    [(staticCastInt (adapterConfigLabelPositionValue AdapterConfigLabelPosition_Top), ''Top''),
     (staticCastInt (adapterConfigLabelPositionValue AdapterConfigLabelPosition_Left), ''Left''),
     (staticCastInt (adapterConfigLabelPositionValue AdapterConfigLabelPosition_Right), ''Right'')]"

definition kAdapterConfigActionPositionNames :: "enum_value_name list" where
  "kAdapterConfigActionPositionNames =
    [(staticCastInt (adapterConfigActionPositionValue AdapterConfigActionPosition_None), ''None''),
     (staticCastInt (adapterConfigActionPositionValue AdapterConfigActionPosition_Inline), ''Inline''),
     (staticCastInt (adapterConfigActionPositionValue AdapterConfigActionPosition_Below), ''Below'')]"

definition kAdapterConfigVisibilityOpNames :: "enum_value_name list" where
  "kAdapterConfigVisibilityOpNames =
    [(staticCastInt (adapterConfigVisibilityOpValue AdapterConfigVisibilityOp_Equals), ''Equals''),
     (staticCastInt (adapterConfigVisibilityOpValue AdapterConfigVisibilityOp_Contains), ''Contains'')]"

definition kChannelFlagNames :: "enum_value_name list" where
  "kChannelFlagNames =
    [(staticCastInt (channelFlagValue ChannelFlag_None), ''None''),
     (staticCastInt (channelFlagValue ChannelFlag_Readable), ''Readable''),
     (staticCastInt (channelFlagValue ChannelFlag_Writable), ''Writable''),
     (staticCastInt (channelFlagValue ChannelFlag_Reportable), ''Reportable''),
     (staticCastInt (channelFlagValue ChannelFlag_Retained), ''Retained''),
     (staticCastInt (channelFlagValue ChannelFlag_Inactive), ''Inactive''),
     (staticCastInt (channelFlagValue ChannelFlag_NoTrigger), ''NoTrigger''),
     (staticCastInt (channelFlagValue ChannelFlag_Suppress), ''Suppress'')]"

definition kDeviceFlagNames :: "enum_value_name list" where
  "kDeviceFlagNames =
    [(staticCastInt (deviceFlagValue DeviceFlag_None), ''None''),
     (staticCastInt (deviceFlagValue DeviceFlag_Wireless), ''Wireless''),
     (staticCastInt (deviceFlagValue DeviceFlag_Battery), ''Battery''),
     (staticCastInt (deviceFlagValue DeviceFlag_Flushable), ''Flushable''),
     (staticCastInt (deviceFlagValue DeviceFlag_Ble), ''Ble'')]"

definition kSceneFlagNames :: "enum_value_name list" where
  "kSceneFlagNames =
    [(staticCastInt (sceneFlagValue SceneFlag_None), ''None''),
     (staticCastInt (sceneFlagValue SceneFlag_OriginAdapter), ''OriginAdapter''),
     (staticCastInt (sceneFlagValue SceneFlag_SupportsDynamic), ''SupportsDynamic''),
     (staticCastInt (sceneFlagValue SceneFlag_SupportsDeactivate), ''SupportsDeactivate'')]"

definition kAdapterFlagNames :: "enum_value_name list" where
  "kAdapterFlagNames =
    [(staticCastInt (adapterFlagValue AdapterFlag_None), ''None''),
     (staticCastInt (adapterFlagValue AdapterFlag_UseTls), ''UseTls''),
     (staticCastInt (adapterFlagValue AdapterFlag_CloudServices), ''CloudServices''),
     (staticCastInt (adapterFlagValue AdapterFlag_EnableLogs), ''EnableLogs''),
     (staticCastInt (adapterFlagValue AdapterFlag_RequiresPolling), ''RequiresPolling''),
     (staticCastInt (adapterFlagValue AdapterFlag_SupportsDiscovery), ''SupportsDiscovery''),
     (staticCastInt (adapterFlagValue AdapterFlag_SupportsProbe), ''SupportsProbe''),
     (staticCastInt (adapterFlagValue AdapterFlag_SupportsRename), ''SupportsRename'')]"

definition kAdapterConfigFieldFlagNames :: "enum_value_name list" where
  "kAdapterConfigFieldFlagNames =
    [(staticCastInt (adapterConfigFieldFlagValue AdapterConfigFieldFlag_None), ''None''),
     (staticCastInt (adapterConfigFieldFlagValue AdapterConfigFieldFlag_Required), ''Required''),
     (staticCastInt (adapterConfigFieldFlagValue AdapterConfigFieldFlag_Secret), ''Secret''),
     (staticCastInt (adapterConfigFieldFlagValue AdapterConfigFieldFlag_ReadOnly), ''ReadOnly''),
     (staticCastInt (adapterConfigFieldFlagValue AdapterConfigFieldFlag_Transient), ''Transient''),
     (staticCastInt (adapterConfigFieldFlagValue AdapterConfigFieldFlag_Multi), ''Multi''),
     (staticCastInt (adapterConfigFieldFlagValue AdapterConfigFieldFlag_InstanceOnly), ''InstanceOnly'')]"

definition kAdapterRequirementNames :: "enum_value_name list" where
  "kAdapterRequirementNames =
    [(staticCastInt (adapterRequirementValue AdapterRequirement_None), ''None''),
     (staticCastInt (adapterRequirementValue AdapterRequirement_Host), ''Host''),
     (staticCastInt (adapterRequirementValue AdapterRequirement_Port), ''Port''),
     (staticCastInt (adapterRequirementValue AdapterRequirement_Username), ''Username''),
     (staticCastInt (adapterRequirementValue AdapterRequirement_Password), ''Password''),
     (staticCastInt (adapterRequirementValue AdapterRequirement_AppKey), ''AppKey''),
     (staticCastInt (adapterRequirementValue AdapterRequirement_Token), ''Token''),
     (staticCastInt (adapterRequirementValue AdapterRequirement_QrCode), ''QrCode''),
     (staticCastInt (adapterRequirementValue AdapterRequirement_SupportsTls), ''SupportsTls''),
     (staticCastInt (adapterRequirementValue AdapterRequirement_ManualConfirm), ''ManualConfirm''),
     (staticCastInt (adapterRequirementValue AdapterRequirement_UsesRetryInterval), ''UsesRetryInterval'')]"

text \<open>
  The \<^verbatim>\<open>if\<close> chains on the type name, in order: the same table list drives \<^verbatim>\<open>enumNameFor\<close> and
  \<^verbatim>\<open>parseEnumValueByName\<close>, a shorter one \<^verbatim>\<open>flagNamesFor\<close>.
\<close>

definition enumTables :: "(string \<times> enum_value_name list) list" where
  "enumTables =
    [(''CmdStatus'', kCmdStatusNames),
     (''ActionResultType'', kActionResultTypeNames),
     (''DeviceClass'', kDeviceClassNames),
     (''ButtonEventCode'', kButtonEventCodeNames),
     (''RockerMode'', kRockerModeNames),
     (''SensitivityLevel'', kSensitivityLevelNames),
     (''OperatingLevel'', kOperatingLevelNames),
     (''PresetMode'', kPresetModeNames),
     (''ChannelKind'', kChannelKindNames),
     (''ChannelDataType'', kChannelDataTypeNames),
     (''ConnectivityStatus'', kConnectivityStatusNames),
     (''AdapterConfigFieldType'', kAdapterConfigFieldTypeNames),
     (''AdapterConfigLabelPosition'', kAdapterConfigLabelPositionNames),
     (''AdapterConfigActionPosition'', kAdapterConfigActionPositionNames),
     (''AdapterConfigVisibilityOp'', kAdapterConfigVisibilityOpNames),
     (''AdapterConfigFieldFlag'', kAdapterConfigFieldFlagNames),
     (''AdapterRequirement'', kAdapterRequirementNames),
     (''AdapterFlag'', kAdapterFlagNames),
     (''DeviceFlag'', kDeviceFlagNames),
     (''SceneFlag'', kSceneFlagNames),
     (''ChannelFlag'', kChannelFlagNames)]"

definition flagTables :: "(string \<times> enum_value_name list) list" where
  "flagTables =
    [(''ChannelFlag'', kChannelFlagNames),
     (''DeviceFlag'', kDeviceFlagNames),
     (''SceneFlag'', kSceneFlagNames),
     (''AdapterFlag'', kAdapterFlagNames),
     (''AdapterConfigFieldFlag'', kAdapterConfigFieldFlagNames),
     (''AdapterRequirement'', kAdapterRequirementNames)]"

definition tableFor :: "(string \<times> enum_value_name list) list \<Rightarrow> string \<Rightarrow> enum_value_name list option" where
  "tableFor tables enumTypeName =
     map_option snd (find (\<lambda>(n, t). equalsIgnoreCaseAscii enumTypeName n) tables)"

definition enumNameFor :: "string \<Rightarrow> i32 \<Rightarrow> bool \<Rightarrow> string" where
  "enumNameFor enumTypeName val fallbackNumber =
     (case tableFor enumTables enumTypeName of
        Some t \<Rightarrow> valueToName t val fallbackNumber
      | None \<Rightarrow> if fallbackNumber then toStringS val else [])"

definition flagNamesFor :: "string \<Rightarrow> i32 \<Rightarrow> string list" where
  "flagNamesFor enumTypeName bits =
     (case tableFor flagTables enumTypeName of Some t \<Rightarrow> maskToNames t bits | None \<Rightarrow> [])"

definition parseEnumValueByName :: "string \<Rightarrow> string \<Rightarrow> i32 option" where
  "parseEnumValueByName enumTypeName name =
     (case tableFor enumTables enumTypeName of
        Some t \<Rightarrow> parseNameToValue t name
      | None \<Rightarrow> None)"

definition cmdStatusName :: "cmd_status \<Rightarrow> string" where
  "cmdStatusName status = valueToName kCmdStatusNames (staticCastInt (cmdStatusValue status)) True"

definition actionResultTypeName :: "action_result_type \<Rightarrow> string" where
  "actionResultTypeName resultType =
     valueToName kActionResultTypeNames (staticCastInt (actionResultTypeValue resultType)) True"

section \<open>Round trips\<close>

lemma list_all_zip_map_eq:
  "length a = length b \<Longrightarrow> list_all (\<lambda>(x, y). f x = f y) (zip a b) \<longleftrightarrow> map f a = map f b"
  by (induction a b rule: list_induct2) auto

lemma equalsIgnoreCaseAscii_iff:
  "equalsIgnoreCaseAscii a b \<longleftrightarrow> map lowerAscii a = map lowerAscii b"
  using list_all_zip_map_eq [of a b lowerAscii]
  by (auto simp: equalsIgnoreCaseAscii_def dest: map_eq_imp_length_eq)

definition isLowerLetter :: "char \<Rightarrow> bool" where
  "isLowerLetter c = (97 \<le> (of_char c :: nat) \<and> (of_char c :: nat) \<le> 122)"

lemma folded_letter_not_numeric:
  assumes "isLowerLetter (lowerAscii d)"
  shows "\<not> isDigit d" and "d \<noteq> CHR ''-''"
  using assms by (auto simp: isLowerLetter_def lowerAscii_def isDigit_def Let_def split: if_splits)

text \<open>What a table needs so that names and values translate back and forth.\<close>

locale name_table =
  fixes entries :: "enum_value_name list"
  assumes distinct_values: "distinct (map fst entries)"
    and distinct_names: "distinct (map (\<lambda>e. map lowerAscii (snd e)) entries)"
    and letters_first: "\<forall>e \<in> set entries. snd e \<noteq> [] \<and> isLowerLetter (lowerAscii (hd (snd e)))"
begin

lemma find_value: "(v, n) \<in> set entries \<Longrightarrow> findByValue entries v = Some (v, n)"
  using distinct_values unfolding findByValue_def
  by (induction entries) (force simp: image_iff)+

lemma find_name:
  "(v, n) \<in> set entries \<Longrightarrow> map lowerAscii s = map lowerAscii n \<Longrightarrow> findByName entries s = Some (v, n)"
  using distinct_names unfolding findByName_def equalsIgnoreCaseAscii_iff
  by (induction entries) (force simp: image_iff)+

lemma value_name: "(v, n) \<in> set entries \<Longrightarrow> valueToName entries v fallback = n"
  by (simp add: valueToName_def find_value)

lemma not_numeric:
  assumes "(v, n) \<in> set entries" and "map lowerAscii s = map lowerAscii n"
  shows "parseNumeric s = None"
proof -
  obtain c cs where n: "n = c # cs" "isLowerLetter (lowerAscii c)"
    using assms(1) letters_first by (cases n) fastforce+
  with assms(2) obtain d ds where "s = d # ds" "lowerAscii d = lowerAscii c"
    by auto
  with n folded_letter_not_numeric [of d] show ?thesis
    by (simp add: parseNumeric_def fromCharsS_def startsWith_def Let_def)
qed

lemma name_value:
  "(v, n) \<in> set entries \<Longrightarrow> map lowerAscii s = map lowerAscii n \<Longrightarrow> parseNameToValue entries s = Some v"
  by (simp add: parseNameToValue_def not_numeric find_name)

end

lemmas enum_values = staticCastInt_def actionResultTypeValue.simps adapterConfigActionPositionValue.simps adapterConfigFieldFlagValue.simps adapterConfigFieldTypeValue.simps adapterConfigLabelPositionValue.simps adapterConfigVisibilityOpValue.simps adapterFlagValue.simps adapterRequirementValue.simps buttonEventCodeValue.simps channelDataTypeValue.simps channelFlagValue.simps channelKindValue.simps cmdStatusValue.simps connectivityStatusValue.simps deviceClassValue.simps deviceFlagValue.simps operatingLevelValue.simps presetModeValue.simps rockerModeValue.simps sceneFlagValue.simps sensitivityLevelValue.simps

lemmas table_defs =
  kCmdStatusNames_def
  kActionResultTypeNames_def
  kDeviceClassNames_def
  kButtonEventCodeNames_def
  kRockerModeNames_def
  kSensitivityLevelNames_def
  kOperatingLevelNames_def
  kPresetModeNames_def
  kChannelKindNames_def
  kChannelDataTypeNames_def
  kConnectivityStatusNames_def
  kAdapterConfigFieldTypeNames_def
  kAdapterConfigLabelPositionNames_def
  kAdapterConfigActionPositionNames_def
  kAdapterConfigVisibilityOpNames_def
  kChannelFlagNames_def
  kDeviceFlagNames_def
  kSceneFlagNames_def
  kAdapterFlagNames_def
  kAdapterConfigFieldFlagNames_def
  kAdapterRequirementNames_def

lemmas table_eval = table_defs enum_values lowerAscii_def isLowerLetter_def char_of_def bit_0

lemma tables_ok:
  "name_table kCmdStatusNames"
  "name_table kActionResultTypeNames"
  "name_table kDeviceClassNames"
  "name_table kButtonEventCodeNames"
  "name_table kRockerModeNames"
  "name_table kSensitivityLevelNames"
  "name_table kOperatingLevelNames"
  "name_table kPresetModeNames"
  "name_table kChannelKindNames"
  "name_table kChannelDataTypeNames"
  "name_table kConnectivityStatusNames"
  "name_table kAdapterConfigFieldTypeNames"
  "name_table kAdapterConfigLabelPositionNames"
  "name_table kAdapterConfigActionPositionNames"
  "name_table kAdapterConfigVisibilityOpNames"
  "name_table kChannelFlagNames"
  "name_table kDeviceFlagNames"
  "name_table kSceneFlagNames"
  "name_table kAdapterFlagNames"
  "name_table kAdapterConfigFieldFlagNames"
  "name_table kAdapterRequirementNames"
  by (unfold_locales; simp add: table_eval)+

interpretation cmd_status_names: name_table kCmdStatusNames
  by (rule tables_ok)

interpretation action_result_type_names: name_table kActionResultTypeNames
  by (rule tables_ok)

text \<open>Every table of the two dispatchers is found under its own name, in any letter case.\<close>

lemma tableFor_distinct:
  assumes "distinct (map (\<lambda>e. map lowerAscii (fst e)) tables)" and "(ty, t) \<in> set tables"
    and "map lowerAscii name = map lowerAscii ty"
  shows "tableFor tables name = Some t"
  using assms unfolding tableFor_def equalsIgnoreCaseAscii_iff
  by (induction tables) (force simp: image_iff)+

lemma dispatch_names_distinct:
  "distinct (map (\<lambda>e. map lowerAscii (fst e)) enumTables)"
  "distinct (map (\<lambda>e. map lowerAscii (fst e)) flagTables)"
  by (simp_all add: enumTables_def flagTables_def lowerAscii_def char_of_def bit_0)

lemma enum_tables_ok: "(ty, t) \<in> set enumTables \<Longrightarrow> name_table t"
  by (auto simp: enumTables_def tables_ok)

lemma flag_tables_enum: "set flagTables \<subseteq> set enumTables"
  by (simp add: flagTables_def enumTables_def)

text \<open>A bit mask taken apart by a table of single bits.\<close>

definition single_bits :: "enum_value_name list \<Rightarrow> bool" where
  "single_bits entries = list_all (\<lambda>(v, n). v = 0 \<or> (\<exists>k. v = push_bit k 1)) entries"

definition or_all :: "i32 list \<Rightarrow> i32" where
  "or_all ws = foldr (OR) ws 0"

lemma or_all_simps [simp]: "or_all [] = 0" "or_all (w # ws) = w OR or_all ws"
  by (simp_all add: or_all_def)

lemma and_push_bit_cases:
  fixes bits :: i32
  shows "bits AND push_bit k 1 = push_bit k 1 \<or> bits AND push_bit k 1 = 0"
proof (cases "bit bits k")
  case True
  then have "bits AND push_bit k 1 = push_bit k 1"
    by (intro bit_word_eqI) (auto simp: bit_simps)
  then show ?thesis ..
next
  case False
  then have "bits AND push_bit k 1 = 0"
    by (intro bit_word_eqI) (auto simp: bit_simps)
  then show ?thesis ..
qed

lemma or_all_mask:
  assumes "single_bits entries"
  shows "or_all (map fst (filter (\<lambda>(v, n). v \<noteq> 0 \<and> bits AND v = v) entries)) = bits AND or_all (map fst entries)"
  using assms
proof (induction entries)
  case (Cons e es)
  obtain v n where e: "e = (v, n)"
    by (cases e)
  have "v = 0 \<or> bits AND v = v \<or> bits AND v = 0"
    using Cons.prems and_push_bit_cases [of bits] by (auto simp: single_bits_def e)
  moreover have "single_bits es"
    using Cons.prems by (simp add: single_bits_def)
  ultimately show ?case
    using Cons.IH by (auto simp: e bit.conj_disj_distrib)
qed simp

lemma is_bit_power: "\<exists>k. (2 ^ n :: i32) = push_bit k 1"
  by (rule exI [of _ n]) (simp add: push_bit_of_1)

lemmas bit_values =
  is_bit_power [of 0, simplified]
  is_bit_power [of 1, simplified]
  is_bit_power [of 2, simplified]
  is_bit_power [of 3, simplified]
  is_bit_power [of 4, simplified]
  is_bit_power [of 5, simplified]
  is_bit_power [of 6, simplified]
  is_bit_power [of 7, simplified]
  is_bit_power [of 8, simplified]
  is_bit_power [of 9, simplified]
  is_bit_power [of 10, simplified]
  is_bit_power [of 11, simplified]

lemma flag_tables_single: "(ty, t) \<in> set flagTables \<Longrightarrow> single_bits t"
  by (auto simp: flagTables_def single_bits_def table_defs enum_values
      bit_values [unfolded push_bit_of_1])

section \<open>The properties\<close>

text \<open>
  C31: enum names and values translate back and forth. For every enum that the generic interface
  knows and every entry of its table, the value prints as its name and the name, in any mixture of
  upper and lower case and under the type's name in any case, parses back to the value.
\<close>

theorem enum_names_roundtrip:
  assumes "(ty, t) \<in> set enumTables" and "(v, n) \<in> set t"
    and "map lowerAscii ty' = map lowerAscii ty" and "map lowerAscii n' = map lowerAscii n"
  shows "enumNameFor ty' v fallbackNumber = n \<and> parseEnumValueByName ty' n' = Some v"
  using assms(2,4) tableFor_distinct [OF dispatch_names_distinct(1) assms(1,3)]
    name_table.value_name [OF enum_tables_ok [OF assms(1)]]
    name_table.name_value [OF enum_tables_ok [OF assms(1)]]
  by (simp add: enumNameFor_def parseEnumValueByName_def)

theorem enum_names_roundtrip_witness:
  "enumNameFor ''CHANNELKIND'' 55 False = ''CO2'' \<and> parseEnumValueByName ''channelKind'' ''co2'' = Some 55"
  using enum_names_roundtrip [of "''ChannelKind''" kChannelKindNames 55 "''CO2''" "''CHANNELKIND''" "''co2''" False]
    enum_names_roundtrip [of "''ChannelKind''" kChannelKindNames 55 "''CO2''" "''channelKind''" "''co2''" False]
  by (simp add: enumTables_def table_eval)

text \<open>
  C32: a flag word survives its list of names. Listing the flags that are set and parsing each name
  again gives the word back, apart from the bits that the table does not know; in particular every
  listed name parses.
\<close>

theorem flag_names_roundtrip:
  assumes "(ty, t) \<in> set flagTables"
  shows "\<exists>vs. map (parseEnumValueByName ty) (flagNamesFor ty bits) = map Some vs
      \<and> or_all vs = bits AND or_all (map fst t)"
proof -
  let ?set = "filter (\<lambda>(v, n). v \<noteq> 0 \<and> bits AND v = v) t"
  have enum: "(ty, t) \<in> set enumTables"
    using assms flag_tables_enum by blast
  have "flagNamesFor ty bits = map snd ?set"
    by (simp add: flagNamesFor_def maskToNames_def tableFor_distinct [OF dispatch_names_distinct(2) assms])
  moreover have "parseEnumValueByName ty (snd e) = Some (fst e)" if "e \<in> set t" for e
    using name_table.name_value [OF enum_tables_ok [OF enum], of "fst e" "snd e"] that
    by (simp add: parseEnumValueByName_def tableFor_distinct [OF dispatch_names_distinct(1) enum])
  ultimately have "map (parseEnumValueByName ty) (flagNamesFor ty bits) = map Some (map fst ?set)"
    by simp
  with or_all_mask [OF flag_tables_single [OF assms]] show ?thesis
    by blast
qed

theorem flag_names_roundtrip_witness:
  "\<exists>vs. map (parseEnumValueByName ''DeviceFlag'') (flagNamesFor ''DeviceFlag'' 3) = map Some vs
      \<and> or_all vs = 3 AND or_all (map fst kDeviceFlagNames)"
  by (rule flag_names_roundtrip) (simp add: flagTables_def)

text \<open>
  The status \<^verbatim>\<open>InternalError\<close> has no entry in its table: its name is the number 255, and its name
  does not parse; it is the only one.
\<close>

lemma internal_error_has_no_name:
  "cmdStatusName CmdStatus_InternalError = ''255''
    \<and> parseEnumValueByName ''CmdStatus'' ''InternalError'' = None
    \<and> {s. findByValue kCmdStatusNames (staticCastInt (cmdStatusValue s)) = None} = {CmdStatus_InternalError}"
proof -
  have missing: "findByValue kCmdStatusNames (staticCastInt (cmdStatusValue s)) = None
      \<longleftrightarrow> s = CmdStatus_InternalError" for s
    by (cases s) (simp_all add: findByValue_def kCmdStatusNames_def enum_values)
  have "tableFor enumTables ''CmdStatus'' = Some kCmdStatusNames"
    by (rule tableFor_distinct [OF dispatch_names_distinct(1), of "''CmdStatus''"]) (simp_all add: enumTables_def)
  then have "parseEnumValueByName ''CmdStatus'' ''InternalError'' = None"
    by (simp add: parseEnumValueByName_def parseNameToValue_def parseNumeric_def fromCharsS_def startsWith_def
        isDigit_def findByName_def equalsIgnoreCaseAscii_iff table_eval Let_def)
  moreover have "cmdStatusName CmdStatus_InternalError = ''255''"
    using missing [of CmdStatus_InternalError]
    by (simp add: cmdStatusName_def valueToName_def toStringS_def intText_def decimal.simps digitChar_numeral enum_values)
  ultimately show ?thesis
    by (simp add: missing)
qed

end
