(* ===== verification/Json_Text.thy ===== *)
theory Json_Text
  imports Json_Decode
begin

text \<open>
  The encoding half of \<^verbatim>\<open>src/sidecar.cpp\<close>: quoting, the field and envelope helpers, and the
  proof that what they emit reads back through the scanners and decoders of the same file.
\<close>

section \<open>Quoting\<close>

definition hexDigit :: "nat \<Rightarrow> char" where
  "hexDigit n = ''0123456789abcdef'' ! n"

definition escapeChar :: "char \<Rightarrow> string" where
  "escapeChar ch =
     (if ch = DQUOTE then [BACKSLASH, DQUOTE]
      else if ch = BACKSLASH then [BACKSLASH, BACKSLASH]
      else if ch = CHR 0x08 then [BACKSLASH, CHR ''b'']
      else if ch = CHR 0x0C then [BACKSLASH, CHR ''f'']
      else if ch = CHR 0x0A then [BACKSLASH, CHR ''n'']
      else if ch = CHR 0x0D then [BACKSLASH, CHR ''r'']
      else if ch = CHR 0x09 then [BACKSLASH, CHR ''t'']
      else let n = (of_char ch :: nat) in
        if n < 0x20
        then BACKSLASH # ''u00'' @ [hexDigit (n div 16 mod 16), hexDigit (n mod 16)]
        else [ch])"

definition jsonQuoted :: "string \<Rightarrow> string" where
  "jsonQuoted text = DQUOTE # concat (map escapeChar text) @ [DQUOTE]"

section \<open>Fields and envelopes\<close>

text \<open>
  The code appends to \<^verbatim>\<open>out\<close> and keeps \<^verbatim>\<open>first\<close> beside it: both are threaded as a pair.
\<close>

type_synonym json_out = "string \<times> bool"

definition appendFieldPrefix :: "json_out \<Rightarrow> string \<Rightarrow> json_out" where
  "appendFieldPrefix st key =
     (case st of (out, first) \<Rightarrow>
        ((if first then out else out @ '','') @ jsonQuoted key @ '':'', False))"

definition appendField :: "json_out \<Rightarrow> string \<times> string \<Rightarrow> json_out" where
  "appendField st kv = (case appendFieldPrefix st (fst kv) of (out, first) \<Rightarrow> (out @ snd kv, first))"

definition appendFields :: "json_out \<Rightarrow> (string \<times> string) list \<Rightarrow> json_out" where
  "appendFields st fs = foldl appendField st fs"

text \<open>An object built by the pattern \<^verbatim>\<open>push_back('{'); appendFieldPrefix...; push_back('}')\<close>.\<close>

definition jsonObject :: "(string \<times> string) list \<Rightarrow> string" where
  "jsonObject fs = fst (appendFields (''{'', True) fs) @ ''}''"

text \<open>A list built by the pattern \<^verbatim>\<open>push_back('['); for ... { if (!first) push_back(','); ... } push_back(']')\<close>.\<close>

definition appendItem :: "json_out \<Rightarrow> string \<Rightarrow> json_out" where
  "appendItem st item = (case st of (out, first) \<Rightarrow> ((if first then out else out @ '','') @ item, False))"

definition jsonArray :: "string list \<Rightarrow> string" where
  "jsonArray items = fst (foldl appendItem (''['', True) items) @ '']''"

definition boolText :: "bool \<Rightarrow> string" where
  "boolText b = (if b then ''true'' else ''false'')"

definition openEnvelope :: "ipc_command \<Rightarrow> json_out" where
  "openEnvelope command =
     ([CHR ''{''] @ jsonQuoted ''command'' @ '':'' @ toStringU (toUint16 command)
        @ '','' @ jsonQuoted ''payload'' @ '':{'', True)"

definition openEnvelopeWithCmdId :: "ipc_command \<Rightarrow> cmd_id \<Rightarrow> json_out" where
  "openEnvelopeWithCmdId command cmdId =
     ([CHR ''{''] @ jsonQuoted ''command'' @ '':'' @ toStringU (toUint16 command)
        @ '','' @ jsonQuoted ''cmdId'' @ '':'' @ toStringU cmdId
        @ '','' @ jsonQuoted ''payload'' @ '':{'', True)"

definition closeEnvelope :: "json_out \<Rightarrow> string" where
  "closeEnvelope st = fst st @ ''}}''"

definition scalarJson :: "scalar_value \<Rightarrow> string" where
  "scalarJson v = (case v of
     ScalarNull \<Rightarrow> ''null''
   | ScalarBool b \<Rightarrow> boolText b
   | ScalarInt i \<Rightarrow> toStringS i
   | ScalarDouble d \<Rightarrow> appendDoubleJson [] d
   | ScalarString s \<Rightarrow> jsonQuoted s)"

definition scalarListJson :: "scalar_list \<Rightarrow> string" where
  "scalarListJson vs = jsonArray (map scalarJson vs)"

definition metaJsonText :: "string \<Rightarrow> string" where
  "metaJsonText json = (if trim json = [] then ''{}'' else json)"

definition arrayOfStrings :: "string list \<Rightarrow> string" where
  "arrayOfStrings vs = jsonArray (map jsonQuoted vs)"

definition jsonTokenOrDefault :: "string \<Rightarrow> string \<Rightarrow> string" where
  "jsonTokenOrDefault json fallback = (let token = trim json in if token = [] then fallback else token)"

section \<open>Values that scan\<close>

definition value_end :: "string \<Rightarrow> bool" where
  "value_end z = (z = [] \<or> hd z \<in> {CHR '','', CHR '']'', CHR ''}''} \<or> isWs (hd z))"

definition json_value :: "string \<Rightarrow> bool" where
  "json_value v = (v \<noteq> [] \<and> \<not> isWs (hd v) \<and> \<not> isWs (last v)
     \<and> (\<forall>z. value_end z \<longrightarrow> skipValueToken (v @ z) = Inr z))"

lemma value_end_simps [simp]:
  "value_end []" "value_end (CHR '','' # z)" "value_end (CHR '']'' # z)" "value_end (CHR ''}'' # z)"
  by (simp_all add: value_end_def)

lemma json_valueI:
  "v \<noteq> [] \<Longrightarrow> \<not> isWs (hd v) \<Longrightarrow> \<not> isWs (last v)
     \<Longrightarrow> (\<And>z. value_end z \<Longrightarrow> skipValueToken (v @ z) = Inr z) \<Longrightarrow> json_value v"
  by (simp add: json_value_def)

lemma json_value_scan: "json_value v \<Longrightarrow> value_end z \<Longrightarrow> skipValueToken (v @ z) = Inr z"
  by (simp add: json_value_def)

lemma isWs_simps [simp]:
  "\<not> isWs DQUOTE" "\<not> isWs (CHR ''{'')" "\<not> isWs (CHR ''['')" "\<not> isWs (CHR ''}'')" "\<not> isWs (CHR '']'')"
  "\<not> isWs (CHR '','')" "\<not> isWs (CHR '':'')" "\<not> isWs (CHR ''t'')" "\<not> isWs (CHR ''f'')" "\<not> isWs (CHR ''n'')"
  "\<not> isWs (CHR ''e'')" "\<not> isWs (CHR ''l'')" "\<not> isWs (CHR ''-'')" "\<not> isWs (CHR ''0'')"
  by (simp_all add: isWs_def)

lemma startsWith_simps [simp]:
  "startsWith P [] = False" "startsWith P (c # s) = P c"
  by (simp_all add: startsWith_def)

section \<open>Quoted text reads back\<close>

lemma hexDigit_mem: "n < 16 \<Longrightarrow> hexDigit n \<in> set ''0123456789abcdef''"
  unfolding hexDigit_def by (rule nth_mem) simp

lemma hexDigit_plain [simp]:
  "n < 16 \<Longrightarrow> hexDigit n \<noteq> DQUOTE" "n < 16 \<Longrightarrow> hexDigit n \<noteq> BACKSLASH"
  using hexDigit_mem [of n] by auto

lemma char_div_16 [simp]: "(of_char c :: nat) div 16 < 16"
  using of_char_less_256 [of c] by linarith

lemma skipStringBody_escapeChar: "skipStringBody (escapeChar c @ z) = skipStringBody z"
  by (simp add: escapeChar_def Let_def)

lemma skipStringBody_escape:
  "skipStringBody (concat (map escapeChar s) @ DQUOTE # z) = Inr z"
  by (induction s) (simp_all add: skipStringBody_escapeChar)

lemma skipStringToken_quoted [scan_simps]: "skipStringToken (jsonQuoted s @ z) = Inr z"
  by (simp add: skipStringToken_def jsonQuoted_def skipStringBody_escape)

lemma json_value_quoted: "json_value (jsonQuoted s)"
proof (rule json_valueI)
  fix z
  have "skipValueToken (jsonQuoted s @ z) = skipStringToken (jsonQuoted s @ z)"
    by (simp add: skipValueToken.simps jsonQuoted_def)
  then show "skipValueToken (jsonQuoted s @ z) = Inr z"
    by (simp add: skipStringToken_quoted)
qed (simp_all add: jsonQuoted_def)

text \<open>Decoding: one escaped character at a time.\<close>

lemma hexVal_all: "\<forall>n \<in> set [0..<16]. hexVal (hexDigit n) = Some (word_of_nat n)"
  by code_simp

lemma hexVal_hexDigit [simp]: "n < 16 \<Longrightarrow> hexVal (hexDigit n) = Some (word_of_nat n)"
  using hexVal_all by simp

lemma unat_code: "n < 256 \<Longrightarrow> unat (word_of_nat n :: u32) = n"
  by (simp add: unat_of_nat)

lemma charOfCode_nat: "charOfCode (word_of_nat (of_char c)) = c"
proof -
  have "unat (word_of_nat (of_char c) :: u32) = of_char c"
    by (rule unat_code) simp
  then show ?thesis
    by (simp add: charOfCode_def)
qed

lemma control_code_all:
  "\<forall>n \<in> set [0..<32]. push_bit 4 (word_of_nat (n div 16) :: u32) OR word_of_nat (n mod 16) = word_of_nat n"
  by code_simp

lemma decode_control:
  assumes "n < 32"
  shows "decodeUnicodeEscape (CHR ''0'' # CHR ''0'' # hexDigit (n div 16) # hexDigit (n mod 16) # t)
           = Inr (word_of_nat n, t)"
proof -
  have code: "push_bit 4 (word_of_nat (n div 16) :: u32) OR word_of_nat (n mod 16) = word_of_nat n"
    using control_code_all assms by simp
  have zero: "hexVal (CHR ''0'') = Some 0"
    by (simp add: hexVal_def)
  have "n div 16 < 16"
    using assms by linarith
  then have "parseHex4 (CHR ''0'' # CHR ''0'' # hexDigit (n div 16) # hexDigit (n mod 16) # t)
      = Some (word_of_nat n)"
    using code zero by (simp add: parseHex4_def)
  moreover have "unat (word_of_nat n :: u32) = n"
    by (rule unat_code) (use assms in simp)
  ultimately show ?thesis
    using assms by (simp add: decodeUnicodeEscape_def isHighSurrogate_def isLowSurrogate_def Let_def
        word_le_nat_alt)
qed

lemma decodeLoop_plain:
  "c \<noteq> BACKSLASH \<Longrightarrow> t \<noteq> [] \<Longrightarrow> decodeLoop (c # t) out = decodeLoop t (out @ [c])"
  by (cases t) simp_all

lemma decodeLoop_simple:
  "simpleEscape e = Some c \<Longrightarrow> e \<noteq> CHR ''u'' \<Longrightarrow> t \<noteq> []
     \<Longrightarrow> decodeLoop (BACKSLASH # e # t) out = decodeLoop t (out @ [c])"
  by simp

lemma escapeChar_cases:
  obtains (simple) e where "escapeChar c = [BACKSLASH, e]" "simpleEscape e = Some c" "e \<noteq> CHR ''u''"
  | (control) "escapeChar c = BACKSLASH # CHR ''u'' # CHR ''0'' # CHR ''0''
      # hexDigit (of_char c div 16) # [hexDigit (of_char c mod 16)]" "(of_char c :: nat) < 32"
  | (plain) "escapeChar c = [c]" "c \<noteq> BACKSLASH"
proof -
  have e: "simpleEscape DQUOTE = Some DQUOTE" "simpleEscape BACKSLASH = Some BACKSLASH"
    "simpleEscape (CHR ''b'') = Some (CHR 0x08)" "simpleEscape (CHR ''f'') = Some (CHR 0x0C)"
    "simpleEscape (CHR ''n'') = Some (CHR 0x0A)" "simpleEscape (CHR ''r'') = Some (CHR 0x0D)"
    "simpleEscape (CHR ''t'') = Some (CHR 0x09)"
    by (simp_all add: simpleEscape_def)
  show thesis
  proof (cases "c \<in> {DQUOTE, BACKSLASH, CHR 0x08, CHR 0x0C, CHR 0x0A, CHR 0x0D, CHR 0x09}")
    case True
    then show ?thesis
      by (elim insertE emptyE) (rule simple, simp add: escapeChar_def, simp add: e, simp)+
  next
    case False
    then show ?thesis
      using control plain by (cases "(of_char c :: nat) < 32") (simp_all add: escapeChar_def Let_def)
  qed
qed

lemma decodeLoop_escapeChar:
  assumes "t \<noteq> []"
  shows "decodeLoop (escapeChar c @ t) out = decodeLoop t (out @ [c])"
proof (cases c rule: escapeChar_cases)
  case (simple e)
  then show ?thesis
    using assms by (simp add: decodeLoop_simple del: decodeLoop.simps)
next
  case control
  have "word_of_nat (of_char c) < (0x80 :: u32)"
    using control unat_code [of "of_char c"] by (simp add: word_less_nat_alt)
  then show ?thesis
    using control assms by (simp add: decode_control appendUtf8_def charOfCode_nat)
next
  case plain
  then show ?thesis
    using assms by (simp add: decodeLoop_plain)
qed

lemma decodeLoop_quoted: "decodeLoop (concat (map escapeChar s) @ [DQUOTE]) out = Inr (out @ s)"
  by (induction s arbitrary: out) (simp_all add: decodeLoop_escapeChar)

lemma trim_quoted: "trim (jsonQuoted s) = jsonQuoted s"
  by (rule trim_no_ws) (simp add: jsonQuoted_def)

lemma decodeJsonString_quoted: "decodeJsonString (jsonQuoted s) = Inr s"
  by (simp add: decodeJsonString_def trim_quoted Let_def) (simp add: jsonQuoted_def decodeLoop_quoted)

lemma decodeStringOrDefault_quoted: "decodeStringOrDefault (jsonQuoted s) dflt = s"
  by (simp add: decodeStringOrDefault_def decodeJsonString_quoted) (simp add: jsonQuoted_def)

lemma escape_no_backslash: "BACKSLASH \<notin> set (concat (map escapeChar s)) \<Longrightarrow> concat (map escapeChar s) = s"
proof (induction s)
  case (Cons c s)
  then have "escapeChar c = [c]"
    by (cases c rule: escapeChar_cases) auto
  with Cons show ?case
    by simp
qed simp

lemma decodeKey_quoted: "decodeKey (jsonQuoted k) = Inr k"
proof (cases "BACKSLASH \<in> set (jsonQuoted k)")
  case True
  then show ?thesis
    by (simp add: decodeKey_def decodeJsonString_quoted)
next
  case False
  then have "concat (map escapeChar k) = k"
    by (intro escape_no_backslash) (simp add: jsonQuoted_def)
  with False show ?thesis
    by (simp add: decodeKey_def jsonQuoted_def)
qed

section \<open>Literals and numbers scan\<close>

lemma json_value_literals: "json_value ''true''" "json_value ''false''" "json_value ''null''"
  by (rule json_valueI; simp add: skipValueToken.simps)+

lemma json_value_boolText: "json_value (boolText b)"
  by (simp add: boolText_def json_value_literals)

lemma value_end_not_number:
  "value_end z \<Longrightarrow> z = [] \<or> (\<not> isDigit (hd z) \<and> \<not> isDot (hd z) \<and> \<not> isExp (hd z))"
  by (auto simp: value_end_def isDigit_def isDot_def isExp_def isWs_def)

lemma skipDigits_run:
  "\<forall>c \<in> set ds. isDigit c \<Longrightarrow> z = [] \<or> \<not> isDigit (hd z) \<Longrightarrow> skipDigits (ds @ z) a = (a \<or> ds \<noteq> [], z)"
proof (induction ds arbitrary: a)
  case Nil
  then show ?case
    by (cases z) auto
qed auto

lemma not_startsWith: "z = [] \<or> \<not> P (hd z) \<Longrightarrow> \<not> startsWith P z"
  by (cases z) auto

definition exponentText :: "string \<Rightarrow> bool" where
  "exponentText ex = (ex = [] \<or> (\<exists>sg ds. ex = CHR ''e'' # sg # ds \<and> isSign sg \<and> (\<forall>c \<in> set ds. isDigit c)))"

lemma digit_not_special: "isDigit c \<Longrightarrow> \<not> isSign c \<and> \<not> isDot c \<and> \<not> isExp c"
  by (auto simp: isDigit_def isSign_def isDot_def isExp_def)

lemma skipOne_minus: "ip \<noteq> [] \<Longrightarrow> \<forall>c \<in> set ip. isDigit c
    \<Longrightarrow> skipOne isSign ((if neg then ''-'' else []) @ ip @ z) = ip @ z"
  by (cases ip) (auto simp: skipOne_def isSign_def dest: digit_not_special)

lemma skip_exponent:
  assumes "exponentText ex" and "value_end z"
  shows "(if startsWith isExp (ex @ z) then skipDigits (skipOne isSign (skipOne isExp (ex @ z))) True
          else (True, ex @ z)) = (True, z)"
  using assms value_end_not_number [OF assms(2)]
  using skipDigits_run [of _ "[]" True]
  by (auto simp: exponentText_def skipOne_def isExp_def not_startsWith skipDigits_run)

lemma exponent_start: "exponentText ex \<Longrightarrow> value_end z
    \<Longrightarrow> ex @ z = [] \<or> (\<not> isDigit (hd (ex @ z)) \<and> \<not> isDot (hd (ex @ z)))"
  using value_end_not_number [of z] by (auto simp: exponentText_def isDigit_def isDot_def)

lemma skip_fraction:
  assumes fp: "\<forall>c \<in> set fp. isDigit c"
    and z: "z = [] \<or> (\<not> isDigit (hd z) \<and> \<not> isDot (hd z))"
  shows "(let s2 = (if fp = [] then [] else CHR ''.'' # fp) @ z
          in if startsWith isDot s2 then skipDigits (skipOne isDot s2) True else (True, s2)) = (True, z)"
  using assms skipDigits_run [OF fp, of z True] by (auto simp: skipOne_def isDot_def not_startsWith)

lemma skipNumberToken_numberText:
  assumes ip: "ip \<noteq> []" "\<forall>c \<in> set ip. isDigit c" and fp: "\<forall>c \<in> set fp. isDigit c"
    and ex: "exponentText ex" and z: "value_end z"
  shows "skipNumberToken (numberText neg ip fp ex @ z) = (True, z)"
proof -
  let ?r = "ex @ z" and ?f = "if fp = [] then [] else CHR ''.'' # fp"
  have "?f @ ?r = [] \<or> \<not> isDigit (hd (?f @ ?r))"
    using exponent_start [OF ex z] by (auto simp: isDigit_def)
  then have "skipDigits (ip @ ?f @ ?r) False = (True, ?f @ ?r)"
    using skipDigits_run [OF ip(2), of "?f @ ?r" False] ip(1) by simp
  moreover have "skipOne isSign (numberText neg ip fp ex @ z) = ip @ ?f @ ?r"
    using skipOne_minus [OF ip, of neg "?f @ ?r"] by (simp add: numberText_def)
  ultimately show ?thesis
    using skip_fraction [OF fp exponent_start [OF ex z]] skip_exponent [OF ex z]
    by (simp add: skipNumberToken_def Let_def)
qed

lemma skipValueToken_number:
  assumes "skipNumberToken s = (True, z)" and "s \<noteq> []" and "isSign (hd s) \<or> isDigit (hd s)"
  shows "skipValueToken s = Inr z"
proof (cases s)
  case (Cons c t)
  with assms have "c \<noteq> DQUOTE" "c \<noteq> CHR ''{''" "c \<noteq> CHR ''[''" "c \<noteq> CHR ''t''" "c \<noteq> CHR ''f''"
    "c \<noteq> CHR ''n''" "\<not> isWs c"
    by (auto simp: isSign_def isDigit_def isWs_def)
  with Cons assms show ?thesis
    by (simp add: skipValueToken.simps [of "c # t"])
qed (use assms in simp)

lemma numberText_ends:
  assumes "ip \<noteq> []" "\<forall>c \<in> set ip. isDigit c" and "\<forall>c \<in> set fp. isDigit c" and "exponentText ex"
  shows "numberText neg ip fp ex \<noteq> []"
    and "isSign (hd (numberText neg ip fp ex)) \<or> isDigit (hd (numberText neg ip fp ex))"
    and "isSign (last (numberText neg ip fp ex)) \<or> isDigit (last (numberText neg ip fp ex))"
  using assms by (auto simp: numberText_def exponentText_def isSign_def)

lemma not_isWs_sign: "isSign c \<Longrightarrow> \<not> isWs c"
  by (auto simp: isSign_def isWs_def)

lemma json_value_numberText:
  assumes "ip \<noteq> []" "\<forall>c \<in> set ip. isDigit c" and "\<forall>c \<in> set fp. isDigit c" and "exponentText ex"
  shows "json_value (numberText neg ip fp ex)"
  using numberText_ends [OF assms, of neg] skipNumberToken_numberText [OF assms, of _ neg]
  by (intro json_valueI skipValueToken_number) (auto dest: not_isWs_sign not_isWs_digit)

lemma json_value_decimal: "json_value (decimal n)"
  using json_value_numberText [of "decimal n" "[]" "[]" False] decimal_digits
  by (simp add: numberText_def exponentText_def)

lemma json_value_intText: "json_value (intText v)"
  using json_value_numberText [of "decimal (nat \<bar>v\<bar>)" "[]" "[]" "v < 0"] decimal_digits
  by (simp add: intText_def numberText_def exponentText_def split: if_splits)

lemma json_value_toStringS: "json_value (toStringS w)"
  by (simp add: toStringS_def json_value_intText)

lemma json_value_toStringU: "json_value (toStringU w)"
  by (simp add: toStringU_def json_value_decimal)

lemma stripZeros_digits: "\<forall>c \<in> set s. isDigit c \<Longrightarrow> \<forall>c \<in> set (stripZeros s). isDigit c"
  by (auto simp: stripZeros_def dest: set_dropWhileD)

lemma json_value_generalText:
  assumes ds: "\<forall>c \<in> set ds. isDigit c" and ne: "ds \<noteq> []"
  shows "json_value (generalText neg ds X)"
proof -
  have z: "isDigit (CHR ''0'')"
    by (simp add: isDigit_def)
  have ex: "exponentText (CHR ''e'' # (if X < 0 then CHR ''-'' else CHR ''+'')
      # (if nat \<bar>X\<bar> < 10 then ''0'' else []) @ decimal (nat \<bar>X\<bar>))"
    using decimal_digits [of "nat \<bar>X\<bar>"] z by (auto simp: exponentText_def isSign_def)
  have "\<forall>c \<in> set (drop n ds). isDigit c" "\<forall>c \<in> set (take n ds). isDigit c"
    "\<forall>c \<in> set (replicate n (CHR ''0'') @ ds). isDigit c" for n
    using ds z by (auto dest: in_set_dropD in_set_takeD)
  then show ?thesis
    unfolding generalText_def
    using ne z ex by (auto intro!: json_value_numberText stripZeros_digits simp: exponentText_def
        simp del: set_append)
qed

lemma json_value_double: "json_value (appendDoubleJson [] d)"
proof (cases d)
  case (Finite neg m e)
  have "json_value (numberText neg ''0'' [] [])"
    by (rule json_value_numberText) (simp_all add: exponentText_def isDigit_def)
  moreover have "json_value (generalText neg (decimal q) X)" for q X
    by (rule json_value_generalText) (simp_all add: decimal_digits)
  ultimately show ?thesis
    using Finite by (auto simp: appendDoubleJson_def doubleText_def split: prod.splits)
qed (simp_all add: appendDoubleJson_def json_value_literals)

lemma json_value_scalar: "json_value (scalarJson v)"
  by (cases v) (simp_all add: scalarJson_def json_value_literals json_value_boolText json_value_quoted
      json_value_toStringS json_value_double)

section \<open>Objects and arrays read back\<close>

abbreviation fieldText :: "string \<times> string \<Rightarrow> string" where
  "fieldText kv \<equiv> jsonQuoted (fst kv) @ '':'' @ snd kv"

lemma appendFields_rest:
  "appendFields (out, False) fs = (out @ concat (map (\<lambda>kv. CHR '','' # fieldText kv) fs), False)"
  unfolding appendFields_def
  by (induction fs arbitrary: out) (simp_all add: appendField_def appendFieldPrefix_def)

lemma appendFields_first:
  "appendFields (out, True) (kv # fs)
     = (out @ fieldText kv @ concat (map (\<lambda>kv. CHR '','' # fieldText kv) fs), False)"
  using appendFields_rest [of "out @ fieldText kv" fs]
  by (simp add: appendFields_def appendField_def appendFieldPrefix_def)

lemma jsonObject_Nil: "jsonObject [] = ''{}''"
  by (simp add: jsonObject_def appendFields_def)

lemma jsonObject_Cons:
  "jsonObject (kv # fs) = CHR ''{'' # fieldText kv @ concat (map (\<lambda>kv. CHR '','' # fieldText kv) fs) @ ''}''"
  by (simp add: jsonObject_def appendFields_first)

lemma appendItem_rest:
  "foldl appendItem (out, False) vs = (out @ concat (map (\<lambda>v. CHR '','' # v) vs), False)"
  by (induction vs arbitrary: out) (simp_all add: appendItem_def)

lemma jsonArray_Nil: "jsonArray [] = ''[]''"
  by (simp add: jsonArray_def)

lemma jsonArray_Cons: "jsonArray (v # vs) = CHR ''['' # v @ concat (map (\<lambda>v. CHR '','' # v) vs) @ '']''"
  by (simp add: jsonArray_def appendItem_def [of "(_, True)"] appendItem_rest)

lemma skipWs_json_value: "json_value v \<Longrightarrow> skipWs (v @ z) = v @ z"
  by (rule skipWs_no_ws) (simp add: json_value_def)

lemma trim_json_value: "json_value v \<Longrightarrow> trim v = v"
  by (rule trim_no_ws) (simp add: json_value_def)

lemma consumed_append: "consumed (v @ z) z = v"
  by (simp add: consumed_def)

lemma jsonQuoted_not_Nil [simp]: "jsonQuoted k \<noteq> []"
  by (simp add: jsonQuoted_def)

lemma hd_jsonQuoted [simp]: "hd (jsonQuoted k) = DQUOTE"
  by (simp add: jsonQuoted_def)

lemma skipWs_quoted: "skipWs (jsonQuoted k @ z) = jsonQuoted k @ z"
  by (rule skipWs_no_ws) (simp add: jsonQuoted_def)

text \<open>
  Fields may carry text supplied by the adapter (\<^verbatim>\<open>metaJson\<close> and its kin), which is spliced as
  it is: around the value there may be white space.
\<close>

definition json_field :: "string \<Rightarrow> bool" where
  "json_field v = json_value (trim v)"

lemma json_value_field: "json_value v \<Longrightarrow> json_field v"
  by (simp add: json_field_def trim_json_value)

lemma skipWs_suffix_ws: "\<exists>w. s = w @ skipWs s \<and> (\<forall>c \<in> set w. isWs c)"
proof (induction s)
  case (Cons c s)
  show ?case
  proof (cases "isWs c")
    case True
    from Cons.IH obtain w where "s = w @ skipWs s" "\<forall>c \<in> set w. isWs c"
      by blast
    with True show ?thesis
      by (intro exI [of _ "c # w"]) simp
  qed simp
qed simp

lemma skipWs_ws_append: "\<forall>c \<in> set w. isWs c \<Longrightarrow> skipWs (w @ z) = skipWs z"
  by (induction w) auto

lemma trim_split: "\<exists>w1 w2. v = w1 @ trim v @ w2 \<and> (\<forall>c \<in> set w1. isWs c) \<and> (\<forall>c \<in> set w2. isWs c)"
proof -
  obtain w1 where w1: "v = w1 @ skipWs v" "\<forall>c \<in> set w1. isWs c"
    using skipWs_suffix_ws by blast
  obtain w2 where w2: "rev (skipWs v) = w2 @ skipWs (rev (skipWs v))" "\<forall>c \<in> set w2. isWs c"
    using skipWs_suffix_ws by blast
  then have "skipWs v = trim v @ rev w2"
    unfolding trim_def by (metis rev_append rev_rev_ident)
  with w1 w2(2) show ?thesis
    by (intro exI [of _ w1] exI [of _ "rev w2"]) simp
qed

text \<open>Scanning a field's value: what remains is the closing text, perhaps after white space.\<close>

lemma field_scan:
  assumes "json_field v" and "value_end z"
  obtains r where "skipValueToken (skipWs (v @ z)) = Inr r" "skipWs r = skipWs z"
    "trim (consumed (skipWs (v @ z)) r) = trim v"
proof -
  obtain w1 w2 where v: "v = w1 @ trim v @ w2" and w1: "\<forall>c \<in> set w1. isWs c" and w2: "\<forall>c \<in> set w2. isWs c"
    using trim_split by blast
  have j: "json_value (trim v)"
    using assms(1) by (simp add: json_field_def)
  have "value_end (w2 @ z)"
    using assms(2) w2 by (cases w2) (simp_all add: value_end_def)
  then have scan: "skipValueToken (trim v @ w2 @ z) = Inr (w2 @ z)"
    by (rule json_value_scan [OF j])
  have "skipWs (v @ z) = trim v @ w2 @ z"
    using skipWs_ws_append [OF w1, of "trim v @ w2 @ z"] skipWs_json_value [OF j, of "w2 @ z"]
    by (subst v) simp
  then show thesis
    using that scan skipWs_ws_append [OF w2, of z] consumed_append [of "trim v" "w2 @ z"] trim_json_value [OF j]
    by simp
qed

lemma parseMember_field:
  assumes "json_field v" and "value_end z"
  obtains r where "parseMember (jsonQuoted k @ CHR '':'' # v @ z) = Inr (k, trim v, r)" "skipWs r = skipWs z"
proof -
  obtain r where "skipValueToken (skipWs (v @ z)) = Inr r" "skipWs r = skipWs z"
    "trim (consumed (skipWs (v @ z)) r) = trim v"
    using field_scan [OF assms] .
  then show thesis
    using that by (simp add: parseMember_def skipStringToken_quoted consumed_append decodeKey_quoted)
qed

text \<open>The text of the remaining fields, with the closing brace and whatever follows it.\<close>

abbreviation fieldsTail :: "(string \<times> string) list \<Rightarrow> string \<Rightarrow> string" where
  "fieldsTail fs z \<equiv> concat (map (\<lambda>kv. CHR '','' # fieldText kv) fs) @ CHR ''}'' # z"

lemma value_end_fieldsTail: "value_end (fieldsTail fs z)"
  by (cases fs) simp_all

lemma skipWs_fieldsTail: "skipWs (fieldsTail fs z) = fieldsTail fs z"
  by (cases fs) simp_all

definition membersOf :: "member_map \<Rightarrow> (string \<times> string) list \<Rightarrow> member_map" where
  "membersOf = foldl (\<lambda>m (k, v). insertOrAssign m k (trim v))"

lemma membersOf_simps [simp]:
  "membersOf m [] = m" "membersOf m (kv # fs) = membersOf (insertOrAssign m (fst kv) (trim (snd kv))) fs"
  by (simp_all add: membersOf_def case_prod_beta)

lemma membersOf_put_all: "membersOf [] fs = members.put_all [] (map (\<lambda>(k, v). (k, trim v)) fs)"
  by (simp add: membersOf_def members.put_all_def foldl_map case_prod_unfold)

text \<open>What a reader finds under a key of an object the SDK wrote.\<close>

lemma member_membersOf:
  assumes "distinct (map fst fs)"
  shows "member (membersOf [] fs) k = (case map_of fs k of None \<Rightarrow> [] | Some v \<Rightarrow> trim v)"
proof -
  have "distinct (map fst (map (\<lambda>(k, v). (k, trim v)) fs))"
    using assms by (simp add: comp_def case_prod_unfold)
  then show ?thesis
    unfolding membersOf_put_all by (subst members.get_put_all_distinct) (auto simp: map_of_map split: option.split)
qed

lemma parseMembersLoop_fields:
  assumes "\<forall>kv \<in> set (kv # fs). json_field (snd kv)"
  shows "parseMembersLoop (fieldText kv @ fieldsTail fs z) out = Inr (membersOf out (kv # fs))"
  using assms
proof (induction fs arbitrary: kv out)
  case Nil
  obtain r where "parseMember (fieldText kv @ CHR ''}'' # z) = Inr (fst kv, trim (snd kv), r)"
    "skipWs r = CHR ''}'' # z"
    using Nil parseMember_field [of "snd kv" "CHR ''}'' # z" "fst kv"] by auto
  then show ?case
    by (subst parseMembersLoop.simps) simp
next
  case (Cons kv' fs)
  obtain r where "parseMember (fieldText kv @ fieldsTail (kv' # fs) z) = Inr (fst kv, trim (snd kv), r)"
    "skipWs r = fieldsTail (kv' # fs) z"
    using Cons.prems parseMember_field [OF _ value_end_fieldsTail [of "kv' # fs" z], of "snd kv" "fst kv"]
    by (auto simp: skipWs_fieldsTail)
  then have "parseMembersLoop (fieldText kv @ fieldsTail (kv' # fs) z) out
      = parseMembersLoop (fieldText kv' @ fieldsTail fs z) (insertOrAssign out (fst kv) (trim (snd kv)))"
    by (subst parseMembersLoop.simps) (simp add: skipWs_quoted)
  with Cons show ?case
    by simp
qed

lemma trim_braces: "trim (CHR ''{'' # s @ ''}'') = CHR ''{'' # s @ ''}''"
  by (rule trim_no_ws) simp

lemma parseObjectMembers_jsonObject:
  assumes "\<forall>kv \<in> set fs. json_field (snd kv)"
  shows "parseObjectMembers (jsonObject fs) = Inr (membersOf [] fs)"
proof (cases fs)
  case Nil
  then show ?thesis
    using trim_braces [of "[]"] by (simp add: jsonObject_Nil parseObjectMembers_def)
next
  case (Cons kv fs')
  let ?s = "fieldText kv @ fieldsTail fs' []"
  have t: "trim (CHR ''{'' # ?s) = CHR ''{'' # ?s"
    using trim_braces [of "fieldText kv @ concat (map (\<lambda>kv. CHR '','' # fieldText kv) fs')"] by simp
  have w: "skipWs ?s = ?s"
    using skipWs_quoted [of "fst kv"] by simp
  have q: "\<not> startsWith (\<lambda>c. c = CHR ''}'') ?s"
    by (simp add: jsonQuoted_def)
  have "parseObjectMembers (CHR ''{'' # ?s) = parseMembersLoop ?s []"
    unfolding parseObjectMembers_def t Let_def using w q by simp
  then show ?thesis
    using parseMembersLoop_fields [of kv fs' "[]" "[]"] assms Cons by (simp add: jsonObject_Cons)
qed

lemma skipObjectLoop_fields:
  assumes "\<forall>kv \<in> set (kv # fs). json_field (snd kv)"
  shows "skipObjectLoop (fieldText kv @ fieldsTail fs z) = Inr z"
  using assms
proof (induction fs arbitrary: kv)
  case Nil
  obtain r where "skipValueToken (skipWs (snd kv @ CHR ''}'' # z)) = Inr r" "skipWs r = CHR ''}'' # z"
    using Nil field_scan [of "snd kv" "CHR ''}'' # z"] by auto
  then show ?case
    by (subst skipObjectLoop.simps) (simp add: skipStringToken_quoted)
next
  case (Cons kv' fs)
  obtain r where "skipValueToken (skipWs (snd kv @ fieldsTail (kv' # fs) z)) = Inr r"
    "skipWs r = fieldsTail (kv' # fs) z"
    using Cons.prems field_scan [OF _ value_end_fieldsTail [of "kv' # fs" z], of "snd kv"]
    by (auto simp: skipWs_fieldsTail)
  then have "skipObjectLoop (fieldText kv @ fieldsTail (kv' # fs) z) = skipObjectLoop (fieldText kv' @ fieldsTail fs z)"
    by (subst skipObjectLoop.simps) (simp add: skipStringToken_quoted skipWs_quoted)
  with Cons show ?case
    by simp
qed

lemma json_value_object:
  assumes "\<forall>kv \<in> set fs. json_field (snd kv)"
  shows "json_value (jsonObject fs)"
proof (rule json_valueI)
  fix z
  show "skipValueToken (jsonObject fs @ z) = Inr z"
  proof (cases fs)
    case Nil
    then show ?thesis
      by (simp add: jsonObject_Nil scan_unfolds)
  next
    case (Cons kv fs')
    have "skipObjectToken (CHR ''{'' # fieldText kv @ fieldsTail fs' z) = Inr z"
      using skipObjectLoop_fields [of kv fs' z] assms Cons
      by (simp add: skipObjectToken.simps skipWs_quoted) (simp add: jsonQuoted_def)
    with Cons show ?thesis
      by (simp add: jsonObject_Cons skipValueToken.simps)
  qed
qed (cases fs; simp add: jsonObject_Nil jsonObject_Cons)+

abbreviation itemsTail :: "string list \<Rightarrow> string \<Rightarrow> string" where
  "itemsTail vs z \<equiv> concat (map (\<lambda>v. CHR '','' # v) vs) @ CHR '']'' # z"

lemma value_end_itemsTail: "value_end (itemsTail vs z)"
  by (cases vs) simp_all

lemma skipArrayLoop_items:
  "\<forall>v \<in> set (v # vs). json_value v \<Longrightarrow> skipArrayLoop (v @ itemsTail vs z) = Inr z"
proof (induction vs arbitrary: v)
  case Nil
  then show ?case
    by (subst skipArrayLoop.simps) (simp add: json_value_scan)
next
  case (Cons v' vs)
  have "skipArrayLoop (v @ itemsTail (v' # vs) z) = skipArrayLoop (v' @ itemsTail vs z)"
    using Cons.prems json_value_scan [OF _ value_end_itemsTail [of "v' # vs" z], of v]
    by (subst skipArrayLoop.simps) (simp add: skipWs_json_value)
  with Cons show ?case
    by simp
qed

lemma parseElementsLoop_items:
  "\<forall>v \<in> set (v # vs). json_value v \<Longrightarrow> parseElementsLoop (v @ itemsTail vs z) out = Inr (out @ v # vs)"
proof (induction vs arbitrary: v out)
  case Nil
  then show ?case
    by (subst parseElementsLoop.simps) (simp add: json_value_scan consumed_append trim_json_value)
next
  case (Cons v' vs)
  have "parseElementsLoop (v @ itemsTail (v' # vs) z) out = parseElementsLoop (v' @ itemsTail vs z) (out @ [v])"
    using Cons.prems json_value_scan [OF _ value_end_itemsTail [of "v' # vs" z], of v]
      consumed_append [of v "itemsTail (v' # vs) z"]
    by (subst parseElementsLoop.simps) (simp add: skipWs_json_value trim_json_value)
  with Cons show ?case
    by simp
qed

lemma skipValueToken_bracket: "skipValueToken (CHR '']'' # s) = Inl ''Invalid JSON value''"
proof -
  have "skipNumberToken (CHR '']'' # s) = (False, CHR '']'' # s)"
    by (simp add: skipNumberToken_def skipOne_def isSign_def isDigit_def startsWith_def isDot_def isExp_def)
  moreover have "skipWs (CHR '']'' # s) = CHR '']'' # s"
    by (simp add: isWs_def)
  ultimately show ?thesis
    by (subst skipValueToken.simps) (simp add: Let_def)
qed

lemma json_value_first: "json_value v \<Longrightarrow> \<not> startsWith (\<lambda>c. c = CHR '']'') (v @ z)"
  using json_value_scan [of v "[]"]
  by (cases v) (auto simp: skipValueToken_bracket json_value_def startsWith_def)

lemma json_value_array:
  assumes "\<forall>v \<in> set vs. json_value v"
  shows "json_value (jsonArray vs)"
proof (rule json_valueI)
  fix z
  show "skipValueToken (jsonArray vs @ z) = Inr z"
  proof (cases vs)
    case Nil
    then show ?thesis
      by (simp add: jsonArray_Nil scan_unfolds)
  next
    case (Cons v vs')
    have "skipArrayToken (CHR ''['' # v @ itemsTail vs' z) = Inr z"
      using skipArrayLoop_items [of v vs' z] assms Cons json_value_first [of v]
      by (simp add: skipArrayToken.simps skipWs_json_value)
    with Cons show ?thesis
      by (simp add: jsonArray_Cons skipValueToken.simps)
  qed
qed (cases vs; simp add: jsonArray_Nil jsonArray_Cons)+

lemma trim_brackets: "trim (CHR ''['' # s @ '']'') = CHR ''['' # s @ '']''"
  by (rule trim_no_ws) simp

lemma parseArrayElements_jsonArray:
  assumes "\<forall>v \<in> set vs. json_value v"
  shows "parseArrayElements (jsonArray vs) = Inr vs"
proof (cases vs)
  case Nil
  then show ?thesis
    using trim_brackets [of "[]"] by (simp add: jsonArray_Nil parseArrayElements_def)
next
  case (Cons v vs')
  have t: "trim (CHR ''['' # v @ itemsTail vs' []) = CHR ''['' # v @ itemsTail vs' []"
    using trim_brackets [of "v @ concat (map (\<lambda>v. CHR '','' # v) vs')"] by simp
  have "parseArrayElements (CHR ''['' # v @ itemsTail vs' []) = parseElementsLoop (v @ itemsTail vs' []) []"
    unfolding parseArrayElements_def t Let_def
    using assms Cons json_value_first [of v] by (simp add: skipWs_json_value)
  then show ?thesis
    using parseElementsLoop_items [of v vs' "[]" "[]"] assms Cons by (simp add: jsonArray_Cons)
qed

section \<open>Envelopes are objects\<close>

lemma appendFields_append: "appendFields st (fs @ gs) = appendFields (appendFields st fs) gs"
  by (simp add: appendFields_def)

lemma appendFields_shift:
  "appendFields (a @ out, first) fs = (a @ fst (appendFields (out, first) fs), snd (appendFields (out, first) fs))"
proof (induction fs arbitrary: out first)
  case (Cons kv fs)
  then show ?case
    using Cons [of "(if first then out else out @ '','') @ jsonQuoted (fst kv) @ '':'' @ snd kv" False]
    by (simp add: appendFields_def appendField_def appendFieldPrefix_def)
qed (simp add: appendFields_def)

lemma appendFields_object: "fst (appendFields (a @ ''{'', True) fs) @ ''}'' = a @ jsonObject fs"
  by (simp add: appendFields_shift jsonObject_def)

lemma closeEnvelope_object: "closeEnvelope (appendFields (a @ ''{'', True) fs) = a @ jsonObject fs @ ''}''"
  using appendFields_object [of a fs] by (simp add: closeEnvelope_def)

lemma closeEnvelope_fields:
  "closeEnvelope (appendFields (openEnvelope command) fs)
     = jsonObject [(''command'', toStringU (toUint16 command)), (''payload'', jsonObject fs)]"
proof -
  have "openEnvelope command = ((CHR ''{'' # jsonQuoted ''command'' @ '':'' @ toStringU (toUint16 command)
        @ '','' @ jsonQuoted ''payload'' @ '':'') @ ''{'', True)"
    by (simp add: openEnvelope_def)
  then show ?thesis
    by (simp only: closeEnvelope_object) (simp add: jsonObject_Cons)
qed

lemma closeEnvelope_cmd_fields:
  "closeEnvelope (appendFields (openEnvelopeWithCmdId command cmdId) fs)
     = jsonObject [(''command'', toStringU (toUint16 command)), (''cmdId'', toStringU cmdId),
         (''payload'', jsonObject fs)]"
proof -
  have "openEnvelopeWithCmdId command cmdId
      = ((CHR ''{'' # jsonQuoted ''command'' @ '':'' @ toStringU (toUint16 command)
        @ '','' @ jsonQuoted ''cmdId'' @ '':'' @ toStringU cmdId @ '','' @ jsonQuoted ''payload'' @ '':'')
        @ ''{'', True)"
    by (simp add: openEnvelopeWithCmdId_def)
  then show ?thesis
    by (simp only: closeEnvelope_object) (simp add: jsonObject_Cons)
qed

end
