(* ===== verification/Json_Encode.thy ===== *)
theory Json_Encode
  imports Json_Text
begin

text \<open>
  The entity encoders of \<^verbatim>\<open>src/sidecar.cpp\<close> (\<^verbatim>\<open>deviceToJson\<close> to \<^verbatim>\<open>descriptorToJson\<close>). Each builds one
  object, field by field in the code's order; an optional field is a list of no or one field.
  The lemmas show that every encoder emits one JSON value that the scanners accept.
\<close>

section \<open>Field values\<close>

text \<open>\<^verbatim>\<open>std::to_string(static_cast<int>(e))\<close> of an enumerator of any width up to 32 bits.\<close>

definition enumText :: "'a::len word \<Rightarrow> string" where
  "enumText v = toStringS (ucast v :: i32)"

definition whenField :: "bool \<Rightarrow> string \<times> string \<Rightarrow> (string \<times> string) list" where
  "whenField b f = (if b then [f] else [])"

section \<open>Devices and channels\<close>

definition effectToJson :: "device_effect_descriptor \<Rightarrow> string" where
  "effectToJson e = jsonObject
     [(''effect'', enumText (de_effect e)),
      (''id'', jsonQuoted (de_id e)),
      (''label'', jsonQuoted (de_label e)),
      (''description'', jsonQuoted (de_description e)),
      (''requiresParams'', boolText (de_requiresParams e)),
      (''meta'', metaJsonText (de_metaJson e))]"

definition deviceFields :: "device \<Rightarrow> (string \<times> string) list" where
  "deviceFields d =
     [(''externalId'', jsonQuoted (dev_externalId d)),
      (''name'', jsonQuoted (dev_name d)),
      (''deviceClass'', enumText (deviceClassValue (dev_deviceClass d))),
      (''flags'', enumText (dev_flags d)),
      (''manufacturer'', jsonQuoted (dev_manufacturer d)),
      (''firmware'', jsonQuoted (dev_firmware d)),
      (''model'', jsonQuoted (dev_model d)),
      (''meta'', metaJsonText (dev_metaJson d)),
      (''effects'', jsonArray (map effectToJson (dev_effects d)))]"

definition deviceToJson :: "device \<Rightarrow> string" where
  "deviceToJson d = jsonObject (deviceFields d)"

definition choiceToJson :: "config_option \<Rightarrow> string" where
  "choiceToJson c =
     CHR ''{'' # jsonQuoted ''value'' @ '':'' @ jsonQuoted (opt_value c)
       @ '','' @ jsonQuoted ''label'' @ '':'' @ jsonQuoted (opt_label c) @ ''}''"

definition channelFields :: "channel \<Rightarrow> (string \<times> string) list" where
  "channelFields c =
     [(''externalId'', jsonQuoted (ch_externalId c)),
      (''name'', jsonQuoted (ch_name c)),
      (''kind'', enumText (channelKindValue (ch_kind c))),
      (''dataType'', enumText (channelDataTypeValue (ch_dataType c))),
      (''flags'', enumText (ch_flags c)),
      (''unit'', jsonQuoted (ch_unit c)),
      (''minValue'', appendDoubleJson [] (ch_minValue c)),
      (''maxValue'', appendDoubleJson [] (ch_maxValue c)),
      (''stepValue'', appendDoubleJson [] (ch_stepValue c)),
      (''meta'', metaJsonText (ch_metaJson c)),
      (''choices'', jsonArray (map choiceToJson (ch_choices c))),
      (''lastValue'', scalarJson (ch_lastValue c)),
      (''lastUpdateMs'', toStringS (ch_lastUpdateMs c)),
      (''hasValue'', boolText (ch_hasValue c))]"

definition channelToJson :: "channel \<Rightarrow> string" where
  "channelToJson c = jsonObject (channelFields c)"

section \<open>Rooms, groups and scenes\<close>

definition roomFields :: "room \<Rightarrow> (string \<times> string) list" where
  "roomFields r =
     [(''externalId'', jsonQuoted (room_externalId r)),
      (''name'', jsonQuoted (room_name r)),
      (''zone'', jsonQuoted (room_zone r)),
      (''deviceExternalIds'', arrayOfStrings (room_deviceExternalIds r)),
      (''meta'', metaJsonText (room_metaJson r))]"

definition roomToJson :: "room \<Rightarrow> string" where
  "roomToJson r = jsonObject (roomFields r)"

definition groupFields :: "group \<Rightarrow> (string \<times> string) list" where
  "groupFields g =
     [(''externalId'', jsonQuoted (grp_externalId g)),
      (''name'', jsonQuoted (grp_name g)),
      (''zone'', jsonQuoted (grp_zone g)),
      (''deviceExternalIds'', arrayOfStrings (grp_deviceExternalIds g)),
      (''meta'', metaJsonText (grp_metaJson g))]"

definition groupToJson :: "group \<Rightarrow> string" where
  "groupToJson g = jsonObject (groupFields g)"

definition sceneFields :: "scene \<Rightarrow> (string \<times> string) list" where
  "sceneFields s =
     [(''externalId'', jsonQuoted (scn_externalId s)),
      (''name'', jsonQuoted (scn_name s)),
      (''description'', jsonQuoted (scn_description s)),
      (''scopeExternalId'', jsonQuoted (scn_scopeExternalId s)),
      (''scopeType'', jsonQuoted (scn_scopeType s)),
      (''avatarColor'', jsonQuoted (scn_avatarColor s)),
      (''image'', jsonQuoted (scn_image s)),
      (''presetTag'', jsonQuoted (scn_presetTag s)),
      (''state'', enumText (sceneStateValue (scn_state s))),
      (''flags'', enumText (scn_flags s)),
      (''meta'', metaJsonText (scn_metaJson s))]"

definition sceneToJson :: "scene \<Rightarrow> string" where
  "sceneToJson s = jsonObject (sceneFields s)"

section \<open>Descriptors\<close>

definition actionFields :: "action_descriptor \<Rightarrow> (string \<times> string) list" where
  "actionFields a =
     [(''id'', jsonQuoted (act_id a)),
      (''label'', jsonQuoted (act_label a)),
      (''description'', jsonQuoted (act_description a)),
      (''hasForm'', boolText (act_hasForm a)),
      (''danger'', boolText (act_danger a)),
      (''cooldownMs'', toStringS (act_cooldownMs a))]
     @ whenField (trim (act_confirmJson a) \<noteq> []) (''confirm'', jsonTokenOrDefault (act_confirmJson a) ''{}'')
     @ whenField (trim (act_metaJson a) \<noteq> []) (''meta'', jsonTokenOrDefault (act_metaJson a) ''{}'')"

definition actionToJson :: "action_descriptor \<Rightarrow> string" where
  "actionToJson a = jsonObject (actionFields a)"

text \<open>Actions without an id are left out.\<close>

definition actionListToJson :: "action_descriptor list \<Rightarrow> string" where
  "actionListToJson as = jsonArray (map actionToJson (filter (\<lambda>a. act_id a \<noteq> []) as))"

definition capabilitiesFields :: "adapter_capabilities \<Rightarrow> (string \<times> string) list" where
  "capabilitiesFields c =
     [(''required'', enumText (cap_required c)),
      (''optional'', enumText (cap_optional c)),
      (''flags'', enumText (cap_flags c)),
      (''factoryActions'', actionListToJson (cap_factoryActions c)),
      (''instanceActions'', actionListToJson (cap_instanceActions c))]
     @ whenField (trim (cap_defaultsJson c) \<noteq> []) (''defaults'', jsonTokenOrDefault (cap_defaultsJson c) ''{}'')"

definition capabilitiesToJson :: "adapter_capabilities \<Rightarrow> string" where
  "capabilitiesToJson c = jsonObject (capabilitiesFields c)"

definition descriptorFields :: "adapter_descriptor \<Rightarrow> (string \<times> string) list" where
  "descriptorFields d =
     [(''pluginType'', jsonQuoted (ds_pluginType d)),
      (''displayName'', jsonQuoted (ds_displayName d)),
      (''description'', jsonQuoted (ds_description d)),
      (''apiVersion'', jsonQuoted (ds_apiVersion d)),
      (''iconSvg'', jsonQuoted (ds_iconSvg d)),
      (''imageBase64'', jsonQuoted (ds_imageBase64 d)),
      (''timeoutMs'', toStringS (ds_timeoutMs d)),
      (''maxInstances'', toStringS (ds_maxInstances d)),
      (''capabilities'', capabilitiesToJson (ds_capabilities d)),
      (''configSchema'', if trim (ds_configSchemaJson d) = [] then ''null''
                         else jsonTokenOrDefault (ds_configSchemaJson d) ''{}'')]"

definition descriptorToJson :: "adapter_descriptor \<Rightarrow> string" where
  "descriptorToJson d = jsonObject (descriptorFields d)"

section \<open>Every encoder emits one JSON value\<close>

text \<open>
  JSON supplied by the adapter is spliced without a check, so it has to be blank or one JSON
  value itself.
\<close>

definition spliceable :: "json_text \<Rightarrow> bool" where
  "spliceable j = (trim j = [] \<or> json_field j)"

lemma json_value_braces: "json_value ''{}''"
  using json_value_object [of "[]"] by (simp add: jsonObject_Nil)

lemma trim_trim [simp]: "trim (trim v) = trim v"
proof (cases "trim v = []")
  case True
  then show ?thesis
    by (simp add: trim_def)
next
  case False
  have ws: "skipWs s = [] \<or> \<not> isWs (hd (skipWs s))" for s
    by (induction s) auto
  let ?t = "skipWs (rev (skipWs v))"
  have "\<not> isWs (hd ?t)" and ne: "skipWs v \<noteq> []"
    using ws [of "rev (skipWs v)"] False by (auto simp: trim_def)
  moreover have "last ?t = hd (skipWs v)"
    using skipWs_suffix_ws [of "rev (skipWs v)"] False ne
    by (metis hd_rev last_appendR last_rev rev_is_Nil_conv rev_rev_ident trim_def)
  ultimately show ?thesis
    using ws [of v] False by (intro trim_no_ws) (auto simp: trim_def hd_rev last_rev)
qed

lemma json_field_meta: "spliceable j \<Longrightarrow> json_field (metaJsonText j)"
  by (auto simp: spliceable_def metaJsonText_def intro: json_value_field json_value_braces)

lemma json_field_token: "spliceable j \<Longrightarrow> json_field (jsonTokenOrDefault j ''{}'')"
  by (auto simp: spliceable_def jsonTokenOrDefault_def Let_def json_field_def
      intro: json_value_braces json_value_field [unfolded json_field_def])

lemma json_value_enumText: "json_value (enumText v)"
  by (simp add: enumText_def json_value_toStringS)

lemmas json_fields = json_value_field [OF json_value_quoted] json_value_field [OF json_value_enumText]
  json_value_field [OF json_value_boolText] json_value_field [OF json_value_toStringS]
  json_value_field [OF json_value_double] json_value_field [OF json_value_scalar]
  json_value_field [OF json_value_literals(3)] json_field_meta json_field_token
  json_value_field [OF json_value_toStringU]

lemma choiceToJson_object:
  "choiceToJson c = jsonObject [(''value'', jsonQuoted (opt_value c)), (''label'', jsonQuoted (opt_label c))]"
  by (simp add: choiceToJson_def jsonObject_Cons)

lemma json_value_choice: "json_value (choiceToJson c)"
  unfolding choiceToJson_object by (rule json_value_object) (simp add: json_fields)

lemma json_value_strings: "json_value (arrayOfStrings vs)"
  unfolding arrayOfStrings_def by (rule json_value_array) (auto simp: json_value_quoted)

lemma json_value_scalars: "json_value (scalarListJson vs)"
  unfolding scalarListJson_def by (rule json_value_array) (auto simp: json_value_scalar)

lemma json_value_effect: "spliceable (de_metaJson e) \<Longrightarrow> json_value (effectToJson e)"
  unfolding effectToJson_def by (rule json_value_object) (simp add: json_fields)

definition spliceable_device :: "device \<Rightarrow> bool" where
  "spliceable_device d = (spliceable (dev_metaJson d) \<and> (\<forall>e \<in> set (dev_effects d). spliceable (de_metaJson e)))"

lemma deviceFields_ok: "spliceable_device d \<Longrightarrow> \<forall>kv \<in> set (deviceFields d). json_field (snd kv)"
  by (auto simp: deviceFields_def spliceable_device_def json_fields
      intro!: json_value_field json_value_array json_value_effect)

lemma channelFields_ok: "spliceable (ch_metaJson c) \<Longrightarrow> \<forall>kv \<in> set (channelFields c). json_field (snd kv)"
  by (auto simp: channelFields_def json_fields intro!: json_value_field json_value_array json_value_choice)

lemma roomFields_ok: "spliceable (room_metaJson r) \<Longrightarrow> \<forall>kv \<in> set (roomFields r). json_field (snd kv)"
  by (auto simp: roomFields_def json_fields intro!: json_value_field json_value_strings)

lemma groupFields_ok: "spliceable (grp_metaJson g) \<Longrightarrow> \<forall>kv \<in> set (groupFields g). json_field (snd kv)"
  by (auto simp: groupFields_def json_fields intro!: json_value_field json_value_strings)

lemma sceneFields_ok: "spliceable (scn_metaJson s) \<Longrightarrow> \<forall>kv \<in> set (sceneFields s). json_field (snd kv)"
  by (simp add: sceneFields_def json_fields)

lemma whenField_ok: "(b \<Longrightarrow> json_field (snd f)) \<Longrightarrow> \<forall>kv \<in> set (whenField b f). json_field (snd kv)"
  by (simp add: whenField_def)

definition spliceable_action :: "action_descriptor \<Rightarrow> bool" where
  "spliceable_action a = (spliceable (act_confirmJson a) \<and> spliceable (act_metaJson a))"

lemma actionFields_ok: "spliceable_action a \<Longrightarrow> \<forall>kv \<in> set (actionFields a). json_field (snd kv)"
  by (auto simp: actionFields_def spliceable_action_def whenField_def json_fields)

lemma json_value_actions: "\<forall>a \<in> set as. spliceable_action a \<Longrightarrow> json_value (actionListToJson as)"
  unfolding actionListToJson_def actionToJson_def
  by (rule json_value_array) (auto intro!: json_value_object dest: actionFields_ok)

definition spliceable_caps :: "adapter_capabilities \<Rightarrow> bool" where
  "spliceable_caps c =
     (spliceable (cap_defaultsJson c) \<and> (\<forall>a \<in> set (cap_factoryActions c). spliceable_action a)
        \<and> (\<forall>a \<in> set (cap_instanceActions c). spliceable_action a))"

lemma capabilitiesFields_ok:
  "spliceable_caps c \<Longrightarrow> \<forall>kv \<in> set (capabilitiesFields c). json_field (snd kv)"
  by (auto simp: capabilitiesFields_def spliceable_caps_def whenField_def json_fields
      intro!: json_value_field json_value_actions)

definition spliceable_descriptor :: "adapter_descriptor \<Rightarrow> bool" where
  "spliceable_descriptor d = (spliceable (ds_configSchemaJson d) \<and> spliceable_caps (ds_capabilities d))"

lemma descriptorFields_ok:
  "spliceable_descriptor d \<Longrightarrow> \<forall>kv \<in> set (descriptorFields d). json_field (snd kv)"
  by (simp add: descriptorFields_def spliceable_descriptor_def json_fields
      json_value_field [OF json_value_object [OF capabilitiesFields_ok, folded capabilitiesToJson_def]])

lemmas entity_values =
  json_value_object [OF deviceFields_ok, folded deviceToJson_def]
  json_value_object [OF channelFields_ok, folded channelToJson_def]
  json_value_object [OF roomFields_ok, folded roomToJson_def]
  json_value_object [OF groupFields_ok, folded groupToJson_def]
  json_value_object [OF sceneFields_ok, folded sceneToJson_def]
  json_value_object [OF descriptorFields_ok, folded descriptorToJson_def]

end
