(* ===== verification/Source_Location.thy ===== *)
theory Source_Location
  imports Json_Encode
begin

text \<open>
  The source position that the logging macros of \<^verbatim>\<open>sidecar.h\<close> attach to a message
  (\<^verbatim>\<open>fileNameOnly\<close> and \<^verbatim>\<open>makeSourceLocationFieldsJson\<close> of \<^verbatim>\<open>src/sidecar.cpp\<close>). A null pointer is
  \<^const>\<open>None\<close>.
\<close>

text \<open>\<^verbatim>\<open>find_last_of\<close> for one character.\<close>

fun findLastOf :: "char \<Rightarrow> string \<Rightarrow> nat option" where
  "findLastOf c [] = None"
| "findLastOf c (x # xs) =
     (case findLastOf c xs of Some p \<Rightarrow> Some (Suc p) | None \<Rightarrow> if x = c then Some 0 else None)"

definition fileNameOnly :: "string \<Rightarrow> string" where
  "fileNameOnly path =
     (let slashPos = findLastOf (CHR ''/'') path;
          backslashPos = findLastOf BACKSLASH path;
          pos = (case slashPos of
                   None \<Rightarrow> backslashPos
                 | Some s \<Rightarrow> (case backslashPos of None \<Rightarrow> slashPos | Some b \<Rightarrow> Some (max s b)))
      in case pos of
           None \<Rightarrow> path
         | Some p \<Rightarrow> if length path \<le> p + 1 then path else drop (p + 1) path)"

definition makeSourceLocationFieldsJson :: "string option \<Rightarrow> i32 \<Rightarrow> string option \<Rightarrow> json_text" where
  "makeSourceLocationFieldsJson file line functionName =
     (let fileView = (case file of None \<Rightarrow> [] | Some s \<Rightarrow> s);
          fnView = (case functionName of None \<Rightarrow> [] | Some s \<Rightarrow> s)
      in CHR ''{'' # DQUOTE # ''file'' @ DQUOTE # '':'' @ jsonQuoted (fileNameOnly fileView)
         @ '','' @ DQUOTE # ''line'' @ DQUOTE # '':'' @ toStringS (if 0 < sint line then line else 0)
         @ '','' @ DQUOTE # ''func'' @ DQUOTE # '':'' @ jsonQuoted fnView
         @ ''}'')"

section \<open>The name after the last separator\<close>

definition isSeparator :: "char \<Rightarrow> bool" where
  "isSeparator c = (c = CHR ''/'' \<or> c = BACKSLASH)"

lemma findLastOf_None: "findLastOf c xs = None \<longleftrightarrow> c \<notin> set xs"
  by (induction xs) (auto split: option.splits)

lemma findLastOf_append:
  "findLastOf c (xs @ y # ys) =
     (case findLastOf c ys of Some p \<Rightarrow> Some (length xs + Suc p)
      | None \<Rightarrow> if y = c then Some (length xs) else findLastOf c xs)"
  by (induction xs) (auto split: option.splits)

lemma findLastOf_less: "findLastOf c xs = Some p \<Longrightarrow> p < length xs"
  by (induction xs arbitrary: p) (auto split: option.splits if_splits)

text \<open>A path without separator, or one split at its last separator.\<close>

lemma last_separator:
  obtains "\<forall>c \<in> set path. \<not> isSeparator c"
  | dir sep name where "path = dir @ sep # name" "isSeparator sep" "\<forall>c \<in> set name. \<not> isSeparator c"
proof (cases "\<exists>c \<in> set path. isSeparator c")
  case True
  then show ?thesis
    using that(2) by (auto simp: split_list_last_prop_iff)
next
  case False
  then show ?thesis
    using that(1) by blast
qed

lemma fileNameOnly_plain:
  assumes "\<forall>c \<in> set path. \<not> isSeparator c"
  shows "fileNameOnly path = path"
proof -
  have "findLastOf (CHR ''/'') path = None" "findLastOf BACKSLASH path = None"
    using assms by (auto simp: findLastOf_None isSeparator_def)
  then show ?thesis
    by (simp add: fileNameOnly_def)
qed

lemma fileNameOnly_split:
  assumes "isSeparator sep" and "\<forall>c \<in> set name. \<not> isSeparator c"
  shows "fileNameOnly (dir @ sep # name) = (if name = [] then dir @ [sep] else name)"
proof -
  have n: "findLastOf (CHR ''/'') name = None" "findLastOf BACKSLASH name = None"
    using assms(2) by (auto simp: findLastOf_None isSeparator_def)
  have "(case findLastOf (CHR ''/'') (dir @ sep # name) of
           None \<Rightarrow> findLastOf BACKSLASH (dir @ sep # name)
         | Some s \<Rightarrow> (case findLastOf BACKSLASH (dir @ sep # name) of
              None \<Rightarrow> findLastOf (CHR ''/'') (dir @ sep # name) | Some b \<Rightarrow> Some (max s b))) = Some (length dir)"
    using assms(1) n
    by (auto simp: findLastOf_append isSeparator_def max_def split: option.split dest!: findLastOf_less)
  then show ?thesis
    unfolding fileNameOnly_def Let_def by (cases name) simp_all
qed

lemma fileNameOnly_separators:
  "fileNameOnly path \<noteq> path \<Longrightarrow> \<forall>c \<in> set (fileNameOnly path). \<not> isSeparator c"
  by (rule last_separator [of path]) (auto simp: fileNameOnly_plain fileNameOnly_split split: if_splits)

lemma suffix_fileNameOnly: "suffix (fileNameOnly path) path"
  by (rule last_separator [of path])
    (auto simp: fileNameOnly_plain fileNameOnly_split suffix_def intro: exI [of _ "_ @ [_]"])

section \<open>The fields read back\<close>

lemma makeSourceLocation_object:
  "makeSourceLocationFieldsJson file line functionName = jsonObject
     [(''file'', jsonQuoted (fileNameOnly (case file of None \<Rightarrow> [] | Some s \<Rightarrow> s))),
      (''line'', toStringS (if 0 < sint line then line else 0)),
      (''func'', jsonQuoted (case functionName of None \<Rightarrow> [] | Some s \<Rightarrow> s))]"
  by (simp add: makeSourceLocationFieldsJson_def Let_def jsonObject_Cons jsonQuoted_def escapeChar_def)

lemma makeSourceLocation_reads_back:
  "\<exists>m. parseObjectMembers (makeSourceLocationFieldsJson file line functionName) = Inr m
     \<and> decodeStringOrDefault (member m ''file'') dflt = fileNameOnly (case file of None \<Rightarrow> [] | Some s \<Rightarrow> s)
     \<and> parseInt64 (member m ''line'') = Some (if 0 < sint line then scast line else 0)
     \<and> decodeStringOrDefault (member m ''func'') dflt = (case functionName of None \<Rightarrow> [] | Some s \<Rightarrow> s)"
proof -
  let ?fs = "[(''file'', jsonQuoted (fileNameOnly (case file of None \<Rightarrow> [] | Some s \<Rightarrow> s))),
      (''line'', toStringS (if 0 < sint line then line else 0)),
      (''func'', jsonQuoted (case functionName of None \<Rightarrow> [] | Some s \<Rightarrow> s))]"
  have i: "toStringS w = toStringS (scast w :: i64)" for w :: i32
    by (simp add: toStringS_def sint_up_scast is_up)
  have "parseObjectMembers (jsonObject ?fs) = Inr (membersOf [] ?fs)"
    by (rule parseObjectMembers_jsonObject) (simp add: json_value_field json_value_quoted json_value_toStringS)
  then show ?thesis
    unfolding makeSourceLocation_object
    by (intro exI [of _ "membersOf [] ?fs"])
      (simp add: trim_quoted trim_json_value json_value_toStringS decodeStringOrDefault_quoted i parseInt64_toString)
qed

end
