(* ===== verification/Log_Filter.thy ===== *)
theory Log_Filter
  imports Json_Text Enum_Names
begin

text \<open>
  Log levels, categories and the forwarding filter of \<^verbatim>\<open>src/sidecar.cpp\<close>: the wire encoding of a
  log line's level and category, the \<^verbatim>\<open>logging\<close> section of the adapter's meta object, the
  cached filter built from it and the decision \<^verbatim>\<open>shouldForwardLog\<close>.

  \<^verbatim>\<open>LogLevel\<close> and \<^verbatim>\<open>LogCategory\<close> are 8-bit words: an enum class holds any value of its
  underlying type, and the code has a branch for those without an enumerator.
\<close>

section \<open>The vocabulary\<close>

type_synonym log_level = u8
type_synonym log_category = u8

definition LogTrace :: log_level where "LogTrace = 1"
definition LogDebug :: log_level where "LogDebug = 2"
definition LogInfo :: log_level where "LogInfo = 3"
definition LogWarn :: log_level where "LogWarn = 4"
definition LogError :: log_level where "LogError = 5"

definition CatInternal :: log_category where "CatInternal = 0"
definition CatLifecycle :: log_category where "CatLifecycle = 1"
definition CatDiscovery :: log_category where "CatDiscovery = 2"
definition CatNetwork :: log_category where "CatNetwork = 3"
definition CatProtocol :: log_category where "CatProtocol = 4"
definition CatDevice :: log_category where "CatDevice = 5"
definition CatConfig :: log_category where "CatConfig = 6"
definition CatPerformance :: log_category where "CatPerformance = 7"
definition CatSecurity :: log_category where "CatSecurity = 8"
definition CatDatabase :: log_category where "CatDatabase = 9"

lemmas log_levels = LogTrace_def LogDebug_def LogInfo_def LogWarn_def LogError_def
lemmas log_categories = CatInternal_def CatLifecycle_def CatDiscovery_def CatNetwork_def CatProtocol_def
  CatDevice_def CatConfig_def CatPerformance_def CatSecurity_def CatDatabase_def

definition logCategoryName :: "log_category \<Rightarrow> string" where
  "logCategoryName c =
     (if c = CatInternal then ''internal''
      else if c = CatLifecycle then ''lifecycle''
      else if c = CatDiscovery then ''discovery''
      else if c = CatNetwork then ''network''
      else if c = CatProtocol then ''protocol''
      else if c = CatDevice then ''device''
      else if c = CatConfig then ''config''
      else if c = CatPerformance then ''performance''
      else if c = CatSecurity then ''security''
      else if c = CatDatabase then ''database''
      else ''internal'')"

definition kIncidentCategoryFlag :: u8 where
  "kIncidentCategoryFlag = 0x80"

definition encodeWireLevel :: "log_level \<Rightarrow> u8" where
  "encodeWireLevel level =
     (if level = LogTrace then 1
      else if level = LogDebug then 2
      else if level = LogInfo then 3
      else if level = LogWarn then 4
      else if level = LogError then 5
      else 5)"

definition encodeWireCategory :: "log_category \<Rightarrow> bool \<Rightarrow> u8" where
  "encodeWireCategory category incident =
     (let base = category AND 0x7F in if incident then base OR kIncidentCategoryFlag else base)"

text \<open>What the receiver does with the category byte (\<^verbatim>\<open>PROTOCOLL.md\<close>).\<close>

definition wireBaseCategory :: "u8 \<Rightarrow> log_category" where
  "wireBaseCategory w = w AND 0x7F"

definition wireIsIncident :: "u8 \<Rightarrow> bool" where
  "wireIsIncident w = (w AND 0x80 \<noteq> 0)"

section \<open>Parsing the filter\<close>

definition toLowerAscii :: "string \<Rightarrow> string" where
  "toLowerAscii s = map lowerAscii s"

definition normalizeCategoryToken :: "string \<Rightarrow> string" where
  "normalizeCategoryToken s =
     filter (\<lambda>ch. \<not> (ch = CHR ''_'' \<or> ch = CHR ''-'' \<or> ch = CHR '' '' \<or> ch = CHR ''.''))
       (toLowerAscii (trim s))"

definition logLevelPriority :: "log_level \<Rightarrow> int" where
  "logLevelPriority level =
     (if level = LogTrace then 0
      else if level = LogDebug then 1
      else if level = LogInfo then 2
      else if level = LogWarn then 3
      else if level = LogError then 4
      else 2)"

definition parseLogLevelFilter :: "string \<Rightarrow> log_level option" where
  "parseLogLevelFilter s =
     (let v = toLowerAscii (trim s) in
      if v = ''trace'' then Some LogTrace
      else if v = ''debug'' then Some LogDebug
      else if v = ''info'' then Some LogInfo
      else if v = ''warn'' \<or> v = ''warning'' then Some LogWarn
      else if v = ''error'' \<or> v = ''critical'' then Some LogError
      else None)"

definition logCategoryIndex :: "log_category \<Rightarrow> nat option" where
  "logCategoryIndex c = (if unat c < 10 then Some (unat c) else None)"

definition parseLogCategoryFilter :: "string \<Rightarrow> log_category option" where
  "parseLogCategoryFilter s =
     (let v = normalizeCategoryToken s in
      if v = ''lifecycle'' then Some CatLifecycle
      else if v = ''discovery'' then Some CatDiscovery
      else if v = ''network'' then Some CatNetwork
      else if v = ''protocol'' then Some CatProtocol
      else if v = ''device'' then Some CatDevice
      else if v = ''config'' then Some CatConfig
      else if v = ''performance'' then Some CatPerformance
      else if v = ''security'' then Some CatSecurity
      else if v = ''database'' \<or> v = ''db'' then Some CatDatabase
      else if v = ''internal'' then Some CatInternal
      else None)"

text \<open>\<^verbatim>\<open>LogFilterConfig\<close>; the array of ten flags is a list of ten.\<close>

record log_filter_config =
  lf_minLevel :: log_level
  lf_allowAllCategories :: bool
  lf_allowedCategories :: "bool list"

definition defaultLogFilter :: log_filter_config where
  "defaultLogFilter = \<lparr>lf_minLevel = LogDebug, lf_allowAllCategories = True,
     lf_allowedCategories = replicate 10 False\<rparr>"

fun allowCategories :: "string list \<Rightarrow> log_filter_config \<Rightarrow> log_filter_config" where
  "allowCategories [] f = f"
| "allowCategories (itemToken # items) f =
     (let item = decodeStringOrDefault itemToken [] in
      if item = [] then allowCategories items f
      else if normalizeCategoryToken item = ''all'' then f\<lparr>lf_allowAllCategories := True\<rparr>
      else
        (case parseLogCategoryFilter item of
           None \<Rightarrow> allowCategories items f
         | Some category \<Rightarrow>
             (case logCategoryIndex category of
                None \<Rightarrow> allowCategories items f
              | Some idx \<Rightarrow> allowCategories items
                  (f\<lparr>lf_allowedCategories := (lf_allowedCategories f)[idx := True]\<rparr>))))"

text \<open>\<^const>\<open>None\<close> is the result \<^verbatim>\<open>false\<close>; its caller then discards \<^verbatim>\<open>*out\<close>.\<close>

definition parseLogFilterConfig :: "string \<Rightarrow> log_filter_config option" where
  "parseLogFilterConfig metaJson =
     (let metaToken = trim metaJson in
      if metaToken = [] then Some defaultLogFilter
      else case parseObjectMembers metaToken of
        Inl _ \<Rightarrow> None
      | Inr metaMap \<Rightarrow>
          let loggingToken = member metaMap ''logging'' in
          if loggingToken = [] then Some defaultLogFilter
          else case parseObjectMembers loggingToken of
            Inl _ \<Rightarrow> None
          | Inr loggingMap \<Rightarrow>
              let minLevel = decodeStringOrDefault (member loggingMap ''minLevel'') [];
                  f = (case (if minLevel = [] then None else parseLogLevelFilter minLevel) of
                         None \<Rightarrow> defaultLogFilter
                       | Some l \<Rightarrow> defaultLogFilter\<lparr>lf_minLevel := l\<rparr>);
                  categoriesToken = member loggingMap ''categories''
              in if categoriesToken = [] then Some f
                 else case parseArrayElements categoriesToken of
                   Inl _ \<Rightarrow> None
                 | Inr categories \<Rightarrow>
                     Some (allowCategories categories
                       (f\<lparr>lf_allowAllCategories := False, lf_allowedCategories := replicate 10 False\<rparr>)))"

section \<open>The cache\<close>

record log_filter_cache =
  lc_hasConfig :: bool
  lc_forwardingEnabled :: bool
  lc_minLevelPriority :: int
  lc_allowAllCategories :: bool
  lc_categoryMask :: u16

definition emptyLogFilterCache :: log_filter_cache where
  "emptyLogFilterCache = \<lparr>lc_hasConfig = False, lc_forwardingEnabled = False, lc_minLevelPriority = 1,
     lc_allowAllCategories = True, lc_categoryMask = 0\<rparr>"

definition categoryMaskOf :: "bool list \<Rightarrow> u16" where
  "categoryMaskOf allowed =
     foldl (\<lambda>mask i. if allowed ! i then mask OR push_bit i 1 else mask) 0 [0..<length allowed]"

definition buildLogFilterCache :: "adapter \<Rightarrow> log_filter_cache" where
  "buildLogFilterCache ad =
     (let f = (case parseLogFilterConfig (ad_metaJson ad) of Some f \<Rightarrow> f | None \<Rightarrow> defaultLogFilter)
      in \<lparr>lc_hasConfig = True,
          lc_forwardingEnabled = hasFlag (ad_flags ad) (adapterFlagValue AdapterFlag_EnableLogs),
          lc_minLevelPriority = logLevelPriority (lf_minLevel f),
          lc_allowAllCategories = lf_allowAllCategories f,
          lc_categoryMask = categoryMaskOf (lf_allowedCategories f)\<rparr>)"

definition shouldForwardLog :: "log_filter_cache \<Rightarrow> log_level \<Rightarrow> log_category \<Rightarrow> bool" where
  "shouldForwardLog cache level category =
     (if level = LogError then True
      else if \<not> lc_hasConfig cache then True
      else if \<not> lc_forwardingEnabled cache then False
      else if logLevelPriority level < lc_minLevelPriority cache then False
      else if lc_allowAllCategories cache then True
      else case logCategoryIndex category of
        None \<Rightarrow> False
      | Some idx \<Rightarrow> lc_categoryMask cache AND push_bit idx 1 \<noteq> 0)"

section \<open>The mask is the set of allowed categories\<close>

lemma mask_fold_bit:
  "bit (foldl (\<lambda>mask i. if allowed ! i then mask OR push_bit i (1 :: u16) else mask) m [0..<n]) k
     \<longleftrightarrow> bit m k \<or> (k < 16 \<and> k < n \<and> allowed ! k)"
  by (induction n) (auto simp: bit_simps less_Suc_eq)

lemma bit_categoryMask:
  "length allowed \<le> 16 \<Longrightarrow> bit (categoryMaskOf allowed) k \<longleftrightarrow> k < length allowed \<and> allowed ! k"
  by (auto simp: categoryMaskOf_def mask_fold_bit)

lemma length_allowCategories [simp]:
  "length (lf_allowedCategories (allowCategories items f)) = length (lf_allowedCategories f)"
  by (induction items f rule: allowCategories.induct) (auto simp: Let_def split: option.splits)

lemma length_parseLogFilterConfig:
  "parseLogFilterConfig j = Some f \<Longrightarrow> length (lf_allowedCategories f) = 10"
  by (auto simp: parseLogFilterConfig_def defaultLogFilter_def Let_def split: if_splits option.splits sum.splits)

text \<open>The filter the code decides by, and the specification of that decision.\<close>

definition effectiveFilter :: "adapter \<Rightarrow> log_filter_config" where
  "effectiveFilter ad = (case parseLogFilterConfig (ad_metaJson ad) of Some f \<Rightarrow> f | None \<Rightarrow> defaultLogFilter)"

definition forwardSpec :: "adapter \<Rightarrow> log_level \<Rightarrow> log_category \<Rightarrow> bool" where
  "forwardSpec ad level category =
     (level = LogError
      \<or> (hasFlag (ad_flags ad) (adapterFlagValue AdapterFlag_EnableLogs)
         \<and> logLevelPriority (lf_minLevel (effectiveFilter ad)) \<le> logLevelPriority level
         \<and> (lf_allowAllCategories (effectiveFilter ad)
             \<or> (unat category < 10 \<and> lf_allowedCategories (effectiveFilter ad) ! unat category))))"

lemma length_effectiveFilter: "length (lf_allowedCategories (effectiveFilter ad)) = 10"
  by (auto simp: effectiveFilter_def defaultLogFilter_def length_parseLogFilterConfig split: option.splits)

section \<open>Properties\<close>

text \<open>
  C30: the cached decision is the documented one. An Error is forwarded whatever the flags and the
  filter; any other level needs the adapter's EnableLogs flag, at least the minimum level of the
  effective filter, and a category that the filter allows. The bit mask loses nothing.
\<close>

theorem shouldForwardLog_spec:
  "shouldForwardLog (buildLogFilterCache ad) level category = forwardSpec ad level category"
  using length_effectiveFilter [of ad]
  by (simp add: shouldForwardLog_def buildLogFilterCache_def forwardSpec_def effectiveFilter_def [symmetric]
      Let_def logCategoryIndex_def and_exp_eq_0_iff_not_bit bit_categoryMask not_less)

text \<open>
  The category byte on the wire carries the base category in its low seven bits and the incident
  flag in its top bit, and the receiver gets both back for every category of the shared range.
\<close>

lemma encodeWireCategory_roundtrip:
  "wireBaseCategory (encodeWireCategory category incident) = category AND 0x7F
     \<and> wireIsIncident (encodeWireCategory category incident) = incident"
  by (cases incident) (simp_all add: encodeWireCategory_def wireBaseCategory_def wireIsIncident_def
      kIncidentCategoryFlag_def Let_def bit.conj_disj_distrib2 and.assoc)

end
