(* ===== verification/Frame_Stream.thy ===== *)
theory Frame_Stream
  imports Frame
begin

text \<open>
  Frames in a byte stream. \<open>nextFrame\<close> is one round of the parse loop of \<^verbatim>\<open>readClient\<close> in
  \<^verbatim>\<open>src/linux/uds_epoll_transport.cpp\<close> on the unread bytes; the locale says what a decoder of
  this kind needs so that the way the kernel cuts the stream into reads makes no difference.
\<close>

section \<open>Decoders fed in pieces\<close>

locale incremental_decoder =
  fixes nxt :: "'b list \<Rightarrow> ('f \<times> 'b list) option"
  assumes consumes: "nxt b = Some (f, r) \<Longrightarrow> length r < length b"
    and stable: "nxt b = Some (f, r) \<Longrightarrow> nxt (b @ c) = Some (f, r @ c)"
begin

function decode :: "'b list \<Rightarrow> 'f list \<times> 'b list" where
  "decode b = (case nxt b of
     None \<Rightarrow> ([], b)
   | Some (f, r) \<Rightarrow> (case decode r of (fs, r') \<Rightarrow> (f # fs, r')))"
  by pat_completeness auto
termination
  by (relation "measure length") (auto dest: consumes)

lemmas decode_unfold = decode.simps

declare decode.simps [simp del]

lemma decode_None: "nxt b = None \<Longrightarrow> decode b = ([], b)"
  by (subst decode_unfold) simp

lemma decode_Some: "nxt b = Some (f, r) \<Longrightarrow> decode b = (f # fst (decode r), snd (decode r))"
  by (subst decode_unfold) (simp split: prod.split)

lemma decode_rest: "nxt (snd (decode b)) = None"
proof (induction b rule: decode.induct)
  case (1 b)
  then show ?case
    by (cases "nxt b") (auto simp: decode_None decode_Some)
qed

text \<open>Feeding the pieces one after the other, keeping the undecoded rest in between.\<close>

theorem decode_append:
  "decode (b @ c) = (fst (decode b) @ fst (decode (snd (decode b) @ c)), snd (decode (snd (decode b) @ c)))"
proof (induction b rule: decode.induct)
  case (1 b)
  show ?case
  proof (cases "nxt b")
    case None
    then show ?thesis
      by (simp add: decode_None)
  next
    case (Some p)
    obtain f r where p: "p = (f, r)"
      by (cases p)
    have "decode (b @ c) = (f # fst (decode (r @ c)), snd (decode (r @ c)))"
      using stable [of b f r c] Some p by (intro decode_Some) simp
    moreover have "decode b = (f # fst (decode r), snd (decode r))"
      using Some p by (intro decode_Some) simp
    ultimately show ?thesis
      using 1 [OF Some p [symmetric]] by simp
  qed
qed

fun feed :: "'b list \<Rightarrow> 'b list list \<Rightarrow> 'f list \<times> 'b list" where
  "feed rest [] = ([], rest)"
| "feed rest (c # cs) =
     (case decode (rest @ c) of (fs, r) \<Rightarrow> (case feed r cs of (gs, r') \<Rightarrow> (fs @ gs, r')))"

theorem feed_decode:
  assumes "nxt rest = None"
  shows "feed rest cs = decode (rest @ concat cs)"
  using assms
proof (induction cs arbitrary: rest)
  case Nil
  then show ?case
    by (simp add: decode_None)
next
  case (Cons c cs)
  have "feed (snd (decode (rest @ c))) cs = decode (snd (decode (rest @ c)) @ concat cs)"
    by (rule Cons.IH [OF decode_rest])
  then show ?case
    using decode_append [of "rest @ c" "concat cs"] by (simp add: case_prod_beta)
qed

text \<open>A sender that writes whole items in the format the decoder reads.\<close>

theorem decode_items:
  assumes "\<And>f r. f \<in> set fs \<Longrightarrow> nxt (enc f @ r) = Some (f, r)" and "nxt z = None"
  shows "decode (concat (map enc fs) @ z) = (fs, z)"
  using assms(1)
proof (induction fs)
  case Nil
  then show ?case
    using assms(2) by (simp add: decode_None)
next
  case (Cons f fs)
  have "nxt (enc f @ concat (map enc fs) @ z) = Some (f, concat (map enc fs) @ z)"
    by (rule Cons.prems) simp
  then show ?case
    using Cons by (simp add: decode_Some)
qed

end

section \<open>The frame format\<close>

type_synonym frame = "frame_header \<times> bytes"

text \<open>Enough bytes for a header that is not valid: the connection is given up.\<close>

definition badHeader :: "bytes \<Rightarrow> bool" where
  "badHeader b = (kFrameHeaderSize \<le> length b \<and> \<not> isValidFrameHeader (header_of_bytes b))"

definition nextFrame :: "bytes \<Rightarrow> (frame \<times> bytes) option" where
  "nextFrame b =
     (if length b < kFrameHeaderSize then None
      else let header = header_of_bytes b in
        if \<not> isValidFrameHeader header then None
        else let frameSize = kFrameHeaderSize + unat (hdr_payloadSize header) in
          if length b < frameSize then None
          else Some ((header, take (unat (hdr_payloadSize header)) (drop kFrameHeaderSize b)), drop frameSize b))"

definition frame_bytes :: "frame \<Rightarrow> bytes" where
  "frame_bytes f = header_bytes (fst f) @ snd f"

definition wf_frame :: "frame \<Rightarrow> bool" where
  "wf_frame f = (isValidFrameHeader (fst f) \<and> unat (hdr_payloadSize (fst f)) = length (snd f))"

lemma header_of_bytes_append:
  "kFrameHeaderSize \<le> length b \<Longrightarrow> header_of_bytes (b @ c) = header_of_bytes b"
  by (simp add: header_of_bytes_def kFrameHeaderSize_def nth_append)

lemma badHeader_append: "badHeader b \<Longrightarrow> badHeader (b @ c)"
  by (simp add: badHeader_def header_of_bytes_append)

lemma badHeader_nextFrame: "badHeader b \<Longrightarrow> nextFrame b = None"
  by (simp add: badHeader_def nextFrame_def Let_def)

interpretation frames: incremental_decoder nextFrame
proof
  show "length r < length b" if "nextFrame b = Some (f, r)" for b f r
    using that by (auto simp: nextFrame_def Let_def kFrameHeaderSize_def split: if_splits)
  show "nextFrame (b @ c) = Some (f, r @ c)" if "nextFrame b = Some (f, r)" for b f r c
    using that by (auto simp: nextFrame_def Let_def header_of_bytes_append split: if_splits)
qed

lemma nextFrame_frame_bytes:
  assumes "wf_frame f"
  shows "nextFrame (frame_bytes f @ r) = Some (f, r)"
proof -
  have m: "length (hdr_magic (fst f)) = 4"
    using assms by (simp add: wf_frame_def valid_header_magic)
  have l: "length (header_bytes (fst f)) = kFrameHeaderSize"
    using m by (rule length_header_bytes)
  have h: "header_of_bytes (frame_bytes f @ r) = fst f"
    using header_roundtrip [OF m] by (simp add: frame_bytes_def)
  show ?thesis
    unfolding nextFrame_def h Let_def using assms l by (simp add: frame_bytes_def wf_frame_def)
qed

lemma nextFrame_Nil: "nextFrame [] = None"
  by (simp add: nextFrame_def kFrameHeaderSize_def)

section \<open>Properties\<close>



end
