(* ===== verification/Transport.thy ===== *)
theory Transport
  imports Frame_Stream
begin

text \<open>
  The Unix-socket transport of \<^verbatim>\<open>src/linux/uds_epoll_transport.{h,cpp}\<close>: one listening socket, at
  most one client, one wake descriptor.

  System calls are the environment. What each call will return is a script in the record
  \<open>os\<close>, read one entry per call; what the calls do is appended to \<open>os_trace\<close>. An exhausted script
  means: no descriptor, status calls succeed, nothing to read, a peer that never drains its socket,
  nothing ready. The server state is an extensible record, so a callback is a function on
  whatever state its owner builds around the server, and runs where the code runs it.
\<close>

section \<open>System calls\<close>

datatype errno = EAGAIN | EINTR | EOTHER string

definition strerror :: "errno \<Rightarrow> string" where
  "strerror e = (case e of EAGAIN \<Rightarrow> ''Resource temporarily unavailable''
     | EINTR \<Rightarrow> ''Interrupted system call'' | EOTHER msg \<Rightarrow> msg)"

definition errnoString :: "string \<Rightarrow> errno \<Rightarrow> string" where
  "errnoString pre e = pre @ '': '' @ strerror e"

text \<open>\<^verbatim>\<open>read\<close>: the bytes read (none at end of file) or an error.\<close>

datatype read_result = ReadData bytes | ReadErr errno

datatype poll_result = PollTimeout | PollWritable | PollHangup | PollOther | PollErr errno

text \<open>
  \<^verbatim>\<open>send\<close>: a count; or no room, with what the clock and the following \<^verbatim>\<open>poll\<close> say (has the deadline
  passed?); or another error.
\<close>

datatype send_result = SendCount nat | SendAgain bool poll_result | SendIntr | SendErr string

text \<open>\<^verbatim>\<open>epoll_wait\<close>: descriptors with their hang-up and input bits.\<close>

datatype ready = Ready nat bool bool
datatype wait_result = WaitEvents "ready list" | WaitErr errno

datatype os_event = Unlinked string | CtlAdd int | CtlDel int | Closed int | Wrote int bytes

record os =
  os_fds :: "(nat + errno) list"
  os_accepts :: "(nat + errno) list"
  os_status :: "errno option list"
  os_reads :: "read_result list"
  os_sends :: "send_result list"
  os_waits :: "wait_result list"
  os_wake :: nat
  os_trace :: "os_event list"

section \<open>State\<close>

record server =
  m_socketPath :: string
  m_serverFd :: int
  m_epollFd :: int
  m_clientFd :: int
  m_wakeFd :: int
  m_notifyDisconnect :: bool
  m_rxBuffer :: bytes
  m_rxOffset :: nat
  m_os :: os

type_synonym 'z notify = "('z server_scheme \<Rightarrow> 'z server_scheme) option"
type_synonym 'z frame_handler = "(frame_header \<Rightarrow> bytes \<Rightarrow> 'z server_scheme \<Rightarrow> 'z server_scheme) option"

definition callNotify :: "'z notify \<Rightarrow> 'z server_scheme \<Rightarrow> 'z server_scheme" where
  "callNotify f s = (case f of None \<Rightarrow> s | Some g \<Rightarrow> g s)"

definition trace :: "os_event list \<Rightarrow> 'z server_scheme \<Rightarrow> 'z server_scheme" where
  "trace evs s = s\<lparr>m_os := (m_os s)\<lparr>os_trace := os_trace (m_os s) @ evs\<rparr>\<rparr>"

definition takeStatus :: "'z server_scheme \<Rightarrow> errno option \<times> 'z server_scheme" where
  "takeStatus s = (case os_status (m_os s) of
     [] \<Rightarrow> (None, s) | e # es \<Rightarrow> (e, s\<lparr>m_os := (m_os s)\<lparr>os_status := es\<rparr>\<rparr>))"

definition takeFd :: "'z server_scheme \<Rightarrow> (nat + errno) \<times> 'z server_scheme" where
  "takeFd s = (case os_fds (m_os s) of
     [] \<Rightarrow> (Inr (EOTHER ''Too many open files''), s) | r # rs \<Rightarrow> (r, s\<lparr>m_os := (m_os s)\<lparr>os_fds := rs\<rparr>\<rparr>))"

definition takeAccept :: "'z server_scheme \<Rightarrow> (nat + errno) \<times> 'z server_scheme" where
  "takeAccept s = (case os_accepts (m_os s) of
     [] \<Rightarrow> (Inr EAGAIN, s) | r # rs \<Rightarrow> (r, s\<lparr>m_os := (m_os s)\<lparr>os_accepts := rs\<rparr>\<rparr>))"

definition takeWait :: "'z server_scheme \<Rightarrow> wait_result \<times> 'z server_scheme" where
  "takeWait s = (case os_waits (m_os s) of
     [] \<Rightarrow> (WaitEvents [], s) | r # rs \<Rightarrow> (r, s\<lparr>m_os := (m_os s)\<lparr>os_waits := rs\<rparr>\<rparr>))"

section \<open>Start, stop, wake-up\<close>

definition closeFd :: "int \<Rightarrow> 'z server_scheme \<Rightarrow> 'z server_scheme" where
  "closeFd fd s = (if 0 \<le> fd then trace [Closed fd] s else s)"

definition stop :: "'z server_scheme \<Rightarrow> 'z server_scheme" where
  "stop s =
     (let s1 = (closeFd (m_clientFd s) s)\<lparr>m_clientFd := - 1\<rparr>;
          s2 = (closeFd (m_epollFd s1) s1)\<lparr>m_epollFd := - 1\<rparr>;
          s3 = (closeFd (m_serverFd s2) s2)\<lparr>m_serverFd := - 1\<rparr>;
          s4 = (if m_socketPath s3 \<noteq> [] then trace [Unlinked (m_socketPath s3)] s3 else s3)
      in s4\<lparr>m_notifyDisconnect := False, m_rxBuffer := [], m_rxOffset := 0\<rparr>)"

text \<open>The event counter behind the wake descriptor saturates at \<open>2 ^ 64 - 2\<close>.\<close>

definition server_wakeup :: "'z server_scheme \<Rightarrow> 'z server_scheme" where
  "server_wakeup s =
     (if m_wakeFd s < 0 then s
      else s\<lparr>m_os := (m_os s)\<lparr>os_wake := min (os_wake (m_os s) + 1) (2 ^ 64 - 2)\<rparr>\<rparr>)"

definition drainWakeFd :: "'z server_scheme \<Rightarrow> 'z server_scheme" where
  "drainWakeFd s = (if m_wakeFd s < 0 then s else s\<lparr>m_os := (m_os s)\<lparr>os_wake := 0\<rparr>\<rparr>)"

text \<open>A status call of \<^verbatim>\<open>start\<close>: on failure stop and report.\<close>

definition orStop :: "string \<Rightarrow> ('z server_scheme \<Rightarrow> string option \<times> 'z server_scheme)
    \<Rightarrow> 'z server_scheme \<Rightarrow> string option \<times> 'z server_scheme" where
  "orStop what k s = (case takeStatus s of
     (Some e, s') \<Rightarrow> (Some (errnoString what e), stop s') | (None, s') \<Rightarrow> k s')"

definition kSunPathSize :: nat where
  "kSunPathSize = 108"

definition addWake :: "'z server_scheme \<Rightarrow> string option \<times> 'z server_scheme" where
  "addWake s =
     orStop ''epoll_ctl add wakeup''
       (\<lambda>s. (None, (trace [CtlAdd (m_wakeFd s)] s)
               \<lparr>m_notifyDisconnect := False, m_rxBuffer := [], m_rxOffset := 0\<rparr>))
       (drainWakeFd s)"

definition openWake :: "'z server_scheme \<Rightarrow> string option \<times> 'z server_scheme" where
  "openWake s =
     (if m_wakeFd s < 0
      then (case takeFd s of
        (Inr e, s') \<Rightarrow> (Some (errnoString ''eventfd'' e), stop (s'\<lparr>m_wakeFd := - 1\<rparr>))
      | (Inl fd, s') \<Rightarrow> addWake (s'\<lparr>m_wakeFd := int fd, m_os := (m_os s')\<lparr>os_wake := 0\<rparr>\<rparr>))
      else addWake s)"

definition openEpoll :: "'z server_scheme \<Rightarrow> string option \<times> 'z server_scheme" where
  "openEpoll s =
     (case takeFd s of
        (Inr e, s') \<Rightarrow> (Some (errnoString ''epoll_create1'' e), stop (s'\<lparr>m_epollFd := - 1\<rparr>))
      | (Inl fd, s') \<Rightarrow>
          orStop ''epoll_ctl add server'' (\<lambda>s. openWake (trace [CtlAdd (m_serverFd s)] s)) (s'\<lparr>m_epollFd := int fd\<rparr>))"

definition server_start :: "'z server_scheme \<Rightarrow> string option \<times> 'z server_scheme" where
  "server_start s0 =
     (case takeFd (stop s0) of
        (Inr e, s) \<Rightarrow> (Some (errnoString ''socket'' e), s\<lparr>m_serverFd := - 1\<rparr>)
      | (Inl fd, s) \<Rightarrow>
          let s1 = trace [Unlinked (m_socketPath s)] (s\<lparr>m_serverFd := int fd\<rparr>) in
          if kSunPathSize \<le> length (m_socketPath s1) then (Some ''socket path too long'', stop s1)
          else orStop ''bind'' (orStop ''chmod'' (orStop ''listen'' openEpoll)) s1)"

section \<open>Closing and accepting\<close>

definition dropClientFd :: "'z server_scheme \<Rightarrow> 'z server_scheme" where
  "dropClientFd s =
     (if 0 \<le> m_clientFd s
      then (trace [CtlDel (m_clientFd s), Closed (m_clientFd s)] s)\<lparr>m_clientFd := - 1\<rparr> else s)"

definition closeClient :: "'z notify \<Rightarrow> 'z server_scheme \<Rightarrow> 'z server_scheme" where
  "closeClient onDisconnected s =
     callNotify onDisconnected
       ((dropClientFd s)\<lparr>m_notifyDisconnect := False, m_rxBuffer := [], m_rxOffset := 0\<rparr>)"

definition closeClientDeferred :: "'z server_scheme \<Rightarrow> 'z server_scheme" where
  "closeClientDeferred s =
     (dropClientFd s)\<lparr>m_notifyDisconnect := m_notifyDisconnect s \<or> 0 \<le> m_clientFd s,
        m_rxBuffer := [], m_rxOffset := 0\<rparr>"

definition setNonBlocking :: "'z server_scheme \<Rightarrow> errno option \<times> 'z server_scheme" where
  "setNonBlocking s = (case takeStatus s of (Some e, s') \<Rightarrow> (Some e, s') | (None, s') \<Rightarrow> takeStatus s')"

text \<open>The error (none on success), whether there is a new client, and the state.\<close>

definition acceptClient :: "'z notify \<Rightarrow> 'z server_scheme \<Rightarrow> string option \<times> bool \<times> 'z server_scheme" where
  "acceptClient onDisconnected s =
     (case takeAccept s of
        (Inr EAGAIN, s1) \<Rightarrow> (None, False, s1)
      | (Inr e, s1) \<Rightarrow> (Some (errnoString ''accept4'' e), False, s1)
      | (Inl fd, s1) \<Rightarrow>
          (case setNonBlocking s1 of
             (Some e, s2) \<Rightarrow> (Some (errnoString ''fcntl nonblock'' e), False, trace [Closed (int fd)] s2)
           | (None, s2) \<Rightarrow>
               let s3 = (if 0 \<le> m_clientFd s2 then closeClient onDisconnected s2 else s2)\<lparr>m_clientFd := int fd\<rparr> in
               (case takeStatus s3 of
                  (Some e, s4) \<Rightarrow> (Some (errnoString ''epoll_ctl add client'' e), False,
                     (trace [Closed (m_clientFd s4)] s4)\<lparr>m_clientFd := - 1\<rparr>)
                | (None, s4) \<Rightarrow> (None, True,
                     (trace [CtlAdd (m_clientFd s4)] s4)\<lparr>m_rxBuffer := [], m_rxOffset := 0\<rparr>))))"

section \<open>Receiving\<close>

datatype read_end = ReadBlocked | ReadEof | ReadFailed errno

text \<open>The read loop: the bytes it appends, how it ends, and the rest of the script.\<close>

fun readLoop :: "read_result list \<Rightarrow> bytes \<times> read_end \<times> read_result list" where
  "readLoop [] = ([], ReadBlocked, [])"
| "readLoop (ReadData bs # rs) =
     (if bs = [] then ([], ReadEof, rs)
      else case readLoop rs of (bs', e, rs') \<Rightarrow> (bs @ bs', e, rs'))"
| "readLoop (ReadErr EAGAIN # rs) = ([], ReadBlocked, rs)"
| "readLoop (ReadErr EINTR # rs) = readLoop rs"
| "readLoop (ReadErr e # rs) = ([], ReadFailed e, rs)"

datatype loop_exit = LoopDone | LoopInvalid | LoopClosed

text \<open>
  The parse loop. Every round takes at least a header's worth of bytes, so the length of the
  buffer is fuel enough as long as the handler does not refill the buffer (\<open>frameLoop_frames\<close>).
\<close>

fun frameLoop :: "nat \<Rightarrow> 'z frame_handler \<Rightarrow> 'z server_scheme \<Rightarrow> loop_exit \<times> 'z server_scheme" where
  "frameLoop 0 onFrame s = (LoopDone, s)"
| "frameLoop (Suc n) onFrame s =
     (let available = length (m_rxBuffer s) - m_rxOffset s in
      if available < kFrameHeaderSize then (LoopDone, s)
      else
        let frameStart = drop (m_rxOffset s) (m_rxBuffer s);
            header = header_of_bytes frameStart
        in if \<not> isValidFrameHeader header then (LoopInvalid, s)
           else
             let frameSize = kFrameHeaderSize + unat (hdr_payloadSize header) in
             if available < frameSize then (LoopDone, s)
             else
               let s1 = s\<lparr>m_rxOffset := m_rxOffset s + frameSize\<rparr>;
                   payload = take (unat (hdr_payloadSize header)) (drop kFrameHeaderSize frameStart);
                   s2 = (case onFrame of None \<Rightarrow> s1 | Some f \<Rightarrow> f header payload s1)
               in if m_clientFd s2 < 0 then (LoopClosed, s2) else frameLoop n onFrame s2)"

definition compact :: "'z server_scheme \<Rightarrow> 'z server_scheme" where
  "compact s =
     (if 0 < m_rxOffset s then s\<lparr>m_rxBuffer := drop (m_rxOffset s) (m_rxBuffer s), m_rxOffset := 0\<rparr> else s)"

definition readClient ::
  "'z frame_handler \<Rightarrow> 'z notify \<Rightarrow> 'z server_scheme \<Rightarrow> string option \<times> 'z server_scheme" where
  "readClient onFrame onDisconnected s0 =
     (case readLoop (os_reads (m_os s0)) of
        (bs, e, rs) \<Rightarrow>
          let s = s0\<lparr>m_rxBuffer := m_rxBuffer s0 @ bs, m_os := (m_os s0)\<lparr>os_reads := rs\<rparr>\<rparr> in
          (case e of
             ReadEof \<Rightarrow> (None, closeClient onDisconnected s)
           | ReadFailed err \<Rightarrow> (Some (errnoString ''read'' err), closeClient onDisconnected s)
           | ReadBlocked \<Rightarrow>
               (case frameLoop (Suc (length (m_rxBuffer s))) onFrame s of
                  (LoopInvalid, s') \<Rightarrow> (Some ''invalid frame header'', closeClient onDisconnected s')
                | (LoopClosed, s') \<Rightarrow> (None, s')
                | (LoopDone, s') \<Rightarrow> (None, compact s'))))"

section \<open>Sending\<close>

text \<open>\<^verbatim>\<open>writeAll\<close>: the error (none on success), the bytes the kernel took and the rest of the script.\<close>

fun writeAll :: "send_result list \<Rightarrow> bytes \<Rightarrow> string option \<times> bytes \<times> send_result list" where
  "writeAll rs [] = (None, [], rs)"
| "writeAll [] (b # bs) = (Some ''write timed out; peer is not draining the socket'', [], [])"
| "writeAll (SendCount n # rs) (b # bs) =
     (if n = 0 then (Some (errnoString ''write'' (EOTHER ''Success'')), [], rs)
      else case writeAll rs (drop n (b # bs)) of (e, sent, rs') \<Rightarrow> (e, take n (b # bs) @ sent, rs'))"
| "writeAll (SendIntr # rs) (b # bs) = writeAll rs (b # bs)"
| "writeAll (SendErr msg # rs) (b # bs) = (Some (errnoString ''write'' (EOTHER msg)), [], rs)"
| "writeAll (SendAgain pastDeadline p # rs) (b # bs) =
     (if pastDeadline then (Some ''write timed out; peer is not draining the socket'', [], rs)
      else case p of
        PollErr EINTR \<Rightarrow> writeAll rs (b # bs)
      | PollErr e \<Rightarrow> (Some (errnoString ''poll'' e), [], rs)
      | PollTimeout \<Rightarrow> writeAll rs (b # bs)
      | PollHangup \<Rightarrow> (Some ''socket not writable'', [], rs)
      | PollWritable \<Rightarrow> writeAll rs (b # bs)
      | PollOther \<Rightarrow> writeAll rs (b # bs))"

definition serverWrite :: "bytes \<Rightarrow> 'z server_scheme \<Rightarrow> string option \<times> 'z server_scheme" where
  "serverWrite bs s =
     (case writeAll (os_sends (m_os s)) bs of
        (e, sent, rs) \<Rightarrow>
          (e, trace [Wrote (m_clientFd s) sent] (s\<lparr>m_os := (m_os s)\<lparr>os_sends := rs\<rparr>\<rparr>)))"

definition server_send ::
  "frame_header \<Rightarrow> bytes \<Rightarrow> 'z server_scheme \<Rightarrow> string option \<times> 'z server_scheme" where
  "server_send header payload s =
     (if m_clientFd s < 0 then (Some ''no connected client'', s)
      else
        let wireHeader = header\<lparr>hdr_payloadSize := word_of_nat (length payload)\<rparr> in
        (case serverWrite (header_bytes wireHeader) s of
           (Some e, s1) \<Rightarrow> (Some e, closeClientDeferred s1)
         | (None, s1) \<Rightarrow>
             if payload = [] then (None, s1)
             else (case serverWrite payload s1 of
               (Some e, s2) \<Rightarrow> (Some e, closeClientDeferred s2)
             | (None, s2) \<Rightarrow> (None, s2))))"

section \<open>One poll\<close>

record 'z callbacks =
  cb_onConnected :: "'z notify"
  cb_onDisconnected :: "'z notify"
  cb_onFrame :: "'z frame_handler"

fun handleReady :: "'z callbacks \<Rightarrow> ready list \<Rightarrow> 'z server_scheme \<Rightarrow> string option \<times> 'z server_scheme" where
  "handleReady cb [] s = (None, s)"
| "handleReady cb (Ready fd hup inp # evs) s =
     (if int fd = m_wakeFd s then handleReady cb evs (drainWakeFd s)
      else if int fd = m_serverFd s then
        (case acceptClient (cb_onDisconnected cb) s of
           (Some e, _, s1) \<Rightarrow> (Some e, s1)
         | (None, newClient, s1) \<Rightarrow>
             handleReady cb evs (if newClient then callNotify (cb_onConnected cb) s1 else s1))
      else if int fd = m_clientFd s then
        (if hup then handleReady cb evs (closeClient (cb_onDisconnected cb) s)
         else if inp then
           (case readClient (cb_onFrame cb) (cb_onDisconnected cb) s of
              (Some e, s1) \<Rightarrow> (Some e, s1)
            | (None, s1) \<Rightarrow> handleReady cb evs s1)
         else handleReady cb evs s)
      else handleReady cb evs s)"

definition server_pollOnce :: "'z callbacks \<Rightarrow> 'z server_scheme \<Rightarrow> string option \<times> 'z server_scheme" where
  "server_pollOnce cb s =
     (if m_epollFd s < 0 then (Some ''transport not started'', s)
      else
        let s1 = (if m_notifyDisconnect s
                  then callNotify (cb_onDisconnected cb) (s\<lparr>m_notifyDisconnect := False\<rparr>) else s) in
        (case takeWait s1 of
           (WaitErr EINTR, s2) \<Rightarrow> (None, s2)
         | (WaitErr e, s2) \<Rightarrow> (Some (errnoString ''epoll_wait'' e), s2)
         | (WaitEvents evs, s2) \<Rightarrow> handleReady cb evs s2))"

definition hasClient :: "'z server_scheme \<Rightarrow> bool" where
  "hasClient s = (0 \<le> m_clientFd s)"

definition server_pollDescriptor :: "'z server_scheme \<Rightarrow> int" where
  "server_pollDescriptor s = m_epollFd s"

section \<open>What a batch of reads delivers\<close>

definition rx_view :: "'z server_scheme \<Rightarrow> int \<times> bytes \<times> nat" where
  "rx_view s = (m_clientFd s, m_rxBuffer s, m_rxOffset s)"

text \<open>Callbacks that leave the receive side alone: those of the dispatcher only queue and log.\<close>

definition quiet_frame :: "'z frame_handler \<Rightarrow> bool" where
  "quiet_frame onFrame = (\<forall>f h p s. onFrame = Some f \<longrightarrow> rx_view (f h p s) = rx_view s)"

definition quiet_notify :: "'z notify \<Rightarrow> bool" where
  "quiet_notify n = (\<forall>f s. n = Some f \<longrightarrow> rx_view (f s) = rx_view s)"

lemma rx_view_callNotify: "quiet_notify n \<Longrightarrow> rx_view (callNotify n s) = rx_view s"
  by (simp add: quiet_notify_def callNotify_def split: option.split)

definition frameSizeOf :: "frame \<Rightarrow> nat" where
  "frameSizeOf f = kFrameHeaderSize + unat (hdr_payloadSize (fst f))"

definition deliver1 :: "'z frame_handler \<Rightarrow> frame \<Rightarrow> 'z server_scheme \<Rightarrow> 'z server_scheme" where
  "deliver1 onFrame f s =
     (let s1 = s\<lparr>m_rxOffset := m_rxOffset s + frameSizeOf f\<rparr> in
      case onFrame of None \<Rightarrow> s1 | Some g \<Rightarrow> g (fst f) (snd f) s1)"

definition deliver :: "'z frame_handler \<Rightarrow> frame list \<Rightarrow> 'z server_scheme \<Rightarrow> 'z server_scheme" where
  "deliver onFrame = fold (deliver1 onFrame)"

lemma rx_view_deliver1:
  "quiet_frame onFrame \<Longrightarrow> rx_view (deliver1 onFrame f s)
     = (m_clientFd s, m_rxBuffer s, m_rxOffset s + frameSizeOf f)"
  by (cases onFrame) (simp_all add: deliver1_def quiet_frame_def, simp_all add: rx_view_def)

lemma nextFrame_size: "nextFrame b = Some (f, r) \<Longrightarrow> r = drop (frameSizeOf f) b \<and> frameSizeOf f \<le> length b"
  by (auto simp: nextFrame_def Let_def frameSizeOf_def split: if_splits)

lemma frameLoop_step:
  "frameLoop (Suc n) onFrame s =
     (let b = drop (m_rxOffset s) (m_rxBuffer s) in
      if badHeader b then (LoopInvalid, s)
      else case nextFrame b of
        None \<Rightarrow> (LoopDone, s)
      | Some (f, r) \<Rightarrow>
          if m_clientFd (deliver1 onFrame f s) < 0 then (LoopClosed, deliver1 onFrame f s)
          else frameLoop n onFrame (deliver1 onFrame f s))"
  by (cases onFrame) (simp_all add: badHeader_def nextFrame_def deliver1_def frameSizeOf_def Let_def del: drop_drop)

declare frameLoop.simps(2) [simp del]

text \<open>With fuel for the whole buffer the loop delivers every complete frame and stops where none is left.\<close>

lemma frameLoop_frames:
  assumes "quiet_frame onFrame" and "0 \<le> m_clientFd s" and "m_rxOffset s \<le> length (m_rxBuffer s)"
    and "length (m_rxBuffer s) - m_rxOffset s < n"
    and "frames.decode (drop (m_rxOffset s) (m_rxBuffer s)) = (fs, r)"
  shows "frameLoop n onFrame s = (if badHeader r then LoopInvalid else LoopDone, deliver onFrame fs s)
     \<and> rx_view (deliver onFrame fs s) = (m_clientFd s, m_rxBuffer s, length (m_rxBuffer s) - length r)"
  using assms(2-)
proof (induction n arbitrary: s fs)
  case 0
  then show ?case by simp
next
  case (Suc n)
  let ?b = "drop (m_rxOffset s) (m_rxBuffer s)"
  show ?case
  proof (cases "nextFrame ?b")
    case None
    then have "fs = []" "r = ?b"
      using Suc.prems by (simp_all add: frames.decode_None)
    then show ?thesis
      using None Suc.prems by (simp add: frameLoop_step Let_def deliver_def rx_view_def)
  next
    case (Some p)
    obtain f q where p: "p = (f, q)"
      by (cases p)
    let ?s = "deliver1 onFrame f s"
    have q: "q = drop (frameSizeOf f) ?b" and le: "frameSizeOf f \<le> length ?b"
      using nextFrame_size [of ?b f q] Some p by simp_all
    have view: "m_clientFd ?s = m_clientFd s" "m_rxBuffer ?s = m_rxBuffer s"
      "m_rxOffset ?s = m_rxOffset s + frameSizeOf f"
      using rx_view_deliver1 [OF assms(1), of f s] by (simp_all add: rx_view_def)
    have dec: "fs = f # fst (frames.decode q)" "r = snd (frames.decode q)"
      using Suc.prems(4) frames.decode_Some [of ?b f q] Some p by simp_all
    have "drop (m_rxOffset ?s) (m_rxBuffer ?s) = q"
      using q view by (simp add: add.commute)
    then have "frames.decode (drop (m_rxOffset ?s) (m_rxBuffer ?s)) = (tl fs, r)"
      using dec by simp
    moreover have "length (m_rxBuffer ?s) - m_rxOffset ?s < n" "m_rxOffset ?s \<le> length (m_rxBuffer ?s)"
      using view le Suc.prems by (simp_all add: frameSizeOf_def kFrameHeaderSize_def)
    ultimately have IH: "frameLoop n onFrame ?s
        = (if badHeader r then LoopInvalid else LoopDone, deliver onFrame (tl fs) ?s)
      \<and> rx_view (deliver onFrame (tl fs) ?s) = (m_clientFd s, m_rxBuffer s, length (m_rxBuffer s) - length r)"
      using Suc.IH [of ?s "tl fs"] view Suc.prems(1) by simp
    have "frameLoop (Suc n) onFrame s = frameLoop n onFrame ?s"
      using Some p view Suc.prems(1) badHeader_nextFrame [of ?b] by (auto simp: frameLoop_step Let_def)
    then show ?thesis
      using IH dec by (simp add: deliver_def)
  qed
qed

section \<open>The receive invariant\<close>

text \<open>
  Between calls the cursor is at the start of the buffer, the buffer holds no complete frame and no
  broken header, and without a client it is empty.
\<close>

definition server_inv :: "'z server_scheme \<Rightarrow> bool" where
  "server_inv s = (m_rxOffset s = 0 \<and> nextFrame (m_rxBuffer s) = None \<and> \<not> badHeader (m_rxBuffer s)
     \<and> (m_clientFd s < 0 \<longrightarrow> m_rxBuffer s = []))"

lemma server_inv_view: "rx_view s = rx_view t \<Longrightarrow> server_inv s = server_inv t"
  by (simp add: server_inv_def rx_view_def)

lemma badHeader_Nil: "\<not> badHeader []"
  by (simp add: badHeader_def kFrameHeaderSize_def)

lemma server_inv_empty [inv_intros]: "m_rxOffset s = 0 \<Longrightarrow> m_rxBuffer s = [] \<Longrightarrow> server_inv s"
  by (simp add: server_inv_def nextFrame_Nil badHeader_Nil)

lemma rx_view_closeClient:
  "quiet_notify n \<Longrightarrow> rx_view (closeClient n s) = (if 0 \<le> m_clientFd s then - 1 else m_clientFd s, [], 0)"
  by (simp add: closeClient_def rx_view_callNotify) (simp add: rx_view_def dropClientFd_def trace_def)

lemma server_inv_closeClient [inv_intros]: "quiet_notify n \<Longrightarrow> server_inv (closeClient n s)"
  using rx_view_closeClient [of n s] by (intro server_inv_empty) (simp_all add: rx_view_def)

lemma rx_view_take:
  "takeStatus s = (a, s') \<Longrightarrow> rx_view s' = rx_view s"
  "takeAccept s = (b, s') \<Longrightarrow> rx_view s' = rx_view s"
  "takeFd s = (b, s') \<Longrightarrow> rx_view s' = rx_view s"
  "takeWait s = (c, s') \<Longrightarrow> rx_view s' = rx_view s"
  by (auto simp: takeStatus_def takeAccept_def takeFd_def takeWait_def rx_view_def split: list.splits)

lemma server_inv_take:
  "takeStatus s = (a, s') \<Longrightarrow> server_inv s' = server_inv s"
  "takeAccept s = (b, s') \<Longrightarrow> server_inv s' = server_inv s"
  "takeFd s = (b, s') \<Longrightarrow> server_inv s' = server_inv s"
  "takeWait s = (c, s') \<Longrightarrow> server_inv s' = server_inv s"
  by (rule server_inv_view, erule rx_view_take)+

lemma server_inv_setNonBlocking: "setNonBlocking s = (e, s') \<Longrightarrow> server_inv s' = server_inv s"
  by (auto simp: setNonBlocking_def split: prod.splits option.splits dest: server_inv_take)

lemma server_inv_trace [simp]: "server_inv (trace evs s) = server_inv s"
  by (rule server_inv_view) (simp add: rx_view_def trace_def)

lemma server_inv_notify [simp]: "quiet_notify n \<Longrightarrow> server_inv (callNotify n s) = server_inv s"
  by (rule server_inv_view) (simp add: rx_view_callNotify)

lemma server_inv_notifyDisconnect [simp]: "server_inv (s\<lparr>m_notifyDisconnect := b\<rparr>) = server_inv s"
  by (rule server_inv_view) (simp add: rx_view_def)

lemma server_inv_os [simp]: "server_inv (s\<lparr>m_os := x\<rparr>) = server_inv s"
  by (rule server_inv_view) (simp add: rx_view_def)

lemma trace_sel [simp]:
  "m_clientFd (trace evs s) = m_clientFd s" "m_rxBuffer (trace evs s) = m_rxBuffer s"
  "m_rxOffset (trace evs s) = m_rxOffset s" "m_wakeFd (trace evs s) = m_wakeFd s"
  "m_serverFd (trace evs s) = m_serverFd s" "m_epollFd (trace evs s) = m_epollFd s"
  "m_notifyDisconnect (trace evs s) = m_notifyDisconnect s" "m_socketPath (trace evs s) = m_socketPath s"
  by (simp_all add: trace_def)

lemma server_inv_stop [inv_intros]: "server_inv (stop s)"
  by (rule server_inv_empty) (simp_all add: stop_def Let_def)

lemma server_inv_drain [simp]: "server_inv (drainWakeFd s) = server_inv s"
  by (simp add: drainWakeFd_def)

lemma server_inv_wakeup [simp]: "server_inv (server_wakeup s) = server_inv s"
  by (simp add: server_wakeup_def)

lemma server_inv_dropped [inv_intros]: "server_inv (s\<lparr>m_rxBuffer := [], m_rxOffset := 0\<rparr>)"
  by (rule server_inv_empty) simp_all

lemma server_inv_acceptClient:
  assumes n: "quiet_notify n" and s: "server_inv s" and a: "acceptClient n s = (e, new, s')"
  shows "server_inv s'"
proof -
  obtain r s1 where r: "takeAccept s = (r, s1)"
    by fastforce
  have i1: "server_inv s1"
    using s r server_inv_take(2) by blast
  show ?thesis
  proof (cases r)
    case (Inr err)
    then have "s' = s1"
      using a r by (cases err) (simp_all add: acceptClient_def)
    with i1 show ?thesis by simp
  next
    case (Inl fd)
    obtain nb s2 where nb: "setNonBlocking s1 = (nb, s2)"
      by fastforce
    have i2: "server_inv s2"
      using i1 server_inv_setNonBlocking [OF nb] by simp
    show ?thesis
    proof (cases nb)
      case (Some err)
      then have "s' = trace [Closed (int fd)] s2"
        using a r Inl nb by (simp add: acceptClient_def)
      with i2 show ?thesis by simp
    next
      case None
      let ?t = "if 0 \<le> m_clientFd s2 then closeClient n s2 else s2"
      obtain st s4 where st: "takeStatus (?t\<lparr>m_clientFd := int fd\<rparr>) = (st, s4)"
        by fastforce
      have "rx_view s4 = (int fd, [], 0)"
        using rx_view_take(1) [OF st] rx_view_closeClient [OF n, of s2] i2
        by (auto simp: rx_view_def server_inv_def)
      then show ?thesis
        using a r Inl nb None st
        by (cases st) (auto simp: acceptClient_def Let_def rx_view_def intro!: server_inv_empty)
    qed
  qed
qed

lemma server_inv_compact:
  assumes "frames.decode (m_rxBuffer s) = (fs, r)" and "m_rxOffset s = length (m_rxBuffer s) - length r"
    and "suffix r (m_rxBuffer s)" and "\<not> badHeader r" and "0 \<le> m_clientFd s"
  shows "server_inv (compact s)" and "m_rxBuffer (compact s) = r"
proof -
  have "drop (m_rxOffset s) (m_rxBuffer s) = r"
    using assms(2,3) by (auto simp: suffix_def)
  then show r: "m_rxBuffer (compact s) = r"
    using assms(2,3) by (auto simp: compact_def suffix_def)
  have "nextFrame r = None"
    using frames.decode_rest [of "m_rxBuffer s"] assms(1) by simp
  moreover have "m_rxOffset (compact s) = 0" "m_clientFd (compact s) = m_clientFd s"
    by (simp_all add: compact_def)
  ultimately show "server_inv (compact s)"
    using r assms(4,5) by (simp add: server_inv_def)
qed

lemma decode_suffix: "frames.decode b = (fs, r) \<Longrightarrow> suffix r b"
proof (induction b arbitrary: fs rule: frames.decode.induct)
  case (1 b)
  show ?case
  proof (cases "nextFrame b")
    case (Some p)
    obtain f q where p: "p = (f, q)"
      by (cases p)
    have "suffix r q"
      using 1(1) [OF Some p [symmetric], of "fst (frames.decode q)"] 1(2) frames.decode_Some [of b f q] Some p by auto
    moreover have "suffix q b"
      using nextFrame_size [of b f q] Some p by (simp add: suffix_drop)
    ultimately show ?thesis
      using suffix_order.trans by blast
  qed (use 1 in \<open>simp add: frames.decode_None\<close>)
qed

text \<open>The whole of \<^verbatim>\<open>readClient\<close> when the socket runs dry: deliver, keep the rest.\<close>

lemma readClient_blocked:
  assumes f: "quiet_frame onFrame" and inv: "server_inv s" and c: "0 \<le> m_clientFd s"
    and rl: "readLoop (os_reads (m_os s)) = (bs, ReadBlocked, rs)"
    and dec: "frames.decode (m_rxBuffer s @ bs) = (fs, r)" and ok: "\<not> badHeader r"
  shows "readClient onFrame n s
     = (None, compact (deliver onFrame fs (s\<lparr>m_rxBuffer := m_rxBuffer s @ bs, m_os := (m_os s)\<lparr>os_reads := rs\<rparr>\<rparr>)))"
    and "rx_view (snd (readClient onFrame n s)) = (m_clientFd s, r, 0)"
    and "server_inv (snd (readClient onFrame n s))"
proof -
  let ?s = "s\<lparr>m_rxBuffer := m_rxBuffer s @ bs, m_os := (m_os s)\<lparr>os_reads := rs\<rparr>\<rparr>"
  let ?d = "deliver onFrame fs ?s"
  have *: "frameLoop (Suc (length (m_rxBuffer ?s))) onFrame ?s = (LoopDone, ?d)
      \<and> rx_view ?d = (m_clientFd s, m_rxBuffer s @ bs, length (m_rxBuffer s @ bs) - length r)"
    using frameLoop_frames [OF f, of ?s "Suc (length (m_rxBuffer ?s))" fs r] inv c dec ok
    by (simp add: server_inv_def)
  then show 1: "readClient onFrame n s = (None, compact ?d)"
    by (simp add: readClient_def rl Let_def)
  have "server_inv (compact ?d)" "m_rxBuffer (compact ?d) = r"
    by (rule server_inv_compact [of _ fs r]; use * dec ok c decode_suffix [OF dec] in \<open>simp add: rx_view_def\<close>)+
  moreover have "m_clientFd (compact ?d) = m_clientFd s"
    using * by (simp add: compact_def rx_view_def)
  ultimately show "rx_view (snd (readClient onFrame n s)) = (m_clientFd s, r, 0)"
    "server_inv (snd (readClient onFrame n s))"
    by (simp_all add: 1) (simp_all add: rx_view_def server_inv_def)
qed

lemma server_inv_readClient:
  assumes f: "quiet_frame onFrame" and n: "quiet_notify n" and inv: "server_inv s" and c: "0 \<le> m_clientFd s"
  shows "server_inv (snd (readClient onFrame n s))"
proof -
  obtain bs e rs where rl: "readLoop (os_reads (m_os s)) = (bs, e, rs)"
    using prod_cases3 by blast
  obtain fs r where dec: "frames.decode (m_rxBuffer s @ bs) = (fs, r)"
    by fastforce
  show ?thesis
  proof (cases "e = ReadBlocked \<and> badHeader r")
    case True
    let ?s = "s\<lparr>m_rxBuffer := m_rxBuffer s @ bs, m_os := (m_os s)\<lparr>os_reads := rs\<rparr>\<rparr>"
    have "frameLoop (Suc (length (m_rxBuffer ?s))) onFrame ?s = (LoopInvalid, deliver onFrame fs ?s)"
      using frameLoop_frames [OF f, of ?s "Suc (length (m_rxBuffer ?s))" fs r] inv c dec True
      by (simp add: server_inv_def)
    then show ?thesis
      using True n by (simp add: readClient_def rl Let_def server_inv_closeClient)
  next
    case False
    then show ?thesis
      using readClient_blocked(3) [OF f inv c _ dec] rl n
      by (cases e) (auto simp: readClient_def Let_def server_inv_closeClient)
  qed
qed

text \<open>What every single reaction keeps, a round of \<^verbatim>\<open>pollOnce\<close> keeps.\<close>

lemma handleReady_preserves:
  assumes drain: "\<And>s. P s \<Longrightarrow> P (drainWakeFd s)"
    and accept: "\<And>s e new s'. P s \<Longrightarrow> acceptClient (cb_onDisconnected cb) s = (e, new, s')
      \<Longrightarrow> P (if e = None \<and> new then callNotify (cb_onConnected cb) s' else s')"
    and close: "\<And>s. P s \<Longrightarrow> 0 \<le> m_clientFd s \<Longrightarrow> P (closeClient (cb_onDisconnected cb) s)"
    and read: "\<And>s. P s \<Longrightarrow> 0 \<le> m_clientFd s
      \<Longrightarrow> P (snd (readClient (cb_onFrame cb) (cb_onDisconnected cb) s))"
  shows "P s \<Longrightarrow> P (snd (handleReady cb evs s))"
proof (induction evs arbitrary: s)
  case (Cons ev evs)
  obtain fd hup inp where ev: "ev = Ready fd hup inp"
    by (cases ev)
  have P: "P s"
    by (rule Cons.prems)
  note IH = Cons.IH
  consider (wake) "int fd = m_wakeFd s" | (server) "int fd \<noteq> m_wakeFd s" "int fd = m_serverFd s"
    | (client) "int fd \<noteq> m_wakeFd s" "int fd \<noteq> m_serverFd s" "int fd = m_clientFd s"
    | (other) "int fd \<noteq> m_wakeFd s" "int fd \<noteq> m_serverFd s" "int fd \<noteq> m_clientFd s"
    by blast
  then show ?case
  proof cases
    case wake
    then show ?thesis
      using IH [OF drain [OF P]] by (simp add: ev)
  next
    case server
    obtain e new s' where a: "acceptClient (cb_onDisconnected cb) s = (e, new, s')"
      using prod_cases3 by blast
    then show ?thesis
      using server accept [OF P a] IH [OF accept [OF P a]]
      by (cases e) (simp_all add: ev)
  next
    case client
    show ?thesis
    proof (cases "hup \<or> \<not> inp")
      case True
      then show ?thesis
        using client IH [OF close [OF P]] IH [OF P] by (cases hup) (simp_all add: ev)
    next
      case False
      obtain e s' where r: "readClient (cb_onFrame cb) (cb_onDisconnected cb) s = (e, s')"
        by fastforce
      then have "P s'"
        using read [OF P] client by simp
      then show ?thesis
        using False client r IH [of s'] by (cases e) (simp_all add: ev)
    qed
  next
    case other
    then show ?thesis
      using IH [OF P] by (simp add: ev)
  qed
qed simp

definition quiet_callbacks :: "'z callbacks \<Rightarrow> bool" where
  "quiet_callbacks cb =
     (quiet_notify (cb_onConnected cb) \<and> quiet_notify (cb_onDisconnected cb) \<and> quiet_frame (cb_onFrame cb))"

lemma server_inv_handleReady:
  "quiet_callbacks cb \<Longrightarrow> server_inv s \<Longrightarrow> server_inv (snd (handleReady cb evs s))"
  by (rule handleReady_preserves [where P = server_inv])
    (auto simp: quiet_callbacks_def server_inv_closeClient server_inv_readClient dest: server_inv_acceptClient
      split: if_splits)

lemma server_inv_pollOnce:
  assumes "quiet_callbacks cb" and "server_inv s"
  shows "server_inv (snd (server_pollOnce cb s))"
proof -
  let ?s1 = "if m_notifyDisconnect s then callNotify (cb_onDisconnected cb) (s\<lparr>m_notifyDisconnect := False\<rparr>) else s"
  obtain w s2 where w: "takeWait ?s1 = (w, s2)"
    by fastforce
  have "server_inv ?s1"
    using assms by (simp add: quiet_callbacks_def)
  then have "server_inv s2"
    using server_inv_take(4) [OF w] by simp
  then have "server_inv (snd (case w of WaitErr EINTR \<Rightarrow> (None, s2)
      | WaitErr e \<Rightarrow> (Some (errnoString ''epoll_wait'' e), s2) | WaitEvents evs \<Rightarrow> handleReady cb evs s2))"
    using server_inv_handleReady [OF assms(1)] by (simp split: wait_result.split errno.split)
  then show ?thesis
    using assms(2) w by (cases w) (auto simp: server_pollOnce_def Let_def split: errno.splits)
qed

lemma server_inv_orStop:
  "(\<And>s. server_inv s \<Longrightarrow> server_inv (snd (k s))) \<Longrightarrow> server_inv s \<Longrightarrow> server_inv (snd (orStop what k s))"
  by (auto simp: orStop_def server_inv_stop split: prod.splits option.splits dest: server_inv_take(1))

lemma server_inv_fds [simp]:
  "server_inv (s\<lparr>m_serverFd := a\<rparr>) = server_inv s" "server_inv (s\<lparr>m_epollFd := a\<rparr>) = server_inv s"
  "server_inv (s\<lparr>m_wakeFd := a\<rparr>) = server_inv s"
  by (rule server_inv_view, simp add: rx_view_def)+

lemma server_inv_addWake: "server_inv s \<Longrightarrow> server_inv (snd (addWake s))"
  unfolding addWake_def by (rule server_inv_orStop) (auto intro: server_inv_empty)

lemma server_inv_openWake: "server_inv s \<Longrightarrow> server_inv (snd (openWake s))"
  by (auto simp: openWake_def server_inv_addWake server_inv_stop split: prod.split sum.split
      dest: server_inv_take(3))

lemma server_inv_openEpoll: "server_inv s \<Longrightarrow> server_inv (snd (openEpoll s))"
  by (auto simp: openEpoll_def server_inv_stop split: prod.split sum.split dest: server_inv_take(3)
      intro!: server_inv_orStop server_inv_openWake)

lemma server_inv_start: "server_inv (snd (server_start s))"
proof -
  have *: "server_inv (snd (orStop ''bind'' (orStop ''chmod'' (orStop ''listen'' openEpoll)) t))"
    if "server_inv t" for t :: "'a server_scheme"
    using that by (intro server_inv_orStop server_inv_openEpoll)
  show ?thesis
    using server_inv_take(3) [of "stop s"] server_inv_stop [of s]
    by (auto simp: server_start_def Let_def server_inv_stop split: prod.split sum.split intro!: *)
qed

lemma server_inv_deferred: "server_inv (closeClientDeferred s)"
  by (rule server_inv_empty) (simp_all add: closeClientDeferred_def)

lemma rx_view_write: "rx_view (snd (serverWrite bs s)) = rx_view s"
  by (simp add: serverWrite_def rx_view_def split: prod.split)

lemma server_inv_write: "serverWrite bs s = (e, s') \<Longrightarrow> server_inv s' = server_inv s"
  by (rule server_inv_view) (metis rx_view_write snd_conv)

lemma server_inv_send: "server_inv s \<Longrightarrow> server_inv (snd (server_send h p s))"
  by (auto simp: server_send_def Let_def server_inv_deferred split: prod.split option.split
      dest: server_inv_write)

section \<open>Reachable states\<close>

text \<open>
  What can happen to a server, in any order: its operations, and a change of what the system calls
  are going to answer.
\<close>

inductive server_step :: "'z callbacks \<Rightarrow> 'z server_scheme \<Rightarrow> 'z server_scheme \<Rightarrow> bool"
  for cb :: "'z callbacks"
where
  start: "server_step cb s (snd (server_start s))"
| stop: "server_step cb s (stop s)"
| poll: "server_step cb s (snd (server_pollOnce cb s))"
| send: "server_step cb s (snd (server_send h p s))"
| wakeup: "server_step cb s (server_wakeup s)"
| environment: "server_step cb s (s\<lparr>m_os := x\<rparr>)"

inductive_cases server_stepE: "server_step cb s s'"

definition server_fresh :: "'z server_scheme \<Rightarrow> bool" where
  "server_fresh s = (m_serverFd s = - 1 \<and> m_epollFd s = - 1 \<and> m_clientFd s = - 1 \<and> m_wakeFd s = - 1
     \<and> \<not> m_notifyDisconnect s \<and> m_rxBuffer s = [] \<and> m_rxOffset s = 0)"

lemma server_inv_step: "quiet_callbacks cb \<Longrightarrow> server_step cb s s' \<Longrightarrow> server_inv s \<Longrightarrow> server_inv s'"
  by (elim server_stepE) (auto intro: server_inv_start server_inv_stop server_inv_pollOnce server_inv_send)

lemma server_inv_bound: "server_inv s \<Longrightarrow> length (m_rxBuffer s) < kFrameHeaderSize + unat kMaxPayloadSize"
  by (auto simp: server_inv_def nextFrame_def badHeader_def Let_def isValidFrameHeader_def word_le_nat_alt
      not_less kMaxPayloadSize_def split: if_splits)

section \<open>What goes out\<close>

lemma writeAll_sent:
  "writeAll rs bs = (e, sent, rs') \<Longrightarrow> prefix sent bs \<and> (e = None \<longleftrightarrow> sent = bs)"
proof (induction rs bs arbitrary: e sent rs' rule: writeAll.induct)
  case (3 n rs b bs)
  show ?case
  proof (cases "n = 0")
    case False
    obtain e1 sent1 rs1 where w: "writeAll rs (drop n (b # bs)) = (e1, sent1, rs1)"
      using prod_cases3 by blast
    then have "prefix sent1 (drop n (b # bs))" "e1 = None \<longleftrightarrow> sent1 = drop n (b # bs)"
      using 3(1) [OF False w] by auto
    moreover have "e = e1" "sent = take n (b # bs) @ sent1"
      using 3(2) False w by auto
    ultimately show ?thesis
      by (metis append_take_drop_id same_append_eq same_prefix_prefix)
  qed (use 3 in auto)
next
  case (6 past p rs b bs)
  then show ?case
    by (auto split: if_splits poll_result.splits errno.splits)
qed auto

text \<open>The bytes written to one descriptor.\<close>

fun wroteOn :: "int \<Rightarrow> os_event list \<Rightarrow> bytes" where
  "wroteOn fd [] = []"
| "wroteOn fd (Wrote fd' bs # evs) = (if fd' = fd then bs @ wroteOn fd evs else wroteOn fd evs)"
| "wroteOn fd (_ # evs) = wroteOn fd evs"

lemma wroteOn_append [simp]: "wroteOn fd (as @ bs) = wroteOn fd as @ wroteOn fd bs"
  by (induction fd as rule: wroteOn.induct) auto

lemma serverWrite_trace:
  assumes "serverWrite bs s = (e, s')"
  shows "\<exists>sent. prefix sent bs \<and> (e = None \<longleftrightarrow> sent = bs)
     \<and> wroteOn (m_clientFd s) (os_trace (m_os s')) = wroteOn (m_clientFd s) (os_trace (m_os s)) @ sent
     \<and> m_clientFd s' = m_clientFd s \<and> m_notifyDisconnect s' = m_notifyDisconnect s"
proof -
  obtain e1 sent rs where w: "writeAll (os_sends (m_os s)) bs = (e1, sent, rs)"
    using prod_cases3 by blast
  show ?thesis
    using assms w writeAll_sent [OF w] by (intro exI [of _ sent]) (auto simp: serverWrite_def trace_def)
qed

lemma closeClientDeferred_trace:
  "0 \<le> m_clientFd s \<Longrightarrow> wroteOn fd (os_trace (m_os (closeClientDeferred s))) = wroteOn fd (os_trace (m_os s))
     \<and> m_clientFd (closeClientDeferred s) = - 1 \<and> m_notifyDisconnect (closeClientDeferred s)"
  by (simp add: closeClientDeferred_def dropClientFd_def trace_def)

lemma server_send_written:
  assumes "0 \<le> m_clientFd s" and "server_send h p s = (e, s')"
  shows "\<exists>sent. prefix sent (frame_bytes (h\<lparr>hdr_payloadSize := word_of_nat (length p)\<rparr>, p))
     \<and> (e = None \<longleftrightarrow> sent = frame_bytes (h\<lparr>hdr_payloadSize := word_of_nat (length p)\<rparr>, p))
     \<and> wroteOn (m_clientFd s) (os_trace (m_os s')) = wroteOn (m_clientFd s) (os_trace (m_os s)) @ sent
     \<and> (if e = None then m_clientFd s' = m_clientFd s
        else m_clientFd s' = - 1 \<and> m_notifyDisconnect s' \<and> m_rxBuffer s' = [])"
proof -
  let ?h = "header_bytes (h\<lparr>hdr_payloadSize := word_of_nat (length p)\<rparr>)"
  obtain e1 s1 where w1: "serverWrite ?h s = (e1, s1)"
    by fastforce
  obtain e2 s2 where w2: "serverWrite p s1 = (e2, s2)"
    by fastforce
  note t1 = serverWrite_trace [OF w1] and t2 = serverWrite_trace [OF w2]
  have cl: "m_rxBuffer (closeClientDeferred t) = []" for t :: "'a server_scheme"
    by (simp add: closeClientDeferred_def)
  show ?thesis
  proof (cases e1)
    case (Some x)
    then have "e = Some x" "s' = closeClientDeferred s1"
      using assms w1 by (simp_all add: server_send_def)
    moreover obtain sent where "prefix sent ?h" "sent \<noteq> ?h"
      "wroteOn (m_clientFd s) (os_trace (m_os s1)) = wroteOn (m_clientFd s) (os_trace (m_os s)) @ sent"
      "m_clientFd s1 = m_clientFd s"
      using t1 Some by auto
    moreover have "sent \<noteq> ?h @ p" if "prefix sent ?h" "sent \<noteq> ?h" for sent
      using that by (auto simp: prefix_def)
    ultimately show ?thesis
      using closeClientDeferred_trace [of s1 "m_clientFd s"] assms(1) cl [of s1]
      by (intro exI [of _ sent]) (auto simp: frame_bytes_def)
  next
    case None
    then have c1: "m_clientFd s1 = m_clientFd s"
      and tr1: "wroteOn (m_clientFd s) (os_trace (m_os s1)) = wroteOn (m_clientFd s) (os_trace (m_os s)) @ ?h"
      using t1 by auto
    obtain sent where sent: "prefix sent p" "e2 = None \<longleftrightarrow> sent = p"
      "wroteOn (m_clientFd s) (os_trace (m_os s2)) = wroteOn (m_clientFd s) (os_trace (m_os s1)) @ sent"
      "m_clientFd s2 = m_clientFd s"
      using t2 c1 by auto
    show ?thesis
    proof (cases "p = []")
      case True
      then show ?thesis
        using assms w1 None c1 tr1 by (intro exI [of _ ?h]) (auto simp: server_send_def frame_bytes_def)
    next
      case False
      then show ?thesis
        using assms w1 w2 None sent tr1 closeClientDeferred_trace [of s2 "m_clientFd s"] cl [of s2]
        by (intro exI [of _ "?h @ sent"]) (cases e2; auto simp: server_send_def frame_bytes_def)
    qed
  qed
qed

section \<open>A recording client of the server\<close>

text \<open>
  A server whose owner records the notifications (true: connected) and the frames it is given.
\<close>

record recorder = server +
  rec_log :: "bool list"
  rec_frames :: "frame list"

definition recording :: "\<lparr>rec_log :: bool list, rec_frames :: frame list\<rparr> callbacks" where
  "recording = \<lparr>cb_onConnected = Some (\<lambda>s. s\<lparr>rec_log := rec_log s @ [True]\<rparr>),
     cb_onDisconnected = Some (\<lambda>s. s\<lparr>rec_log := rec_log s @ [False]\<rparr>),
     cb_onFrame = Some (\<lambda>h p s. s\<lparr>rec_frames := rec_frames s @ [(h, p)]\<rparr>)\<rparr>"

lemma quiet_recording: "quiet_callbacks recording"
  by (simp add: quiet_callbacks_def recording_def quiet_notify_def quiet_frame_def rx_view_def)

lemmas quiet_recording_parts = quiet_recording [unfolded quiet_callbacks_def]

lemma deliver_recording:
  "rec_frames (deliver (cb_onFrame recording) fs s) = rec_frames s @ fs
   \<and> rec_log (deliver (cb_onFrame recording) fs s) = rec_log s
   \<and> m_notifyDisconnect (deliver (cb_onFrame recording) fs s) = m_notifyDisconnect s"
  unfolding deliver_def
  by (induction fs arbitrary: s) (simp_all add: deliver1_def recording_def Let_def)

lemma compact_recording:
  "rec_frames (compact s) = rec_frames s" "rec_log (compact s) = rec_log s"
  "m_notifyDisconnect (compact s) = m_notifyDisconnect s" "m_clientFd (compact s) = m_clientFd s"
  by (simp_all add: compact_def)

text \<open>Alternation: what the owner has been told, against what the server knows.\<close>

fun alternates :: "bool \<Rightarrow> bool list \<Rightarrow> bool" where
  "alternates b [] = True"
| "alternates b (x # xs) = (x = b \<and> alternates (\<not> b) xs)"

lemma alternates_snoc:
  "alternates b (xs @ [x]) = (alternates b xs \<and> x = (b = even (length xs)))"
  by (induction xs arbitrary: b) auto

definition live :: "'z server_scheme \<Rightarrow> bool" where
  "live s = (0 \<le> m_clientFd s \<or> m_notifyDisconnect s)"

definition session_inv :: "'z recorder_scheme \<Rightarrow> bool" where
  "session_inv s = (alternates True (rec_log s) \<and> live s = odd (length (rec_log s))
     \<and> \<not> (0 \<le> m_clientFd s \<and> m_notifyDisconnect s))"

lemma session_inv_cong:
  "rec_log t = rec_log s \<Longrightarrow> m_clientFd t = m_clientFd s \<Longrightarrow> m_notifyDisconnect t = m_notifyDisconnect s
     \<Longrightarrow> session_inv t = session_inv s"
  by (simp add: session_inv_def live_def)

lemma session_inv_updates [simp]:
  "session_inv (s\<lparr>m_os := x\<rparr>) = session_inv s" "session_inv (s\<lparr>m_rxBuffer := b\<rparr>) = session_inv s"
  "session_inv (s\<lparr>m_rxOffset := n\<rparr>) = session_inv s" "session_inv (trace evs s) = session_inv s"
  "session_inv (drainWakeFd s) = session_inv s" "session_inv (compact s) = session_inv s"
  by (simp_all add: session_inv_def live_def trace_def drainWakeFd_def compact_def)

lemma callNotify_recording [simp]:
  "callNotify (cb_onConnected recording) s = s\<lparr>rec_log := rec_log s @ [True]\<rparr>"
  "callNotify (cb_onDisconnected recording) s = s\<lparr>rec_log := rec_log s @ [False]\<rparr>"
  by (simp_all add: callNotify_def recording_def)

lemma session_inv_closeClient:
  assumes "session_inv s" and "0 \<le> m_clientFd s"
  shows "session_inv (closeClient (cb_onDisconnected recording) s)
     \<and> \<not> m_notifyDisconnect (closeClient (cb_onDisconnected recording) s)
     \<and> m_clientFd (closeClient (cb_onDisconnected recording) s) = - 1"
  using assms by (simp add: closeClient_def dropClientFd_def trace_def session_inv_def live_def alternates_snoc)

definition poll_inv :: "recorder \<Rightarrow> bool" where
  "poll_inv s = (server_inv s \<and> session_inv s \<and> \<not> m_notifyDisconnect s)"

lemma take_session:
  "takeStatus s = (a, s') \<Longrightarrow> session_inv s' = session_inv s \<and> m_notifyDisconnect s' = m_notifyDisconnect s
     \<and> m_clientFd s' = m_clientFd s \<and> rec_log s' = rec_log s"
  "takeAccept s = (b, s') \<Longrightarrow> session_inv s' = session_inv s \<and> m_notifyDisconnect s' = m_notifyDisconnect s
     \<and> m_clientFd s' = m_clientFd s"
  "takeWait s = (c, s') \<Longrightarrow> session_inv s' = session_inv s \<and> m_notifyDisconnect s' = m_notifyDisconnect s
     \<and> m_clientFd s' = m_clientFd s"
  by (auto simp: takeStatus_def takeAccept_def takeWait_def split: list.splits)

lemma setNonBlocking_session:
  "setNonBlocking s = (a, s') \<Longrightarrow> session_inv s' = session_inv s \<and> m_notifyDisconnect s' = m_notifyDisconnect s
     \<and> m_clientFd s' = m_clientFd s"
  by (auto simp: setNonBlocking_def split: prod.splits option.splits dest!: take_session(1))

lemma rec_log_trace [simp]: "rec_log (trace evs s) = rec_log s" "rec_frames (trace evs s) = rec_frames s"
  by (simp_all add: trace_def)

lemma session_acceptClient:
  assumes p: "session_inv s" "\<not> m_notifyDisconnect s"
    and a: "acceptClient (cb_onDisconnected recording) s = (e, new, s')"
  defines "t \<equiv> if e = None \<and> new then callNotify (cb_onConnected recording) s' else s'"
  shows "session_inv t \<and> \<not> m_notifyDisconnect t"
proof -
  obtain r s1 where r: "takeAccept s = (r, s1)"
    by fastforce
  have i1: "session_inv s1" "\<not> m_notifyDisconnect s1"
    using p take_session(2) [OF r] by simp_all
  show ?thesis
  proof (cases r)
    case (Inr err)
    then have "t = s1"
      using a r by (cases err) (simp_all add: acceptClient_def t_def)
    with i1 show ?thesis by simp
  next
    case (Inl fd)
    obtain nb s2 where nb: "setNonBlocking s1 = (nb, s2)"
      by fastforce
    have i2: "session_inv s2" "\<not> m_notifyDisconnect s2"
      using i1 setNonBlocking_session [OF nb] by simp_all
    show ?thesis
    proof (cases nb)
      case (Some err)
      then have "t = trace [Closed (int fd)] s2"
        using a r Inl nb by (simp add: acceptClient_def t_def)
      with i2 show ?thesis by simp
    next
      case None
      let ?t = "if 0 \<le> m_clientFd s2 then closeClient (cb_onDisconnected recording) s2 else s2"
      obtain st s4 where st: "takeStatus (?t\<lparr>m_clientFd := int fd\<rparr>) = (st, s4)"
        by fastforce
      have "session_inv ?t" "\<not> m_notifyDisconnect ?t" "m_clientFd ?t < 0"
        using i2 session_inv_closeClient [of s2] by auto
      then have "alternates True (rec_log s4)" "even (length (rec_log s4))" "\<not> m_notifyDisconnect s4"
        "m_clientFd s4 = int fd"
        using take_session(1) [OF st] by (simp_all add: session_inv_def live_def)
      then show ?thesis
        using a r Inl nb None st
        by (cases st) (auto simp: acceptClient_def Let_def t_def session_inv_def live_def alternates_snoc)
    qed
  qed
qed

lemma session_readClient:
  assumes p: "server_inv s" "session_inv s" "\<not> m_notifyDisconnect s" and c: "0 \<le> m_clientFd s"
  defines "t \<equiv> snd (readClient (cb_onFrame recording) (cb_onDisconnected recording) s)"
  shows "session_inv t \<and> \<not> m_notifyDisconnect t"
proof -
  note q = quiet_recording_parts
  obtain bs e rs where rl: "readLoop (os_reads (m_os s)) = (bs, e, rs)"
    using prod_cases3 by blast
  let ?s = "s\<lparr>m_rxBuffer := m_rxBuffer s @ bs, m_os := (m_os s)\<lparr>os_reads := rs\<rparr>\<rparr>"
  have s: "session_inv ?s" "0 \<le> m_clientFd ?s"
    using p c by simp_all
  obtain fs r where dec: "frames.decode (m_rxBuffer s @ bs) = (fs, r)"
    by fastforce
  have d: "frameLoop (Suc (length (m_rxBuffer ?s))) (cb_onFrame recording) ?s
      = (if badHeader r then LoopInvalid else LoopDone, deliver (cb_onFrame recording) fs ?s)"
    and v: "rx_view (deliver (cb_onFrame recording) fs ?s)
      = (m_clientFd s, m_rxBuffer s @ bs, length (m_rxBuffer s @ bs) - length r)"
    using frameLoop_frames [of "cb_onFrame recording" ?s "Suc (length (m_rxBuffer ?s))" fs r] p c dec q
    by (simp_all add: server_inv_def)
  have f: "session_inv (deliver (cb_onFrame recording) fs ?s) = session_inv ?s"
    "\<not> m_notifyDisconnect (deliver (cb_onFrame recording) fs ?s)"
    "0 \<le> m_clientFd (deliver (cb_onFrame recording) fs ?s)"
    using v c p(3) deliver_recording [of fs ?s]
    by (simp_all add: rx_view_def session_inv_def live_def)
  then show ?thesis
    using s session_inv_closeClient [OF s] session_inv_closeClient [of "deliver (cb_onFrame recording) fs ?s"] d rl
    by (cases e) (simp_all add: t_def readClient_def Let_def compact_recording)
qed

lemma notify_drainWakeFd [simp]: "m_notifyDisconnect (drainWakeFd s) = m_notifyDisconnect s"
  by (simp add: drainWakeFd_def)

lemma poll_inv_handleReady: "poll_inv s \<Longrightarrow> poll_inv (snd (handleReady recording evs s))"
proof (rule handleReady_preserves [where P = poll_inv])
  note q = quiet_recording_parts
  show "poll_inv (drainWakeFd s)" if "poll_inv s" for s
    using that by (simp add: poll_inv_def)
  show "poll_inv (if e = None \<and> new then callNotify (cb_onConnected recording) s' else s')"
    if "poll_inv s" "acceptClient (cb_onDisconnected recording) s = (e, new, s')" for s e new s'
  proof -
    have "server_inv s'"
      using that q server_inv_acceptClient [of "cb_onDisconnected recording" s e new s'] by (simp add: poll_inv_def)
    then have "server_inv (callNotify (cb_onConnected recording) s')"
      using q server_inv_notify by blast
    then show ?thesis
      using that session_acceptClient [of s e new s'] \<open>server_inv s'\<close>
      by (simp add: poll_inv_def del: callNotify_recording)
  qed
  show "poll_inv (closeClient (cb_onDisconnected recording) s)" if "poll_inv s" "0 \<le> m_clientFd s" for s
    using that session_inv_closeClient [of s] q server_inv_closeClient [of "cb_onDisconnected recording" s]
    by (simp add: poll_inv_def)
  show "poll_inv (snd (readClient (cb_onFrame recording) (cb_onDisconnected recording) s))"
    if "poll_inv s" "0 \<le> m_clientFd s" for s
    using that session_readClient [of s] q
      server_inv_readClient [of "cb_onFrame recording" "cb_onDisconnected recording" s]
    by (simp add: poll_inv_def)
qed

lemma session_pollOnce:
  assumes "server_inv s" and "session_inv s"
  shows "session_inv (snd (server_pollOnce recording s))"
proof -
  let ?s1 = "if m_notifyDisconnect s then callNotify (cb_onDisconnected recording) (s\<lparr>m_notifyDisconnect := False\<rparr>) else s"
  obtain w s2 where w: "takeWait ?s1 = (w, s2)"
    by fastforce
  have "server_inv ?s1"
    using assms by (simp add: server_inv_def)
  then have "poll_inv ?s1"
    using assms by (auto simp: poll_inv_def session_inv_def live_def alternates_snoc)
  then have "poll_inv s2"
    using take_session(3) [OF w] server_inv_take(4) [OF w] by (simp add: poll_inv_def)
  then have "session_inv (snd (handleReady recording evs s2))" for evs
    using poll_inv_handleReady by (simp add: poll_inv_def)
  then show ?thesis
    using \<open>poll_inv s2\<close> assms(2) w
    by (cases w) (auto simp: server_pollOnce_def Let_def poll_inv_def split: errno.splits)
qed

lemma serverWrite_recorder:
  "serverWrite bs s = (e, s') \<Longrightarrow> session_inv s' = session_inv s \<and> m_clientFd s' = m_clientFd s"
  by (auto simp: serverWrite_def split: prod.splits)

lemma session_deferred:
  "session_inv s \<Longrightarrow> 0 \<le> m_clientFd s \<Longrightarrow> session_inv (closeClientDeferred s)"
  by (auto simp: closeClientDeferred_def dropClientFd_def session_inv_def live_def)

lemma session_send: "session_inv s \<Longrightarrow> session_inv (snd (server_send h p s))"
  by (auto simp: server_send_def Let_def split: prod.split option.split
      dest!: serverWrite_recorder intro!: session_deferred)

text \<open>What can happen between a start and the next stop.\<close>

inductive session_step :: "recorder \<Rightarrow> recorder \<Rightarrow> bool" where
  poll: "session_step s (snd (server_pollOnce recording s))"
| send: "session_step s (snd (server_send h p s))"
| wakeup: "session_step s (server_wakeup s)"
| environment: "session_step s (s\<lparr>m_os := x\<rparr>)"

inductive_cases session_stepE: "session_step s s'"

lemma session_inv_step:
  "session_step s s' \<Longrightarrow> server_inv s \<and> session_inv s \<Longrightarrow> server_inv s' \<and> session_inv s'"
  by (elim session_stepE)
    (auto intro: server_inv_pollOnce quiet_recording session_pollOnce server_inv_send session_send
      simp: server_wakeup_def)

lemma readLoop_data: "\<forall>c \<in> set cs. c \<noteq> [] \<Longrightarrow> readLoop (map ReadData cs) = (concat cs, ReadBlocked, [])"
  by (induction cs) auto

lemma badHeader_rest:
  assumes "badHeader (snd (frames.decode b))"
  shows "badHeader (snd (frames.decode (b @ c)))"
proof -
  have "badHeader (snd (frames.decode b) @ c)"
    by (rule badHeader_append [OF assms])
  then show ?thesis
    using frames.decode_append [of b c] by (simp add: frames.decode_None badHeader_nextFrame)
qed

definition readBatch :: "bytes list \<Rightarrow> recorder \<Rightarrow> recorder" where
  "readBatch cs s = snd (readClient (cb_onFrame recording) (cb_onDisconnected recording)
     (s\<lparr>m_os := (m_os s)\<lparr>os_reads := map ReadData cs\<rparr>\<rparr>))"

lemma readBatch_frames:
  assumes "server_inv s" and "0 \<le> m_clientFd s" and "\<forall>c \<in> set cs. c \<noteq> []"
    and "\<not> badHeader (snd (frames.decode (m_rxBuffer s @ concat cs)))"
  shows "rec_frames (readBatch cs s) = rec_frames s @ fst (frames.decode (m_rxBuffer s @ concat cs))
     \<and> m_rxBuffer (readBatch cs s) = snd (frames.decode (m_rxBuffer s @ concat cs))
     \<and> m_clientFd (readBatch cs s) = m_clientFd s \<and> server_inv (readBatch cs s)"
proof -
  let ?s = "s\<lparr>m_os := (m_os s)\<lparr>os_reads := map ReadData cs\<rparr>\<rparr>"
  have b: "readClient (cb_onFrame recording) (cb_onDisconnected recording) ?s
      = (None, compact (deliver (cb_onFrame recording) (fst (frames.decode (m_rxBuffer s @ concat cs)))
           (?s\<lparr>m_rxBuffer := m_rxBuffer s @ concat cs, m_os := (m_os ?s)\<lparr>os_reads := []\<rparr>\<rparr>)))"
    and "rx_view (snd (readClient (cb_onFrame recording) (cb_onDisconnected recording) ?s))
      = (m_clientFd s, snd (frames.decode (m_rxBuffer s @ concat cs)), 0)"
    and "server_inv (snd (readClient (cb_onFrame recording) (cb_onDisconnected recording) ?s))"
    using readClient_blocked [of "cb_onFrame recording" ?s "concat cs" "[]"
        "fst (frames.decode (m_rxBuffer s @ concat cs))" "snd (frames.decode (m_rxBuffer s @ concat cs))"]
      quiet_recording_parts assms readLoop_data [of cs] by simp_all
  then show ?thesis
    by (simp add: readBatch_def rx_view_def compact_recording deliver_recording)
qed

lemma readBatches_frames:
  assumes "server_inv s" and "0 \<le> m_clientFd s" and "\<forall>cs \<in> set css. \<forall>c \<in> set cs. c \<noteq> []"
    and "\<not> badHeader (snd (frames.decode (m_rxBuffer s @ concat (map concat css))))"
  shows "rec_frames (fold readBatch css s)
       = rec_frames s @ fst (frames.decode (m_rxBuffer s @ concat (map concat css)))
     \<and> m_rxBuffer (fold readBatch css s) = snd (frames.decode (m_rxBuffer s @ concat (map concat css)))"
  using assms
proof (induction css arbitrary: s)
  case Nil
  then show ?case
    by (simp add: frames.decode_None server_inv_def)
next
  case (Cons cs css)
  let ?b = "m_rxBuffer s @ concat cs" and ?rest = "concat (map concat css)"
  have ok: "\<not> badHeader (snd (frames.decode ?b))"
    using badHeader_rest [of ?b ?rest] Cons.prems(4) by auto
  note one = readBatch_frames [OF Cons.prems(1,2) _ ok]
  have split: "frames.decode (?b @ ?rest) = (fst (frames.decode ?b) @ fst (frames.decode (snd (frames.decode ?b) @ ?rest)),
      snd (frames.decode (snd (frames.decode ?b) @ ?rest)))"
    by (rule frames.decode_append)
  have "\<not> badHeader (snd (frames.decode (snd (frames.decode ?b) @ ?rest)))"
    using Cons.prems(4) split by simp
  then show ?case
    using Cons.IH [of "readBatch cs s"] one split Cons.prems by simp
qed

section \<open>Properties\<close>


definition sampleServer :: recorder where
  "sampleServer = \<lparr>m_socketPath = ''/run/a.sock'', m_serverFd = 3, m_epollFd = 4, m_clientFd = 6, m_wakeFd = 5,
     m_notifyDisconnect = False, m_rxBuffer = [], m_rxOffset = 0,
     m_os = \<lparr>os_fds = [], os_accepts = [], os_status = [], os_reads = [], os_sends = [], os_waits = [],
       os_wake = 0, os_trace = []\<rparr>, rec_log = [True], rec_frames = []\<rparr>"

definition sampleFrame :: frame where
  "sampleFrame = (default_header\<lparr>hdr_payloadSize := 2\<rparr>, [123, 125])"



definition freshServer :: recorder where
  "freshServer = sampleServer\<lparr>m_serverFd := - 1, m_epollFd := - 1, m_clientFd := - 1, m_wakeFd := - 1, rec_log := []\<rparr>"


text \<open>
  C19: the owner of the transport is told of connections and disconnections strictly in turn,
  starting with a connection, and is behind the transport exactly when a disconnection is pending:
  a session replaced by a new client, a failed write and a peer that went away all end a session
  once. This holds for any order of polls, sends and wake-ups between a start and the next stop.
\<close>

theorem notifications_alternate:
  assumes "server_inv s" and "\<not> live s" and "rec_log s = []" and "session_step\<^sup>*\<^sup>* s s'"
  shows "alternates True (rec_log s')
     \<and> (0 \<le> m_clientFd s' \<or> m_notifyDisconnect s') = odd (length (rec_log s'))
     \<and> \<not> (0 \<le> m_clientFd s' \<and> m_notifyDisconnect s')"
proof -
  have "server_inv s' \<and> session_inv s'"
    using assms(4)
  proof (induction rule: rtranclp_induct)
    case base
    then show ?case
      using assms(1-3) by (auto simp: session_inv_def live_def)
  next
    case (step y z)
    then show ?case
      using session_inv_step by blast
  qed
  then show ?thesis
    by (simp add: session_inv_def live_def)
qed

theorem notifications_alternate_witness:
  "alternates True (rec_log (snd (server_pollOnce recording freshServer)))
     \<and> (0 \<le> m_clientFd (snd (server_pollOnce recording freshServer))
         \<or> m_notifyDisconnect (snd (server_pollOnce recording freshServer)))
       = odd (length (rec_log (snd (server_pollOnce recording freshServer))))
     \<and> \<not> (0 \<le> m_clientFd (snd (server_pollOnce recording freshServer))
         \<and> m_notifyDisconnect (snd (server_pollOnce recording freshServer)))"
  by (rule notifications_alternate [of freshServer])
    (auto simp: freshServer_def sampleServer_def live_def server_inv_empty intro: session_step.poll)

text \<open>
  C20: a send writes the whole frame or ends the session. What reaches the client's socket is a
  prefix of the frame's bytes, and all of them exactly when the call succeeds; a failed send closes
  the connection, leaves the disconnection pending and empties the receive buffer, so a half-written
  frame is never followed by another.
\<close>

theorem server_send_all_or_close:
  assumes "0 \<le> m_clientFd s" and "server_send h p s = (e, s')"
  shows "\<exists>sent. prefix sent (frame_bytes (h\<lparr>hdr_payloadSize := word_of_nat (length p)\<rparr>, p))
     \<and> (e = None \<longleftrightarrow> sent = frame_bytes (h\<lparr>hdr_payloadSize := word_of_nat (length p)\<rparr>, p))
     \<and> wroteOn (m_clientFd s) (os_trace (m_os s')) = wroteOn (m_clientFd s) (os_trace (m_os s)) @ sent
     \<and> (if e = None then m_clientFd s' = m_clientFd s
        else m_clientFd s' = - 1 \<and> m_notifyDisconnect s' \<and> m_rxBuffer s' = [])"
  using assms by (rule server_send_written)

theorem server_send_all_or_close_witness:
  "\<exists>sent. prefix sent (frame_bytes (default_header\<lparr>hdr_payloadSize := word_of_nat (length [1, 2])\<rparr>, [1, 2]))
     \<and> (Some ''write timed out; peer is not draining the socket'' = None
         \<longleftrightarrow> sent = frame_bytes (default_header\<lparr>hdr_payloadSize := word_of_nat (length [1, 2])\<rparr>, [1, 2]))
     \<and> wroteOn 6 (os_trace (m_os (snd (server_send default_header [1, 2] sampleServer)))) = [] @ sent
     \<and> (if Some ''write timed out; peer is not draining the socket'' = None
        then m_clientFd (snd (server_send default_header [1, 2] sampleServer)) = 6
        else m_clientFd (snd (server_send default_header [1, 2] sampleServer)) = - 1
          \<and> m_notifyDisconnect (snd (server_send default_header [1, 2] sampleServer))
          \<and> m_rxBuffer (snd (server_send default_header [1, 2] sampleServer)) = [])"
  using server_send_all_or_close [of sampleServer default_header "[1, 2]"
      "Some ''write timed out; peer is not draining the socket''"
      "snd (server_send default_header [1, 2] sampleServer)"]
  by (simp add: sampleServer_def server_send_def serverWrite_def header_bytes_def default_header_def
      kFrameMagic_def trace_def)

end
