(* ===== verification/Send_Queue.thy ===== *)
theory Send_Queue
  imports Transport Json_Text
begin

text \<open>
  The outbound queue of \<^verbatim>\<open>SidecarDispatcher\<close> (\<^verbatim>\<open>src/sidecar.cpp\<close>): the dispatcher's state,
  \<^verbatim>\<open>queueOutboundFrame\<close> with its shedding policy and its rate-limited diagnostics, and \<^verbatim>\<open>sendJson\<close>.

  The dispatcher owns the transport, so its state extends the server's. The clock is a script of
  readings of \<^verbatim>\<open>nowMs\<close>; the lines on standard error are kept in order. \<open>d_polling\<close> stands for
  \<^verbatim>\<open>m_pollingThread\<close> being the calling thread.
\<close>

section \<open>State\<close>

record outbound_frame =
  of_type :: message_type
  of_correlationId :: correlation_id
  of_isLogFrame :: bool
  of_isIncident :: bool
  of_plugin :: string
  of_externalId :: external_id
  of_message :: string
  of_payload :: string

definition emptyFrame :: outbound_frame where
  "emptyFrame = \<lparr>of_type = MsgEvent, of_correlationId = 0, of_isLogFrame = False, of_isIncident = False,
     of_plugin = [], of_externalId = [], of_message = [], of_payload = []\<rparr>"

record dispatcher = server +
  d_started :: bool
  d_polling :: bool
  d_sendQueue :: "outbound_frame list"
  d_lastQueueWarningTsMs :: i64
  d_maxObservedQueueDepth :: nat
  d_lastLogSendFailureTsMs :: i64
  d_suppressedLogSendFailures :: u64
  d_droppedOutboundFrames :: u64
  d_lastQueueOverflowTsMs :: i64
  d_clock :: "i64 list"
  d_stderr :: "string list"

definition nowMs :: "'z dispatcher_scheme \<Rightarrow> i64 \<times> 'z dispatcher_scheme" where
  "nowMs d = (case d_clock d of [] \<Rightarrow> (0, d) | t # ts \<Rightarrow> (t, d\<lparr>d_clock := ts\<rparr>))"

definition hostStderrLine :: "string \<Rightarrow> 'z dispatcher_scheme \<Rightarrow> 'z dispatcher_scheme" where
  "hostStderrLine line d = d\<lparr>d_stderr := d_stderr d @ [line]\<rparr>"

definition shortened :: "string \<Rightarrow> string" where
  "shortened s = (if length s \<le> 160 then s else take 157 s @ ''...'')"

definition kHostQueueWarnThreshold :: nat where "kHostQueueWarnThreshold = 512"
definition kHostQueueMaxDepth :: nat where "kHostQueueMaxDepth = 4096"
definition kHostDiagRateLimitMs :: int where "kHostDiagRateLimitMs = 5000"

text \<open>Has the rate limit since the time \<open>last\<close> run out at \<open>now\<close>? The subtraction is on \<^verbatim>\<open>int64_t\<close>.\<close>

definition diagDue :: "i64 \<Rightarrow> i64 \<Rightarrow> bool" where
  "diagDue last' now' = (kHostDiagRateLimitMs \<le> sint now' - sint last')"

section \<open>Diagnostics\<close>

definition incidentSendFailure :: "outbound_frame \<Rightarrow> string \<Rightarrow> string" where
  "incidentSendFailure f reason =
     ''[sidecar][incidentSendFailure][host] plugin='' @ of_plugin f @ '' externalId='' @ of_externalId f
       @ '' reason='' @ reason @ '' message='' @ jsonQuoted (shortened (of_message f))"

definition logSendFailure :: "outbound_frame \<Rightarrow> string \<Rightarrow> u64 \<Rightarrow> string" where
  "logSendFailure f reason suppressed =
     ''[sidecar][logSendFailure][host] plugin='' @ of_plugin f @ '' externalId='' @ of_externalId f
       @ '' reason='' @ reason @ '' suppressed='' @ toStringU suppressed
       @ '' message='' @ jsonQuoted (shortened (of_message f))"

text \<open>The report on a frame that could not be sent: incidents always, log frames rate-limited.\<close>

definition noteSendFailure ::
  "outbound_frame \<Rightarrow> string \<Rightarrow> 'z dispatcher_scheme \<Rightarrow> 'z dispatcher_scheme" where
  "noteSendFailure f reason d =
     (if of_isIncident f then hostStderrLine (incidentSendFailure f reason) d
      else if of_isLogFrame f then
        (case nowMs d of
           (tsMs, d1) \<Rightarrow>
             if diagDue (d_lastLogSendFailureTsMs d1) tsMs
             then hostStderrLine (logSendFailure f reason (d_suppressedLogSendFailures d1))
                    (d1\<lparr>d_lastLogSendFailureTsMs := tsMs, d_suppressedLogSendFailures := 0\<rparr>)
             else d1\<lparr>d_suppressedLogSendFailures := d_suppressedLogSendFailures d1 + 1\<rparr>)
      else d)"

section \<open>Admission\<close>

fun eraseFirst :: "('a \<Rightarrow> bool) \<Rightarrow> 'a list \<Rightarrow> 'a list option" where
  "eraseFirst P [] = None"
| "eraseFirst P (x # xs) = (if P x then Some xs else map_option ((#) x) (eraseFirst P xs))"

text \<open>The oldest log frame goes first, then the oldest event frame; responses are never shed.\<close>

definition shedFrame :: "outbound_frame list \<Rightarrow> outbound_frame list option" where
  "shedFrame q =
     (case eraseFirst of_isLogFrame q of
        Some q' \<Rightarrow> Some q'
      | None \<Rightarrow> eraseFirst (\<lambda>f. of_type f = MsgEvent) q)"

text \<open>Was the new frame rejected, was a frame dropped, and the queue after the critical section.\<close>

definition admitFrame ::
  "outbound_frame \<Rightarrow> outbound_frame list \<Rightarrow> bool \<times> bool \<times> outbound_frame list" where
  "admitFrame frame q =
     (if length q < kHostQueueMaxDepth then (False, False, q @ [frame])
      else case shedFrame q of
        Some q' \<Rightarrow> (False, True, q' @ [frame])
      | None \<Rightarrow> if of_type frame = MsgEvent then (True, True, q) else (False, False, q @ [frame]))"

definition reportOverflow :: "u64 \<Rightarrow> 'z dispatcher_scheme \<Rightarrow> 'z dispatcher_scheme" where
  "reportOverflow droppedTotal d =
     (if droppedTotal = 0 then d
      else case nowMs d of
        (tsMs, d1) \<Rightarrow>
          if diagDue (d_lastQueueOverflowTsMs d1) tsMs
          then hostStderrLine (''[sidecar][queueOverflow][host] droppedTotal='' @ toStringU droppedTotal
                 @ '' maxDepth='' @ decimal kHostQueueMaxDepth) (d1\<lparr>d_lastQueueOverflowTsMs := tsMs\<rparr>)
          else d1)"

definition reportBackpressure :: "nat \<Rightarrow> nat \<Rightarrow> 'z dispatcher_scheme \<Rightarrow> 'z dispatcher_scheme" where
  "reportBackpressure queueDepth maxObservedDepth d =
     (if queueDepth < kHostQueueWarnThreshold then d
      else case nowMs d of
        (tsMs, d1) \<Rightarrow>
          if diagDue (d_lastQueueWarningTsMs d1) tsMs
          then hostStderrLine (''[sidecar][queueBackpressure][host] queueDepth='' @ decimal queueDepth
                 @ '' maxObservedDepth='' @ decimal maxObservedDepth
                 @ '' droppedTotal='' @ toStringU (d_droppedOutboundFrames d1))
                 (d1\<lparr>d_lastQueueWarningTsMs := tsMs\<rparr>)
          else d1)"

definition oversizeText :: "outbound_frame \<Rightarrow> string" where
  "oversizeText frame =
     ''outbound payload exceeds kMaxPayloadSize ('' @ decimal (length (of_payload frame)) @ '' > ''
       @ toStringU kMaxPayloadSize @ '' bytes)''"

definition oversizeLine :: "outbound_frame \<Rightarrow> string" where
  "oversizeLine frame =
     ''[sidecar][oversizeFrameRejected][host] plugin='' @ of_plugin frame @ '' externalId=''
       @ of_externalId frame @ '' payloadBytes='' @ decimal (length (of_payload frame))
       @ '' limit='' @ toStringU kMaxPayloadSize @ '' message='' @ jsonQuoted (shortened (of_message frame))"

definition queueOutboundFrame ::
  "outbound_frame \<Rightarrow> 'z dispatcher_scheme \<Rightarrow> string option \<times> 'z dispatcher_scheme" where
  "queueOutboundFrame frame d =
     (if \<not> d_started d
      then (Some ''dispatcher not started'', noteSendFailure frame ''dispatcher not started'' d)
      else if of_payload frame = []
      then (Some ''outbound payload must not be empty'',
            noteSendFailure frame ''outbound payload must not be empty'' d)
      else if unat kMaxPayloadSize < length (of_payload frame)
      then (Some (oversizeText frame), hostStderrLine (oversizeLine frame) d)
      else
        (case admitFrame frame (d_sendQueue d) of
           (rejected, dropped, q) \<Rightarrow>
             let d1 = (if dropped then d\<lparr>d_droppedOutboundFrames := d_droppedOutboundFrames d + 1\<rparr> else d);
                 droppedTotal = (if dropped then d_droppedOutboundFrames d1 else 0);
                 queueDepth = (if rejected then 0 else length q);
                 d2 = d1\<lparr>d_sendQueue := q,
                         d_maxObservedQueueDepth := max (d_maxObservedQueueDepth d1) queueDepth\<rparr>;
                 d3 = reportOverflow droppedTotal d2
             in if rejected then (Some ''outbound send queue full'', d3)
                else (None, server_wakeup (reportBackpressure queueDepth (d_maxObservedQueueDepth d2) d3))))"

definition sendJson ::
  "message_type \<Rightarrow> correlation_id \<Rightarrow> string \<Rightarrow> 'z dispatcher_scheme \<Rightarrow> string option \<times> 'z dispatcher_scheme" where
  "sendJson type correlationId json d =
     queueOutboundFrame (emptyFrame\<lparr>of_type := type, of_correlationId := correlationId, of_payload := json\<rparr>) d"

section \<open>The admission policy as a queue contract\<close>

text \<open>
  What the senders rely on: frames that must not be lost stay, in order; the others may be dropped,
  but what stays keeps its order.
\<close>

locale lossy_queue =
  fixes enq :: "'f \<Rightarrow> 'f list \<Rightarrow> 'f list" and kept :: "'f \<Rightarrow> bool"
  assumes enq_kept: "filter kept (enq f q) = filter kept q @ filter kept [f]"
    and enq_subseq: "subseq (enq f q) (q @ [f])"
begin

lemma enqs_kept: "filter kept (fold enq fs q) = filter kept q @ filter kept fs"
proof (induction fs arbitrary: q)
  case (Cons f fs)
  show ?case
    using Cons [of "enq f q"] enq_kept [of f q] by simp
qed simp

lemma enqs_subseq: "subseq (fold enq fs q) (q @ fs)"
proof (induction fs arbitrary: q)
  case (Cons f fs)
  have "subseq (enq f q @ fs) ((q @ [f]) @ fs)"
    using enq_subseq by (rule list_emb_append_mono) simp
  then show ?case
    using Cons [of "enq f q"] subseq_order.trans by fastforce
qed simp

end

definition sheddable :: "outbound_frame \<Rightarrow> bool" where
  "sheddable f = (of_isLogFrame f \<or> of_type f = MsgEvent)"

definition enqueueFrame :: "outbound_frame \<Rightarrow> outbound_frame list \<Rightarrow> outbound_frame list" where
  "enqueueFrame f q = snd (snd (admitFrame f q))"

lemma eraseFirst_Some:
  "eraseFirst P xs = Some ys \<Longrightarrow> \<exists>a x b. xs = a @ x # b \<and> ys = a @ b \<and> P x \<and> (\<forall>y \<in> set a. \<not> P y)"
proof (induction xs arbitrary: ys)
  case (Cons z zs)
  show ?case
  proof (cases "P z")
    case True
    with Cons.prems show ?thesis
      by (intro exI [of _ "[]"]) simp
  next
    case False
    then obtain ys' where ys': "eraseFirst P zs = Some ys'" "ys = z # ys'"
      using Cons.prems by auto
    then obtain a x b where "zs = a @ x # b" "ys' = a @ b" "P x" "\<forall>y \<in> set a. \<not> P y"
      using Cons.IH by blast
    with False ys' show ?thesis
      by (intro exI [of _ "z # a"] exI [of _ x] exI [of _ b]) simp
  qed
qed simp

lemma eraseFirst_None: "eraseFirst P xs = None \<longleftrightarrow> (\<forall>x \<in> set xs. \<not> P x)"
  by (induction xs) auto

lemma shedFrame_Some:
  assumes "shedFrame q = Some q'"
  obtains a x b where "q = a @ x # b" "q' = a @ b" "sheddable x"
  using assms by (auto simp: shedFrame_def sheddable_def split: option.splits dest!: eraseFirst_Some)

lemma shedFrame_None: "shedFrame q = None \<longleftrightarrow> (\<forall>f \<in> set q. \<not> sheddable f)"
  by (auto simp: shedFrame_def sheddable_def eraseFirst_None split: option.splits)
    (metis eraseFirst_None option.distinct(1))

interpretation outq: lossy_queue enqueueFrame "\<lambda>f. \<not> sheddable f"
proof
  fix f q
  show "filter (\<lambda>f. \<not> sheddable f) (enqueueFrame f q)
      = filter (\<lambda>f. \<not> sheddable f) q @ filter (\<lambda>f. \<not> sheddable f) [f]"
    by (auto simp: enqueueFrame_def admitFrame_def sheddable_def [of f] split: option.split elim!: shedFrame_Some)
  show "subseq (enqueueFrame f q) (q @ [f])"
    by (auto simp: enqueueFrame_def admitFrame_def split: option.split elim!: shedFrame_Some
        intro: list_emb_append_mono)
qed

section \<open>What one call does to the queue\<close>

definition admissible :: "outbound_frame \<Rightarrow> bool" where
  "admissible f = (of_payload f \<noteq> [] \<and> length (of_payload f) \<le> unat kMaxPayloadSize)"

lemma nowMs_frame [frame_rules]:
  "d_sendQueue (snd (nowMs d)) = d_sendQueue d" "d_started (snd (nowMs d)) = d_started d"
  "d_droppedOutboundFrames (snd (nowMs d)) = d_droppedOutboundFrames d"
  "rx_view (snd (nowMs d)) = rx_view d"
  by (simp_all add: nowMs_def rx_view_def split: list.split)

lemma stderr_frame [frame_rules]:
  "d_sendQueue (hostStderrLine l d) = d_sendQueue d" "d_started (hostStderrLine l d) = d_started d"
  "d_droppedOutboundFrames (hostStderrLine l d) = d_droppedOutboundFrames d"
  "rx_view (hostStderrLine l d) = rx_view d"
  by (simp_all add: hostStderrLine_def rx_view_def)

lemma wakeup_frame [frame_rules]:
  "d_sendQueue (server_wakeup d) = d_sendQueue d" "d_started (server_wakeup d) = d_started d"
  "d_droppedOutboundFrames (server_wakeup d) = d_droppedOutboundFrames d"
  "rx_view (server_wakeup d) = rx_view d"
  by (simp_all add: server_wakeup_def rx_view_def)

lemma report_frame [frame_rules]:
  "d_sendQueue (reportOverflow n d) = d_sendQueue d" "d_started (reportOverflow n d) = d_started d"
  "d_droppedOutboundFrames (reportOverflow n d) = d_droppedOutboundFrames d"
  "rx_view (reportOverflow n d) = rx_view d"
  "d_sendQueue (reportBackpressure k m d) = d_sendQueue d" "d_started (reportBackpressure k m d) = d_started d"
  "d_droppedOutboundFrames (reportBackpressure k m d) = d_droppedOutboundFrames d"
  "rx_view (reportBackpressure k m d) = rx_view d"
  using nowMs_frame [of d]
  by (auto simp: reportOverflow_def reportBackpressure_def hostStderrLine_def rx_view_def split: prod.split)

lemma note_frame [frame_rules]:
  "d_sendQueue (noteSendFailure f r d) = d_sendQueue d" "d_started (noteSendFailure f r d) = d_started d"
  "d_droppedOutboundFrames (noteSendFailure f r d) = d_droppedOutboundFrames d"
  "rx_view (noteSendFailure f r d) = rx_view d"
  using nowMs_frame [of d] by (auto simp: noteSendFailure_def hostStderrLine_def rx_view_def split: prod.split)

lemma queue_rejects:
  "\<not> (d_started d \<and> admissible f) \<Longrightarrow>
     fst (queueOutboundFrame f d) \<noteq> None \<and> d_sendQueue (snd (queueOutboundFrame f d)) = d_sendQueue d
     \<and> d_droppedOutboundFrames (snd (queueOutboundFrame f d)) = d_droppedOutboundFrames d"
  by (auto simp: queueOutboundFrame_def admissible_def frame_rules)

lemma queue_admits:
  assumes "d_started d" and "admissible f" and "admitFrame f (d_sendQueue d) = (rejected, dropped, q)"
  shows "d_sendQueue (snd (queueOutboundFrame f d)) = q"
    and "fst (queueOutboundFrame f d) = (if rejected then Some ''outbound send queue full'' else None)"
    and "d_droppedOutboundFrames (snd (queueOutboundFrame f d))
      = d_droppedOutboundFrames d + (if dropped then 1 else 0)"
  using assms by (auto simp: queueOutboundFrame_def admissible_def Let_def frame_rules)

lemma queue_started [frame_rules]: "d_started (snd (queueOutboundFrame f d)) = d_started d"
  by (auto simp: queueOutboundFrame_def Let_def frame_rules split: prod.split)

lemma rx_view_more [simp]: "rx_view (d_sendQueue_update a d) = rx_view d"
  "rx_view (d_maxObservedQueueDepth_update b d) = rx_view d" "rx_view (d_droppedOutboundFrames_update c d) = rx_view d"
  by (simp_all add: rx_view_def)

lemma queue_rx_view [frame_rules]: "rx_view (snd (queueOutboundFrame f d)) = rx_view d"
  by (auto simp: queueOutboundFrame_def Let_def frame_rules split: prod.split)

lemma queue_enqueues:
  "d_started d \<Longrightarrow> admissible f \<Longrightarrow> d_sendQueue (snd (queueOutboundFrame f d)) = enqueueFrame f (d_sendQueue d)"
  using queue_admits(1) [of d f "fst (admitFrame f (d_sendQueue d))" "fst (snd (admitFrame f (d_sendQueue d)))"]
  by (simp add: enqueueFrame_def)

text \<open>Every member of the new queue was queued before or is the admitted frame.\<close>

lemma queue_members:
  assumes "g \<in> set (d_sendQueue (snd (queueOutboundFrame f d)))"
  shows "g \<in> set (d_sendQueue d) \<or> (g = f \<and> admissible f)"
proof (cases "d_started d \<and> admissible f")
  case True
  have "g \<in> set (d_sendQueue d @ [f])"
    using assms True list_emb_set [OF outq.enq_subseq [of f "d_sendQueue d"], of g] queue_enqueues [of d f] by auto
  with True show ?thesis
    by auto
next
  case False
  with assms show ?thesis
    using queue_rejects [OF False] by simp
qed

section \<open>Invariant\<close>

definition queue_inv :: "'z dispatcher_scheme \<Rightarrow> bool" where
  "queue_inv d = ((\<forall>f \<in> set (d_sendQueue d). admissible f)
     \<and> length (filter sheddable (d_sendQueue d)) \<le> kHostQueueMaxDepth)"

lemma admitFrame_sheddable:
  "length (filter sheddable q) \<le> kHostQueueMaxDepth \<Longrightarrow>
     length (filter sheddable (enqueueFrame f q)) \<le> kHostQueueMaxDepth"
proof (cases "length q < kHostQueueMaxDepth")
  case True
  then show ?thesis
    using le_less_trans [OF length_filter_le [of sheddable q] True]
    by (cases "sheddable f") (simp_all add: enqueueFrame_def admitFrame_def True)
next
  case False
  assume l: "length (filter sheddable q) \<le> kHostQueueMaxDepth"
  show ?thesis
  proof (cases "shedFrame q")
    case None
    then have "filter sheddable q = []"
      by (simp add: shedFrame_None filter_empty_conv)
    then show ?thesis
      using None False by (simp add: enqueueFrame_def admitFrame_def kHostQueueMaxDepth_def)
  next
    case (Some q')
    then obtain a x b where "q = a @ x # b" "q' = a @ b" "sheddable x"
      by (rule shedFrame_Some)
    then show ?thesis
      using Some False l by (simp add: enqueueFrame_def admitFrame_def)
  qed
qed

lemma queue_inv_queueOutboundFrame [inv_intros]:
  assumes "queue_inv d"
  shows "queue_inv (snd (queueOutboundFrame f d))"
proof (cases "d_started d \<and> admissible f")
  case True
  have "d_sendQueue (snd (queueOutboundFrame f d)) = enqueueFrame f (d_sendQueue d)"
    using queue_enqueues True by blast
  then show ?thesis
    using assms queue_members [of _ f d] admitFrame_sheddable [of "d_sendQueue d" f]
    unfolding queue_inv_def by auto
next
  case False
  then show ?thesis
    using assms queue_rejects [OF False] by (simp add: queue_inv_def)
qed

lemma queue_inv_clear [inv_intros]: "d_sendQueue d = [] \<Longrightarrow> queue_inv d"
  by (simp add: queue_inv_def)

section \<open>Properties\<close>

text \<open>
  C7: responses are never lost in the queue. Whatever mixture of frames is queued while the
  dispatcher runs, the responses that are not log lines come out complete and in order (results of
  commands, descriptors), and the surviving frames as a whole keep the order they were queued in.
\<close>

theorem responses_never_shed:
  assumes "d_started d" and "\<forall>f \<in> set fs. admissible f"
  shows "filter (\<lambda>f. \<not> sheddable f) (d_sendQueue (fold (\<lambda>f d. snd (queueOutboundFrame f d)) fs d))
       = filter (\<lambda>f. \<not> sheddable f) (d_sendQueue d) @ filter (\<lambda>f. \<not> sheddable f) fs
     \<and> subseq (d_sendQueue (fold (\<lambda>f d. snd (queueOutboundFrame f d)) fs d)) (d_sendQueue d @ fs)"
proof -
  have "d_sendQueue (fold (\<lambda>f d. snd (queueOutboundFrame f d)) fs d) = fold enqueueFrame fs (d_sendQueue d)"
    using assms
  proof (induction fs arbitrary: d)
    case (Cons f fs)
    have "d_sendQueue (snd (queueOutboundFrame f d)) = enqueueFrame f (d_sendQueue d)"
      using Cons.prems by (simp add: queue_enqueues)
    then show ?case
      using Cons.IH [of "snd (queueOutboundFrame f d)"] Cons.prems by (simp add: frame_rules)
  qed simp
  then show ?thesis
    using outq.enqs_kept [of fs "d_sendQueue d"] outq.enqs_subseq [of fs "d_sendQueue d"] by simp
qed

definition sampleDispatcher :: dispatcher where
  "sampleDispatcher = \<lparr>m_socketPath = ''/run/a.sock'', m_serverFd = 3, m_epollFd = 4, m_clientFd = 6, m_wakeFd = 5,
     m_notifyDisconnect = False, m_rxBuffer = [], m_rxOffset = 0,
     m_os = \<lparr>os_fds = [], os_accepts = [], os_status = [], os_reads = [], os_sends = [], os_waits = [],
       os_wake = 0, os_trace = []\<rparr>,
     d_started = True, d_polling = False, d_sendQueue = [], d_lastQueueWarningTsMs = 0, d_maxObservedQueueDepth = 0,
     d_lastLogSendFailureTsMs = 0, d_suppressedLogSendFailures = 0, d_droppedOutboundFrames = 0,
     d_lastQueueOverflowTsMs = 0, d_clock = [], d_stderr = []\<rparr>"

definition sampleResponse :: outbound_frame where
  "sampleResponse = emptyFrame\<lparr>of_type := MsgResponse, of_correlationId := 9, of_payload := ''{}''\<rparr>"

lemma sample_sel [simp]:
  "d_started sampleDispatcher" "d_sendQueue sampleDispatcher = []" "d_droppedOutboundFrames sampleDispatcher = 0"
  by (simp_all add: sampleDispatcher_def)

lemma sheddable_sample [simp]:
  "\<not> sheddable sampleResponse" "sheddable (emptyFrame\<lparr>of_payload := p\<rparr>)"
  by (simp_all add: sheddable_def sampleResponse_def emptyFrame_def wire_defs)

lemma admissible_sample: "admissible sampleResponse" "admissible (emptyFrame\<lparr>of_payload := ''{}''\<rparr>)"
  by (simp_all add: admissible_def sampleResponse_def kMaxPayloadSize_def)

theorem responses_never_shed_witness:
  "filter (\<lambda>f. \<not> sheddable f) (d_sendQueue (fold (\<lambda>f d. snd (queueOutboundFrame f d))
      [emptyFrame\<lparr>of_payload := ''{}''\<rparr>, sampleResponse] sampleDispatcher)) = [sampleResponse]"
  using responses_never_shed [of sampleDispatcher "[emptyFrame\<lparr>of_payload := ''{}''\<rparr>, sampleResponse]"]
  by (simp add: admissible_sample)

text \<open>
  C21: on overflow exactly one frame goes, and it is the right one. When the queue is at its cap, a
  new frame displaces the oldest log frame; only if no log line is queued, the oldest event; and if
  the queue holds responses only, a new event is rejected with an error while a response is queued
  beyond the cap.
\<close>

theorem overflow_sheds_oldest_log_then_event:
  assumes "d_started d" and "admissible f" and "d_sendQueue d = q" and "kHostQueueMaxDepth \<le> length q"
  defines "q' \<equiv> d_sendQueue (snd (queueOutboundFrame f d))"
    and "err \<equiv> fst (queueOutboundFrame f d)"
  shows "(\<exists>a x b. q = a @ x # b \<and> q' = a @ b @ [f] \<and> err = None \<and> of_isLogFrame x
            \<and> (\<forall>y \<in> set a. \<not> of_isLogFrame y))
     \<or> (\<exists>a x b. q = a @ x # b \<and> q' = a @ b @ [f] \<and> err = None \<and> of_type x = MsgEvent
            \<and> (\<forall>y \<in> set q. \<not> of_isLogFrame y) \<and> (\<forall>y \<in> set a. of_type y \<noteq> MsgEvent))
     \<or> ((\<forall>y \<in> set q. \<not> sheddable y)
         \<and> (if of_type f = MsgEvent then q' = q \<and> err = Some ''outbound send queue full''
            else q' = q @ [f] \<and> err = None))"
proof -
  obtain rejected dropped r where a: "admitFrame f q = (rejected, dropped, r)"
    using prod_cases3 by blast
  have q': "q' = r" and err: "err = (if rejected then Some ''outbound send queue full'' else None)"
    using queue_admits [of d f rejected dropped r] assms a by simp_all
  have full: "\<not> length q < kHostQueueMaxDepth"
    using assms(4) by simp
  have shed: "q' = l @ [f] \<and> err = None" if "shedFrame q = Some l" for l
    using a full q' err that by (simp add: admitFrame_def)
  have keep: "if of_type f = MsgEvent then q' = q \<and> err = Some ''outbound send queue full''
      else q' = q @ [f] \<and> err = None" if "shedFrame q = None"
    using a full q' err that by (auto simp: admitFrame_def split: if_splits)
  show ?thesis
  proof (cases "eraseFirst of_isLogFrame q")
    case (Some l)
    then show ?thesis
      using shed [of l] eraseFirst_Some [OF Some] by (intro disjI1) (auto simp: shedFrame_def)
  next
    case None
    then have nolog: "\<forall>y \<in> set q. \<not> of_isLogFrame y"
      by (simp add: eraseFirst_None)
    show ?thesis
    proof (cases "eraseFirst (\<lambda>f. of_type f = MsgEvent) q")
      case (Some l)
      then show ?thesis
        using shed [of l] None nolog eraseFirst_Some [OF Some]
        by (intro disjI2 disjI1) (auto simp: shedFrame_def)
    next
      case no_event: None
      then have "\<forall>y \<in> set q. \<not> sheddable y"
        using nolog by (simp add: eraseFirst_None sheddable_def)
      then show ?thesis
        using keep None no_event by (intro disjI2) (simp add: shedFrame_def)
    qed
  qed
qed

theorem overflow_sheds_oldest_log_then_event_witness:
  "fst (queueOutboundFrame (emptyFrame\<lparr>of_payload := ''{}''\<rparr>)
      (sampleDispatcher\<lparr>d_sendQueue := replicate 4096 sampleResponse\<rparr>)) = Some ''outbound send queue full''"
proof -
  let ?q = "replicate 4096 sampleResponse" and ?e = "emptyFrame\<lparr>of_payload := ''{}''\<rparr>"
  let ?d = "sampleDispatcher\<lparr>d_sendQueue := ?q\<rparr>"
  have mem: "x = sampleResponse" if "?q = a @ x # b" for a x b
  proof -
    have "x \<in> set ?q"
      unfolding that by simp
    then show ?thesis
      unfolding in_set_replicate by simp
  qed
  have tag: "\<not> of_isLogFrame sampleResponse" "of_type sampleResponse \<noteq> MsgEvent" "of_type ?e = MsgEvent"
    by (simp_all add: sampleResponse_def emptyFrame_def wire_defs)
  have st: "d_started ?d" and q: "d_sendQueue ?d = ?q"
    by simp_all
  have len: "kHostQueueMaxDepth \<le> length ?q"
    unfolding length_replicate by (simp add: kHostQueueMaxDepth_def)
  show ?thesis
    using overflow_sheds_oldest_log_then_event [OF st admissible_sample(2) q len]
    by (elim disjE exE conjE) (drule mem, simp only: tag, drule mem, simp only: tag, simp only: tag if_True)
qed

text \<open>
  C27: no frame disappears unaccounted. For a running dispatcher and an admissible frame, the queue
  length and the drop counter together grow by exactly one, whether the frame is queued, displaces
  another or is rejected (the counter is a 64-bit word).
\<close>

theorem drops_are_counted:
  assumes "d_started d" and "admissible f"
  shows "word_of_nat (length (d_sendQueue (snd (queueOutboundFrame f d))))
       + d_droppedOutboundFrames (snd (queueOutboundFrame f d))
     = word_of_nat (length (d_sendQueue d)) + d_droppedOutboundFrames d + (1 :: u64)"
proof -
  obtain rejected dropped q where a: "admitFrame f (d_sendQueue d) = (rejected, dropped, q)"
    using prod_cases3 by blast
  have "length q + (if dropped then 1 else 0) = length (d_sendQueue d) + 1"
    using a by (auto simp: admitFrame_def split: if_splits option.splits elim!: shedFrame_Some)
  then have "(word_of_nat (length q + (if dropped then 1 else 0)) :: u64) = word_of_nat (length (d_sendQueue d) + 1)"
    by (rule arg_cong)
  then have "word_of_nat (length q) + (if dropped then 1 else 0) = word_of_nat (length (d_sendQueue d)) + (1 :: u64)"
    by (cases dropped) simp_all
  moreover have "x + (y + z) = (x + z) + y" for x y z :: u64
    by (simp only: ac_simps)
  moreover have "x + 1 + y = x + y + 1" for x y :: u64
    by (simp only: ac_simps)
  ultimately show ?thesis
    unfolding queue_admits(1) [OF assms a] queue_admits(3) [OF assms a] by simp
qed

theorem drops_are_counted_witness:
  "word_of_nat (length (d_sendQueue (snd (queueOutboundFrame sampleResponse sampleDispatcher))))
     + d_droppedOutboundFrames (snd (queueOutboundFrame sampleResponse sampleDispatcher)) = (1 :: u64)"
  using drops_are_counted [of sampleDispatcher sampleResponse]
  by (simp add: admissible_sample)

end
