(* ===== verification/Send_Frames.thy ===== *)
theory Send_Frames
  imports Send_Queue Json_Encode Log_Filter
begin

text \<open>
  The senders of \<^verbatim>\<open>SidecarDispatcher\<close> (\<^verbatim>\<open>src/sidecar.cpp\<close>, \<^verbatim>\<open>sendCmdResult\<close> to
  \<^verbatim>\<open>sendStreamEnd\<close>): each builds one envelope and queues it. The results are the error text (none
  for \<^verbatim>\<open>true\<close>) and the dispatcher afterwards.
\<close>

section \<open>Envelopes and time stamps\<close>

type_synonym 'd sent = "string option \<times> 'd"

definition envelope :: "ipc_command \<Rightarrow> (string \<times> string) list \<Rightarrow> string" where
  "envelope command fs = closeEnvelope (appendFields (openEnvelope command) fs)"

definition envelopeWithCmdId :: "ipc_command \<Rightarrow> cmd_id \<Rightarrow> (string \<times> string) list \<Rightarrow> string" where
  "envelopeWithCmdId command cmdId fs =
     closeEnvelope (appendFields (openEnvelopeWithCmdId command cmdId) fs)"

text \<open>\<^verbatim>\<open>tsMs > 0 ? tsMs : nowMs()\<close>.\<close>

definition stampMs :: "i64 \<Rightarrow> 'z dispatcher_scheme \<Rightarrow> i64 \<times> 'z dispatcher_scheme" where
  "stampMs tsMs d = (if 0 < sint tsMs then (tsMs, d) else nowMs d)"

definition sendEvent ::
  "ipc_command \<Rightarrow> (string \<times> string) list \<Rightarrow> 'z dispatcher_scheme \<Rightarrow> 'z dispatcher_scheme sent" where
  "sendEvent command fs d = sendJson MsgEvent 0 (envelope command fs) d"

section \<open>Results\<close>

definition cmdResultFields :: "cmd_response \<Rightarrow> i64 \<Rightarrow> (string \<times> string) list" where
  "cmdResultFields r tsMs =
     [(''status'', enumText (cmdStatusValue (cr_status r))),
      (''error'', jsonQuoted (cr_error r)),
      (''errorCtx'', jsonQuoted (cr_errorContext r)),
      (''errorParams'', scalarListJson (cr_errorParams r)),
      (''finalValue'', scalarJson (cr_finalValue r)),
      (''tsMs'', toStringS tsMs)]"

definition sendCmdResult :: "cmd_response \<Rightarrow> 'z dispatcher_scheme \<Rightarrow> 'z dispatcher_scheme sent" where
  "sendCmdResult r d0 =
     (case stampMs (cr_tsMs r) d0 of
        (tsMs, d) \<Rightarrow> sendJson MsgResponse (cr_id r)
          (envelopeWithCmdId ResultCmd (cr_id r) (cmdResultFields r tsMs)) d)"

definition actionResultFields :: "action_response \<Rightarrow> i64 \<Rightarrow> (string \<times> string) list" where
  "actionResultFields r tsMs =
     (let resultValueJson = trim (ar_resultValueJson r);
          formValues = trim (ar_formValuesJson r);
          fieldChoices = trim (ar_fieldChoicesJson r)
      in [(''status'', enumText (cmdStatusValue (ar_status r))),
          (''error'', jsonQuoted (ar_error r)),
          (''errorCtx'', jsonQuoted (ar_errorContext r)),
          (''errorParams'', scalarListJson (ar_errorParams r)),
          (''resultType'', enumText (actionResultTypeValue (ar_resultType r))),
          (''resultValue'', if resultValueJson \<noteq> [] then jsonTokenOrDefault resultValueJson ''null''
                            else scalarJson (ar_resultValue r))]
         @ whenField (formValues \<noteq> []) (''formValues'', metaJsonText formValues)
         @ whenField (fieldChoices \<noteq> []) (''fieldChoices'', metaJsonText fieldChoices)
         @ whenField (ar_reloadLayout r) (''reloadLayout'', ''true'')
         @ [(''tsMs'', toStringS tsMs)])"

definition sendActionResult :: "action_response \<Rightarrow> 'z dispatcher_scheme \<Rightarrow> 'z dispatcher_scheme sent" where
  "sendActionResult r d0 =
     (case stampMs (ar_tsMs r) d0 of
        (tsMs, d) \<Rightarrow> sendJson MsgResponse (ar_id r)
          (envelopeWithCmdId ResultAction (ar_id r) (actionResultFields r tsMs)) d)"

definition defaultCmdResponse :: "cmd_id \<Rightarrow> string \<Rightarrow> 'z dispatcher_scheme \<Rightarrow> cmd_response \<times> 'z dispatcher_scheme" where
  "defaultCmdResponse cmdId message d =
     (case nowMs d of (ts, d') \<Rightarrow>
        (emptyCmdResponse\<lparr>cr_id := cmdId, cr_status := CmdStatus_NotImplemented, cr_error := message,
           cr_tsMs := ts\<rparr>, d'))"

definition defaultActionResponse ::
  "cmd_id \<Rightarrow> string \<Rightarrow> 'z dispatcher_scheme \<Rightarrow> action_response \<times> 'z dispatcher_scheme" where
  "defaultActionResponse cmdId message d =
     (case nowMs d of (ts, d') \<Rightarrow>
        (emptyActionResponse\<lparr>ar_id := cmdId, ar_status := CmdStatus_NotImplemented, ar_error := message,
           ar_resultType := ActionResultType_None, ar_tsMs := ts\<rparr>, d'))"

definition invalidArgumentCmdResponse ::
  "cmd_id \<Rightarrow> string \<Rightarrow> 'z dispatcher_scheme \<Rightarrow> cmd_response \<times> 'z dispatcher_scheme" where
  "invalidArgumentCmdResponse cmdId message d =
     (case nowMs d of (ts, d') \<Rightarrow>
        (emptyCmdResponse\<lparr>cr_id := cmdId, cr_status := CmdStatus_InvalidArgument, cr_error := message,
           cr_tsMs := ts\<rparr>, d'))"

definition invalidArgumentActionResponse ::
  "cmd_id \<Rightarrow> string \<Rightarrow> 'z dispatcher_scheme \<Rightarrow> action_response \<times> 'z dispatcher_scheme" where
  "invalidArgumentActionResponse cmdId message d =
     (case nowMs d of (ts, d') \<Rightarrow>
        (emptyActionResponse\<lparr>ar_id := cmdId, ar_status := CmdStatus_InvalidArgument, ar_error := message,
           ar_resultType := ActionResultType_None, ar_tsMs := ts\<rparr>, d'))"

section \<open>Connection and log events\<close>

definition sendConnectionStateChanged ::
  "external_id \<Rightarrow> bool \<Rightarrow> 'z dispatcher_scheme \<Rightarrow> 'z dispatcher_scheme sent" where
  "sendConnectionStateChanged externalId connected d =
     sendEvent EventConnectionStateChanged
       [(''externalId'', jsonQuoted externalId), (''connected'', boolText connected)] d"

record log_entry =
  le_level :: log_level
  le_category :: log_category
  le_message :: string
  le_ctx :: string
  le_params :: scalar_list
  le_fieldsJson :: json_text
  le_tsMs :: i64

definition logFields ::
  "external_id \<Rightarrow> string \<Rightarrow> u8 \<Rightarrow> u8 \<Rightarrow> string \<Rightarrow> string \<Rightarrow> scalar_list \<Rightarrow> json_text \<Rightarrow> i64
     \<Rightarrow> (string \<times> string) list" where
  "logFields externalId plugin level category message ctx params fieldsJson tsMs =
     (let flds = (if trim fieldsJson = [] then ''{}'' else fieldsJson) in
      [(''externalId'', jsonQuoted externalId),
       (''plugin'', jsonQuoted plugin),
       (''level'', toStringU level),
       (''category'', toStringU category),
       (''message'', jsonQuoted message),
       (''ctx'', jsonQuoted ctx),
       (''params'', scalarListJson params),
       (''fields'', jsonTokenOrDefault flds ''{}''),
       (''tsMs'', toStringS tsMs)])"

definition logFrame :: "bool \<Rightarrow> string \<Rightarrow> external_id \<Rightarrow> string \<Rightarrow> string \<Rightarrow> outbound_frame" where
  "logFrame incident plugin externalId message payload =
     emptyFrame\<lparr>of_type := MsgEvent, of_isLogFrame := True, of_isIncident := incident, of_plugin := plugin,
       of_externalId := externalId, of_message := message, of_payload := payload\<rparr>"

definition sendError ::
  "external_id \<Rightarrow> string \<Rightarrow> log_category \<Rightarrow> string \<Rightarrow> scalar_list \<Rightarrow> string \<Rightarrow> json_text \<Rightarrow> i64
     \<Rightarrow> 'z dispatcher_scheme \<Rightarrow> 'z dispatcher_scheme sent" where
  "sendError externalId plugin category message params ctx fieldsJson tsMs d0 =
     (case stampMs tsMs d0 of
        (ts, d) \<Rightarrow> queueOutboundFrame (logFrame True plugin externalId message
          (envelope EventLog (logFields externalId plugin (encodeWireLevel LogError)
             (encodeWireCategory category True) message ctx params fieldsJson ts))) d)"

definition sendLog ::
  "external_id \<Rightarrow> string \<Rightarrow> log_entry \<Rightarrow> 'z dispatcher_scheme \<Rightarrow> 'z dispatcher_scheme sent" where
  "sendLog externalId plugin entry d0 =
     (case stampMs (le_tsMs entry) d0 of
        (ts, d) \<Rightarrow> queueOutboundFrame (logFrame False plugin externalId (le_message entry)
          (envelope EventLog (logFields externalId plugin (encodeWireLevel (le_level entry))
             (encodeWireCategory (le_category entry) False) (le_message entry) (le_ctx entry)
             (le_params entry) (le_fieldsJson entry) ts))) d)"

section \<open>Adapter and channel events\<close>

definition sendAdapterMetaUpdated ::
  "external_id \<Rightarrow> json_text \<Rightarrow> 'z dispatcher_scheme \<Rightarrow> 'z dispatcher_scheme sent" where
  "sendAdapterMetaUpdated externalId metaPatchJson d =
     (let patch = (if trim metaPatchJson = [] then ''{}'' else metaPatchJson) in
      sendEvent EventAdapterMetaUpdated
        [(''externalId'', jsonQuoted externalId), (''metaPatch'', jsonTokenOrDefault patch ''{}'')] d)"

definition sendAdapterDescriptor ::
  "external_id \<Rightarrow> adapter_descriptor \<Rightarrow> correlation_id \<Rightarrow> 'z dispatcher_scheme \<Rightarrow> 'z dispatcher_scheme sent" where
  "sendAdapterDescriptor externalId descriptor correlationId d =
     sendJson MsgResponse correlationId
       (envelope ResponseFactoryDescriptor
          [(''externalId'', jsonQuoted externalId), (''descriptor'', descriptorToJson descriptor)]) d"

definition sendAdapterDescriptorUpdated ::
  "external_id \<Rightarrow> adapter_descriptor \<Rightarrow> 'z dispatcher_scheme \<Rightarrow> 'z dispatcher_scheme sent" where
  "sendAdapterDescriptorUpdated externalId descriptor d =
     sendEvent EventFactoryDescriptorUpdated
       [(''externalId'', jsonQuoted externalId), (''descriptor'', descriptorToJson descriptor)] d"

definition sendChannelStateUpdated ::
  "external_id \<Rightarrow> external_id \<Rightarrow> external_id \<Rightarrow> scalar_value \<Rightarrow> i64
     \<Rightarrow> 'z dispatcher_scheme \<Rightarrow> 'z dispatcher_scheme sent" where
  "sendChannelStateUpdated externalId deviceExternalId channelExternalId val tsMs d0 =
     (case stampMs tsMs d0 of
        (timestamp, d) \<Rightarrow> sendEvent EventChannelStateUpdated
          [(''externalId'', jsonQuoted externalId),
           (''deviceExternalId'', jsonQuoted deviceExternalId),
           (''channelExternalId'', jsonQuoted channelExternalId),
           (''value'', scalarJson val),
           (''tsMs'', toStringS timestamp)] d)"

definition colorText :: "double \<Rightarrow> double \<Rightarrow> double \<Rightarrow> string" where
  "colorText r g b =
     CHR ''{'' # jsonQuoted ''r'' @ '':'' @ appendDoubleJson [] r
       @ '','' @ jsonQuoted ''g'' @ '':'' @ appendDoubleJson [] g
       @ '','' @ jsonQuoted ''b'' @ '':'' @ appendDoubleJson [] b @ ''}''"

definition sendChannelColorStateUpdated ::
  "external_id \<Rightarrow> external_id \<Rightarrow> external_id \<Rightarrow> double \<Rightarrow> double \<Rightarrow> double \<Rightarrow> i64
     \<Rightarrow> 'z dispatcher_scheme \<Rightarrow> 'z dispatcher_scheme sent" where
  "sendChannelColorStateUpdated externalId deviceExternalId channelExternalId r g b tsMs d0 =
     (case stampMs tsMs d0 of
        (timestamp, d) \<Rightarrow> sendEvent EventChannelStateUpdated
          [(''externalId'', jsonQuoted externalId),
           (''deviceExternalId'', jsonQuoted deviceExternalId),
           (''channelExternalId'', jsonQuoted channelExternalId),
           (''value'', colorText r g b),
           (''tsMs'', toStringS timestamp)] d)"

section \<open>Entity events\<close>

definition sendDeviceUpdated ::
  "external_id \<Rightarrow> device \<Rightarrow> channel list \<Rightarrow> 'z dispatcher_scheme \<Rightarrow> 'z dispatcher_scheme sent" where
  "sendDeviceUpdated externalId device channels d =
     sendEvent EventDeviceUpdated
       [(''externalId'', jsonQuoted externalId), (''device'', deviceToJson device),
        (''channels'', jsonArray (map channelToJson channels))] d"

definition sendDeviceRemoved ::
  "external_id \<Rightarrow> external_id \<Rightarrow> 'z dispatcher_scheme \<Rightarrow> 'z dispatcher_scheme sent" where
  "sendDeviceRemoved externalId deviceExternalId d =
     sendEvent EventDeviceRemoved
       [(''externalId'', jsonQuoted externalId), (''deviceExternalId'', jsonQuoted deviceExternalId)] d"

definition sendChannelUpdated ::
  "external_id \<Rightarrow> external_id \<Rightarrow> channel \<Rightarrow> 'z dispatcher_scheme \<Rightarrow> 'z dispatcher_scheme sent" where
  "sendChannelUpdated externalId deviceExternalId channel d =
     sendEvent EventChannelUpdated
       [(''externalId'', jsonQuoted externalId), (''deviceExternalId'', jsonQuoted deviceExternalId),
        (''channel'', channelToJson channel)] d"

definition sendRoomUpdated ::
  "external_id \<Rightarrow> room \<Rightarrow> 'z dispatcher_scheme \<Rightarrow> 'z dispatcher_scheme sent" where
  "sendRoomUpdated externalId room d =
     sendEvent EventRoomUpdated [(''externalId'', jsonQuoted externalId), (''room'', roomToJson room)] d"

definition sendRoomRemoved ::
  "external_id \<Rightarrow> external_id \<Rightarrow> 'z dispatcher_scheme \<Rightarrow> 'z dispatcher_scheme sent" where
  "sendRoomRemoved externalId roomExternalId d =
     sendEvent EventRoomRemoved
       [(''externalId'', jsonQuoted externalId), (''roomExternalId'', jsonQuoted roomExternalId)] d"

definition sendGroupUpdated ::
  "external_id \<Rightarrow> group \<Rightarrow> 'z dispatcher_scheme \<Rightarrow> 'z dispatcher_scheme sent" where
  "sendGroupUpdated externalId grp d =
     sendEvent EventGroupUpdated [(''externalId'', jsonQuoted externalId), (''group'', groupToJson grp)] d"

definition sendGroupRemoved ::
  "external_id \<Rightarrow> external_id \<Rightarrow> 'z dispatcher_scheme \<Rightarrow> 'z dispatcher_scheme sent" where
  "sendGroupRemoved externalId groupExternalId d =
     sendEvent EventGroupRemoved
       [(''externalId'', jsonQuoted externalId), (''groupExternalId'', jsonQuoted groupExternalId)] d"

definition sendSceneUpdated ::
  "external_id \<Rightarrow> scene \<Rightarrow> 'z dispatcher_scheme \<Rightarrow> 'z dispatcher_scheme sent" where
  "sendSceneUpdated externalId scene d =
     sendEvent EventSceneUpdated [(''externalId'', jsonQuoted externalId), (''scene'', sceneToJson scene)] d"

definition sendSceneRemoved ::
  "external_id \<Rightarrow> external_id \<Rightarrow> 'z dispatcher_scheme \<Rightarrow> 'z dispatcher_scheme sent" where
  "sendSceneRemoved externalId sceneExternalId d =
     sendEvent EventSceneRemoved
       [(''externalId'', jsonQuoted externalId), (''sceneExternalId'', jsonQuoted sceneExternalId)] d"

section \<open>Stream events\<close>

definition sendStreamOpen ::
  "external_id \<Rightarrow> string \<Rightarrow> string \<Rightarrow> string \<Rightarrow> string \<Rightarrow> string \<Rightarrow> json_text
     \<Rightarrow> 'z dispatcher_scheme \<Rightarrow> 'z dispatcher_scheme sent" where
  "sendStreamOpen externalId streamId cmd kind contentType contentEncoding metaJson d =
     sendEvent EventStreamOpen
       ([(''externalId'', jsonQuoted externalId),
         (''streamId'', jsonQuoted streamId),
         (''cmd'', jsonQuoted cmd),
         (''kind'', jsonQuoted kind),
         (''contentType'', jsonQuoted (if contentType = [] then ''application/json'' else contentType))]
        @ whenField (trim contentEncoding \<noteq> []) (''contentEncoding'', jsonQuoted contentEncoding)
        @ [(''meta'', jsonTokenOrDefault metaJson ''{}'')]) d"

definition sendStreamData ::
  "external_id \<Rightarrow> string \<Rightarrow> string \<Rightarrow> i64 \<Rightarrow> json_text \<Rightarrow> i64
     \<Rightarrow> 'z dispatcher_scheme \<Rightarrow> 'z dispatcher_scheme sent" where
  "sendStreamData externalId streamId cmd seq payloadJson tsMs d0 =
     (case stampMs tsMs d0 of
        (timestamp, d) \<Rightarrow> sendEvent EventStreamData
          [(''externalId'', jsonQuoted externalId),
           (''streamId'', jsonQuoted streamId),
           (''cmd'', jsonQuoted cmd),
           (''seq'', toStringS seq),
           (''tsMs'', toStringS timestamp),
           (''data'', jsonTokenOrDefault payloadJson ''{}'')] d)"

definition streamErrorJson :: "string \<Rightarrow> string \<Rightarrow> scalar_list \<Rightarrow> string \<Rightarrow> string" where
  "streamErrorJson message code params ctx = jsonObject
     ([(''message'', jsonQuoted message)]
      @ whenField (trim code \<noteq> []) (''code'', jsonQuoted code)
      @ whenField (trim ctx \<noteq> []) (''ctx'', jsonQuoted ctx)
      @ whenField (params \<noteq> []) (''params'', scalarListJson params))"

definition sendStreamError ::
  "external_id \<Rightarrow> string \<Rightarrow> string \<Rightarrow> string \<Rightarrow> string \<Rightarrow> scalar_list \<Rightarrow> string
     \<Rightarrow> 'z dispatcher_scheme \<Rightarrow> 'z dispatcher_scheme sent" where
  "sendStreamError externalId streamId cmd message code params ctx d =
     sendEvent EventStreamError
       [(''externalId'', jsonQuoted externalId),
        (''streamId'', jsonQuoted streamId),
        (''cmd'', jsonQuoted cmd),
        (''error'', streamErrorJson message code params ctx)] d"

definition sendStreamEnd ::
  "external_id \<Rightarrow> string \<Rightarrow> string \<Rightarrow> string \<Rightarrow> 'z dispatcher_scheme \<Rightarrow> 'z dispatcher_scheme sent" where
  "sendStreamEnd externalId streamId cmd reason d =
     sendEvent EventStreamEnd
       [(''externalId'', jsonQuoted externalId),
        (''streamId'', jsonQuoted streamId),
        (''cmd'', jsonQuoted cmd),
        (''reason'', jsonQuoted reason)] d"

section \<open>The senders as one interface\<close>

text \<open>
  One constructor per sender with its arguments: what adapter code can ask of the dispatcher.
\<close>

datatype send_op =
    OpCmdResult cmd_response
  | OpActionResult action_response
  | OpConnectionState external_id bool
  | OpError external_id string log_category string scalar_list string json_text i64
  | OpLog external_id string log_entry
  | OpAdapterMeta external_id json_text
  | OpDescriptor external_id adapter_descriptor correlation_id
  | OpDescriptorUpdated external_id adapter_descriptor
  | OpChannelState external_id external_id external_id scalar_value i64
  | OpChannelColor external_id external_id external_id double double double i64
  | OpDeviceUpdated external_id device "channel list"
  | OpDeviceRemoved external_id external_id
  | OpChannelUpdated external_id external_id channel
  | OpRoomUpdated external_id room
  | OpRoomRemoved external_id external_id
  | OpGroupUpdated external_id group
  | OpGroupRemoved external_id external_id
  | OpSceneUpdated external_id scene
  | OpSceneRemoved external_id external_id
  | OpStreamOpen external_id string string string string string json_text
  | OpStreamData external_id string string i64 json_text i64
  | OpStreamError external_id string string string string scalar_list string
  | OpStreamEnd external_id string string string

fun runSend :: "send_op \<Rightarrow> 'z dispatcher_scheme \<Rightarrow> 'z dispatcher_scheme sent" where
  "runSend (OpCmdResult r) d = sendCmdResult r d"
| "runSend (OpActionResult r) d = sendActionResult r d"
| "runSend (OpConnectionState x c) d = sendConnectionStateChanged x c d"
| "runSend (OpError x pl cat msg ps ctx fj ts) d = sendError x pl cat msg ps ctx fj ts d"
| "runSend (OpLog x pl e) d = sendLog x pl e d"
| "runSend (OpAdapterMeta x j) d = sendAdapterMetaUpdated x j d"
| "runSend (OpDescriptor x ds c) d = sendAdapterDescriptor x ds c d"
| "runSend (OpDescriptorUpdated x ds) d = sendAdapterDescriptorUpdated x ds d"
| "runSend (OpChannelState x dv ch v ts) d = sendChannelStateUpdated x dv ch v ts d"
| "runSend (OpChannelColor x dv ch r g b ts) d = sendChannelColorStateUpdated x dv ch r g b ts d"
| "runSend (OpDeviceUpdated x dv chs) d = sendDeviceUpdated x dv chs d"
| "runSend (OpDeviceRemoved x y) d = sendDeviceRemoved x y d"
| "runSend (OpChannelUpdated x y c) d = sendChannelUpdated x y c d"
| "runSend (OpRoomUpdated x r) d = sendRoomUpdated x r d"
| "runSend (OpRoomRemoved x y) d = sendRoomRemoved x y d"
| "runSend (OpGroupUpdated x g) d = sendGroupUpdated x g d"
| "runSend (OpGroupRemoved x y) d = sendGroupRemoved x y d"
| "runSend (OpSceneUpdated x sc) d = sendSceneUpdated x sc d"
| "runSend (OpSceneRemoved x y) d = sendSceneRemoved x y d"
| "runSend (OpStreamOpen x st cm k ct ce m) d = sendStreamOpen x st cm k ct ce m d"
| "runSend (OpStreamData x st cm sq pj ts) d = sendStreamData x st cm sq pj ts d"
| "runSend (OpStreamError x st cm msg co ps ctx) d = sendStreamError x st cm msg co ps ctx d"
| "runSend (OpStreamEnd x st cm r) d = sendStreamEnd x st cm r d"

text \<open>The JSON an operation splices is blank or JSON.\<close>

fun spliceable_op :: "send_op \<Rightarrow> bool" where
  "spliceable_op (OpActionResult r) =
     (spliceable (ar_resultValueJson r) \<and> spliceable (ar_formValuesJson r) \<and> spliceable (ar_fieldChoicesJson r))"
| "spliceable_op (OpError x pl cat msg ps ctx fj ts) = spliceable fj"
| "spliceable_op (OpLog x pl e) = spliceable (le_fieldsJson e)"
| "spliceable_op (OpAdapterMeta x j) = spliceable j"
| "spliceable_op (OpDescriptor x ds c) = spliceable_descriptor ds"
| "spliceable_op (OpDescriptorUpdated x ds) = spliceable_descriptor ds"
| "spliceable_op (OpDeviceUpdated x dv chs) =
     (spliceable_device dv \<and> (\<forall>c \<in> set chs. spliceable (ch_metaJson c)))"
| "spliceable_op (OpChannelUpdated x y c) = spliceable (ch_metaJson c)"
| "spliceable_op (OpRoomUpdated x r) = spliceable (room_metaJson r)"
| "spliceable_op (OpGroupUpdated x g) = spliceable (grp_metaJson g)"
| "spliceable_op (OpSceneUpdated x sc) = spliceable (scn_metaJson sc)"
| "spliceable_op (OpStreamOpen x st cm k ct ce m) = spliceable m"
| "spliceable_op (OpStreamData x st cm sq pj ts) = spliceable pj"
| "spliceable_op _ = True"

section \<open>Conforming frames\<close>

text \<open>
  A frame the peer accepts: its payload is one JSON object with a command number, and the frame's
  type is the class that command travels in.
\<close>

definition conforming :: "outbound_frame \<Rightarrow> bool" where
  "conforming f = (case parseObjectMembers (of_payload f) of
     Inl _ \<Rightarrow> False
   | Inr root \<Rightarrow> json_value (of_payload f)
       \<and> (case parseIpcCommandToken (member root ''command'') of
            None \<Rightarrow> False
          | Some c \<Rightarrow> matchesMessageType (of_type f) c)
       \<and> (case parseObjectMembers (member root ''payload'') of Inl _ \<Rightarrow> False | Inr _ \<Rightarrow> True))"

definition fields_ok :: "(string \<times> string) list \<Rightarrow> bool" where
  "fields_ok fs = (\<forall>kv \<in> set fs. json_field (snd kv))"

lemma sint_ucast_u16: "sint (ucast (c :: u16) :: i64) = int (unat c)"
  by (simp add: sint_ucast)

lemma parseInt64_enumText:
  assumes "LENGTH('a::len) < 32"
  shows "parseInt64 (enumText (w :: 'a word)) = Some (ucast w)"
proof -
  have "enumText w = toStringS (ucast w :: i64)"
    using assms by (simp add: enumText_def toStringS_def sint_ucast)
  then show ?thesis
    by (simp add: parseInt64_toString)
qed

lemma parseInt64_u16: "parseInt64 (toStringU (c :: u16)) = Some (ucast c)"
proof -
  have "toStringU c = toStringS (ucast c :: i64)"
    by (simp add: toStringU_def toStringS_def intText_def sint_ucast_u16)
  then show ?thesis
    by (simp add: parseInt64_toString)
qed

lemma parseIpcCommandToken_toString: "c \<noteq> 0 \<Longrightarrow> parseIpcCommandToken (toStringU (toUint16 c)) = Some c"
proof -
  assume c: "c \<noteq> 0"
  then have "0 < uint c"
    by (metis unsigned_greater_eq unsigned_eq_0_iff order_le_less)
  moreover have "uint c < 65536"
    using unsigned_less [where ?'a = int, of c] by simp
  ultimately show ?thesis
    by (simp add: parseIpcCommandToken_def toUint16_def parseInt64_u16 sint_ucast_u16 ucast_up_ucast_id is_up
        not_less)
qed

lemma envelope_root:
  assumes "fields_ok fs"
  shows "parseObjectMembers (envelope c fs)
       = Inr [(''command'', toStringU (toUint16 c)), (''payload'', jsonObject fs)]"
    and "json_value (envelope c fs)"
proof -
  have v: "json_value (jsonObject fs)"
    using assms by (intro json_value_object) (simp add: fields_ok_def)
  have f: "\<forall>kv \<in> set [(''command'', toStringU (toUint16 c)), (''payload'', jsonObject fs)]. json_field (snd kv)"
    using v by (simp add: json_fields json_value_field)
  then show "json_value (envelope c fs)"
    by (simp only: envelope_def closeEnvelope_fields json_value_object)
  show "parseObjectMembers (envelope c fs)
      = Inr [(''command'', toStringU (toUint16 c)), (''payload'', jsonObject fs)]"
    using parseObjectMembers_jsonObject [OF f] v
    by (simp add: envelope_def closeEnvelope_fields trim_json_value json_value_toStringU)
qed

lemma envelopeWithCmdId_root:
  assumes "fields_ok fs"
  shows "parseObjectMembers (envelopeWithCmdId c i fs)
       = Inr [(''command'', toStringU (toUint16 c)), (''cmdId'', toStringU i), (''payload'', jsonObject fs)]"
    and "json_value (envelopeWithCmdId c i fs)"
proof -
  have v: "json_value (jsonObject fs)"
    using assms by (intro json_value_object) (simp add: fields_ok_def)
  have f: "\<forall>kv \<in> set [(''command'', toStringU (toUint16 c)), (''cmdId'', toStringU i), (''payload'', jsonObject fs)].
      json_field (snd kv)"
    using v by (simp add: json_fields json_value_field)
  then show "json_value (envelopeWithCmdId c i fs)"
    by (simp only: envelopeWithCmdId_def closeEnvelope_cmd_fields json_value_object)
  show "parseObjectMembers (envelopeWithCmdId c i fs)
      = Inr [(''command'', toStringU (toUint16 c)), (''cmdId'', toStringU i), (''payload'', jsonObject fs)]"
    using parseObjectMembers_jsonObject [OF f] v
    by (simp add: envelopeWithCmdId_def closeEnvelope_cmd_fields trim_json_value json_value_toStringU)
qed

lemma payload_readable:
  "fields_ok fs \<Longrightarrow> parseObjectMembers (jsonObject fs) = Inr (membersOf [] fs)"
  by (rule parseObjectMembers_jsonObject) (simp add: fields_ok_def)

lemma conforming_envelope:
  assumes "fields_ok fs" and "c \<noteq> 0" and "matchesMessageType t c"
  shows "of_type f = t \<Longrightarrow> of_payload f = envelope c fs \<Longrightarrow> conforming f"
  using assms by (simp add: conforming_def envelope_root parseIpcCommandToken_toString payload_readable)

lemma conforming_envelopeWithCmdId:
  assumes "fields_ok fs" and "c \<noteq> 0" and "matchesMessageType t c"
  shows "of_type f = t \<Longrightarrow> of_payload f = envelopeWithCmdId c i fs \<Longrightarrow> conforming f"
  using assms by (simp add: conforming_def envelopeWithCmdId_root parseIpcCommandToken_toString payload_readable)

definition queue_conforming :: "'z dispatcher_scheme \<Rightarrow> bool" where
  "queue_conforming d = (\<forall>f \<in> set (d_sendQueue d). conforming f)"

lemma queue_conforming_queue:
  "conforming f \<Longrightarrow> queue_conforming d \<Longrightarrow> queue_conforming (snd (queueOutboundFrame f d))"
  using queue_members [of _ f d] by (auto simp: queue_conforming_def)

lemma stampMs_queue: "d_sendQueue (snd (stampMs ts d)) = d_sendQueue d"
  by (simp add: stampMs_def frame_rules)

lemma queue_conforming_stamp: "stampMs ts d = (t, d') \<Longrightarrow> queue_conforming d' = queue_conforming d"
  using stampMs_queue [of ts d] by (simp add: queue_conforming_def)

lemma event_nonzero: "c \<in> set event_commands \<Longrightarrow> c \<noteq> 0"
  by (auto simp: event_commands_def wire_defs)

lemma queue_conforming_event:
  "fields_ok fs \<Longrightarrow> c \<in> set event_commands \<Longrightarrow> queue_conforming d \<Longrightarrow> queue_conforming (snd (sendEvent c fs d))"
  unfolding sendEvent_def sendJson_def
  by (rule queue_conforming_queue, rule conforming_envelope [of fs c MsgEvent])
    (auto simp: matchesMessageType_def event_nonzero command_classes(2))

lemma fields_ok_simps [simp]:
  "fields_ok []" "fields_ok (kv # fs) = (json_field (snd kv) \<and> fields_ok fs)"
  "fields_ok (fs @ gs) = (fields_ok fs \<and> fields_ok gs)"
  by (auto simp: fields_ok_def)

lemma fields_ok_when [simp]: "fields_ok (whenField b f) = (b \<longrightarrow> json_field (snd f))"
  by (simp add: whenField_def)

lemma json_field_array: "(\<And>v. v \<in> set vs \<Longrightarrow> json_value v) \<Longrightarrow> json_field (jsonArray vs)"
  by (intro json_value_field json_value_array) simp

lemmas json_entity_fields = json_value_field [OF json_value_scalars] entity_values [THEN json_value_field]

lemma spliceable_trim [simp]: "spliceable (trim j) = spliceable j"
  by (simp add: spliceable_def json_field_def)

lemma json_field_token_null: "spliceable j \<Longrightarrow> json_field (jsonTokenOrDefault j ''null'')"
  by (auto simp: spliceable_def jsonTokenOrDefault_def Let_def json_field_def
      intro: json_value_literals json_value_field [unfolded json_field_def])

lemma json_field_braces: "json_field ''{}''"
  by (simp add: json_value_field json_value_braces)

lemma json_field_default: "json_field (jsonTokenOrDefault ''{}'' ''{}'')"
  by (rule json_field_token) (simp add: spliceable_def json_field_braces)

lemma json_field_patch: "spliceable j \<Longrightarrow> json_field (jsonTokenOrDefault (if trim j = [] then ''{}'' else j) ''{}'')"
  using json_field_token [of j] json_field_default by simp

lemma cmdResultFields_ok: "fields_ok (cmdResultFields r ts)"
  by (simp add: cmdResultFields_def json_fields json_entity_fields)

lemma actionResultFields_ok:
  "spliceable (ar_resultValueJson r) \<Longrightarrow> spliceable (ar_formValuesJson r) \<Longrightarrow> spliceable (ar_fieldChoicesJson r)
     \<Longrightarrow> fields_ok (actionResultFields r ts)"
  by (simp add: actionResultFields_def json_fields json_entity_fields Let_def json_field_token_null
      json_value_field [OF json_value_literals(1)])

lemma logFields_ok: "spliceable fj \<Longrightarrow> fields_ok (logFields x pl l c msg ctx ps fj ts)"
  by (simp add: logFields_def json_fields json_entity_fields Let_def json_field_patch)

lemma colorText_field: "json_field (colorText r g b)"
proof -
  have "colorText r g b = jsonObject [(''r'', appendDoubleJson [] r), (''g'', appendDoubleJson [] g), (''b'', appendDoubleJson [] b)]"
    by (simp add: colorText_def jsonObject_Cons)
  then show ?thesis
    by (simp add: json_value_field json_value_object json_fields)
qed

lemma streamErrorJson_field: "json_field (streamErrorJson msg code ps ctx)"
  unfolding streamErrorJson_def
  by (intro json_value_field json_value_object) (auto simp: whenField_def json_fields json_entity_fields)

lemma channels_field:
  "\<forall>c \<in> set chs. spliceable (ch_metaJson c) \<Longrightarrow> json_field (jsonArray (map channelToJson chs))"
  by (rule json_field_array) (auto simp: entity_values)

lemma command_in_events:
  "EventFactoryDescriptorUpdated \<in> set event_commands" "EventAdapterMetaUpdated \<in> set event_commands"
  "EventConnectionStateChanged \<in> set event_commands" "EventLog \<in> set event_commands"
  "EventDeviceUpdated \<in> set event_commands" "EventDeviceRemoved \<in> set event_commands"
  "EventChannelUpdated \<in> set event_commands" "EventChannelStateUpdated \<in> set event_commands"
  "EventRoomUpdated \<in> set event_commands" "EventRoomRemoved \<in> set event_commands"
  "EventGroupUpdated \<in> set event_commands" "EventGroupRemoved \<in> set event_commands"
  "EventSceneUpdated \<in> set event_commands" "EventSceneRemoved \<in> set event_commands"
  "EventStreamOpen \<in> set event_commands" "EventStreamData \<in> set event_commands"
  "EventStreamError \<in> set event_commands" "EventStreamEnd \<in> set event_commands"
  by (simp_all add: event_commands_def)

lemma queue_conforming_log:
  assumes "spliceable fj" and "queue_conforming d"
  shows "queue_conforming (snd (queueOutboundFrame
    (logFrame i pl x m (envelope EventLog (logFields x pl l c msg ctx ps fj ts))) d))"
proof (rule queue_conforming_queue [OF _ assms(2)])
  show "conforming (logFrame i pl x m (envelope EventLog (logFields x pl l c msg ctx ps fj ts)))"
    by (rule conforming_envelope [OF logFields_ok [OF assms(1)], of EventLog MsgEvent])
      (simp_all add: logFrame_def matchesMessageType_def expectedMessageType_def command_range_defs wire_defs)
qed

lemma queue_conforming_response:
  assumes "fields_ok fs" and "c \<in> {ResultCmd, ResultAction}" and "queue_conforming d"
  shows "queue_conforming (snd (sendJson MsgResponse i (envelopeWithCmdId c i' fs) d))"
  unfolding sendJson_def
  by (rule queue_conforming_queue [OF _ assms(3)], rule conforming_envelopeWithCmdId [OF assms(1), of c MsgResponse])
    (use assms(2) in \<open>auto simp: matchesMessageType_def expectedMessageType_def command_range_defs wire_defs\<close>)

lemma queue_conforming_descriptor:
  assumes "fields_ok fs" and "queue_conforming d"
  shows "queue_conforming (snd (sendJson MsgResponse i (envelope ResponseFactoryDescriptor fs) d))"
  unfolding sendJson_def
  by (rule queue_conforming_queue [OF _ assms(2)],
      rule conforming_envelope [OF assms(1), of ResponseFactoryDescriptor MsgResponse])
    (auto simp: matchesMessageType_def expectedMessageType_def wire_defs)

lemmas sender_defs = sendCmdResult_def sendActionResult_def sendConnectionStateChanged_def sendError_def sendLog_def
  sendAdapterMetaUpdated_def sendAdapterDescriptor_def sendAdapterDescriptorUpdated_def
  sendChannelStateUpdated_def sendChannelColorStateUpdated_def sendDeviceUpdated_def sendDeviceRemoved_def
  sendChannelUpdated_def sendRoomUpdated_def sendRoomRemoved_def sendGroupUpdated_def sendGroupRemoved_def
  sendSceneUpdated_def sendSceneRemoved_def sendStreamOpen_def sendStreamData_def sendStreamError_def
  sendStreamEnd_def

lemma runSend_conforming:
  assumes "spliceable_op op" and "queue_conforming d"
  shows "queue_conforming (snd (runSend op d))"
  using assms
  by (cases op)
    (auto simp: sender_defs Let_def queue_conforming_stamp json_fields json_entity_fields json_field_patch json_field_default
      colorText_field streamErrorJson_field channels_field command_in_events cmdResultFields_ok actionResultFields_ok
      split: prod.split
      intro!: queue_conforming_event queue_conforming_log queue_conforming_response queue_conforming_descriptor)

lemma queue_inv_stamp: "stampMs ts d = (t, d') \<Longrightarrow> queue_inv d' = queue_inv d"
  using stampMs_queue [of ts d] by (simp add: queue_inv_def)

lemma runSend_queue_inv: "queue_inv d \<Longrightarrow> queue_inv (snd (runSend op d))"
  by (cases op) (auto simp: sender_defs Let_def sendEvent_def sendJson_def queue_inv_stamp
      split: prod.split intro!: queue_inv_queueOutboundFrame)

section \<open>Properties\<close>


definition sampleRoom :: room where
  "sampleRoom = \<lparr>room_externalId = ''r1'', room_name = ''Kitchen'', room_zone = [], room_deviceExternalIds = [''d1''],
     room_metaJson = []\<rparr>"



end
