(* ===== verification/Requests.thy ===== *)
theory Requests
  imports Send_Frames
begin

text \<open>
  Inbound requests: the typed request structs and the handler table of
  \<^verbatim>\<open>include/phi/adapter/sdk/sidecar.h\<close> and \<^verbatim>\<open>SidecarDispatcher::handleRequestFrame\<close> of
  \<^verbatim>\<open>src/sidecar.cpp\<close>. A handler is a function on the whole state around the dispatcher and may be
  absent; it runs at the point where the code calls it.
\<close>

section \<open>Request structs\<close>

type_synonym adapter_id = i32

record bootstrap_request =
  bs_adapterId :: adapter_id
  bs_cmdId :: cmd_id
  bs_correlationId :: correlation_id
  bs_adapter :: adapter
  bs_staticConfigJson :: json_text

record config_changed_request =
  cc_adapterId :: adapter_id
  cc_cmdId :: cmd_id
  cc_correlationId :: correlation_id
  cc_adapter :: adapter
  cc_staticConfigJson :: json_text

record instance_removed_request =
  ir_adapterId :: adapter_id
  ir_cmdId :: cmd_id
  ir_correlationId :: correlation_id
  ir_pluginType :: string
  ir_externalId :: external_id

record channel_invoke_request =
  ci_cmdId :: cmd_id
  ci_externalId :: external_id
  ci_deviceExternalId :: external_id
  ci_channelExternalId :: external_id
  ci_value :: scalar_value
  ci_valueJson :: json_text
  ci_hasScalarValue :: bool

record adapter_action_invoke_request =
  ai_cmdId :: cmd_id
  ai_externalId :: external_id
  ai_actionId :: string
  ai_paramsJson :: json_text

record device_name_update_request =
  dn_cmdId :: cmd_id
  dn_externalId :: external_id
  dn_deviceExternalId :: external_id
  dn_name :: string

record device_effect_invoke_request =
  dfx_cmdId :: cmd_id
  dfx_externalId :: external_id
  dfx_deviceExternalId :: external_id
  dfx_effect :: device_effect
  dfx_effectId :: string
  dfx_paramsJson :: json_text

record scene_invoke_request =
  si_cmdId :: cmd_id
  si_externalId :: external_id
  si_sceneExternalId :: external_id
  si_groupExternalId :: external_id
  si_action :: string

record stream_start_request =
  st_cmdId :: cmd_id
  st_externalId :: external_id
  st_streamId :: string
  st_kind :: string
  st_paramsJson :: json_text

record stream_stop_request =
  sp_cmdId :: cmd_id
  sp_externalId :: external_id
  sp_streamId :: string

record unknown_request =
  ur_cmdId :: cmd_id
  ur_externalId :: external_id
  ur_command :: u16
  ur_payloadJson :: json_text

section \<open>Handlers\<close>

type_synonym ('a, 'd) handler = "('a \<Rightarrow> 'd \<Rightarrow> 'd) option"

record 'd handlers =
  onConnected :: "('d \<Rightarrow> 'd) option"
  onDisconnected :: "('d \<Rightarrow> 'd) option"
  onProtocolError :: "(string, 'd) handler"
  onBootstrap :: "(bootstrap_request, 'd) handler"
  onConfigChanged :: "(config_changed_request, 'd) handler"
  onInstanceRemoved :: "(instance_removed_request, 'd) handler"
  onChannelInvoke :: "(channel_invoke_request, 'd) handler"
  onAdapterActionInvoke :: "(adapter_action_invoke_request, 'd) handler"
  onDeviceNameUpdate :: "(device_name_update_request, 'd) handler"
  onDeviceEffectInvoke :: "(device_effect_invoke_request, 'd) handler"
  onSceneInvoke :: "(scene_invoke_request, 'd) handler"
  onAdaptersStreamStart :: "(stream_start_request, 'd) handler"
  onAdaptersStreamStop :: "(stream_stop_request, 'd) handler"
  onUnknownRequest :: "(unknown_request, 'd) handler"

definition noHandlers :: "'d handlers" where
  "noHandlers = \<lparr>onConnected = None, onDisconnected = None, onProtocolError = None, onBootstrap = None,
     onConfigChanged = None, onInstanceRemoved = None, onChannelInvoke = None, onAdapterActionInvoke = None,
     onDeviceNameUpdate = None, onDeviceEffectInvoke = None, onSceneInvoke = None, onAdaptersStreamStart = None,
     onAdaptersStreamStop = None, onUnknownRequest = None\<rparr>"

definition callHandler :: "('a, 'd) handler \<Rightarrow> 'a \<Rightarrow> 'd \<Rightarrow> 'd" where
  "callHandler f x d = (case f of None \<Rightarrow> d | Some g \<Rightarrow> g x d)"

section \<open>Parsing the payload\<close>

abbreviation strMember :: "member_map \<Rightarrow> string \<Rightarrow> string" where
  "strMember m k \<equiv> decodeStringOrDefault (member m k) []"

abbreviation intMember :: "member_map \<Rightarrow> string \<Rightarrow> 'a::len word" where
  "intMember m k \<equiv> ucast (parseIntOrDefault (member m k) 0)"

definition parseAdapterFromMap :: "member_map \<Rightarrow> adapter" where
  "parseAdapterFromMap m = \<lparr>ad_name = strMember m ''name'', ad_host = strMember m ''host'',
     ad_ip = strMember m ''ip'', ad_port = intMember m ''port'', ad_user = strMember m ''user'',
     ad_password = strMember m ''password'', ad_token = strMember m ''token'',
     ad_pluginType = strMember m ''pluginType'', ad_externalId = strMember m ''externalId'',
     ad_metaJson = member m ''meta'', ad_flags = intMember m ''flags''\<rparr>"

text \<open>The adapter object of a sync request, with the fallbacks for its type and external id.\<close>

definition parseRequestAdapter :: "member_map \<Rightarrow> adapter" where
  "parseRequestAdapter payloadMap =
     (let a0 = emptyAdapter\<lparr>ad_externalId := strMember payloadMap ''externalId'',
                  ad_pluginType := strMember payloadMap ''pluginType''\<rparr>;
          a1 = (case parseObjectMembers (member payloadMap ''adapter'') of
                  Inl _ \<Rightarrow> a0 | Inr adapterMap \<Rightarrow> parseAdapterFromMap adapterMap);
          a2 = (if ad_pluginType a1 = [] then a1\<lparr>ad_pluginType := strMember payloadMap ''pluginType''\<rparr> else a1)
      in if ad_externalId a2 = [] then a2\<lparr>ad_externalId := strMember payloadMap ''externalId''\<rparr> else a2)"

definition paramsOrEmpty :: "string \<Rightarrow> json_text" where
  "paramsOrEmpty token = (if trim token = [] then ''{}'' else token)"

definition bootstrapRequest :: "cmd_id \<Rightarrow> correlation_id \<Rightarrow> member_map \<Rightarrow> bootstrap_request" where
  "bootstrapRequest cmdId correlationId m = \<lparr>bs_adapterId = intMember m ''adapterId'', bs_cmdId = cmdId,
     bs_correlationId = correlationId, bs_adapter = parseRequestAdapter m,
     bs_staticConfigJson = member m ''staticConfig''\<rparr>"

definition configChangedRequest :: "cmd_id \<Rightarrow> correlation_id \<Rightarrow> member_map \<Rightarrow> config_changed_request" where
  "configChangedRequest cmdId correlationId m = \<lparr>cc_adapterId = intMember m ''adapterId'', cc_cmdId = cmdId,
     cc_correlationId = correlationId, cc_adapter = parseRequestAdapter m,
     cc_staticConfigJson = member m ''staticConfig''\<rparr>"

definition instanceRemovedRequest :: "cmd_id \<Rightarrow> correlation_id \<Rightarrow> member_map \<Rightarrow> instance_removed_request" where
  "instanceRemovedRequest cmdId correlationId m = \<lparr>ir_adapterId = intMember m ''adapterId'', ir_cmdId = cmdId,
     ir_correlationId = correlationId, ir_pluginType = strMember m ''pluginType'',
     ir_externalId = strMember m ''externalId''\<rparr>"

definition channelInvokeRequest :: "cmd_id \<Rightarrow> member_map \<Rightarrow> channel_invoke_request" where
  "channelInvokeRequest cmdId m =
     (let parsed = parseScalarValueToken (member m ''value'') in
      \<lparr>ci_cmdId = cmdId, ci_externalId = strMember m ''externalId'',
       ci_deviceExternalId = strMember m ''deviceExternalId'',
       ci_channelExternalId = strMember m ''channelExternalId'',
       ci_value = (case parsed of Some v \<Rightarrow> v | None \<Rightarrow> ScalarNull),
       ci_valueJson = member m ''value'', ci_hasScalarValue = (parsed \<noteq> None)\<rparr>)"

definition adapterActionRequest :: "cmd_id \<Rightarrow> member_map \<Rightarrow> adapter_action_invoke_request" where
  "adapterActionRequest cmdId m = \<lparr>ai_cmdId = cmdId, ai_externalId = strMember m ''externalId'',
     ai_actionId = strMember m ''actionId'', ai_paramsJson = paramsOrEmpty (member m ''params'')\<rparr>"

definition deviceNameRequest :: "cmd_id \<Rightarrow> member_map \<Rightarrow> device_name_update_request" where
  "deviceNameRequest cmdId m = \<lparr>dn_cmdId = cmdId, dn_externalId = strMember m ''externalId'',
     dn_deviceExternalId = strMember m ''deviceExternalId'', dn_name = strMember m ''name''\<rparr>"

definition deviceEffectRequest :: "cmd_id \<Rightarrow> member_map \<Rightarrow> device_effect_invoke_request" where
  "deviceEffectRequest cmdId m = \<lparr>dfx_cmdId = cmdId, dfx_externalId = strMember m ''externalId'',
     dfx_deviceExternalId = strMember m ''deviceExternalId'', dfx_effect = intMember m ''effect'',
     dfx_effectId = strMember m ''effectId'', dfx_paramsJson = paramsOrEmpty (member m ''params'')\<rparr>"

definition sceneInvokeRequest :: "cmd_id \<Rightarrow> member_map \<Rightarrow> scene_invoke_request" where
  "sceneInvokeRequest cmdId m = \<lparr>si_cmdId = cmdId, si_externalId = strMember m ''externalId'',
     si_sceneExternalId = strMember m ''sceneExternalId'', si_groupExternalId = strMember m ''groupExternalId'',
     si_action = strMember m ''action''\<rparr>"

definition streamStartRequest :: "cmd_id \<Rightarrow> member_map \<Rightarrow> stream_start_request" where
  "streamStartRequest cmdId m = \<lparr>st_cmdId = cmdId, st_externalId = strMember m ''externalId'',
     st_streamId = strMember m ''streamId'', st_kind = strMember m ''kind'',
     st_paramsJson = paramsOrEmpty (member m ''params'')\<rparr>"

definition streamStopRequest :: "cmd_id \<Rightarrow> member_map \<Rightarrow> stream_stop_request" where
  "streamStopRequest cmdId m = \<lparr>sp_cmdId = cmdId, sp_externalId = strMember m ''externalId'',
     sp_streamId = strMember m ''streamId''\<rparr>"

section \<open>Dispatch\<close>

type_synonym 'z dhandlers = "'z dispatcher_scheme handlers"

definition protocolError :: "'z dhandlers \<Rightarrow> string \<Rightarrow> 'z dispatcher_scheme \<Rightarrow> bool \<times> 'z dispatcher_scheme" where
  "protocolError hs message d = (False, callHandler (onProtocolError hs) message d)"

definition sendDefaultCmd ::
  "cmd_id \<Rightarrow> string \<Rightarrow> 'z dispatcher_scheme \<Rightarrow> bool \<times> 'z dispatcher_scheme" where
  "sendDefaultCmd cmdId message d =
     (case defaultCmdResponse cmdId message d of
        (r, d1) \<Rightarrow> (case sendCmdResult r d1 of (e, d2) \<Rightarrow> (e = None, d2)))"

definition sendDefaultAction ::
  "cmd_id \<Rightarrow> string \<Rightarrow> 'z dispatcher_scheme \<Rightarrow> bool \<times> 'z dispatcher_scheme" where
  "sendDefaultAction cmdId message d =
     (case defaultActionResponse cmdId message d of
        (r, d1) \<Rightarrow> (case sendActionResult r d1 of (e, d2) \<Rightarrow> (e = None, d2)))"

text \<open>The handler if it is registered, else the default answer.\<close>

definition handlerOr ::
  "('a, 'z dispatcher_scheme) handler \<Rightarrow> 'a
     \<Rightarrow> ('z dispatcher_scheme \<Rightarrow> bool \<times> 'z dispatcher_scheme)
     \<Rightarrow> 'z dispatcher_scheme \<Rightarrow> bool \<times> 'z dispatcher_scheme" where
  "handlerOr f request default' d = (case f of Some g \<Rightarrow> (True, g request d) | None \<Rightarrow> default' d)"

definition handleCommand ::
  "'z dhandlers \<Rightarrow> ipc_command \<Rightarrow> cmd_id \<Rightarrow> correlation_id \<Rightarrow> string \<Rightarrow> member_map
     \<Rightarrow> 'z dispatcher_scheme \<Rightarrow> bool \<times> 'z dispatcher_scheme" where
  "handleCommand hs command cmdId correlationId payloadToken m d =
     (if command = SyncAdapterBootstrap then
        (True, callHandler (onBootstrap hs) (bootstrapRequest cmdId correlationId m) d)
      else if command = SyncAdapterConfigChanged then
        (True, callHandler (onConfigChanged hs) (configChangedRequest cmdId correlationId m) d)
      else if command = SyncAdapterInstanceRemoved then
        (True, callHandler (onInstanceRemoved hs) (instanceRemovedRequest cmdId correlationId m) d)
      else if command = CmdChannelInvoke then
        handlerOr (onChannelInvoke hs) (channelInvokeRequest cmdId m)
          (sendDefaultCmd cmdId ''Channel invoke handler not registered'') d
      else if command = CmdAdapterActionInvoke then
        handlerOr (onAdapterActionInvoke hs) (adapterActionRequest cmdId m)
          (sendDefaultAction cmdId ''Adapter action handler not registered'') d
      else if command = CmdDeviceNameUpdate then
        handlerOr (onDeviceNameUpdate hs) (deviceNameRequest cmdId m)
          (sendDefaultCmd cmdId ''Device name update handler not registered'') d
      else if command = CmdDeviceEffectInvoke then
        handlerOr (onDeviceEffectInvoke hs) (deviceEffectRequest cmdId m)
          (sendDefaultCmd cmdId ''Device effect handler not registered'') d
      else if command = CmdSceneInvoke then
        handlerOr (onSceneInvoke hs) (sceneInvokeRequest cmdId m)
          (sendDefaultCmd cmdId ''Scene invoke handler not registered'') d
      else if command = CmdAdaptersStreamStart then
        handlerOr (onAdaptersStreamStart hs) (streamStartRequest cmdId m)
          (sendDefaultCmd cmdId ''Adapters stream start handler not registered'') d
      else if command = CmdAdaptersStreamStop then
        handlerOr (onAdaptersStreamStop hs) (streamStopRequest cmdId m)
          (sendDefaultCmd cmdId ''Adapters stream stop handler not registered'') d
      else
        let d1 = callHandler (onUnknownRequest hs)
                   \<lparr>ur_cmdId = cmdId, ur_externalId = strMember m ''externalId'',
                    ur_command = toUint16 command, ur_payloadJson = payloadToken\<rparr> d
        in if cmdId \<noteq> 0
           then sendDefaultCmd cmdId (''Unhandled IPC command: '' @ toStringU (toUint16 command)) d1
           else (True, d1))"

text \<open>The command id: the envelope's, or the header's correlation id when it is missing or malformed.\<close>

definition requestCmdId :: "frame_header \<Rightarrow> member_map \<Rightarrow> cmd_id" where
  "requestCmdId header root =
     (let token = member root ''cmdId'' in
      if token = [] then hdr_correlationId header
      else case parseCmdIdToken token of Some i \<Rightarrow> i | None \<Rightarrow> hdr_correlationId header)"

definition handleRequestFrame ::
  "'z dhandlers \<Rightarrow> frame_header \<Rightarrow> bytes \<Rightarrow> 'z dispatcher_scheme \<Rightarrow> bool \<times> 'z dispatcher_scheme" where
  "handleRequestFrame hs header payload d =
     (case parseObjectMembers (string_of_bytes payload) of
        Inl parseError \<Rightarrow> protocolError hs (''Invalid request JSON: '' @ parseError) d
      | Inr root \<Rightarrow>
          (case parseIpcCommandToken (member root ''command'') of
             None \<Rightarrow> protocolError hs ''Request missing/invalid command'' d
           | Some command \<Rightarrow>
               if \<not> matchesMessageType (messageType header) command
               then protocolError hs (''Frame type does not match command class: command=''
                      @ toStringU (toUint16 command)) d
               else
                 let token = member root ''payload'';
                     payloadToken = (if token = [] then ''{}'' else token);
                     payloadMap = (case parseObjectMembers payloadToken of Inl _ \<Rightarrow> [] | Inr m \<Rightarrow> m)
                 in handleCommand hs command (requestCmdId header root) (hdr_correlationId header)
                      payloadToken payloadMap d))"

section \<open>What a request frame of the peer means\<close>

text \<open>The peer's side: an envelope with the command id and the given payload fields.\<close>

definition request_bytes :: "ipc_command \<Rightarrow> cmd_id \<Rightarrow> (string \<times> string) list \<Rightarrow> bytes" where
  "request_bytes c i fs = bytes_of_string (envelopeWithCmdId c i fs)"

lemma parseCmdIdToken_toString: "parseCmdIdToken (toStringU i) = Some i"
  using parseUInt64_toString [of i] by (simp add: parseCmdIdToken_def toStringU_def trim_decimal)

lemma toStringU_not_Nil [simp]: "toStringU w \<noteq> []"
  by (simp add: toStringU_def)

lemma jsonObject_not_Nil [simp]: "jsonObject fs \<noteq> []"
  by (simp add: jsonObject_def)

lemma char_byte_comp [simp]: "char_of_byte \<circ> byte_of_char = id"
  by (rule ext) simp

lemma handleRequestFrame_envelope:
  assumes "fields_ok fs" and "c \<noteq> 0" and "matchesMessageType (hdr_type header) c"
  shows "handleRequestFrame hs header (request_bytes c i fs) d
     = handleCommand hs c i (hdr_correlationId header) (jsonObject fs) (membersOf [] fs) d"
  using assms
  by (simp add: handleRequestFrame_def request_bytes_def envelopeWithCmdId_root parseIpcCommandToken_toString
      messageType_def requestCmdId_def parseCmdIdToken_toString payload_readable Let_def)

lemma literal_tokens:
  "parseScalarValueToken ''true'' = Some (ScalarBool True)"
  "parseScalarValueToken ''false'' = Some (ScalarBool False)"
  "parseScalarValueToken ''null'' = Some ScalarNull"
  by (simp_all add: parseScalarValueToken_def trim_json_value json_value_literals Let_def)

lemma intText_chars: "c \<in> set (intText v) \<Longrightarrow> isDigit c \<or> c = CHR ''-''"
  using decimal_digits by (auto simp: intText_def split: if_splits)

lemma parseScalar_int: "parseScalarValueToken (toStringS i) = Some (ScalarInt i)"
proof -
  let ?t = "toStringS i"
  have c: "isDigit c \<or> c = CHR ''-''" if "c \<in> set ?t" for c
    using that intText_chars by (simp add: toStringS_def)
  have ne: "?t \<noteq> []"
    by (simp add: toStringS_def)
  have "hd ?t \<noteq> DQUOTE"
    using c [OF hd_in_set [OF ne]] by (auto simp: isDigit_def)
  moreover have "?t \<noteq> ''true''" "?t \<noteq> ''false''" "?t \<noteq> ''null''"
    using c [of "CHR ''t''"] c [of "CHR ''f''"] c [of "CHR ''n''"] by (auto simp: isDigit_def)
  moreover have "\<not> (\<exists>c \<in> set ?t. isDot c \<or> isExp c)"
    using c digit_not_special by (auto simp: isDot_def isExp_def)
  ultimately show ?thesis
    using ne by (simp add: parseScalarValueToken_def Let_def trim_json_value json_value_toStringS parseInt64_toString)
qed

lemma parseScalar_string: "parseScalarValueToken (jsonQuoted s) = Some (ScalarString s)"
  by (simp add: parseScalarValueToken_def Let_def trim_quoted decodeJsonString_quoted)

lemma parseScalar_roundtrip: "\<forall>x. v \<noteq> ScalarDouble x \<Longrightarrow> parseScalarValueToken (scalarJson v) = Some v"
  by (cases v) (auto simp: scalarJson_def literal_tokens parseScalar_int parseScalar_string boolText_def)

section \<open>Default answers\<close>

lemma decimal_length: "0 < k \<Longrightarrow> n < 10 ^ k \<Longrightarrow> length (decimal n) \<le> k"
proof (induction k arbitrary: n)
  case (Suc k)
  show ?case
  proof (cases "n < 10")
    case True
    then show ?thesis
      by (subst decimal.simps) simp
  next
    case False
    have "n div 10 < 10 ^ k" "0 < k"
      using Suc.prems False by (auto simp: gr0_conv_Suc) (cases k; simp)
    with Suc.IH [of "n div 10"] False show ?thesis
      by (subst decimal.simps) simp
  qed
qed simp

lemma length_escapeChar: "length (escapeChar c) \<le> 6"
  by (simp add: escapeChar_def Let_def)

lemma length_jsonQuoted: "length (jsonQuoted s) \<le> 2 + 6 * length s"
proof -
  have "length (concat (map escapeChar s)) \<le> 6 * length s"
    using length_escapeChar by (induction s) (auto intro: add_mono)
  then show ?thesis
    by (simp add: jsonQuoted_def)
qed

lemma length_toStringU: "length (toStringU (w :: u64)) \<le> 20"
proof -
  have "unat w < 10 ^ 20"
    using unsigned_less [where ?'a = nat, of w] by (rule less_le_trans) simp
  then show ?thesis
    by (simp add: toStringU_def decimal_length)
qed

lemma length_toStringU16: "length (toStringU (w :: u16)) \<le> 5"
proof -
  have "unat w < 10 ^ 5"
    using unsigned_less [where ?'a = nat, of w] by (rule less_le_trans) simp
  then show ?thesis
    by (simp add: toStringU_def decimal_length)
qed

lemma length_toStringS64: "length (toStringS (w :: i64)) \<le> 20"
proof -
  have "- (2 ^ 63) \<le> sint w" "sint w < 2 ^ 63"
    using sint_bounds [of w] by simp_all
  then have "nat \<bar>sint w\<bar> < 10 ^ 19"
    by (simp add: nat_less_iff)
  then have "length (decimal (nat \<bar>sint w\<bar>)) \<le> 19"
    by (simp add: decimal_length)
  then show ?thesis
    by (cases "sint w < 0") (simp_all add: toStringS_def intText_def)
qed

lemma length_enumText_status: "length (enumText (cmdStatusValue CmdStatus_NotImplemented)) \<le> 3"
  by (simp add: enumText_def toStringS_def intText_def sint_ucast decimal.simps)

lemma length_fields: "length (jsonObject fs) \<le> 2 + sum_list (map (\<lambda>kv. length (fieldText kv) + 1) fs)"
proof (cases fs)
  case (Cons kv fs')
  have "length (concat (map (\<lambda>kv. CHR '','' # fieldText kv) gs)) = sum_list (map (\<lambda>kv. length (fieldText kv) + 1) gs)" for gs
    by (induction gs) auto
  with Cons show ?thesis
    by (simp add: jsonObject_Cons)
qed (simp add: jsonObject_Nil)

lemma nowMs_started: "nowMs d = (t, d') \<Longrightarrow> d_started d' = d_started d \<and> d_sendQueue d' = d_sendQueue d"
  using nowMs_frame [of d] by simp

lemma stampMs_started: "stampMs ts d = (t, d') \<Longrightarrow> d_started d' = d_started d \<and> d_sendQueue d' = d_sendQueue d"
  by (auto simp: stampMs_def dest: nowMs_started split: if_splits)

definition responseFrame :: "cmd_id \<Rightarrow> string \<Rightarrow> outbound_frame" where
  "responseFrame i json = emptyFrame\<lparr>of_type := MsgResponse, of_correlationId := i, of_payload := json\<rparr>"

lemma queue_room:
  assumes "d_started d" and "admissible f" and "length (d_sendQueue d) < kHostQueueMaxDepth"
  shows "fst (queueOutboundFrame f d) = None" and "d_sendQueue (snd (queueOutboundFrame f d)) = d_sendQueue d @ [f]"
proof -
  have a: "admitFrame f (d_sendQueue d) = (False, False, d_sendQueue d @ [f])"
    using assms(3) by (simp add: admitFrame_def)
  show "fst (queueOutboundFrame f d) = None" "d_sendQueue (snd (queueOutboundFrame f d)) = d_sendQueue d @ [f]"
    using queue_admits [OF assms(1,2) a] by simp_all
qed

lemma default_result_size:
  assumes "cr_status r = CmdStatus_NotImplemented" "cr_errorContext r = []" "cr_errorParams r = []"
    and "cr_finalValue r = ScalarNull" and "length (cr_error r) \<le> 1000"
  shows "length (jsonObject (cmdResultFields r ts)) \<le> 7000"
proof -
  have q: "length (jsonQuoted ''status'') = 8" "length (jsonQuoted ''error'') = 7" "length (jsonQuoted ''errorCtx'') = 10"
    "length (jsonQuoted ''errorParams'') = 13" "length (jsonQuoted ''finalValue'') = 12" "length (jsonQuoted ''tsMs'') = 6"
    "length (jsonQuoted []) = 2"
    by (simp_all add: jsonQuoted_def escapeChar_def)
  have "length (scalarListJson []) = 2" "length (scalarJson ScalarNull) = 4"
    by (simp_all add: scalarListJson_def jsonArray_Nil scalarJson_def)
  then show ?thesis
    using length_fields [of "cmdResultFields r ts"] q length_jsonQuoted [of "cr_error r"] assms
      length_toStringS64 [of ts] length_enumText_status
    by (simp add: cmdResultFields_def)
qed

lemma envelope_size: "length (envelopeWithCmdId c i fs) \<le> 200 + length (jsonObject fs)"
proof -
  have q: "length (jsonQuoted ''command'') = 9" "length (jsonQuoted ''cmdId'') = 7" "length (jsonQuoted ''payload'') = 9"
    by (simp_all add: jsonQuoted_def escapeChar_def)
  have "length (toStringU (toUint16 c)) \<le> 5"
    by (simp add: length_toStringU16)
  then show ?thesis
    using q length_toStringU [of i] by (simp add: envelopeWithCmdId_def closeEnvelope_cmd_fields jsonObject_Cons)
qed

text \<open>The default answer is one conforming response frame for the command.\<close>

lemma sendDefaultCmd_answers:
  assumes "d_started d" and "length (d_sendQueue d) < kHostQueueMaxDepth" and "length msg \<le> 1000"
  shows "\<exists>r ts. cr_id r = i \<and> cr_status r = CmdStatus_NotImplemented \<and> cr_error r = msg
     \<and> fst (sendDefaultCmd i msg d)
     \<and> d_sendQueue (snd (sendDefaultCmd i msg d))
         = d_sendQueue d @ [responseFrame i (envelopeWithCmdId ResultCmd i (cmdResultFields r ts))]"
proof -
  obtain t d1 where n: "nowMs d = (t, d1)"
    by fastforce
  let ?r = "emptyCmdResponse\<lparr>cr_id := i, cr_status := CmdStatus_NotImplemented, cr_error := msg, cr_tsMs := t\<rparr>"
  obtain ts d2 where st: "stampMs t d1 = (ts, d2)"
    by fastforce
  let ?p = "envelopeWithCmdId ResultCmd i (cmdResultFields ?r ts)"
  have "length ?p \<le> 7200"
    using envelope_size [of ResultCmd i "cmdResultFields ?r ts"] default_result_size [of ?r ts] assms(3)
    by (simp add: emptyCmdResponse_def)
  moreover have "?p \<noteq> []"
    by (simp add: envelopeWithCmdId_def closeEnvelope_cmd_fields)
  ultimately have "admissible (responseFrame i ?p)"
    by (simp add: admissible_def responseFrame_def kMaxPayloadSize_def)
  moreover have "d_started d2" "d_sendQueue d2 = d_sendQueue d"
    using assms(1) nowMs_started [OF n] stampMs_started [OF st] by simp_all
  ultimately have q: "fst (queueOutboundFrame (responseFrame i ?p) d2) = None"
    "d_sendQueue (snd (queueOutboundFrame (responseFrame i ?p) d2)) = d_sendQueue d @ [responseFrame i ?p]"
    using queue_room [of d2 "responseFrame i ?p"] assms(2) by simp_all
  have "sendDefaultCmd i msg d = (fst (queueOutboundFrame (responseFrame i ?p) d2) = None,
      snd (queueOutboundFrame (responseFrame i ?p) d2))"
    using n st by (simp add: sendDefaultCmd_def defaultCmdResponse_def sendCmdResult_def emptyCmdResponse_def
        sendJson_def responseFrame_def case_prod_beta)
  then show ?thesis
    using q by (intro exI [of _ ?r] exI [of _ ts]) (simp add: emptyCmdResponse_def)
qed

lemma conforming_response: "conforming (responseFrame i (envelopeWithCmdId ResultCmd i (cmdResultFields r ts)))"
  by (rule conforming_envelopeWithCmdId [OF cmdResultFields_ok, of ResultCmd MsgResponse])
    (simp_all add: responseFrame_def matchesMessageType_def expectedMessageType_def command_range_defs wire_defs)

text \<open>The fields of a channel command, and what the decoder makes of them.\<close>

definition channelInvokeFields ::
  "external_id \<Rightarrow> external_id \<Rightarrow> external_id \<Rightarrow> scalar_value \<Rightarrow> (string \<times> string) list" where
  "channelInvokeFields x dv ch v =
     [(''externalId'', jsonQuoted x), (''deviceExternalId'', jsonQuoted dv), (''channelExternalId'', jsonQuoted ch),
      (''value'', scalarJson v)]"

lemma channelInvokeRequest_fields:
  assumes "\<forall>x. v \<noteq> ScalarDouble x"
  shows "channelInvokeRequest i (membersOf [] (channelInvokeFields x dv ch v))
    = \<lparr>ci_cmdId = i, ci_externalId = x, ci_deviceExternalId = dv, ci_channelExternalId = ch,
        ci_value = v, ci_valueJson = scalarJson v, ci_hasScalarValue = True\<rparr>"
proof -
  let ?m = "membersOf [] (channelInvokeFields x dv ch v)"
  have m: "member ?m ''externalId'' = jsonQuoted x" "member ?m ''deviceExternalId'' = jsonQuoted dv"
    "member ?m ''channelExternalId'' = jsonQuoted ch" "member ?m ''value'' = scalarJson v"
    by (simp_all add: channelInvokeFields_def trim_quoted trim_json_value json_value_scalar)
  show ?thesis
    unfolding channelInvokeRequest_def Let_def m
    using parseScalar_roundtrip [OF assms] by (simp add: decodeStringOrDefault_quoted)
qed

text \<open>The frame of a channel command runs the channel handler.\<close>

lemma channel_invoke_frame:
  assumes "onChannelInvoke hs = Some g" and "hdr_type header = MsgRequest"
  shows "handleRequestFrame hs header (request_bytes CmdChannelInvoke i (channelInvokeFields x dv ch v)) d
    = (True, g (channelInvokeRequest i (membersOf [] (channelInvokeFields x dv ch v))) d)"
proof -
  let ?fs = "channelInvokeFields x dv ch v"
  have "handleRequestFrame hs header (request_bytes CmdChannelInvoke i ?fs) d
      = handleCommand hs CmdChannelInvoke i (hdr_correlationId header) (jsonObject ?fs) (membersOf [] ?fs) d"
    using assms(2) by (intro handleRequestFrame_envelope)
      (simp_all add: channelInvokeFields_def json_fields matchesMessageType_def expectedMessageType_def
        command_range_defs wire_defs)
  then show ?thesis
    using assms(1) by (simp add: handleCommand_def handlerOr_def wire_defs)
qed

section \<open>Properties\<close>

text \<open>
  C9: a channel command reaches its handler exactly as the peer meant it. For every string and every
  null, boolean, integer or text value (any bytes, quotes and control characters included), the
  request frame that carries them makes the dispatcher call the channel handler once, with the same
  ids, the same value and the value's raw token, and do nothing else.
\<close>

theorem channel_invoke_delivered:
  assumes "onChannelInvoke hs = Some g" and "hdr_type header = MsgRequest" and "\<forall>x. v \<noteq> ScalarDouble x"
  shows "handleRequestFrame hs header (request_bytes CmdChannelInvoke i
      [(''externalId'', jsonQuoted x), (''deviceExternalId'', jsonQuoted dv), (''channelExternalId'', jsonQuoted ch),
       (''value'', scalarJson v)]) d
    = (True, g \<lparr>ci_cmdId = i, ci_externalId = x, ci_deviceExternalId = dv, ci_channelExternalId = ch,
        ci_value = v, ci_valueJson = scalarJson v, ci_hasScalarValue = True\<rparr> d)"
  using channel_invoke_frame [OF assms(1,2), of i x dv ch v d] channelInvokeRequest_fields [OF assms(3), of i x dv ch]
  by (simp only: channelInvokeFields_def)

definition sampleHandlers :: "dispatcher handlers" where
  "sampleHandlers = noHandlers\<lparr>onChannelInvoke := Some (\<lambda>r. hostStderrLine (ci_channelExternalId r))\<rparr>"

theorem channel_invoke_delivered_witness:
  "handleRequestFrame sampleHandlers (default_header\<lparr>hdr_type := MsgRequest\<rparr>) (request_bytes CmdChannelInvoke 7
      [(''externalId'', jsonQuoted ''a''), (''deviceExternalId'', jsonQuoted ''d''), (''channelExternalId'', jsonQuoted ''on''),
       (''value'', scalarJson (ScalarBool True))]) sampleDispatcher
    = (True, hostStderrLine ''on'' sampleDispatcher)"
  by (subst channel_invoke_delivered [where g = "\<lambda>r. hostStderrLine (ci_channelExternalId r)"])
    (simp_all add: sampleHandlers_def)



text \<open>
  C29: a frame whose class does not fit its command changes nothing but what the protocol-error
  handler does: no request handler runs, no answer is queued, and the call reports failure.
\<close>

theorem mismatched_class_rejected:
  assumes "fields_ok fs" and "c \<noteq> 0" and "\<not> matchesMessageType (hdr_type header) c"
  shows "handleRequestFrame hs header (request_bytes c i fs) d
     = (False, callHandler (onProtocolError hs)
         (''Frame type does not match command class: command='' @ toStringU c) d)"
  using assms parseIpcCommandToken_toString [of c]
  by (simp add: handleRequestFrame_def request_bytes_def envelopeWithCmdId_root messageType_def protocolError_def
      toUint16_def)

theorem mismatched_class_rejected_witness:
  "handleRequestFrame sampleHandlers default_header (request_bytes CmdChannelInvoke 7 []) sampleDispatcher
     = (False, sampleDispatcher)"
  by (subst mismatched_class_rejected)
    (simp_all add: matchesMessageType_def expectedMessageType_def command_range_defs wire_defs default_header_def
      sampleHandlers_def noHandlers_def callHandler_def)

end
