(* ===== verification/Dispatcher.thy ===== *)
theory Dispatcher
  imports Requests
begin

text \<open>
  \<^verbatim>\<open>SidecarDispatcher\<close> on top of the transport (\<^verbatim>\<open>src/sidecar.cpp\<close>, \<^verbatim>\<open>src/runtime.cpp\<close>): the
  callbacks it installs, start and stop, flushing the outbound queue and one poll.
\<close>

section \<open>The runtime\<close>

definition runtime_send ::
  "message_type \<Rightarrow> correlation_id \<Rightarrow> bytes \<Rightarrow> 'z dispatcher_scheme \<Rightarrow> string option \<times> 'z dispatcher_scheme" where
  "runtime_send type correlationId payload d =
     server_send (default_header\<lparr>hdr_type := type, hdr_correlationId := correlationId\<rparr>) payload d"

text \<open>The callbacks the constructor installs: only request frames are dispatched.\<close>

definition dispatcherCallbacks :: "'z dhandlers \<Rightarrow> 'z dispatcher_ext callbacks" where
  "dispatcherCallbacks hs =
     \<lparr>cb_onConnected = Some (callNotify (onConnected hs)),
      cb_onDisconnected = Some (callNotify (onDisconnected hs)),
      cb_onFrame = Some (\<lambda>header payload d.
        if messageType header \<noteq> MsgRequest then d else snd (handleRequestFrame hs header payload d))\<rparr>"

section \<open>Start and stop\<close>

definition dispatcher_start :: "'z dispatcher_scheme \<Rightarrow> string option \<times> 'z dispatcher_scheme" where
  "dispatcher_start d =
     (case server_start d of
        (Some e, d1) \<Rightarrow> (Some e, d1) | (None, d1) \<Rightarrow> (None, d1\<lparr>d_started := True\<rparr>))"

definition dispatcher_stop :: "'z dispatcher_scheme \<Rightarrow> 'z dispatcher_scheme" where
  "dispatcher_stop d = stop (server_wakeup (d\<lparr>d_started := False, d_sendQueue := []\<rparr>))"

section \<open>Flushing\<close>

definition dropRemaining :: "nat \<Rightarrow> 'z dispatcher_scheme \<Rightarrow> 'z dispatcher_scheme" where
  "dropRemaining remaining d =
     (if remaining = 0 then d
      else let total = d_droppedOutboundFrames d + word_of_nat remaining in
        hostStderrLine (''[sidecar][sendQueueDropped][host] reason=disconnected dropped='' @ decimal remaining
          @ '' droppedTotal='' @ toStringU total) (d\<lparr>d_droppedOutboundFrames := total\<rparr>))"

definition noteFlushFailure ::
  "'z dhandlers \<Rightarrow> outbound_frame \<Rightarrow> string \<Rightarrow> 'z dispatcher_scheme \<Rightarrow> 'z dispatcher_scheme" where
  "noteFlushFailure hs f err d =
     (if of_isIncident f \<or> of_isLogFrame f then noteSendFailure f err d
      else callHandler (onProtocolError hs) (''Failed to send outbound frame: '' @ err) d)"

fun flushLoop :: "'z dhandlers \<Rightarrow> outbound_frame list \<Rightarrow> 'z dispatcher_scheme \<Rightarrow> 'z dispatcher_scheme" where
  "flushLoop hs [] d = d"
| "flushLoop hs (f # fs) d =
     (case runtime_send (of_type f) (of_correlationId f) (bytes_of_string (of_payload f)) d of
        (None, d1) \<Rightarrow> flushLoop hs fs d1
      | (Some err, d1) \<Rightarrow>
          let clientGone = (\<not> hasClient d1);
              d2 = noteFlushFailure hs f err d1
          in if clientGone then dropRemaining (length fs) d2 else flushLoop hs fs d2)"

definition flushSendQueue :: "'z dhandlers \<Rightarrow> 'z dispatcher_scheme \<Rightarrow> 'z dispatcher_scheme" where
  "flushSendQueue hs d = flushLoop hs (d_sendQueue d) (d\<lparr>d_sendQueue := []\<rparr>)"

section \<open>One poll\<close>

definition dispatcher_pollOnce ::
  "'z dhandlers \<Rightarrow> 'z dispatcher_scheme \<Rightarrow> string option \<times> 'z dispatcher_scheme" where
  "dispatcher_pollOnce hs d =
     (if \<not> d_started d then (Some ''dispatcher not started'', d)
      else if d_polling d then (None, d)
      else
        let d1 = flushSendQueue hs (d\<lparr>d_polling := True\<rparr>) in
        (case server_pollOnce (dispatcherCallbacks hs) d1 of
           (e, d2) \<Rightarrow> (e, (flushSendQueue hs d2)\<lparr>d_polling := False\<rparr>)))"

section \<open>What the peer receives\<close>

definition wireFrame :: "outbound_frame \<Rightarrow> frame" where
  "wireFrame f = (default_header\<lparr>hdr_type := of_type f, hdr_correlationId := of_correlationId f,
     hdr_payloadSize := word_of_nat (length (of_payload f))\<rparr>, bytes_of_string (of_payload f))"

lemma wf_wireFrame: "admissible f \<Longrightarrow> wf_frame (wireFrame f)"
proof -
  assume "admissible f"
  then have l: "length (of_payload f) \<le> 2097152"
    by (simp add: admissible_def kMaxPayloadSize_def)
  then have "unat (word_of_nat (length (of_payload f)) :: u32) = length (of_payload f)"
    by (simp add: unat_of_nat)
  with l show ?thesis
    by (simp add: wireFrame_def wf_frame_def isValidFrameHeader_def default_header_def kMaxPayloadSize_def
        word_le_nat_alt)
qed

definition wireBytes :: "outbound_frame list \<Rightarrow> bytes" where
  "wireBytes fs = concat (map (\<lambda>f. frame_bytes (wireFrame f)) fs)"

lemma wireBytes_simps [simp]:
  "wireBytes [] = []" "wireBytes (f # fs) = frame_bytes (wireFrame f) @ wireBytes fs"
  by (simp_all add: wireBytes_def)

definition written :: "'z server_scheme \<Rightarrow> int \<Rightarrow> bytes" where
  "written s fd = wroteOn fd (os_trace (m_os s))"

text \<open>A protocol-error handler that leaves the sockets alone.\<close>

definition quiet_errors :: "'z dhandlers \<Rightarrow> bool" where
  "quiet_errors hs = (\<forall>g msg d. onProtocolError hs = Some g \<longrightarrow>
     os_trace (m_os (g msg d)) = os_trace (m_os d) \<and> m_clientFd (g msg d) = m_clientFd d)"

lemma note_written: "quiet_errors hs \<Longrightarrow> written (noteFlushFailure hs f e d) fd = written d fd
    \<and> m_clientFd (noteFlushFailure hs f e d) = m_clientFd d"
  by (auto simp: noteFlushFailure_def noteSendFailure_def hostStderrLine_def nowMs_def written_def callHandler_def
      quiet_errors_def split: option.split list.split)

lemma drop_written: "written (dropRemaining n d) fd = written d fd \<and> m_clientFd (dropRemaining n d) = m_clientFd d"
  by (simp add: dropRemaining_def hostStderrLine_def written_def Let_def)

lemma runtime_send_written:
  assumes "0 \<le> m_clientFd d"
    and "runtime_send (of_type f) (of_correlationId f) (bytes_of_string (of_payload f)) d = (e, d')"
  shows "\<exists>sent. prefix sent (frame_bytes (wireFrame f)) \<and> (e = None \<longleftrightarrow> sent = frame_bytes (wireFrame f))
     \<and> written d' (m_clientFd d) = written d (m_clientFd d) @ sent
     \<and> (if e = None then m_clientFd d' = m_clientFd d else m_clientFd d' = - 1)"
  using server_send_written [OF assms(1) assms(2) [unfolded runtime_send_def]]
  by (auto simp: wireFrame_def written_def)

lemma flushLoop_written:
  assumes "quiet_errors hs" and "0 \<le> m_clientFd d"
  shows "\<exists>sent. prefix sent (wireBytes fs)
     \<and> written (flushLoop hs fs d) (m_clientFd d) = written d (m_clientFd d) @ sent
     \<and> (if m_clientFd (flushLoop hs fs d) = m_clientFd d then sent = wireBytes fs
        else m_clientFd (flushLoop hs fs d) = - 1)"
  using assms(2)
proof (induction fs arbitrary: d)
  case Nil
  then show ?case by simp
next
  case (Cons f fs)
  obtain e d1 where s: "runtime_send (of_type f) (of_correlationId f) (bytes_of_string (of_payload f)) d = (e, d1)"
    by fastforce
  obtain sent where sent: "prefix sent (frame_bytes (wireFrame f))" "e = None \<longleftrightarrow> sent = frame_bytes (wireFrame f)"
    "written d1 (m_clientFd d) = written d (m_clientFd d) @ sent"
    "if e = None then m_clientFd d1 = m_clientFd d else m_clientFd d1 = - 1"
    using runtime_send_written [OF Cons.prems s] by blast
  show ?case
  proof (cases e)
    case None
    then obtain more' where "prefix more' (wireBytes fs)"
      "written (flushLoop hs fs d1) (m_clientFd d) = written d1 (m_clientFd d) @ more'"
      "if m_clientFd (flushLoop hs fs d1) = m_clientFd d then more' = wireBytes fs
        else m_clientFd (flushLoop hs fs d1) = - 1"
      using Cons.IH [of d1] sent(4) Cons.prems by auto
    with None s sent show ?thesis
      by (intro exI [of _ "sent @ more'"]) (auto split: if_splits)
  next
    case (Some x)
    then have "m_clientFd d1 = - 1"
      using sent(4) by simp
    moreover have "prefix sent (wireBytes (f # fs))"
      using sent(1) by (auto simp: prefix_def)
    ultimately show ?thesis
      using Some s sent(3) Cons.prems
      by (intro exI [of _ sent]) (simp add: Let_def hasClient_def note_written [OF assms(1)] drop_written)
  qed
qed

section \<open>Invariants of a poll\<close>

text \<open>The receive side is left alone and the queue keeps its bounds.\<close>

definition keeps :: "'z dispatcher_scheme \<Rightarrow> 'z dispatcher_scheme \<Rightarrow> bool" where
  "keeps d d' = (rx_view d' = rx_view d \<and> (queue_inv d \<longrightarrow> queue_inv d'))"

definition good_opt :: "('a, 'z dispatcher_scheme) handler \<Rightarrow> bool" where
  "good_opt h = (\<forall>g x d. h = Some g \<longrightarrow> keeps d (g x d))"

definition good_notify :: "('z dispatcher_scheme \<Rightarrow> 'z dispatcher_scheme) option \<Rightarrow> bool" where
  "good_notify h = (\<forall>g d. h = Some g \<longrightarrow> keeps d (g d))"

definition good_handlers :: "'z dhandlers \<Rightarrow> bool" where
  "good_handlers hs =
     (good_notify (onConnected hs) \<and> good_notify (onDisconnected hs)
      \<and> good_opt (onProtocolError hs) \<and> good_opt (onBootstrap hs) \<and> good_opt (onConfigChanged hs)
      \<and> good_opt (onInstanceRemoved hs) \<and> good_opt (onChannelInvoke hs) \<and> good_opt (onAdapterActionInvoke hs)
      \<and> good_opt (onDeviceNameUpdate hs) \<and> good_opt (onDeviceEffectInvoke hs) \<and> good_opt (onSceneInvoke hs)
      \<and> good_opt (onAdaptersStreamStart hs) \<and> good_opt (onAdaptersStreamStop hs) \<and> good_opt (onUnknownRequest hs))"

lemma keeps_refl [simp]: "keeps d d"
  by (simp add: keeps_def)

lemma keeps_trans: "keeps d d' \<Longrightarrow> keeps d' d'' \<Longrightarrow> keeps d d''"
  by (simp add: keeps_def)

lemma queue_inv_cong: "d_sendQueue d' = d_sendQueue d \<Longrightarrow> queue_inv d' = queue_inv d"
  by (simp add: queue_inv_def)

lemma keeps_callHandler: "good_opt h \<Longrightarrow> keeps d (callHandler h x d)"
  by (simp add: good_opt_def callHandler_def split: option.split)

lemma keeps_callNotify: "good_notify h \<Longrightarrow> keeps d (callNotify h d)"
  by (simp add: good_notify_def callNotify_def split: option.split)

lemma keeps_nowMs: "keeps d (snd (nowMs d))"
  by (simp add: keeps_def frame_rules queue_inv_def)

lemma keeps_stampMs: "keeps d (snd (stampMs ts d))"
  by (simp add: stampMs_def keeps_nowMs)

lemma keeps_queue: "keeps d (snd (queueOutboundFrame f d))"
  by (simp add: keeps_def frame_rules queue_inv_queueOutboundFrame)

lemma keeps_sendCmdResult: "keeps d (snd (sendCmdResult r d))"
  using keeps_trans [OF keeps_stampMs keeps_queue] by (simp add: sendCmdResult_def sendJson_def case_prod_beta)

lemma keeps_sendActionResult: "keeps d (snd (sendActionResult r d))"
  using keeps_trans [OF keeps_stampMs keeps_queue] by (simp add: sendActionResult_def sendJson_def case_prod_beta)

lemma keeps_sendDefaultCmd: "keeps d (snd (sendDefaultCmd i msg d))"
  using keeps_trans [OF keeps_nowMs keeps_sendCmdResult]
  by (simp add: sendDefaultCmd_def defaultCmdResponse_def case_prod_beta)

lemma keeps_sendDefaultAction: "keeps d (snd (sendDefaultAction i msg d))"
  using keeps_trans [OF keeps_nowMs keeps_sendActionResult]
  by (simp add: sendDefaultAction_def defaultActionResponse_def case_prod_beta)

lemma keeps_handlerOr:
  "good_opt h \<Longrightarrow> keeps d (snd (dflt d)) \<Longrightarrow> keeps d (snd (handlerOr h x dflt d))"
  by (cases h) (simp_all add: handlerOr_def good_opt_def)

lemma keeps_handleCommand:
  assumes "good_handlers hs"
  shows "keeps d (snd (handleCommand hs c i corr tok m d))"
  using assms unfolding handleCommand_def Let_def
  by (simp add: good_handlers_def keeps_callHandler keeps_handlerOr keeps_sendDefaultCmd keeps_sendDefaultAction
      keeps_trans [OF keeps_callHandler keeps_sendDefaultCmd] split: if_split)

lemma keeps_handleRequestFrame:
  assumes "good_handlers hs"
  shows "keeps d (snd (handleRequestFrame hs header payload d))"
  using assms keeps_handleCommand [OF assms]
  by (simp add: handleRequestFrame_def protocolError_def Let_def good_handlers_def keeps_callHandler
      split: sum.split option.split)

lemma quiet_dispatcherCallbacks:
  assumes "good_handlers hs"
  shows "quiet_callbacks (dispatcherCallbacks hs)"
  using assms keeps_handleRequestFrame [OF assms]
  by (simp add: quiet_callbacks_def dispatcherCallbacks_def quiet_notify_def quiet_frame_def good_handlers_def
      keeps_callNotify [unfolded keeps_def] keeps_def)

lemma queue_inv_updates [simp]:
  "queue_inv (d\<lparr>m_os := x\<rparr>) = queue_inv d" "queue_inv (d\<lparr>m_clientFd := c\<rparr>) = queue_inv d"
  "queue_inv (d\<lparr>m_notifyDisconnect := b\<rparr>) = queue_inv d" "queue_inv (d\<lparr>m_rxBuffer := y\<rparr>) = queue_inv d"
  "queue_inv (d\<lparr>m_rxOffset := n\<rparr>) = queue_inv d" "queue_inv (trace evs d) = queue_inv d"
  "queue_inv (drainWakeFd d) = queue_inv d" "queue_inv (compact d) = queue_inv d"
  "queue_inv (dropClientFd d) = queue_inv d" "queue_inv (closeClientDeferred d) = queue_inv d"
  "queue_inv (d\<lparr>d_polling := b\<rparr>) = queue_inv d"
  by (simp_all add: queue_inv_def trace_def drainWakeFd_def compact_def dropClientFd_def closeClientDeferred_def)

lemma queue_inv_take:
  "takeStatus d = (a, d') \<Longrightarrow> queue_inv d' = queue_inv d"
  "takeAccept d = (b, d') \<Longrightarrow> queue_inv d' = queue_inv d"
  "takeWait d = (c, d') \<Longrightarrow> queue_inv d' = queue_inv d"
  by (auto simp: takeStatus_def takeAccept_def takeWait_def split: list.splits)

lemma queue_inv_setNonBlocking: "setNonBlocking d = (a, d') \<Longrightarrow> queue_inv d' = queue_inv d"
  by (auto simp: setNonBlocking_def split: prod.splits option.splits dest!: queue_inv_take(1))

definition queue_notify :: "'z dispatcher_ext notify \<Rightarrow> bool" where
  "queue_notify n = (\<forall>d. queue_inv d \<longrightarrow> queue_inv (callNotify n d))"

lemma queue_inv_closeClient: "queue_notify n \<Longrightarrow> queue_inv d \<Longrightarrow> queue_inv (closeClient n d)"
  by (simp add: closeClient_def queue_notify_def)

lemma queue_inv_acceptClient:
  assumes "queue_notify n" and "queue_inv d" and "acceptClient n d = (e, new, d')"
  shows "queue_inv d'"
  using assms
  by (auto simp: acceptClient_def Let_def queue_inv_closeClient split: prod.splits sum.splits option.splits errno.splits
      if_splits dest!: queue_inv_take queue_inv_setNonBlocking)

lemma queue_inv_frameLoop:
  assumes "\<And>h p d. queue_inv d \<Longrightarrow> queue_inv (f h p d)"
  shows "queue_inv d \<Longrightarrow> queue_inv (snd (frameLoop n (Some f) d))"
proof (induction n arbitrary: d)
  case (Suc n)
  have "queue_inv (deliver1 (Some f) fr d)" for fr
    using Suc.prems assms by (simp add: deliver1_def Let_def)
  with Suc show ?case
    by (simp add: frameLoop_step Let_def split: option.split prod.split)
qed simp

lemma queue_inv_readClient:
  assumes f: "\<And>h p d. queue_inv d \<Longrightarrow> queue_inv (f h p d)" and n: "queue_notify n" and d: "queue_inv d"
  shows "queue_inv (snd (readClient (Some f) n d))"
proof -
  obtain bs e rs where rl: "readLoop (os_reads (m_os d)) = (bs, e, rs)"
    using prod_cases3 by blast
  let ?d = "d\<lparr>m_rxBuffer := m_rxBuffer d @ bs, m_os := (m_os d)\<lparr>os_reads := rs\<rparr>\<rparr>"
  have d': "queue_inv ?d"
    using d by simp
  obtain x d2 where l: "frameLoop (Suc (length (m_rxBuffer ?d))) (Some f) ?d = (x, d2)"
    by fastforce
  then have "queue_inv d2"
    using queue_inv_frameLoop [of f ?d, OF f d'] by (metis snd_conv)
  then show ?thesis
    using rl l d' by (cases e; cases x) (simp_all add: readClient_def Let_def queue_inv_closeClient [OF n])
qed

lemma queue_inv_pollOnce:
  assumes "good_handlers hs" and "queue_inv d"
  shows "queue_inv (snd (server_pollOnce (dispatcherCallbacks hs) d))"
proof -
  let ?cb = "dispatcherCallbacks hs"
  have conn: "queue_notify (cb_onConnected ?cb)" and disc: "queue_notify (cb_onDisconnected ?cb)"
    using assms(1) keeps_callNotify [unfolded keeps_def]
    by (auto simp: queue_notify_def dispatcherCallbacks_def good_handlers_def callNotify_def [of "Some _"])
  have read: "queue_inv (snd (readClient (cb_onFrame ?cb) (cb_onDisconnected ?cb) d))" if "queue_inv d" for d
    unfolding dispatcherCallbacks_def callbacks.select_convs
    by (rule queue_inv_readClient)
      (use keeps_handleRequestFrame [OF assms(1), unfolded keeps_def] disc that in
        \<open>auto simp: dispatcherCallbacks_def\<close>)
  have ready: "queue_inv (snd (handleReady ?cb evs d))" if "queue_inv d" for evs d
  proof (rule handleReady_preserves [where P = queue_inv])
    show "queue_inv (if e = None \<and> new then callNotify (cb_onConnected ?cb) s' else s')"
      if "queue_inv s" "acceptClient (cb_onDisconnected ?cb) s = (e, new, s')" for s e new s'
      using queue_inv_acceptClient [OF disc that] conn by (simp add: queue_notify_def)
  qed (simp_all add: read queue_inv_closeClient [OF disc] that)
  let ?d1 = "if m_notifyDisconnect d then callNotify (cb_onDisconnected ?cb) (d\<lparr>m_notifyDisconnect := False\<rparr>) else d"
  obtain w d2 where w: "takeWait ?d1 = (w, d2)"
    by fastforce
  have "queue_inv d2"
    using assms(2) disc queue_inv_take(3) [OF w] by (simp add: queue_notify_def)
  then show ?thesis
    using ready w assms(2) by (cases w) (auto simp: server_pollOnce_def Let_def split: errno.splits)
qed

lemma keeps_note: "good_handlers hs \<Longrightarrow> keeps d (noteFlushFailure hs f e d)"
  by (simp add: noteFlushFailure_def good_handlers_def keeps_callHandler) (simp add: keeps_def frame_rules queue_inv_def)

lemma keeps_dropRemaining: "keeps d (dropRemaining n d)"
  by (simp add: keeps_def dropRemaining_def hostStderrLine_def queue_inv_def rx_view_def Let_def)

lemma queue_inv_write: "serverWrite bs d = (e, d') \<Longrightarrow> queue_inv d' = queue_inv d"
  by (auto simp: serverWrite_def split: prod.splits)

lemma runtime_send_inv:
  assumes "server_inv d \<and> queue_inv d" and "runtime_send ty corr bs d = (e, d')"
  shows "server_inv d' \<and> queue_inv d'"
proof
  have "d' = snd (server_send (default_header\<lparr>hdr_type := ty, hdr_correlationId := corr\<rparr>) bs d)"
    using assms(2) by (simp add: runtime_send_def)
  then show "server_inv d'"
    using assms(1) by (simp add: server_inv_send)
  show "queue_inv d'"
    using assms by (auto simp: runtime_send_def server_send_def Let_def split: if_splits prod.splits option.splits
        dest!: queue_inv_write)
qed

lemma keeps_inv: "keeps d d' \<Longrightarrow> server_inv d \<and> queue_inv d \<Longrightarrow> server_inv d' \<and> queue_inv d'"
  using server_inv_view [of d' d] by (simp add: keeps_def)

lemma flushLoop_inv:
  "good_handlers hs \<Longrightarrow> server_inv d \<and> queue_inv d \<Longrightarrow> server_inv (flushLoop hs fs d) \<and> queue_inv (flushLoop hs fs d)"
proof (induction fs arbitrary: d)
  case (Cons f fs)
  obtain e d1 where s: "runtime_send (of_type f) (of_correlationId f) (bytes_of_string (of_payload f)) d = (e, d1)"
    by fastforce
  have i1: "server_inv d1 \<and> queue_inv d1"
    by (rule runtime_send_inv [OF Cons.prems(2) s])
  show ?case
  proof (cases e)
    case None
    then show ?thesis
      using s Cons.IH [OF Cons.prems(1) i1] by simp
  next
    case (Some x)
    have i2: "server_inv (noteFlushFailure hs f x d1) \<and> queue_inv (noteFlushFailure hs f x d1)"
      by (rule keeps_inv [OF keeps_note [OF Cons.prems(1)] i1])
    show ?thesis
      using Some s Cons.IH [OF Cons.prems(1) i2] keeps_inv [OF keeps_dropRemaining i2] by (simp add: Let_def)
  qed
qed simp

lemma flushSendQueue_inv:
  "good_handlers hs \<Longrightarrow> server_inv d \<Longrightarrow> server_inv (flushSendQueue hs d) \<and> queue_inv (flushSendQueue hs d)"
  unfolding flushSendQueue_def by (intro flushLoop_inv) (simp_all add: queue_inv_clear server_inv_def)

lemma dispatcher_pollOnce_inv:
  assumes "good_handlers hs" and "server_inv d" and "queue_inv d"
  shows "server_inv (snd (dispatcher_pollOnce hs d)) \<and> queue_inv (snd (dispatcher_pollOnce hs d))"
proof -
  let ?d1 = "flushSendQueue hs (d\<lparr>d_polling := True\<rparr>)"
  obtain e d2 where p: "server_pollOnce (dispatcherCallbacks hs) ?d1 = (e, d2)"
    by fastforce
  have "server_inv ?d1 \<and> queue_inv ?d1"
    using assms(2) by (intro flushSendQueue_inv [OF assms(1)]) (simp add: server_inv_def)
  then have "server_inv d2 \<and> queue_inv d2"
    using server_inv_pollOnce [OF quiet_dispatcherCallbacks [OF assms(1)], of ?d1]
      queue_inv_pollOnce [OF assms(1), of ?d1] p by simp
  then have "server_inv ((flushSendQueue hs d2)\<lparr>d_polling := False\<rparr>)" "queue_inv ((flushSendQueue hs d2)\<lparr>d_polling := False\<rparr>)"
    using flushSendQueue_inv [OF assms(1), of d2] by (simp_all add: server_inv_def)
  then show ?thesis
    using assms p by (simp add: dispatcher_pollOnce_def Let_def)
qed

section \<open>Properties\<close>

text \<open>
  C18: flushing writes the queue to the socket, frame by frame and in order. What the client is sent is
  a prefix of the queued frames' bytes; if the connection survives it is all of them, and a peer that
  decodes those bytes with the framing of this protocol gets exactly the queued frames, with their
  types, correlation ids and payloads, and nothing is left over.
\<close>

theorem flush_reaches_peer:
  assumes "queue_inv d" and "quiet_errors hs" and "0 \<le> m_clientFd d"
  shows "\<exists>sent. prefix sent (wireBytes (d_sendQueue d))
     \<and> written (flushSendQueue hs d) (m_clientFd d) = written d (m_clientFd d) @ sent
     \<and> (if m_clientFd (flushSendQueue hs d) = m_clientFd d
        then frames.decode sent = (map wireFrame (d_sendQueue d), [])
        else m_clientFd (flushSendQueue hs d) = - 1)"
proof -
  have "nextFrame (frame_bytes g @ r) = Some (g, r)" if "g \<in> set (map wireFrame (d_sendQueue d))" for g r
    using that assms(1) by (intro nextFrame_frame_bytes) (auto simp: queue_inv_def wf_wireFrame)
  then have "frames.decode (concat (map frame_bytes (map wireFrame (d_sendQueue d))) @ [])
      = (map wireFrame (d_sendQueue d), [])"
    by (intro frames.decode_items) (simp_all add: nextFrame_Nil)
  then have dec: "frames.decode (wireBytes (d_sendQueue d)) = (map wireFrame (d_sendQueue d), [])"
    by (simp add: wireBytes_def comp_def)
  have w: "written (d\<lparr>d_sendQueue := []\<rparr>) fd = written d fd" for fd
    by (simp add: written_def)
  let ?e = "d\<lparr>d_sendQueue := []\<rparr>"
  obtain sent where "prefix sent (wireBytes (d_sendQueue d))"
    and "written (flushLoop hs (d_sendQueue d) ?e) (m_clientFd ?e) = written ?e (m_clientFd ?e) @ sent"
    and "if m_clientFd (flushLoop hs (d_sendQueue d) ?e) = m_clientFd ?e then sent = wireBytes (d_sendQueue d)
      else m_clientFd (flushLoop hs (d_sendQueue d) ?e) = - 1"
    using flushLoop_written [OF assms(2), of ?e "d_sendQueue d"] assms(3) by auto
  then show ?thesis
    using dec by (intro exI [of _ sent]) (simp add: flushSendQueue_def w split: if_splits)
qed

theorem flush_reaches_peer_witness:
  "\<exists>sent. prefix sent (wireBytes (d_sendQueue (sampleDispatcher\<lparr>d_sendQueue := [sampleResponse]\<rparr>)))
     \<and> written (flushSendQueue noHandlers (sampleDispatcher\<lparr>d_sendQueue := [sampleResponse]\<rparr>)) 6
         = written (sampleDispatcher\<lparr>d_sendQueue := [sampleResponse]\<rparr>) 6 @ sent
     \<and> (if m_clientFd (flushSendQueue noHandlers (sampleDispatcher\<lparr>d_sendQueue := [sampleResponse]\<rparr>)) = 6
        then frames.decode sent = ([wireFrame sampleResponse], [])
        else m_clientFd (flushSendQueue noHandlers (sampleDispatcher\<lparr>d_sendQueue := [sampleResponse]\<rparr>)) = - 1)"
proof -
  have "queue_inv (sampleDispatcher\<lparr>d_sendQueue := [sampleResponse]\<rparr>)"
    by (simp add: queue_inv_def admissible_sample kHostQueueMaxDepth_def)
  moreover have "m_clientFd (sampleDispatcher\<lparr>d_sendQueue := [sampleResponse]\<rparr>) = 6"
    by (simp add: sampleDispatcher_def)
  moreover have "quiet_errors (noHandlers :: dispatcher handlers)"
    by (simp add: quiet_errors_def noHandlers_def)
  moreover have "[wireFrame sampleResponse] = map wireFrame (d_sendQueue (sampleDispatcher\<lparr>d_sendQueue := [sampleResponse]\<rparr>))"
    by simp
  ultimately show ?thesis
    using flush_reaches_peer [of "sampleDispatcher\<lparr>d_sendQueue := [sampleResponse]\<rparr>" noHandlers]
    by (metis (no_types, lifting) zero_le_numeral)
qed



end
