(* ===== verification/Exec_Backend.thy ===== *)
theory Exec_Backend
  imports Prelude
begin

text \<open>
  \<^verbatim>\<open>DefaultInstanceExecutionBackend\<close> and \<^verbatim>\<open>AbandonedThreadRegistry\<close> of \<^verbatim>\<open>src/sidecar.cpp\<close>: one
  worker thread per backend that runs queued tasks in order, and the list of workers that missed
  their stop deadline.

  Every critical section of the code is one operation here, and the worker thread is a program
  counter that advances one critical section at a time, so the step relation at the end has all the
  interleavings of one host thread (\<^verbatim>\<open>start\<close>, \<^verbatim>\<open>stop\<close>), any number of threads that call
  \<^verbatim>\<open>execute\<close>, the worker and the abandoned workers. A task is a value of the type parameter; what
  running it does is the adapter's. \<^verbatim>\<open>m_state\<close> is never null: the constructor creates it and
  \<^verbatim>\<open>stop\<close> only replaces it, so the null branches of the code have no counterpart.
\<close>

section \<open>State\<close>

text \<open>Where the worker is in \<^verbatim>\<open>run\<close>: before the wait, inside a task, after the loop, finished.\<close>

datatype 'a worker = AtLoop | InTask 'a | Leaving | Gone

text \<open>
  \<^verbatim>\<open>State\<close>, shared by the backend and its worker, with that worker. The last two fields are not in
  the code: the tasks accepted and the tasks begun since the thread was created.
\<close>

record 'a cell =
  x_tasks :: "'a list"
  x_started :: bool
  x_stopRequested :: bool
  x_workerExited :: bool
  x_worker :: "'a worker option"
  x_accepted :: "'a list"
  x_ran :: "'a list"

definition freshCell :: "'a cell" where
  "freshCell = \<lparr>x_tasks = [], x_started = False, x_stopRequested = False, x_workerExited = True,
     x_worker = None, x_accepted = [], x_ran = []\<rparr>"

text \<open>
  The backend: \<^verbatim>\<open>m_state\<close>, whether \<^verbatim>\<open>m_thread\<close> is joinable, whether a \<^verbatim>\<open>stop\<close> call waits (it then
  owns the thread), and what this backend gave to the registry.
\<close>

record 'a backend =
  b_cell :: "'a cell"
  b_joinable :: bool
  b_stopping :: bool
  b_registry :: "'a cell list"

definition newBackend :: "'a backend" where
  "newBackend = \<lparr>b_cell = freshCell, b_joinable = False, b_stopping = False, b_registry = []\<rparr>"

section \<open>Operations\<close>

text \<open>\<^verbatim>\<open>start\<close>; the first argument is what creating the thread throws, if anything.\<close>

definition backend_start :: "string option \<Rightarrow> 'a backend \<Rightarrow> string option \<times> 'a backend" where
  "backend_start thrown b =
     (if b_joinable b then (Some ''Execution backend thread still active'', b)
      else if x_started (b_cell b) then (None, b)
      else
        let c = (b_cell b)\<lparr>x_stopRequested := False, x_workerExited := False\<rparr> in
        (case thrown of
           Some what \<Rightarrow> (Some (''Failed to create execution thread: '' @ what),
                          b\<lparr>b_cell := c\<lparr>x_workerExited := True\<rparr>\<rparr>)
         | None \<Rightarrow> (None, b\<lparr>b_cell := c\<lparr>x_started := True, x_worker := Some AtLoop,
                                   x_accepted := x_tasks c, x_ran := []\<rparr>, b_joinable := True\<rparr>)))"

definition backend_execute :: "'a option \<Rightarrow> 'a backend \<Rightarrow> string option \<times> 'a backend" where
  "backend_execute task b =
     (case task of
        None \<Rightarrow> (Some ''Execution task is empty'', b)
      | Some t \<Rightarrow>
          let c = b_cell b in
          if \<not> x_started c then (Some ''Execution backend not started'', b)
          else if x_stopRequested c then (Some ''Execution backend is stopping'', b)
          else (None, b\<lparr>b_cell := c\<lparr>x_tasks := x_tasks c @ [t], x_accepted := x_accepted c @ [t]\<rparr>\<rparr>))"

text \<open>What every successful \<^verbatim>\<open>stop\<close> does to the state at its end.\<close>

definition clearCell :: "'a cell \<Rightarrow> 'a cell" where
  "clearCell c = c\<lparr>x_started := False, x_stopRequested := False, x_tasks := [], x_workerExited := True,
     x_worker := None\<rparr>"

text \<open>
  \<^verbatim>\<open>stop\<close> up to the wait: nothing to stop, nothing to join, or (third case) the call owns the thread
  and waits. The result says whether it waits.
\<close>

definition backend_stopBegin :: "'a backend \<Rightarrow> bool \<times> 'a backend" where
  "backend_stopBegin b =
     (let c = b_cell b in
      if \<not> x_started c \<and> \<not> b_joinable b then (False, b)
      else if \<not> b_joinable b then (False, b\<lparr>b_cell := clearCell c\<rparr>)
      else (True, b\<lparr>b_cell := c\<lparr>x_stopRequested := True\<rparr>, b_joinable := False, b_stopping := True\<rparr>))"

definition adopt :: "'a cell \<Rightarrow> 'a cell list \<Rightarrow> 'a cell list" where
  "adopt c registry = registry @ [c]"

text \<open>\<^verbatim>\<open>stop\<close> from the end of the wait on: join, or give the thread away and start afresh.\<close>

definition backend_stopEnd :: "'a backend \<Rightarrow> string option \<times> 'a backend" where
  "backend_stopEnd b =
     (if x_workerExited (b_cell b)
      then (None, b\<lparr>b_cell := clearCell (b_cell b), b_stopping := False\<rparr>)
      else (Some ''Timed out waiting for execution backend stop'',
            b\<lparr>b_registry := adopt (b_cell b) (b_registry b), b_cell := freshCell, b_stopping := False\<rparr>))"

text \<open>One step of \<^verbatim>\<open>run\<close>; none when the worker waits for a task, has finished or does not exist.\<close>

definition worker_step :: "'a cell \<Rightarrow> 'a cell option" where
  "worker_step c =
     (case x_worker c of
        None \<Rightarrow> None
      | Some AtLoop \<Rightarrow>
          (case x_tasks c of
             t # ts \<Rightarrow> Some (c\<lparr>x_tasks := ts, x_worker := Some (InTask t), x_ran := x_ran c @ [t]\<rparr>)
           | [] \<Rightarrow> if x_stopRequested c then Some (c\<lparr>x_worker := Some Leaving\<rparr>) else None)
      | Some (InTask t) \<Rightarrow> Some (c\<lparr>x_worker := Some AtLoop\<rparr>)
      | Some Leaving \<Rightarrow> Some (c\<lparr>x_workerExited := True, x_worker := Some Gone\<rparr>)
      | Some Gone \<Rightarrow> None)"

section \<open>The registry\<close>

definition reapFinished :: "'a cell list \<Rightarrow> 'a cell list" where
  "reapFinished registry = filter (\<lambda>c. \<not> x_workerExited c) registry"

text \<open>
  \<^verbatim>\<open>reap\<close>: the argument lists what happens between two looks, whether the deadline has passed and
  what the workers do during the sleep. Its end is a deadline that has passed.
\<close>

fun reap :: "(bool \<times> ('a cell list \<Rightarrow> 'a cell list)) list \<Rightarrow> 'a cell list \<Rightarrow> nat \<times> 'a cell list" where
  "reap [] registry = (length (reapFinished registry), reapFinished registry)"
| "reap ((deadlinePassed, sleep) # rest) registry =
     (let left = reapFinished registry in
      if left = [] \<or> deadlinePassed then (length left, left) else reap rest (sleep left))"

lemma reapFinished_running: "list_all (\<lambda>c. \<not> x_workerExited c) (reapFinished registry)"
  by (simp add: reapFinished_def list_all_iff)

section \<open>The contract of a task queue\<close>

text \<open>
  What the host relies on when it hands tasks to a backend: a task is accepted at the end of the
  queue or the backend is unchanged, and a backend that accepts goes on accepting.
\<close>

locale task_queue =
  fixes exec :: "'t \<Rightarrow> 'b \<Rightarrow> string option \<times> 'b" and pending :: "'b \<Rightarrow> 't list" and accepting :: "'b \<Rightarrow> bool"
  assumes exec_accepts: "accepting b \<Longrightarrow> fst (exec t b) = None
        \<and> pending (snd (exec t b)) = pending b @ [t] \<and> accepting (snd (exec t b))"
    and exec_refuses: "\<not> accepting b \<Longrightarrow> fst (exec t b) \<noteq> None \<and> snd (exec t b) = b"
begin

lemma exec_none_iff: "fst (exec t b) = None \<longleftrightarrow> accepting b"
  using exec_accepts exec_refuses by (cases "accepting b") auto

lemma exec_pending: "pending (snd (exec t b)) = pending b @ (if accepting b then [t] else [])"
  using exec_accepts exec_refuses by (cases "accepting b") auto

lemma execs_pending:
  "accepting b \<Longrightarrow> pending (fold (\<lambda>t. snd \<circ> exec t) ts b) = pending b @ ts"
  by (induction ts arbitrary: b) (simp_all add: exec_accepts)

end

definition backend_pending :: "'a backend \<Rightarrow> 'a list" where
  "backend_pending b = x_tasks (b_cell b)"

definition backend_accepting :: "'a backend \<Rightarrow> bool" where
  "backend_accepting b = (x_started (b_cell b) \<and> \<not> x_stopRequested (b_cell b))"

interpretation backend: task_queue "\<lambda>t. backend_execute (Some t)" backend_pending backend_accepting
  by unfold_locales (auto simp: backend_execute_def backend_pending_def backend_accepting_def Let_def)

section \<open>Interleavings\<close>

text \<open>
  One step of the system: a call's critical section, or a worker's. The host thread starts and stops
  one call at a time, so it neither starts nor stops while its own \<^verbatim>\<open>stop\<close> waits.
\<close>

inductive backend_step :: "'a backend \<Rightarrow> 'a backend \<Rightarrow> bool" where
  start: "\<not> b_stopping b \<Longrightarrow> backend_step b (snd (backend_start thrown b))"
| execute: "backend_step b (snd (backend_execute task b))"
| stop_begin: "\<not> b_stopping b \<Longrightarrow> backend_step b (snd (backend_stopBegin b))"
| stop_end: "b_stopping b \<Longrightarrow> backend_step b (snd (backend_stopEnd b))"
| "work": "worker_step (b_cell b) = Some c \<Longrightarrow> backend_step b (b\<lparr>b_cell := c\<rparr>)"
| abandoned: "i < length (b_registry b) \<Longrightarrow> worker_step (b_registry b ! i) = Some c
    \<Longrightarrow> backend_step b (b\<lparr>b_registry := (b_registry b)[i := c]\<rparr>)"
| reaped: "backend_step b (b\<lparr>b_registry := reapFinished (b_registry b)\<rparr>)"

inductive_cases backend_stepE: "backend_step b b'"

text \<open>What holds of a cell at any time: the worker's position, the flags and the two ghost lists agree.\<close>

definition cell_inv :: "'a cell \<Rightarrow> bool" where
  "cell_inv c = (x_accepted c = x_ran c @ x_tasks c
     \<and> (case x_worker c of
          None \<Rightarrow> \<not> x_started c \<and> \<not> x_stopRequested c \<and> x_workerExited c
        | Some AtLoop \<Rightarrow> x_started c \<and> \<not> x_workerExited c
        | Some (InTask t) \<Rightarrow> x_started c \<and> \<not> x_workerExited c \<and> x_ran c \<noteq> [] \<and> last (x_ran c) = t
        | Some Leaving \<Rightarrow> x_started c \<and> \<not> x_workerExited c \<and> x_stopRequested c \<and> x_tasks c = []
        | Some Gone \<Rightarrow> x_started c \<and> x_workerExited c \<and> x_stopRequested c \<and> x_tasks c = []))"

definition backend_inv :: "'a backend \<Rightarrow> bool" where
  "backend_inv b = (
     (case x_worker (b_cell b) of
        None \<Rightarrow> \<not> b_joinable b \<and> \<not> b_stopping b \<and> x_tasks (b_cell b) = []
          \<and> \<not> x_started (b_cell b) \<and> \<not> x_stopRequested (b_cell b) \<and> x_workerExited (b_cell b)
      | Some w \<Rightarrow> cell_inv (b_cell b) \<and> b_joinable b = (\<not> b_stopping b)
          \<and> x_stopRequested (b_cell b) = b_stopping b)
     \<and> (\<forall>c \<in> set (b_registry b). cell_inv c \<and> x_worker c \<noteq> None \<and> x_stopRequested c))"

lemma cell_inv_worker: "worker_step c = Some c' \<Longrightarrow> cell_inv c \<Longrightarrow> cell_inv c'"
  by (auto simp: worker_step_def cell_inv_def split: option.splits worker.splits list.splits if_splits)

lemma worker_step_keeps:
  assumes "worker_step c = Some c'"
  shows "x_stopRequested c' = x_stopRequested c" and "x_worker c' \<noteq> None" and "x_worker c \<noteq> None"
  using assms by (auto simp: worker_step_def split: option.splits worker.splits list.splits if_splits)

lemma backend_inv_start: "\<not> b_stopping b \<Longrightarrow> backend_inv b \<Longrightarrow> backend_inv (snd (backend_start thrown b))"
  by (auto simp: backend_start_def backend_inv_def cell_inv_def Let_def split: option.splits worker.splits)

lemma backend_inv_execute: "backend_inv b \<Longrightarrow> backend_inv (snd (backend_execute task b))"
  by (auto simp: backend_execute_def backend_inv_def cell_inv_def Let_def split: option.splits worker.splits)

lemma backend_inv_stopBegin: "\<not> b_stopping b \<Longrightarrow> backend_inv b \<Longrightarrow> backend_inv (snd (backend_stopBegin b))"
  by (auto simp: backend_stopBegin_def backend_inv_def cell_inv_def clearCell_def Let_def
      split: option.splits worker.splits)

lemma backend_inv_stopEnd: "b_stopping b \<Longrightarrow> backend_inv b \<Longrightarrow> backend_inv (snd (backend_stopEnd b))"
  by (auto simp: backend_stopEnd_def backend_inv_def clearCell_def freshCell_def adopt_def
      split: option.splits)

lemma backend_inv_work: "worker_step (b_cell b) = Some c \<Longrightarrow> backend_inv b \<Longrightarrow> backend_inv (b\<lparr>b_cell := c\<rparr>)"
  using worker_step_keeps [of "b_cell b" c]
  by (auto simp: backend_inv_def dest: cell_inv_worker split: option.splits)

lemma backend_inv_abandoned:
  assumes "i < length (b_registry b)" and "worker_step (b_registry b ! i) = Some c" and "backend_inv b"
  shows "backend_inv (b\<lparr>b_registry := (b_registry b)[i := c]\<rparr>)"
  using assms worker_step_keeps [OF assms(2)] cell_inv_worker [OF assms(2)]
  by (auto simp: backend_inv_def dest!: subsetD [OF set_update_subset_insert] split: option.splits)

lemma backend_inv_reaped: "backend_inv b \<Longrightarrow> backend_inv (b\<lparr>b_registry := reapFinished (b_registry b)\<rparr>)"
  by (auto simp: backend_inv_def reapFinished_def split: option.splits)

lemma backend_inv_new: "backend_inv newBackend"
  by (simp add: backend_inv_def newBackend_def freshCell_def)

lemma backend_inv_step: "backend_step b b' \<Longrightarrow> backend_inv b \<Longrightarrow> backend_inv b'"
  by (elim backend_stepE)
    (simp_all add: backend_inv_start backend_inv_execute backend_inv_stopBegin backend_inv_stopEnd
      backend_inv_work backend_inv_abandoned backend_inv_reaped)

lemma backend_inv_reachable: "backend_step\<^sup>*\<^sup>* newBackend b \<Longrightarrow> backend_inv b"
  by (induction rule: rtranclp_induct) (auto intro: backend_inv_new backend_inv_step)

section \<open>What a backend promises\<close>

text \<open>
  The abstract service: it is open or closed; while it is open it accepts tasks; it runs what it
  accepted in that order, one after the other; and a service that is closed may be given up, with
  what it has not run.
\<close>

record 'a service =
  svc_open :: bool
  svc_accepted :: "'a list"
  svc_ran :: "'a list"

inductive service_step :: "'a service \<Rightarrow> 'a service \<Rightarrow> bool" where
  "open": "\<not> svc_open s \<Longrightarrow> service_step s \<lparr>svc_open = True, svc_accepted = [], svc_ran = []\<rparr>"
| accept: "svc_open s \<Longrightarrow> service_step s (s\<lparr>svc_accepted := svc_accepted s @ [t]\<rparr>)"
| run: "svc_accepted s = svc_ran s @ t # ts \<Longrightarrow> service_step s (s\<lparr>svc_ran := svc_ran s @ [t]\<rparr>)"
| close: "service_step s (s\<lparr>svc_open := False\<rparr>)"
| give_up: "\<not> svc_open s \<Longrightarrow> service_step s \<lparr>svc_open = False, svc_accepted = [], svc_ran = []\<rparr>"

definition service_of :: "'a backend \<Rightarrow> 'a service" where
  "service_of b = \<lparr>svc_open = backend_accepting b, svc_accepted = x_accepted (b_cell b), svc_ran = x_ran (b_cell b)\<rparr>"

lemmas service_of_defs = service_of_def backend_accepting_def

lemma service_start:
  assumes "backend_inv b" and "\<not> b_stopping b"
  shows "service_step\<^sup>=\<^sup>= (service_of b) (service_of (snd (backend_start thrown b)))"
proof (cases "b_joinable b \<or> x_started (b_cell b) \<or> thrown \<noteq> None")
  case True
  then have "service_of (snd (backend_start thrown b)) = service_of b"
    using assms by (auto simp: backend_start_def backend_inv_def service_of_defs Let_def split: option.splits)
  then show ?thesis
    by simp
next
  case False
  then have "service_of (snd (backend_start thrown b)) = \<lparr>svc_open = True, svc_accepted = [], svc_ran = []\<rparr>"
    using assms by (auto simp: backend_start_def backend_inv_def service_of_defs cell_inv_def Let_def
        split: option.splits worker.splits)
  moreover have "\<not> svc_open (service_of b)"
    using False by (simp add: service_of_defs)
  ultimately show ?thesis
    by (simp add: service_step.open)
qed

lemma service_execute: "service_step\<^sup>=\<^sup>= (service_of b) (service_of (snd (backend_execute task b)))"
proof (cases "task = None \<or> \<not> backend_accepting b")
  case True
  then have "service_of (snd (backend_execute task b)) = service_of b"
    by (auto simp: backend_execute_def service_of_defs Let_def split: option.splits)
  then show ?thesis
    by simp
next
  case False
  then obtain t where "service_of (snd (backend_execute task b))
      = (service_of b)\<lparr>svc_accepted := svc_accepted (service_of b) @ [t]\<rparr>" "svc_open (service_of b)"
    by (auto simp: backend_execute_def service_of_defs Let_def)
  then show ?thesis
    using service_step.accept [of "service_of b" t] by simp
qed

lemma service_stopBegin:
  assumes "backend_inv b"
  shows "service_step\<^sup>=\<^sup>= (service_of b) (service_of (snd (backend_stopBegin b)))"
proof -
  have "service_of (snd (backend_stopBegin b)) = (service_of b)\<lparr>svc_open := False\<rparr>"
    using assms by (auto simp: backend_stopBegin_def backend_inv_def service_of_defs clearCell_def Let_def
        split: option.splits)
  then show ?thesis
    using service_step.close [of "service_of b"] by simp
qed

lemma service_stopEnd:
  assumes "backend_inv b" and "b_stopping b"
  shows "service_step\<^sup>=\<^sup>= (service_of b) (service_of (snd (backend_stopEnd b)))"
proof -
  have "\<not> svc_open (service_of b)"
    using assms by (auto simp: backend_inv_def service_of_defs split: option.splits)
  moreover from this have "service_of (snd (backend_stopEnd b))
      = (if x_workerExited (b_cell b) then service_of b else \<lparr>svc_open = False, svc_accepted = [], svc_ran = []\<rparr>)"
    by (simp add: backend_stopEnd_def service_of_defs clearCell_def freshCell_def)
  ultimately show ?thesis
    using service_step.give_up [of "service_of b"] by simp
qed

lemma service_work:
  assumes "backend_inv b" and "worker_step (b_cell b) = Some c"
  shows "service_step\<^sup>=\<^sup>= (service_of b) (service_of (b\<lparr>b_cell := c\<rparr>))"
proof (cases "x_ran c = x_ran (b_cell b)")
  case True
  then have "service_of (b\<lparr>b_cell := c\<rparr>) = service_of b"
    using assms(2) by (auto simp: worker_step_def service_of_defs
        split: option.splits worker.splits list.splits if_splits)
  then show ?thesis
    by simp
next
  case False
  then obtain t ts where "x_tasks (b_cell b) = t # ts"
    and c: "service_of (b\<lparr>b_cell := c\<rparr>) = (service_of b)\<lparr>svc_ran := svc_ran (service_of b) @ [t]\<rparr>"
    using assms(2) by (auto simp: worker_step_def service_of_defs
        split: option.splits worker.splits list.splits if_splits)
  then have "svc_accepted (service_of b) = svc_ran (service_of b) @ t # ts"
    using assms by (auto simp: backend_inv_def cell_inv_def service_of_def worker_step_def split: option.splits)
  then show ?thesis
    unfolding c using service_step.run [of "service_of b" t ts] by simp
qed

lemma service_registry: "service_of (b\<lparr>b_registry := r\<rparr>) = service_of b"
  by (simp add: service_of_defs)

lemma service_sim:
  assumes "backend_step b b'" and inv: "backend_inv b"
  shows "service_step\<^sup>=\<^sup>= (service_of b) (service_of b')"
  using assms(1)
proof (cases rule: backend_step.cases)
  case (start thrown)
  then show ?thesis
    using service_start [OF inv, of thrown] by simp
next
  case (execute task)
  then show ?thesis
    by (simp only: service_execute)
next
  case stop_begin
  then show ?thesis
    using inv by (simp only: service_stopBegin)
next
  case stop_end
  then show ?thesis
    using inv by (simp only: service_stopEnd)
next
  case (work c)
  then show ?thesis
    using inv by (simp only: service_work)
qed (simp_all only: service_registry, simp_all)

section \<open>Progress\<close>

text \<open>How many steps a stopping worker still has to take.\<close>

definition work_left :: "'a cell \<Rightarrow> nat" where
  "work_left c = 2 * length (x_tasks c)
     + (case x_worker c of Some AtLoop \<Rightarrow> 2 | Some (InTask t) \<Rightarrow> 3 | Some Leaving \<Rightarrow> 1 | _ \<Rightarrow> 0)"

definition work :: "'a cell \<Rightarrow> 'a cell" where
  "work c = (case worker_step c of Some c' \<Rightarrow> c' | None \<Rightarrow> c)"

lemma work_left_step: "worker_step c = Some c' \<Longrightarrow> work_left c = Suc (work_left c')"
  by (auto simp: worker_step_def work_left_def split: option.splits worker.splits list.splits if_splits)

lemma worker_step_None:
  "cell_inv c \<Longrightarrow> x_stopRequested c \<Longrightarrow> worker_step c = None \<Longrightarrow> x_workerExited c \<and> x_tasks c = []"
  by (auto simp: worker_step_def cell_inv_def split: option.splits worker.splits list.splits)

lemma work_accepted: "x_accepted (work c) = x_accepted c" "x_stopRequested (work c) = x_stopRequested c"
  by (auto simp: work_def worker_step_def split: option.splits worker.splits list.splits)

lemma funpow_fixed: "f x = x \<Longrightarrow> (f ^^ n) x = x"
  by (induction n) simp_all

lemma work_finishes:
  assumes "cell_inv c" and "x_stopRequested c"
  shows "x_workerExited ((work ^^ work_left c) c) \<and> x_ran ((work ^^ work_left c) c) = x_accepted c"
  using assms
proof (induction "work_left c" arbitrary: c)
  case 0
  then have "worker_step c = None"
    by (cases "worker_step c") (auto dest: work_left_step)
  then show ?case
    using worker_step_None [of c] 0 by (simp add: cell_inv_def flip: 0(1))
next
  case (Suc n)
  show ?case
  proof (cases "worker_step c")
    case None
    then have "x_workerExited c" "x_tasks c = []" "work c = c"
      using worker_step_None [OF Suc.prems] by (simp_all add: work_def)
    then show ?thesis
      using Suc.prems by (simp add: funpow_fixed cell_inv_def)
  next
    case (Some c')
    then have "work c = c'" "work_left c' = n" "x_stopRequested c'" "cell_inv c'"
      using Suc.prems Suc.hyps(2) work_left_step [OF Some] worker_step_keeps [OF Some] cell_inv_worker [OF Some]
      by (simp_all add: work_def)
    then show ?thesis
      using Suc.hyps(1) [of c'] work_accepted [of c]
      by (simp add: funpow_Suc_right del: funpow.simps flip: Suc.hyps(2))
  qed
qed

section \<open>Properties\<close>

text \<open>
  C35: the backend implements its contract. Whatever calls, worker steps and abandoned workers
  interleave, every step of the system is a step of the abstract service or leaves it as it is: a
  task is accepted only while the service is open, accepted tasks begin in the order of acceptance
  and each at most once, and tasks are given up only after the service is closed.
\<close>

theorem backend_refines_service:
  assumes "backend_step\<^sup>*\<^sup>* newBackend b"
  shows "service_step\<^sup>*\<^sup>* (service_of newBackend) (service_of b)"
  using assms
proof (induction rule: rtranclp_induct)
  case (step b b')
  have "backend_inv b"
    using step.hyps(1) by (rule backend_inv_reachable)
  with step.hyps(2) have "service_step\<^sup>=\<^sup>= (service_of b) (service_of b')"
    by (rule service_sim)
  with step.IH show ?case
    by auto
qed simp

definition sampleBackend :: "nat backend" where
  "sampleBackend = snd (backend_execute (Some 7) (snd (backend_start None newBackend)))"

lemma b_stopping_new: "\<not> b_stopping newBackend"
  by (simp add: newBackend_def)

lemma sampleBackend_reachable: "backend_step\<^sup>*\<^sup>* newBackend sampleBackend"
  unfolding sampleBackend_def
proof (rule rtranclp.rtrancl_into_rtrancl)
  show "backend_step\<^sup>*\<^sup>* newBackend (snd (backend_start None newBackend))"
    by (rule r_into_rtranclp, rule backend_step.start, rule b_stopping_new)
qed (rule backend_step.execute)

theorem backend_refines_service_witness:
  "service_step\<^sup>*\<^sup>* (service_of newBackend) \<lparr>svc_open = True, svc_accepted = [7::nat], svc_ran = []\<rparr>"
  using backend_refines_service [OF sampleBackend_reachable]
  by (simp add: sampleBackend_def service_of_defs backend_execute_def backend_start_def newBackend_def freshCell_def)

text \<open>
  C36: a stop that reports success has drained the queue: every task accepted since the start has been
  run to its end, in order, and the worker is gone. A stop that times out reports it, hands the
  running worker to the registry and leaves a backend that can be started again.
\<close>

theorem stop_drains_or_hands_over:
  assumes "backend_step\<^sup>*\<^sup>* newBackend b" and "b_stopping b" and "backend_stopEnd b = (e, b')"
  shows "if e = None
    then x_ran (b_cell b) = x_accepted (b_cell b) \<and> x_worker (b_cell b) = Some Gone
      \<and> b_registry b' = b_registry b \<and> fst (backend_start None b') = None
    else \<not> x_workerExited (b_cell b) \<and> b_registry b' = b_registry b @ [b_cell b] \<and> b_cell b' = freshCell
      \<and> fst (backend_start None b') = None"
  using backend_inv_reachable [OF assms(1)] assms(2,3)
  by (auto simp: backend_stopEnd_def backend_inv_def cell_inv_def backend_start_def adopt_def freshCell_def
      clearCell_def Let_def split: option.splits worker.splits if_splits)

theorem stop_drains_or_hands_over_witness:
  "\<not> x_workerExited (b_cell (snd (backend_stopBegin sampleBackend)))
    \<and> b_registry (snd (backend_stopEnd (snd (backend_stopBegin sampleBackend))))
        = [b_cell (snd (backend_stopBegin sampleBackend))]
    \<and> fst (backend_start None (snd (backend_stopEnd (snd (backend_stopBegin sampleBackend))))) = None"
proof -
  let ?b = "snd (backend_stopBegin sampleBackend)"
  have "backend_step\<^sup>*\<^sup>* newBackend ?b"
    by (rule rtranclp.rtrancl_into_rtrancl [OF sampleBackend_reachable backend_step.stop_begin])
      (simp add: sampleBackend_def backend_execute_def backend_start_def newBackend_def freshCell_def)
  moreover have "b_stopping ?b" "fst (backend_stopEnd ?b) \<noteq> None" "b_registry ?b = []"
    by (simp_all add: sampleBackend_def backend_execute_def backend_start_def backend_stopBegin_def
        backend_stopEnd_def newBackend_def freshCell_def)
  ultimately show ?thesis
    using stop_drains_or_hands_over [of ?b "fst (backend_stopEnd ?b)" "snd (backend_stopEnd ?b)"] by simp
qed

text \<open>
  C37: a stop is only as slow as its tasks. While a stop waits, the worker alone reaches its end in
  \<open>work_left\<close> steps, at most two per queued task and three more, and by then it has run every task
  that was accepted; so a stop times out only when a task takes longer than the time given.
\<close>

theorem stopping_worker_finishes:
  assumes "backend_step\<^sup>*\<^sup>* newBackend b" and "b_stopping b"
  shows "x_workerExited ((work ^^ work_left (b_cell b)) (b_cell b))
    \<and> x_ran ((work ^^ work_left (b_cell b)) (b_cell b)) = x_accepted (b_cell b)
    \<and> work_left (b_cell b) \<le> 2 * length (x_tasks (b_cell b)) + 3"
proof -
  have "cell_inv (b_cell b)" "x_stopRequested (b_cell b)"
    using backend_inv_reachable [OF assms(1)] assms(2) by (auto simp: backend_inv_def split: option.splits)
  from work_finishes [OF this] show ?thesis
    by (simp add: work_left_def split: option.split worker.split)
qed

theorem stopping_worker_finishes_witness:
  "x_workerExited ((work ^^ 4) (b_cell (snd (backend_stopBegin sampleBackend))))
    \<and> x_ran ((work ^^ 4) (b_cell (snd (backend_stopBegin sampleBackend)))) = [7]"
proof -
  let ?b = "snd (backend_stopBegin sampleBackend)"
  have "backend_step\<^sup>*\<^sup>* newBackend ?b"
    by (rule rtranclp.rtrancl_into_rtrancl [OF sampleBackend_reachable backend_step.stop_begin])
      (simp add: sampleBackend_def backend_execute_def backend_start_def newBackend_def freshCell_def)
  moreover have "b_stopping ?b" "work_left (b_cell ?b) = 4" "x_accepted (b_cell ?b) = [7]"
    by (simp_all add: sampleBackend_def backend_execute_def backend_start_def backend_stopBegin_def
        work_left_def newBackend_def freshCell_def)
  ultimately show ?thesis
    using stopping_worker_finishes [of ?b] by simp
qed

text \<open>
  The registry joins only workers that have finished. Reaping removes exactly the finished
  workers, keeps the others in order, and reports how many are left; with every worker still
  running nothing is joined, and nothing left means that every worker has finished.
\<close>

lemma reap_counts_running:
  "reap [] registry = (length (filter (\<lambda>c. \<not> x_workerExited c) registry), filter (\<lambda>c. \<not> x_workerExited c) registry)
   \<and> fst (reap script registry) = length (snd (reap script registry))
   \<and> list_all (\<lambda>c. \<not> x_workerExited c) (snd (reap script registry))
   \<and> fst (reap ((deadlinePassed, sleep) # script) registry) =
       (if deadlinePassed \<or> list_all x_workerExited registry
        then length (filter (\<lambda>c. \<not> x_workerExited c) registry)
        else fst (reap script (sleep (filter (\<lambda>c. \<not> x_workerExited c) registry))))"
proof (intro conjI)
  show "reap [] registry = (length (filter (\<lambda>c. \<not> x_workerExited c) registry), filter (\<lambda>c. \<not> x_workerExited c) registry)"
    by (simp add: reapFinished_def)
  have "fst (reap script registry) = length (snd (reap script registry))
    \<and> list_all (\<lambda>c. \<not> x_workerExited c) (snd (reap script registry))" for script registry
  proof (induction script arbitrary: registry)
    case (Cons e script)
    obtain d f where e: "e = (d, f)"
      by (cases e)
    have "reap (e # script) registry = (if reapFinished registry = [] \<or> d
        then (length (reapFinished registry), reapFinished registry) else reap script (f (reapFinished registry)))"
      by (simp add: e Let_def)
    then show ?case
      using Cons.IH [of "f (reapFinished registry)"] by (simp add: reapFinished_running)
  qed (simp add: reapFinished_running)
  then show "fst (reap script registry) = length (snd (reap script registry))"
    and "list_all (\<lambda>c. \<not> x_workerExited c) (snd (reap script registry))"
    by blast+
  have left: "reapFinished registry = [] \<longleftrightarrow> list_all x_workerExited registry"
    by (simp add: reapFinished_def filter_empty_conv list_all_iff)
  show "fst (reap ((deadlinePassed, sleep) # script) registry) =
       (if deadlinePassed \<or> list_all x_workerExited registry
        then length (filter (\<lambda>c. \<not> x_workerExited c) registry)
        else fst (reap script (sleep (filter (\<lambda>c. \<not> x_workerExited c) registry))))"
    unfolding reap.simps Let_def left reapFinished_def [symmetric] by (simp del: reap.simps)
qed

end
