(* ===== verification/Adapter_Plane.thy ===== *)
theory Adapter_Plane
  imports Dispatcher Exec_Backend
begin

text \<open>
  The adapter side of \<^verbatim>\<open>src/sidecar.cpp\<close>: \<^verbatim>\<open>AdapterFactory\<close> and \<^verbatim>\<open>AdapterInstance\<close> with what they
  keep, the operations they offer to adapter code and their inherited hooks, and the state of
  \<^verbatim>\<open>SidecarHost\<close> in which all of that runs.

  Adapter code is a subclass and not part of this repository. What one call of a virtual hook does is
  a \<open>program\<close>: a finite tree of calls of the SDK's own operations that sees each result and may look at
  its object between them. The host state holds the programs in the order the hooks are called (an
  absent or \<open>Inherited\<close> entry is a hook that is not overridden), as it holds the answers of the
  operating system, so that a statement for every state is one for every adapter. A hook of an
  instance may also end in an exception; those of the factory return, since an exception on the host
  thread would leave the program.

  Instances live on a heap: \<open>h_objects\<close> maps an address to the object, or to nothing once the object
  is destroyed. A call on an address that holds no object is undefined behaviour in the code and sets
  \<open>h_useAfterFree\<close> here.
\<close>

section \<open>Programs\<close>

datatype ('s, 'o, 'r) program =
    Finish 'r
  | Invoke 'o "string option \<Rightarrow> ('s, 'o, 'r) program"
  | Look "'s \<Rightarrow> ('s, 'o, 'r) program"

datatype ('s, 'o, 'r) hook = Inherited | Overridden "('s, 'o, 'r) program"

text \<open>
  How a hook of an instance ends: it returns (a truth value where its type is \<^verbatim>\<open>bool\<close>, else \<^const>\<open>True\<close>)
  or an exception leaves it.
\<close>

datatype outcome = Returns bool | Throws

primrec runProgram ::
  "('o \<Rightarrow> 'h \<Rightarrow> string option \<times> 'h) \<Rightarrow> ('h \<Rightarrow> 's) \<Rightarrow> ('s, 'o, 'r) program \<Rightarrow> 'h \<Rightarrow> 'r \<times> 'h" where
  "runProgram exec view (Finish r) = (\<lambda>h. (r, h))"
| "runProgram exec view (Invoke op k) =
     (\<lambda>h. case exec op h of (e, h1) \<Rightarrow> runProgram exec view (k e) h1)"
| "runProgram exec view (Look k) = (\<lambda>h. runProgram exec view (k (view h)) h)"

text \<open>
  What adapter code can do is what its operations can do: a preorder that every operation respects
  is respected by every program.
\<close>

locale operations =
  fixes exec :: "'o \<Rightarrow> 'h \<Rightarrow> string option \<times> 'h" and view :: "'h \<Rightarrow> 's" and le :: "'h \<Rightarrow> 'h \<Rightarrow> bool"
  assumes le_refl: "le h h" and le_trans: "le h h1 \<Longrightarrow> le h1 h2 \<Longrightarrow> le h h2"
    and le_exec: "le h (snd (exec op h))"
begin

lemma le_program: "le h (snd (runProgram exec view p h))"
proof (induction p arbitrary: h)
  case (Invoke op k)
  obtain e h1 where "exec op h = (e, h1)"
    by fastforce
  with Invoke [of "k e" h1] show ?case
    using le_exec [of h op] le_trans by simp
qed (simp_all add: le_refl)

end

section \<open>Instances and the factory\<close>

definition emptyConfigChanged :: config_changed_request where
  "emptyConfigChanged = \<lparr>cc_adapterId = 0, cc_cmdId = 0, cc_correlationId = 0, cc_adapter = emptyAdapter,
     cc_staticConfigJson = []\<rparr>"

definition emptyBootstrap :: bootstrap_request where
  "emptyBootstrap = \<lparr>bs_adapterId = 0, bs_cmdId = 0, bs_correlationId = 0, bs_adapter = emptyAdapter,
     bs_staticConfigJson = []\<rparr>"

text \<open>\<^verbatim>\<open>AdapterInstance::Impl\<close>; a submitter or dispatcher is bound or not.\<close>

record adapter_instance =
  in_dispatcher :: bool
  in_adapterId :: adapter_id
  in_pluginType :: string
  in_externalId :: external_id
  in_config :: config_changed_request
  in_hasConfig :: bool
  in_logFilter :: log_filter_cache
  in_cmdResultSubmitter :: bool
  in_actionResultSubmitter :: bool
  in_stopRequested :: bool

definition newInstance :: adapter_instance where
  "newInstance = \<lparr>in_dispatcher = False, in_adapterId = 0, in_pluginType = [], in_externalId = [],
     in_config = emptyConfigChanged, in_hasConfig = False, in_logFilter = emptyLogFilterCache,
     in_cmdResultSubmitter = False, in_actionResultSubmitter = False, in_stopRequested = False\<rparr>"

definition instance_bindContext :: "adapter_id \<Rightarrow> string \<Rightarrow> external_id \<Rightarrow> adapter_instance \<Rightarrow> adapter_instance" where
  "instance_bindContext adapterId pluginType externalId i =
     i\<lparr>in_adapterId := adapterId, in_pluginType := pluginType, in_externalId := externalId\<rparr>"

definition instance_bindResultSubmitters :: "adapter_instance \<Rightarrow> adapter_instance" where
  "instance_bindResultSubmitters i = i\<lparr>in_cmdResultSubmitter := True, in_actionResultSubmitter := True\<rparr>"

definition cacheConfig :: "config_changed_request \<Rightarrow> adapter_instance \<Rightarrow> adapter_instance" where
  "cacheConfig request i =
     i\<lparr>in_config := request, in_hasConfig := True, in_logFilter := buildLogFilterCache (cc_adapter request)\<rparr>"

text \<open>
  What the factory's virtual getters return; the last field is \<^verbatim>\<open>descriptor()\<close> when it is overridden.
\<close>

record factory_getters =
  fg_pluginType :: string
  fg_displayName :: string
  fg_description :: string
  fg_apiVersion :: string
  fg_iconSvg :: string
  fg_imageBase64 :: string
  fg_timeoutMs :: i32
  fg_maxInstances :: i32
  fg_capabilities :: adapter_capabilities
  fg_configSchemaJson :: json_text
  fg_descriptor :: "adapter_descriptor option"

text \<open>The inherited getters; only \<^verbatim>\<open>pluginType()\<close> has no default.\<close>

definition defaultGetters :: "string \<Rightarrow> factory_getters" where
  "defaultGetters plugin = \<lparr>fg_pluginType = plugin, fg_displayName = [], fg_description = [], fg_apiVersion = [],
     fg_iconSvg = [], fg_imageBase64 = [], fg_timeoutMs = 10000, fg_maxInstances = 0,
     fg_capabilities = \<lparr>cap_required = 0, cap_optional = 0, cap_flags = 0, cap_factoryActions = [],
       cap_instanceActions = [], cap_defaultsJson = []\<rparr>,
     fg_configSchemaJson = [], fg_descriptor = None\<rparr>"

definition factory_descriptor :: "factory_getters \<Rightarrow> adapter_descriptor" where
  "factory_descriptor g = (case fg_descriptor g of
     Some ds \<Rightarrow> ds
   | None \<Rightarrow> \<lparr>ds_pluginType = fg_pluginType g, ds_displayName = fg_displayName g,
       ds_description = fg_description g, ds_apiVersion = fg_apiVersion g, ds_iconSvg = fg_iconSvg g,
       ds_imageBase64 = fg_imageBase64 g, ds_timeoutMs = fg_timeoutMs g, ds_maxInstances = fg_maxInstances g,
       ds_capabilities = fg_capabilities g, ds_configSchemaJson = fg_configSchemaJson g\<rparr>)"

definition withPluginType :: "string \<Rightarrow> adapter_descriptor \<Rightarrow> adapter_descriptor" where
  "withPluginType plugin ds = (if ds_pluginType ds = [] then ds\<lparr>ds_pluginType := plugin\<rparr> else ds)"

definition factoryDescriptor :: "factory_getters \<Rightarrow> adapter_descriptor" where
  "factoryDescriptor g = withPluginType (fg_pluginType g) (factory_descriptor g)"

record adapter_factory =
  af_dispatcher :: bool
  af_bootstrap :: bootstrap_request
  af_hasBootstrap :: bool
  af_factoryConfig :: config_changed_request
  af_hasFactoryConfig :: bool
  af_logFilter :: log_filter_cache
  af_actionResultSubmitter :: bool
  af_stopRequested :: bool
  af_getters :: factory_getters

definition newFactory :: "factory_getters \<Rightarrow> adapter_factory" where
  "newFactory g = \<lparr>af_dispatcher = False, af_bootstrap = emptyBootstrap, af_hasBootstrap = False,
     af_factoryConfig = emptyConfigChanged, af_hasFactoryConfig = False, af_logFilter = emptyLogFilterCache,
     af_actionResultSubmitter = False, af_stopRequested = False, af_getters = g\<rparr>"

definition cacheBootstrap :: "bootstrap_request \<Rightarrow> adapter_factory \<Rightarrow> adapter_factory" where
  "cacheBootstrap request f = f\<lparr>af_bootstrap := request, af_hasBootstrap := True\<rparr>"

definition cacheFactoryConfig :: "config_changed_request \<Rightarrow> adapter_factory \<Rightarrow> adapter_factory" where
  "cacheFactoryConfig request f =
     f\<lparr>af_factoryConfig := request, af_hasFactoryConfig := True,
       af_logFilter := buildLogFilterCache (cc_adapter request)\<rparr>"

section \<open>The state of the host\<close>

text \<open>The protected operations of an instance and of the factory, one constructor per method.\<close>

datatype instance_op =
    InstanceLog log_level log_category string scalar_list string json_text i64
  | InstanceSendError log_category string scalar_list string json_text i64
  | InstanceConnectionState bool
  | InstanceAdapterMeta json_text
  | InstanceChannelState external_id external_id scalar_value i64
  | InstanceChannelColor external_id external_id double double double i64
  | InstanceDeviceUpdated device "channel list"
  | InstanceDeviceRemoved external_id
  | InstanceChannelUpdated external_id channel
  | InstanceRoomUpdated room
  | InstanceRoomRemoved external_id
  | InstanceGroupUpdated group
  | InstanceGroupRemoved external_id
  | InstanceSceneUpdated scene
  | InstanceSceneRemoved external_id
  | InstanceStreamOpen string string string string string json_text
  | InstanceStreamData string string i64 json_text i64
  | InstanceStreamError string string string string scalar_list string
  | InstanceStreamEnd string string string
  | InstanceCmdResult cmd_response
  | InstanceActionResult action_response

datatype factory_op =
    FactoryLog log_level log_category string scalar_list string json_text i64
  | FactorySendError log_category string scalar_list string json_text i64
  | FactoryDescriptorUpdated
  | FactoryDescriptorUpdatedTo adapter_descriptor
  | FactoryResult action_response
  | FactoryBecome factory_getters

text \<open>The closures the host queues: which hook of which object they call, with which request.\<close>

datatype instance_call =
    InstanceConnected
  | InstanceDisconnected
  | InstanceProtocolError string
  | InstanceConfigChanged config_changed_request
  | InstanceChannelInvoke channel_invoke_request
  | InstanceAdapterAction adapter_action_invoke_request
  | InstanceDeviceName device_name_update_request
  | InstanceDeviceEffect device_effect_invoke_request
  | InstanceScene scene_invoke_request
  | InstanceStreamStart stream_start_request
  | InstanceStreamStop stream_stop_request
  | InstanceUnknown unknown_request

datatype factory_call =
    FactoryConnected
  | FactoryDisconnected
  | FactoryProtocolError string
  | FactoryBootstrap bootstrap_request
  | FactoryConfigChanged config_changed_request
  | FactoryActionInvoke adapter_action_invoke_request
  | FactoryStopping

datatype host_task =
    TaskStart nat
  | TaskStop nat
  | TaskCall "nat option" instance_call
  | TaskFactory factory_call

datatype deferred_result = DeferredCmdResult cmd_response | DeferredActionResult action_response

record instance_runtime =
  rt_externalId :: external_id
  rt_instance :: nat
  rt_execution :: "host_task backend"

text \<open>Whose worker takes a step while the host thread waits: the one waited for, or another.\<close>

datatype who = Own | InstanceWorker external_id | FactoryWorker | AbandonedWorker nat

text \<open>What one \<^verbatim>\<open>createInstance\<close> and one \<^verbatim>\<open>createInstanceExecutionBackend\<close> return: null or not.\<close>

record creation =
  cn_instance :: bool
  cn_execution :: bool

text \<open>
  \<^verbatim>\<open>SidecarHost::Impl\<close>, the instance heap, the process-wide registry of abandoned workers, the
  completion cells of start and stop tasks, and the scripts: hooks, creations, whether the factory
  wants a backend and what creating a thread throws. \<open>h_now\<close> is the steady clock in milliseconds. It
  advances where the host thread waits, by the first part of the next entry of \<open>h_waits\<close> as far as
  the timeout allows, the second part being the worker steps meanwhile; and by the next entry of
  \<open>h_delays\<close> before it is read, for the time all other code has taken.
\<close>

record host = dispatcher +
  h_factory :: "adapter_factory option"
  h_factoryExecution :: "host_task backend option"
  h_factoryActive :: bool
  h_instances :: "(external_id \<times> instance_runtime) list"
  h_resultQueue :: "deferred_result list"
  h_objects :: "nat \<Rightarrow> adapter_instance option"
  h_nextObject :: nat
  h_started :: "nat \<Rightarrow> bool option"
  h_stopDone :: "nat \<Rightarrow> bool"
  h_registry :: "host_task cell list"
  h_useAfterFree :: bool
  h_startAbandoned :: bool
  h_instanceHooks :: "(adapter_instance, instance_op, outcome) hook list"
  h_factoryHooks :: "(adapter_factory, factory_op, unit) hook list"
  h_creations :: "creation list"
  h_factoryBackends :: "bool list"
  h_threads :: "string option list"
  h_now :: int
  h_delays :: "nat list"
  h_waits :: "(nat \<times> who list) list"

section \<open>Submitting results\<close>

definition normalizeCmdResponse :: "cmd_response \<Rightarrow> 'z dispatcher_scheme \<Rightarrow> cmd_response \<times> 'z dispatcher_scheme" where
  "normalizeCmdResponse r d = (case stampMs (cr_tsMs r) d of (ts, d1) \<Rightarrow> (r\<lparr>cr_tsMs := ts\<rparr>, d1))"

definition normalizeActionResponse ::
  "action_response \<Rightarrow> 'z dispatcher_scheme \<Rightarrow> action_response \<times> 'z dispatcher_scheme" where
  "normalizeActionResponse r d = (case stampMs (ar_tsMs r) d of (ts, d1) \<Rightarrow> (r\<lparr>ar_tsMs := ts\<rparr>, d1))"

definition queueDeferredResult :: "deferred_result \<Rightarrow> host \<Rightarrow> host" where
  "queueDeferredResult result h = server_wakeup (h\<lparr>h_resultQueue := h_resultQueue h @ [result]\<rparr>)"

definition submitCmdResult :: "cmd_response \<Rightarrow> host \<Rightarrow> host" where
  "submitCmdResult r h =
     (case normalizeCmdResponse r h of (r1, h1) \<Rightarrow> queueDeferredResult (DeferredCmdResult r1) h1)"

definition submitActionResult :: "action_response \<Rightarrow> host \<Rightarrow> host" where
  "submitActionResult r h =
     (case normalizeActionResponse r h of (r1, h1) \<Rightarrow> queueDeferredResult (DeferredActionResult r1) h1)"

section \<open>Operations of an instance\<close>

definition instance_sendCmdResult :: "adapter_instance \<Rightarrow> cmd_response \<Rightarrow> host \<Rightarrow> string option \<times> host" where
  "instance_sendCmdResult i r h =
     (if \<not> in_cmdResultSubmitter i then (Some ''Command result submitter not bound'', h)
      else if cr_id r = 0 then (Some ''CmdResponse.id must be > 0'', h)
      else (None, submitCmdResult r h))"

definition instance_sendActionResult :: "adapter_instance \<Rightarrow> action_response \<Rightarrow> host \<Rightarrow> string option \<times> host" where
  "instance_sendActionResult i r h =
     (if \<not> in_actionResultSubmitter i then (Some ''Action result submitter not bound'', h)
      else if ar_id r = 0 then (Some ''ActionResponse.id must be > 0'', h)
      else (None, submitActionResult r h))"

definition instance_log ::
  "adapter_instance \<Rightarrow> log_level \<Rightarrow> log_category \<Rightarrow> string \<Rightarrow> scalar_list \<Rightarrow> string \<Rightarrow> json_text \<Rightarrow> i64
     \<Rightarrow> host \<Rightarrow> string option \<times> host" where
  "instance_log i level category message params ctx fieldsJson tsMs h =
     (if \<not> in_dispatcher i then (Some ''Dispatcher not bound'', h)
      else if \<not> shouldForwardLog (in_logFilter i) level category then (None, h)
      else sendLog (in_externalId i) (in_pluginType i)
             \<lparr>le_level = level, le_category = category, le_message = message, le_ctx = ctx,
              le_params = params, le_fieldsJson = fieldsJson, le_tsMs = tsMs\<rparr> h)"

definition instance_sendError ::
  "adapter_instance \<Rightarrow> log_category \<Rightarrow> string \<Rightarrow> scalar_list \<Rightarrow> string \<Rightarrow> json_text \<Rightarrow> i64
     \<Rightarrow> host \<Rightarrow> string option \<times> host" where
  "instance_sendError i category message params ctx fieldsJson tsMs h =
     (if \<not> in_dispatcher i then (Some ''Dispatcher not bound'', h)
      else sendError (in_externalId i) (in_pluginType i) category message params ctx fieldsJson tsMs h)"

text \<open>The other senders: without a dispatcher they fail and leave the error text alone.\<close>

definition viaDispatcher ::
  "bool \<Rightarrow> ('z dispatcher_scheme \<Rightarrow> string option \<times> 'z dispatcher_scheme)
     \<Rightarrow> 'z dispatcher_scheme \<Rightarrow> string option \<times> 'z dispatcher_scheme" where
  "viaDispatcher bound send h = (if bound then send h else (Some [], h))"

fun instance_operation :: "adapter_instance \<Rightarrow> instance_op \<Rightarrow> host \<Rightarrow> string option \<times> host" where
  "instance_operation i (InstanceLog l c msg ps ctx fj ts) h = instance_log i l c msg ps ctx fj ts h"
| "instance_operation i (InstanceSendError c msg ps ctx fj ts) h = instance_sendError i c msg ps ctx fj ts h"
| "instance_operation i (InstanceConnectionState b) h =
     viaDispatcher (in_dispatcher i) (sendConnectionStateChanged (in_externalId i) b) h"
| "instance_operation i (InstanceAdapterMeta j) h =
     viaDispatcher (in_dispatcher i) (sendAdapterMetaUpdated (in_externalId i) j) h"
| "instance_operation i (InstanceChannelState dv ch v ts) h =
     viaDispatcher (in_dispatcher i) (sendChannelStateUpdated (in_externalId i) dv ch v ts) h"
| "instance_operation i (InstanceChannelColor dv ch r g b ts) h =
     viaDispatcher (in_dispatcher i) (sendChannelColorStateUpdated (in_externalId i) dv ch r g b ts) h"
| "instance_operation i (InstanceDeviceUpdated dv chs) h =
     viaDispatcher (in_dispatcher i) (sendDeviceUpdated (in_externalId i) dv chs) h"
| "instance_operation i (InstanceDeviceRemoved dv) h =
     viaDispatcher (in_dispatcher i) (sendDeviceRemoved (in_externalId i) dv) h"
| "instance_operation i (InstanceChannelUpdated dv ch) h =
     viaDispatcher (in_dispatcher i) (sendChannelUpdated (in_externalId i) dv ch) h"
| "instance_operation i (InstanceRoomUpdated r) h =
     viaDispatcher (in_dispatcher i) (sendRoomUpdated (in_externalId i) r) h"
| "instance_operation i (InstanceRoomRemoved r) h =
     viaDispatcher (in_dispatcher i) (sendRoomRemoved (in_externalId i) r) h"
| "instance_operation i (InstanceGroupUpdated g) h =
     viaDispatcher (in_dispatcher i) (sendGroupUpdated (in_externalId i) g) h"
| "instance_operation i (InstanceGroupRemoved g) h =
     viaDispatcher (in_dispatcher i) (sendGroupRemoved (in_externalId i) g) h"
| "instance_operation i (InstanceSceneUpdated s) h =
     viaDispatcher (in_dispatcher i) (sendSceneUpdated (in_externalId i) s) h"
| "instance_operation i (InstanceSceneRemoved s) h =
     viaDispatcher (in_dispatcher i) (sendSceneRemoved (in_externalId i) s) h"
| "instance_operation i (InstanceStreamOpen st cmd k ct ce mj) h =
     viaDispatcher (in_dispatcher i) (sendStreamOpen (in_externalId i) st cmd k ct ce mj) h"
| "instance_operation i (InstanceStreamData st cmd sq pj ts) h =
     viaDispatcher (in_dispatcher i) (sendStreamData (in_externalId i) st cmd sq pj ts) h"
| "instance_operation i (InstanceStreamError st cmd msg co ps ctx) h =
     viaDispatcher (in_dispatcher i) (sendStreamError (in_externalId i) st cmd msg co ps ctx) h"
| "instance_operation i (InstanceStreamEnd st cmd r) h =
     viaDispatcher (in_dispatcher i) (sendStreamEnd (in_externalId i) st cmd r) h"
| "instance_operation i (InstanceCmdResult r) h = instance_sendCmdResult i r h"
| "instance_operation i (InstanceActionResult r) h = instance_sendActionResult i r h"

section \<open>Calling a hook of an instance\<close>

text \<open>The operations and members of the instance at an address, as its own code uses them.\<close>

definition instanceOperation :: "nat \<Rightarrow> instance_op \<Rightarrow> host \<Rightarrow> string option \<times> host" where
  "instanceOperation a op h = (case h_objects h a of
     Some i \<Rightarrow> instance_operation i op h | None \<Rightarrow> (Some [], h\<lparr>h_useAfterFree := True\<rparr>))"

definition instanceAt :: "nat \<Rightarrow> host \<Rightarrow> adapter_instance" where
  "instanceAt a h = (case h_objects h a of Some i \<Rightarrow> i | None \<Rightarrow> newInstance)"

definition takeInstanceHook :: "host \<Rightarrow> (adapter_instance, instance_op, outcome) hook \<times> host" where
  "takeInstanceHook h =
     (case h_instanceHooks h of [] \<Rightarrow> (Inherited, h) | p # ps \<Rightarrow> (p, h\<lparr>h_instanceHooks := ps\<rparr>))"

text \<open>A virtual call on the object at an address; the argument is the inherited hook.\<close>

definition callInstance :: "nat \<Rightarrow> (host \<Rightarrow> outcome \<times> host) \<Rightarrow> host \<Rightarrow> outcome \<times> host" where
  "callInstance a inherited h =
     (case h_objects h a of
        None \<Rightarrow> (Returns False, h\<lparr>h_useAfterFree := True\<rparr>)
      | Some _ \<Rightarrow>
          (case takeInstanceHook h of
             (Inherited, h1) \<Rightarrow> inherited h1
           | (Overridden p, h1) \<Rightarrow> runProgram (instanceOperation a) (instanceAt a) p h1))"

definition updateInstance :: "nat \<Rightarrow> (adapter_instance \<Rightarrow> adapter_instance) \<Rightarrow> host \<Rightarrow> host" where
  "updateInstance a f h =
     (case h_objects h a of
        None \<Rightarrow> h\<lparr>h_useAfterFree := True\<rparr>
      | Some i \<Rightarrow> h\<lparr>h_objects := (h_objects h)(a \<mapsto> f i)\<rparr>)"

definition instance_onProtocolError :: "nat \<Rightarrow> string \<Rightarrow> host \<Rightarrow> outcome \<times> host" where
  "instance_onProtocolError a message h =
     callInstance a
       (\<lambda>h. (Returns True, hostStderrLine (''[sidecar][protocolError][instance] externalId=''
                     @ in_externalId (instanceAt a h) @ '' message='' @ message) h)) h"

text \<open>The inherited request hooks answer that they are not implemented.\<close>

definition reportFailedAnswer :: "nat \<Rightarrow> string \<Rightarrow> string option \<times> host \<Rightarrow> outcome \<times> host" where
  "reportFailedAnswer a failText sent =
     (case sent of
        (Some err, h) \<Rightarrow> if err = [] then (Returns True, h) else instance_onProtocolError a (failText @ err) h
      | (None, h) \<Rightarrow> (Returns True, h))"

definition instance_defaultCmd :: "nat \<Rightarrow> cmd_id \<Rightarrow> string \<Rightarrow> string \<Rightarrow> host \<Rightarrow> outcome \<times> host" where
  "instance_defaultCmd a cmdId message failText h =
     (case defaultCmdResponse cmdId message h of
        (r, h1) \<Rightarrow> reportFailedAnswer a failText (instanceOperation a (InstanceCmdResult r) h1))"

definition instance_defaultAction :: "nat \<Rightarrow> cmd_id \<Rightarrow> string \<Rightarrow> string \<Rightarrow> host \<Rightarrow> outcome \<times> host" where
  "instance_defaultAction a cmdId message failText h =
     (case defaultActionResponse cmdId message h of
        (r, h1) \<Rightarrow> reportFailedAnswer a failText (instanceOperation a (InstanceActionResult r) h1))"

fun inheritedInstanceHook :: "nat \<Rightarrow> instance_call \<Rightarrow> host \<Rightarrow> outcome \<times> host" where
  "inheritedInstanceHook a (InstanceChannelInvoke q) h =
     instance_defaultCmd a (ci_cmdId q) ''Channel invoke handler not implemented''
       ''Failed to send default channel invoke result: '' h"
| "inheritedInstanceHook a (InstanceAdapterAction q) h =
     instance_defaultAction a (ai_cmdId q) ''Adapter action handler not implemented''
       ''Failed to send default adapter action result: '' h"
| "inheritedInstanceHook a (InstanceDeviceName q) h =
     instance_defaultCmd a (dn_cmdId q) ''Device name update handler not implemented''
       ''Failed to send default device name update result: '' h"
| "inheritedInstanceHook a (InstanceDeviceEffect q) h =
     instance_defaultCmd a (dfx_cmdId q) ''Device effect handler not implemented''
       ''Failed to send default device effect result: '' h"
| "inheritedInstanceHook a (InstanceScene q) h =
     instance_defaultCmd a (si_cmdId q) ''Scene invoke handler not implemented''
       ''Failed to send default scene invoke result: '' h"
| "inheritedInstanceHook a (InstanceStreamStart q) h =
     instance_defaultCmd a (st_cmdId q) ''Adapters stream start handler not implemented''
       ''Failed to send default adapters stream.start result: '' h"
| "inheritedInstanceHook a (InstanceStreamStop q) h =
     instance_defaultCmd a (sp_cmdId q) ''Adapters stream stop handler not implemented''
       ''Failed to send default adapters stream.stop result: '' h"
| "inheritedInstanceHook a _ h = (Returns True, h)"

text \<open>\<^verbatim>\<open>hostOn...\<close>: the host's entry points; a changed configuration is cached before the hook runs.\<close>

fun hostOnInstance :: "nat \<Rightarrow> instance_call \<Rightarrow> host \<Rightarrow> outcome \<times> host" where
  "hostOnInstance a (InstanceProtocolError message) h = instance_onProtocolError a message h"
| "hostOnInstance a (InstanceConfigChanged q) h =
     callInstance a (inheritedInstanceHook a (InstanceConfigChanged q)) (updateInstance a (cacheConfig q) h)"
| "hostOnInstance a c h = callInstance a (inheritedInstanceHook a c) h"

definition instance_setStop :: "bool \<Rightarrow> adapter_instance \<Rightarrow> adapter_instance" where
  "instance_setStop b i = i\<lparr>in_stopRequested := b\<rparr>"

definition instance_hostRequestStop :: "nat \<Rightarrow> host \<Rightarrow> host" where
  "instance_hostRequestStop a h = updateInstance a (instance_setStop True) h"

definition instance_hostStart :: "nat \<Rightarrow> host \<Rightarrow> outcome \<times> host" where
  "instance_hostStart a h = callInstance a (\<lambda>h. (Returns True, h)) (updateInstance a (instance_setStop False) h)"

definition instance_hostStop :: "nat \<Rightarrow> host \<Rightarrow> outcome \<times> host" where
  "instance_hostStop a h = callInstance a (\<lambda>h. (Returns True, h)) h"

text \<open>The inherited \<^verbatim>\<open>restart\<close> stops and starts, both through the virtual hooks.\<close>

definition instance_restart :: "nat \<Rightarrow> host \<Rightarrow> outcome \<times> host" where
  "instance_restart a h =
     (case instance_hostStop a h of
        (Throws, h1) \<Rightarrow> (Throws, h1)
      | (Returns _, h1) \<Rightarrow> callInstance a (\<lambda>h. (Returns True, h)) h1)"

definition instance_hostRestart :: "nat \<Rightarrow> host \<Rightarrow> outcome \<times> host" where
  "instance_hostRestart a h = callInstance a (instance_restart a) (updateInstance a (instance_setStop False) h)"

section \<open>Operations and hooks of the factory\<close>

definition factory_log ::
  "adapter_factory \<Rightarrow> log_level \<Rightarrow> log_category \<Rightarrow> string \<Rightarrow> scalar_list \<Rightarrow> string \<Rightarrow> json_text \<Rightarrow> i64
     \<Rightarrow> host \<Rightarrow> string option \<times> host" where
  "factory_log f level category message params ctx fieldsJson tsMs h =
     (if \<not> af_dispatcher f then (Some ''Dispatcher not bound'', h)
      else if \<not> shouldForwardLog (af_logFilter f) level category then (None, h)
      else sendLog [] (fg_pluginType (af_getters f))
             \<lparr>le_level = level, le_category = category, le_message = message, le_ctx = ctx,
              le_params = params, le_fieldsJson = fieldsJson, le_tsMs = tsMs\<rparr> h)"

definition factory_sendError ::
  "adapter_factory \<Rightarrow> log_category \<Rightarrow> string \<Rightarrow> scalar_list \<Rightarrow> string \<Rightarrow> json_text \<Rightarrow> i64
     \<Rightarrow> host \<Rightarrow> string option \<times> host" where
  "factory_sendError f category message params ctx fieldsJson tsMs h =
     (if \<not> af_dispatcher f then (Some ''Dispatcher not bound'', h)
      else sendError [] (fg_pluginType (af_getters f)) category message params ctx fieldsJson tsMs h)"

definition sendFactoryDescriptorUpdated :: "adapter_factory \<Rightarrow> host \<Rightarrow> string option \<times> host" where
  "sendFactoryDescriptorUpdated f h =
     (if \<not> af_dispatcher f then (Some ''Dispatcher not bound'', h)
      else sendAdapterDescriptorUpdated [] (factoryDescriptor (af_getters f)) h)"

definition factory_sendResult :: "adapter_factory \<Rightarrow> action_response \<Rightarrow> host \<Rightarrow> string option \<times> host" where
  "factory_sendResult f r h =
     (if \<not> af_actionResultSubmitter f then (Some ''Factory action result submitter not bound'', h)
      else if ar_id r = 0 then (Some ''ActionResponse.id must be > 0'', h)
      else (None, submitActionResult r h))"

definition updateFactory :: "(adapter_factory \<Rightarrow> adapter_factory) \<Rightarrow> host \<Rightarrow> host" where
  "updateFactory u h = h\<lparr>h_factory := map_option u (h_factory h)\<rparr>"

fun factory_operation :: "adapter_factory \<Rightarrow> factory_op \<Rightarrow> host \<Rightarrow> string option \<times> host" where
  "factory_operation f (FactoryLog l c msg ps ctx fj ts) h = factory_log f l c msg ps ctx fj ts h"
| "factory_operation f (FactorySendError c msg ps ctx fj ts) h = factory_sendError f c msg ps ctx fj ts h"
| "factory_operation f FactoryDescriptorUpdated h = sendFactoryDescriptorUpdated f h"
| "factory_operation f (FactoryDescriptorUpdatedTo ds) h =
     viaDispatcher (af_dispatcher f) (sendAdapterDescriptorUpdated [] ds) h"
| "factory_operation f (FactoryResult r) h = factory_sendResult f r h"
| "factory_operation f (FactoryBecome g) h = (None, updateFactory (\<lambda>f. f\<lparr>af_getters := g\<rparr>) h)"

definition factoryOperation :: "factory_op \<Rightarrow> host \<Rightarrow> string option \<times> host" where
  "factoryOperation op h = (case h_factory h of Some f \<Rightarrow> factory_operation f op h | None \<Rightarrow> (Some [], h))"

definition factoryOf :: "host \<Rightarrow> adapter_factory" where
  "factoryOf h = (case h_factory h of Some f \<Rightarrow> f | None \<Rightarrow> newFactory (defaultGetters []))"

definition takeFactoryHook :: "host \<Rightarrow> (adapter_factory, factory_op, unit) hook \<times> host" where
  "takeFactoryHook h =
     (case h_factoryHooks h of [] \<Rightarrow> (Inherited, h) | p # ps \<Rightarrow> (p, h\<lparr>h_factoryHooks := ps\<rparr>))"

text \<open>A virtual call on the factory; without one there is none.\<close>

definition callFactory :: "(host \<Rightarrow> host) \<Rightarrow> host \<Rightarrow> host" where
  "callFactory inherited h =
     (case h_factory h of
        None \<Rightarrow> h
      | Some _ \<Rightarrow>
          (case takeFactoryHook h of
             (Inherited, h1) \<Rightarrow> inherited h1
           | (Overridden p, h1) \<Rightarrow> snd (runProgram factoryOperation factoryOf p h1)))"

definition factory_onProtocolError :: "string \<Rightarrow> host \<Rightarrow> host" where
  "factory_onProtocolError message h =
     callFactory (hostStderrLine (''[sidecar][protocolError][host] '' @ message)) h"

definition inherited_onFactoryActionInvoke :: "adapter_action_invoke_request \<Rightarrow> host \<Rightarrow> host" where
  "inherited_onFactoryActionInvoke q h =
     (case defaultActionResponse (ai_cmdId q) ''Factory action handler not implemented'' h of
        (r, h1) \<Rightarrow>
          (case factoryOperation (FactoryResult r) h1 of
             (Some err, h2) \<Rightarrow>
               if err = [] then h2
               else factory_onProtocolError (''Failed to send default factory action result: '' @ err) h2
           | (None, h2) \<Rightarrow> h2))"

end
