(* ===== verification/Host.thy ===== *)
theory Host
  imports Adapter_Plane "HOL-Library.AList"
begin

text \<open>
  \<^verbatim>\<open>SidecarHost\<close> of \<^verbatim>\<open>src/sidecar.cpp\<close>: tasks and their workers, the instance map, creating and
  tearing down instances, the factory backend, deferred results and the request handlers.

  An operation of the host thread is one function; workers step between two operations and, as the
  script of the wait says, while the host thread waits for a start, a stop or a worker's end. A task
  takes effect when its worker finishes it. \<^verbatim>\<open>unordered_map\<close> is a list of pairs in one of its
  iteration orders.
\<close>

section \<open>Tasks of the factory\<close>

text \<open>Inline on the calling thread, or on the factory's backend if there is one.\<close>

definition executeOnFactory ::
  "(factory_call \<Rightarrow> host \<Rightarrow> host) \<Rightarrow> factory_call option \<Rightarrow> host \<Rightarrow> string option \<times> host" where
  "executeOnFactory run task h =
     (case task of
        None \<Rightarrow> (Some ''Factory task is empty'', h)
      | Some c \<Rightarrow>
          (case h_factoryExecution h of
             None \<Rightarrow> (None, run c h)
           | Some b \<Rightarrow>
               (case backend_execute (Some (TaskFactory c)) b of
                  (e, b1) \<Rightarrow> (e, h\<lparr>h_factoryExecution := Some b1\<rparr>))))"

definition reportProtocolError :: "string \<Rightarrow> host \<Rightarrow> host" where
  "reportProtocolError message h =
     (case h_factory h of
        None \<Rightarrow> h
      | Some _ \<Rightarrow>
          (case executeOnFactory (\<lambda>_. factory_onProtocolError message) (Some (FactoryProtocolError message)) h of
             (None, h1) \<Rightarrow> h1
           | (Some scheduleError, h1) \<Rightarrow>
               factory_onProtocolError
                 (''Factory execution backend rejected a protocol error report: '' @ scheduleError)
                 (factory_onProtocolError message h1)))"

text \<open>Report what went wrong, if anything did.\<close>

definition reportIf :: "string \<Rightarrow> string option \<times> host \<Rightarrow> host" where
  "reportIf what result = (case result of (None, h) \<Rightarrow> h | (Some e, h) \<Rightarrow> reportProtocolError (what @ e) h)"

text \<open>The bootstrap hook and the descriptor reply travel in one task.\<close>

definition respondToBootstrap :: "bootstrap_request \<Rightarrow> host \<Rightarrow> host" where
  "respondToBootstrap q h =
     (let h1 = callFactory (\<lambda>h. h) h;
          ds = withPluginType (ad_pluginType (bs_adapter q)) (factory_descriptor (af_getters (factoryOf h1)))
      in reportIf ''Failed to send bootstrap descriptor: '' (sendAdapterDescriptor [] ds (bs_correlationId q) h1))"

fun runFactoryCall :: "factory_call \<Rightarrow> host \<Rightarrow> host" where
  "runFactoryCall (FactoryProtocolError message) h = factory_onProtocolError message h"
| "runFactoryCall (FactoryBootstrap q) h = respondToBootstrap q h"
| "runFactoryCall (FactoryActionInvoke q) h = callFactory (inherited_onFactoryActionInvoke q) h"
| "runFactoryCall _ h = callFactory (\<lambda>h. h) h"

definition onFactory :: "factory_call \<Rightarrow> host \<Rightarrow> string option \<times> host" where
  "onFactory c h = executeOnFactory runFactoryCall (Some c) h"

section \<open>Tasks and workers\<close>

text \<open>
  Running a task. An exception that leaves a hook ends the task, whatever is left of it, and the worker
  goes on (the \<^verbatim>\<open>catch (...)\<close> of \<^verbatim>\<open>run\<close>); then nothing completes the start or the stop waited for.
\<close>

fun runTask :: "host_task \<Rightarrow> host \<Rightarrow> host" where
  "runTask (TaskStart a) h =
     (case instance_hostStart a h of
        (Throws, h1) \<Rightarrow> h1
      | (Returns ok, h1) \<Rightarrow>
          (case (if ok then (Returns True, h1) else instance_onProtocolError a ''Instance start() failed'' h1) of
             (Throws, h2) \<Rightarrow> h2
           | (Returns _, h2) \<Rightarrow> h2\<lparr>h_started := (h_started h2)(a \<mapsto> ok)\<rparr>))"
| "runTask (TaskStop a) h =
     (case instance_hostStop a h of
        (Throws, h1) \<Rightarrow> h1
      | (Returns _, h1) \<Rightarrow> h1\<lparr>h_stopDone := (h_stopDone h1)(a := True)\<rparr>)"
| "runTask (TaskCall None c) h = h"
| "runTask (TaskCall (Some a) c) h = snd (hostOnInstance a c h)"
| "runTask (TaskFactory c) h = runFactoryCall c h"

text \<open>The task that the worker's next step finishes.\<close>

definition finishTask :: "host_task cell \<Rightarrow> host \<Rightarrow> host" where
  "finishTask c h = (case x_worker c of Some (InTask t) \<Rightarrow> runTask t h | _ \<Rightarrow> h)"

definition findRuntime :: "external_id \<Rightarrow> host \<Rightarrow> instance_runtime option" where
  "findRuntime x h = map_of (h_instances h) x"

definition setExecution :: "external_id \<Rightarrow> host_task backend \<Rightarrow> host \<Rightarrow> host" where
  "setExecution x b h =
     (case findRuntime x h of
        None \<Rightarrow> h
      | Some rt \<Rightarrow> h\<lparr>h_instances := AList.update x (rt\<lparr>rt_execution := b\<rparr>) (h_instances h)\<rparr>)"

definition stepInstance :: "external_id \<Rightarrow> host \<Rightarrow> host" where
  "stepInstance x h =
     (case findRuntime x h of
        None \<Rightarrow> h
      | Some rt \<Rightarrow>
          (case worker_step (b_cell (rt_execution rt)) of
             None \<Rightarrow> h
           | Some c \<Rightarrow> finishTask (b_cell (rt_execution rt)) (setExecution x ((rt_execution rt)\<lparr>b_cell := c\<rparr>) h)))"

definition stepFactory :: "host \<Rightarrow> host" where
  "stepFactory h =
     (case h_factoryExecution h of
        None \<Rightarrow> h
      | Some b \<Rightarrow>
          (case worker_step (b_cell b) of
             None \<Rightarrow> h
           | Some c \<Rightarrow> finishTask (b_cell b) (h\<lparr>h_factoryExecution := Some (b\<lparr>b_cell := c\<rparr>)\<rparr>)))"

definition stepAbandoned :: "nat \<Rightarrow> host \<Rightarrow> host" where
  "stepAbandoned n h =
     (if n < length (h_registry h)
      then case worker_step (h_registry h ! n) of
             None \<Rightarrow> h
           | Some c \<Rightarrow> finishTask (h_registry h ! n) (h\<lparr>h_registry := (h_registry h)[n := c]\<rparr>)
      else h)"

text \<open>A worker step while the host thread waits for the backend that it holds.\<close>

fun stepWorker :: "who \<Rightarrow> host_task backend \<times> host \<Rightarrow> host_task backend \<times> host" where
  "stepWorker Own (b, h) =
     (case worker_step (b_cell b) of
        None \<Rightarrow> (b, h)
      | Some c \<Rightarrow> (b\<lparr>b_cell := c\<rparr>, finishTask (b_cell b) h))"
| "stepWorker (InstanceWorker x) (b, h) = (b, stepInstance x h)"
| "stepWorker FactoryWorker (b, h) = (b, stepFactory h)"
| "stepWorker (AbandonedWorker n) (b, h) = (b, stepAbandoned n h)"

text \<open>One timed wait of the host thread, at most \<open>timeout\<close> milliseconds long.\<close>

definition hostWait :: "int \<Rightarrow> host_task backend \<Rightarrow> host \<Rightarrow> host_task backend \<times> host" where
  "hostWait timeout b h =
     (case h_waits h of
        [] \<Rightarrow> (b, h\<lparr>h_now := h_now h + max 0 timeout\<rparr>)
      | (elapsed, steps) # rest \<Rightarrow>
          fold stepWorker steps
            (b, h\<lparr>h_waits := rest, h_now := h_now h + min (int elapsed) (max 0 timeout)\<rparr>))"

text \<open>\<^verbatim>\<open>execution->stop(timeout)\<close>; a worker given up moves to the process-wide registry.\<close>

definition stopBackend :: "int \<Rightarrow> host_task backend \<Rightarrow> host \<Rightarrow> string option \<times> host" where
  "stopBackend timeout b h =
     (case backend_stopBegin b of
        (False, _) \<Rightarrow> (None, h)
      | (True, b1) \<Rightarrow>
          (case hostWait timeout b1 h of
             (b2, h1) \<Rightarrow>
               (case backend_stopEnd b2 of
                  (e, b3) \<Rightarrow> (e, h1\<lparr>h_registry := h_registry h1 @ b_registry b3\<rparr>))))"

section \<open>Time\<close>

definition kShutdownBudget :: int where "kShutdownBudget = 2000"
definition kExecutionBackendStopTimeout :: int where "kExecutionBackendStopTimeout = 3000"
definition kInstanceStartTimeout :: int where "kInstanceStartTimeout = 2000"
definition kMinimumStopSlice :: int where "kMinimumStopSlice = 50"
definition kFactoryStopReserveMax :: int where "kFactoryStopReserveMax = 500"

text \<open>Reading the steady clock, after what other code has taken since the last reading.\<close>

definition steadyNow :: "host \<Rightarrow> int \<times> host" where
  "steadyNow h =
     (case h_delays h of
        [] \<Rightarrow> (h_now h, h)
      | d # ds \<Rightarrow> (h_now h + int d, h\<lparr>h_now := h_now h + int d, h_delays := ds\<rparr>))"

definition remainingUntil :: "int \<Rightarrow> host \<Rightarrow> int \<times> host" where
  "remainingUntil deadline h = (case steadyNow h of (now', h1) \<Rightarrow> (max 0 (deadline - now'), h1))"

definition atLeastMinimumSlice :: "int \<Rightarrow> int" where
  "atLeastMinimumSlice v = (if v < kMinimumStopSlice then kMinimumStopSlice else v)"

section \<open>Creating an instance\<close>

definition apostrophed :: "string \<Rightarrow> string" where
  "apostrophed s = CHR 0x27 # s @ [CHR 0x27]"

definition takeCreation :: "host \<Rightarrow> creation \<times> host" where
  "takeCreation h =
     (case h_creations h of
        [] \<Rightarrow> (\<lparr>cn_instance = True, cn_execution = True\<rparr>, h)
      | c # cs \<Rightarrow> (c, h\<lparr>h_creations := cs\<rparr>))"

definition takeThread :: "host \<Rightarrow> string option \<times> host" where
  "takeThread h = (case h_threads h of [] \<Rightarrow> (None, h) | t # ts \<Rightarrow> (t, h\<lparr>h_threads := ts\<rparr>))"

definition newObject :: "host \<Rightarrow> nat \<times> host" where
  "newObject h =
     (h_nextObject h, h\<lparr>h_nextObject := Suc (h_nextObject h),
        h_objects := (h_objects h)(h_nextObject h \<mapsto> newInstance),
        h_started := (h_started h)(h_nextObject h := None),
        h_stopDone := (h_stopDone h)(h_nextObject h := False)\<rparr>)"

text \<open>\<^verbatim>\<open>destroyInstance\<close>: the object is gone, as the inherited hook leaves it.\<close>

definition destroyInstance :: "nat \<Rightarrow> host \<Rightarrow> host" where
  "destroyInstance a h = h\<lparr>h_objects := (h_objects h)(a := None)\<rparr>"

definition bindInstance :: "config_changed_request \<Rightarrow> adapter_instance \<Rightarrow> adapter_instance" where
  "bindInstance q i =
     instance_bindContext (cc_adapterId q) (ad_pluginType (cc_adapter q)) (ad_externalId (cc_adapter q))
       (instance_bindResultSubmitters (i\<lparr>in_dispatcher := True\<rparr>))"

text \<open>
  The rollback of a failed start: stop the backend, report if that fails, destroy the instance.
  \<open>h_startAbandoned\<close> is not in the code: it records that the worker had not stopped.
\<close>

definition rollbackInstance :: "string \<Rightarrow> nat \<Rightarrow> host_task backend \<Rightarrow> host \<Rightarrow> host" where
  "rollbackInstance what a b h =
     (case stopBackend kExecutionBackendStopTimeout b h of
        (None, h1) \<Rightarrow> destroyInstance a h1
      | (Some stopError, h1) \<Rightarrow>
          destroyInstance a (reportProtocolError (what @ stopError) (h1\<lparr>h_startAbandoned := True\<rparr>)))"

text \<open>An instance whose backend runs: start it on its worker and wait, then put it into the map.\<close>

definition startInstanceRuntime ::
  "external_id \<Rightarrow> nat \<Rightarrow> host_task backend \<Rightarrow> host \<Rightarrow> string option \<times> host" where
  "startInstanceRuntime x a b h =
     (case backend_execute (Some (TaskStart a)) b of
        (Some e, b1) \<Rightarrow>
          (Some (''Failed to schedule instance start on execution backend: '' @ e),
           rollbackInstance ''Execution backend stop failed after start scheduling error: '' a b1 h)
      | (None, b1) \<Rightarrow>
          (case hostWait kInstanceStartTimeout b1 h of
             (b2, h1) \<Rightarrow>
               (case h_started h1 a of
                  None \<Rightarrow>
                    (Some (''Timed out waiting for instance start completion for externalId='' @ apostrophed x),
                     rollbackInstance ''Execution backend stop failed after start timeout: '' a b2 h1)
                | Some False \<Rightarrow>
                    (Some (''Instance start() failed for externalId='' @ apostrophed x),
                     rollbackInstance ''Execution backend stop failed after instance start failure: '' a b2 h1)
                | Some True \<Rightarrow>
                    (case findRuntime x h1 of
                       Some _ \<Rightarrow>
                         (Some ''Instance runtime already exists'',
                          rollbackInstance ''Execution backend stop failed for duplicate instance rollback: '' a
                            (snd (backend_execute (Some (TaskStop a)) b2)) h1)
                     | None \<Rightarrow>
                         (None, h1\<lparr>h_instances := h_instances h1
                            @ [(x, \<lparr>rt_externalId = x, rt_instance = a, rt_execution = b2\<rparr>)]\<rparr>)))))"

definition createInstanceRuntime :: "config_changed_request \<Rightarrow> host \<Rightarrow> string option \<times> host" where
  "createInstanceRuntime q h =
     (let x = ad_externalId (cc_adapter q) in
      case h_factory h of
        None \<Rightarrow> (Some ''Factory not available'', h)
      | Some f \<Rightarrow>
          let ds = factory_descriptor (af_getters f) in
          if x = [] then (Some ''externalId is required'', h)
          else if findRuntime x h \<noteq> None then (None, h)
          else if 0 < sint (ds_maxInstances ds) \<and> sint (ds_maxInstances ds) \<le> int (length (h_instances h))
          then (Some ''maxInstances reached'', h)
          else
            (case takeCreation h of
               (cn, h1) \<Rightarrow>
                 if \<not> cn_instance cn then (Some ''Factory createInstance returned null'', h1)
                 else
                   (case newObject h1 of
                      (a, h2) \<Rightarrow>
                        if \<not> cn_execution cn
                        then (Some ''Factory createInstanceExecutionBackend returned null'', destroyInstance a h2)
                        else
                          (case takeThread h2 of
                             (thrown, h3) \<Rightarrow>
                               (case backend_start thrown newBackend of
                                  (Some e, _) \<Rightarrow>
                                    (Some (''Failed to start instance execution backend: '' @ e),
                                     destroyInstance a h3)
                                | (None, b) \<Rightarrow>
                                    startInstanceRuntime x a b (updateInstance a (bindInstance q) h3))))))"

definition findInstance :: "external_id \<Rightarrow> host \<Rightarrow> nat option" where
  "findInstance x h = map_option rt_instance (findRuntime x h)"

definition ensureInstance :: "config_changed_request \<Rightarrow> host \<Rightarrow> nat option \<times> host" where
  "ensureInstance q h =
     (let x = ad_externalId (cc_adapter q) in
      if h_factory h = None \<or> x = [] then (None, h)
      else if findRuntime x h \<noteq> None then (findInstance x h, h)
      else
        (case createInstanceRuntime q h of
           (Some e, h1) \<Rightarrow>
             (None, reportProtocolError (''Failed to create instance runtime for externalId='' @ apostrophed x
                @ '': '' @ e) h1)
         | (None, h1) \<Rightarrow> (findInstance x h1, h1)))"

section \<open>Handing tasks to instances\<close>

definition executeOnRuntime :: "external_id \<Rightarrow> host_task option \<Rightarrow> host \<Rightarrow> string option \<times> host" where
  "executeOnRuntime x task h =
     (case findRuntime x h of
        None \<Rightarrow> (Some (''Unknown instance externalId: '' @ x), h)
      | Some rt \<Rightarrow>
          (case backend_execute task (rt_execution rt) of (e, b) \<Rightarrow> (e, setExecution x b h)))"

text \<open>The loop of \<^verbatim>\<open>executeOnAllRuntimes\<close> over the entries of the map.\<close>

fun executeOnRuntimes :: "instance_call \<Rightarrow> (external_id \<times> instance_runtime) list \<Rightarrow> host \<Rightarrow> host" where
  "executeOnRuntimes c [] h = h"
| "executeOnRuntimes c ((x, rt) # rest) h =
     executeOnRuntimes c rest
       (reportIf (''Failed to dispatch runtime callback for externalId='' @ apostrophed (rt_externalId rt) @ '': '')
          (executeOnRuntime x (Some (TaskCall (Some (rt_instance rt)) c)) h))"

definition executeOnAllRuntimes :: "instance_call \<Rightarrow> host \<Rightarrow> host" where
  "executeOnAllRuntimes c h = executeOnRuntimes c (h_instances h) h"

section \<open>Teardown\<close>

text \<open>Queue the stop hook behind what the instance still has to do, and wait for it.\<close>

definition askToStop :: "external_id \<Rightarrow> int \<Rightarrow> nat \<Rightarrow> host_task backend \<Rightarrow> host \<Rightarrow> host_task backend \<times> host" where
  "askToStop x stopBudget a b h =
     (case backend_execute (Some (TaskStop a)) b of
        (Some e, b1) \<Rightarrow>
          (b1, reportProtocolError (''Failed to schedule stop for externalId='' @ apostrophed x @ '': '' @ e) h)
      | (None, b1) \<Rightarrow>
          (case hostWait stopBudget b1 h of
             (b2, h1) \<Rightarrow>
               (b2, if h_stopDone h1 a then h1
                    else reportProtocolError (''Instance stop() did not complete within ''
                      @ decimal (nat stopBudget) @ ''ms for externalId='' @ apostrophed x) h1)))"

text \<open>Join the worker and destroy the instance, or give both up.\<close>

definition joinOrLeak :: "external_id \<Rightarrow> int \<Rightarrow> nat \<Rightarrow> host_task backend \<Rightarrow> host \<Rightarrow> host" where
  "joinOrLeak x joinBudget a b h =
     (case stopBackend joinBudget b h of
        (None, h1) \<Rightarrow> destroyInstance a h1
      | (Some stopError, h1) \<Rightarrow>
          reportProtocolError (''Leaking instance runtime for externalId='' @ apostrophed x
              @ '': its execution backend did not stop and may still use it'')
            (reportProtocolError (''Execution backend stop timed out for externalId='' @ apostrophed x
              @ '': '' @ stopError) h1))"

definition stopAndDestroyInstance :: "external_id \<Rightarrow> int \<Rightarrow> host \<Rightarrow> host" where
  "stopAndDestroyInstance x budget h =
     (let stopBudget = atLeastMinimumSlice (budget * 3 div 5);
          joinBudget = atLeastMinimumSlice (budget - stopBudget)
      in case findRuntime x h of
           None \<Rightarrow> h
         | Some rt \<Rightarrow>
             let a = rt_instance rt;
                 h1 = instance_hostRequestStop a (h\<lparr>h_instances := AList.delete x (h_instances h)\<rparr>)
             in case askToStop x stopBudget a (rt_execution rt) h1 of
                  (b, h2) \<Rightarrow> joinOrLeak x joinBudget a b h2)"

definition requestStop :: "external_id \<Rightarrow> host \<Rightarrow> host" where
  "requestStop x h = (case findRuntime x h of
     None \<Rightarrow> h | Some rt \<Rightarrow> instance_hostRequestStop (rt_instance rt) h)"

text \<open>The instances share what is left of the deadline.\<close>

fun stopLoop :: "int \<Rightarrow> external_id list \<Rightarrow> host \<Rightarrow> host" where
  "stopLoop deadline [] h = h"
| "stopLoop deadline (x # xs) h =
     (case remainingUntil deadline h of
        (left, h1) \<Rightarrow>
          stopLoop deadline xs
            (stopAndDestroyInstance x (atLeastMinimumSlice (left div (1 + int (length xs)))) h1))"

definition stopAndDestroyInstances :: "int \<Rightarrow> host \<Rightarrow> host" where
  "stopAndDestroyInstances deadline h =
     (let externalIds = map fst (h_instances h) in stopLoop deadline externalIds (fold requestStop externalIds h))"

end
