(* ===== verification/Host_Loop.thy ===== *)
theory Host_Loop
  imports Host
begin

text \<open>
  \<^verbatim>\<open>SidecarHost\<close> around its dispatcher (\<^verbatim>\<open>src/sidecar.cpp\<close>): deferred results, the handlers that
  \<^verbatim>\<open>wireHandlers\<close> installs, construction, start, poll and stop.
\<close>

section \<open>Deferred results\<close>

definition drainResult :: "deferred_result \<Rightarrow> host \<Rightarrow> host" where
  "drainResult result h =
     (case result of
        DeferredCmdResult r \<Rightarrow>
          if cr_id r = 0 then reportProtocolError ''Dropped command result with id=0'' h
          else reportIf ''Failed to send command result: '' (sendCmdResult r h)
      | DeferredActionResult r \<Rightarrow>
          if ar_id r = 0 then reportProtocolError ''Dropped action result with id=0'' h
          else reportIf ''Failed to send action result: '' (sendActionResult r h))"

definition drainDeferredResults :: "host \<Rightarrow> host" where
  "drainDeferredResults h = fold drainResult (h_resultQueue h) (h\<lparr>h_resultQueue := []\<rparr>)"

section \<open>Handlers\<close>

text \<open>\<^verbatim>\<open>executeOnFactory\<close> as the handlers use it: only with a factory, and failures are reported.\<close>

definition dispatchToFactory :: "string \<Rightarrow> factory_call \<Rightarrow> host \<Rightarrow> host" where
  "dispatchToFactory what c h =
     (case h_factory h of None \<Rightarrow> h | Some _ \<Rightarrow> reportIf what (onFactory c h))"

definition host_onConnected :: "host \<Rightarrow> host" where
  "host_onConnected h = executeOnAllRuntimes InstanceConnected
     (dispatchToFactory ''Failed to dispatch connected to factory: '' FactoryConnected h)"

definition host_onDisconnected :: "host \<Rightarrow> host" where
  "host_onDisconnected h = executeOnAllRuntimes InstanceDisconnected
     (dispatchToFactory ''Failed to dispatch disconnected to factory: '' FactoryDisconnected h)"

definition host_onProtocolError :: "string \<Rightarrow> host \<Rightarrow> host" where
  "host_onProtocolError message h =
     executeOnAllRuntimes (InstanceProtocolError message) (reportProtocolError message h)"

text \<open>A request whose adapter names no plugin gets the factory's.\<close>

definition normalizeAdapter :: "adapter_factory \<Rightarrow> adapter \<Rightarrow> adapter" where
  "normalizeAdapter f ad =
     (if ad_pluginType ad = [] then ad\<lparr>ad_pluginType := fg_pluginType (af_getters f)\<rparr> else ad)"

definition host_onBootstrap :: "bootstrap_request \<Rightarrow> host \<Rightarrow> host" where
  "host_onBootstrap q h =
     (case h_factory h of
        None \<Rightarrow> h
      | Some f \<Rightarrow>
          if ad_externalId (bs_adapter q) \<noteq> []
          then reportProtocolError ''Bootstrap must target factory scope (externalId must be empty)'' h
          else
            let normalized = q\<lparr>bs_adapter := normalizeAdapter f (bs_adapter q)\<rparr>;
                h1 = updateFactory (cacheBootstrap normalized) h
            in (case onFactory (FactoryBootstrap normalized) h1 of
                  (None, h2) \<Rightarrow> h2
                | (Some e, h2) \<Rightarrow>
                    respondToBootstrap normalized
                      (reportProtocolError (''Failed to dispatch bootstrap to factory: '' @ e) h2)))"

definition host_onConfigChanged :: "config_changed_request \<Rightarrow> host \<Rightarrow> host" where
  "host_onConfigChanged q h =
     (case h_factory h of
        None \<Rightarrow> h
      | Some f \<Rightarrow>
          let normalized = q\<lparr>cc_adapter := normalizeAdapter f (cc_adapter q)\<rparr>;
              x = ad_externalId (cc_adapter normalized)
          in if x = []
             then reportIf ''Failed to dispatch factory config.changed: ''
                    (onFactory (FactoryConfigChanged normalized) (updateFactory (cacheFactoryConfig normalized) h))
             else
               (case ensureInstance normalized h of
                  (None, h1) \<Rightarrow> h1
                | (Some _, h1) \<Rightarrow>
                    reportIf (''Failed to dispatch config.changed for externalId='' @ apostrophed x @ '': '')
                      (executeOnRuntime x
                        (Some (TaskCall (findInstance x h1) (InstanceConfigChanged normalized))) h1)))"

definition host_onInstanceRemoved :: "instance_removed_request \<Rightarrow> host \<Rightarrow> host" where
  "host_onInstanceRemoved q h =
     (case h_factory h of
        None \<Rightarrow> h
      | Some _ \<Rightarrow>
          if ir_externalId q = []
          then reportProtocolError ''InstanceRemoved must target instance scope (externalId required)'' h
          else stopAndDestroyInstance (ir_externalId q) kShutdownBudget h)"

text \<open>
  The command handlers share their shape: a task for the instance, or an answer when the command
  names no instance or an unknown one. The answer is stamped before anything else.
\<close>

definition invalidCmd :: "cmd_id \<Rightarrow> i64 \<Rightarrow> string \<Rightarrow> cmd_response" where
  "invalidCmd cmdId ts message =
     emptyCmdResponse\<lparr>cr_id := cmdId, cr_status := CmdStatus_InvalidArgument, cr_error := message, cr_tsMs := ts\<rparr>"

definition dispatchCmd ::
  "external_id \<Rightarrow> cmd_id \<Rightarrow> string \<Rightarrow> string \<Rightarrow> instance_call \<Rightarrow> host \<Rightarrow> host" where
  "dispatchCmd x cmdId missing failed c h =
     (case nowMs h of
        (ts, h1) \<Rightarrow>
          if x = [] then snd (sendCmdResult (invalidCmd cmdId ts missing) h1)
          else
            (case executeOnRuntime x (Some (TaskCall (findInstance x h1) c)) h1 of
               (None, h2) \<Rightarrow> h2
             | (Some e, h2) \<Rightarrow> snd (sendCmdResult (invalidCmd cmdId ts (failed @ e)) h2)))"

definition host_onChannelInvoke :: "channel_invoke_request \<Rightarrow> host \<Rightarrow> host" where
  "host_onChannelInvoke q = dispatchCmd (ci_externalId q) (ci_cmdId q)
     ''externalId is required for CmdChannelInvoke'' ''Failed to dispatch channel invoke: '' (InstanceChannelInvoke q)"

definition host_onDeviceNameUpdate :: "device_name_update_request \<Rightarrow> host \<Rightarrow> host" where
  "host_onDeviceNameUpdate q = dispatchCmd (dn_externalId q) (dn_cmdId q)
     ''externalId is required for CmdDeviceNameUpdate'' ''Failed to dispatch device.name.update: ''
     (InstanceDeviceName q)"

definition host_onDeviceEffectInvoke :: "device_effect_invoke_request \<Rightarrow> host \<Rightarrow> host" where
  "host_onDeviceEffectInvoke q = dispatchCmd (dfx_externalId q) (dfx_cmdId q)
     ''externalId is required for CmdDeviceEffectInvoke'' ''Failed to dispatch device.effect.invoke: ''
     (InstanceDeviceEffect q)"

definition host_onSceneInvoke :: "scene_invoke_request \<Rightarrow> host \<Rightarrow> host" where
  "host_onSceneInvoke q = dispatchCmd (si_externalId q) (si_cmdId q)
     ''externalId is required for CmdSceneInvoke'' ''Failed to dispatch scene invoke: '' (InstanceScene q)"

definition host_onAdaptersStreamStart :: "stream_start_request \<Rightarrow> host \<Rightarrow> host" where
  "host_onAdaptersStreamStart q = dispatchCmd (st_externalId q) (st_cmdId q)
     ''externalId is required for CmdAdaptersStreamStart'' ''Failed to dispatch adapters stream.start: ''
     (InstanceStreamStart q)"

definition host_onAdaptersStreamStop :: "stream_stop_request \<Rightarrow> host \<Rightarrow> host" where
  "host_onAdaptersStreamStop q = dispatchCmd (sp_externalId q) (sp_cmdId q)
     ''externalId is required for CmdAdaptersStreamStop'' ''Failed to dispatch adapters stream.stop: ''
     (InstanceStreamStop q)"

definition failedAction :: "cmd_id \<Rightarrow> i64 \<Rightarrow> cmd_status \<Rightarrow> string \<Rightarrow> action_response" where
  "failedAction cmdId ts status message =
     emptyActionResponse\<lparr>ar_id := cmdId, ar_status := status, ar_error := message,
       ar_resultType := ActionResultType_None, ar_tsMs := ts\<rparr>"

definition host_onAdapterActionInvoke :: "adapter_action_invoke_request \<Rightarrow> host \<Rightarrow> host" where
  "host_onAdapterActionInvoke q h =
     (case nowMs h of
        (ts, h1) \<Rightarrow>
          let x = ai_externalId q;
              answer = (\<lambda>status message h. snd (sendActionResult (failedAction (ai_cmdId q) ts status message) h))
          in if h_factory h1 = None then answer CmdStatus_Failure ''Adapter factory not available'' h1
             else if x = [] then
               (case onFactory (FactoryActionInvoke q) h1 of
                  (None, h2) \<Rightarrow> h2
                | (Some e, h2) \<Rightarrow> answer CmdStatus_Failure (''Failed to dispatch factory action: '' @ e) h2)
             else
               (case executeOnRuntime x (Some (TaskCall (findInstance x h1) (InstanceAdapterAction q))) h1 of
                  (None, h2) \<Rightarrow> h2
                | (Some e, h2) \<Rightarrow>
                    answer CmdStatus_InvalidArgument (''Failed to dispatch adapter action: '' @ e) h2))"

definition host_onUnknownRequest :: "unknown_request \<Rightarrow> host \<Rightarrow> host" where
  "host_onUnknownRequest q h =
     (case h_factory h of
        None \<Rightarrow> h
      | Some _ \<Rightarrow>
          let x = ur_externalId q in
          if x = [] then reportProtocolError (''Unhandled IPC command: '' @ toStringU (ur_command q)) h
          else reportIf (''Failed to dispatch unknown request for externalId='' @ apostrophed x @ '': '')
                 (executeOnRuntime x (Some (TaskCall (findInstance x h) (InstanceUnknown q))) h))"

definition hostHandlers :: "host handlers" where
  "hostHandlers = \<lparr>onConnected = Some host_onConnected, onDisconnected = Some host_onDisconnected,
     onProtocolError = Some host_onProtocolError, onBootstrap = Some host_onBootstrap,
     onConfigChanged = Some host_onConfigChanged, onInstanceRemoved = Some host_onInstanceRemoved,
     onChannelInvoke = Some host_onChannelInvoke, onAdapterActionInvoke = Some host_onAdapterActionInvoke,
     onDeviceNameUpdate = Some host_onDeviceNameUpdate, onDeviceEffectInvoke = Some host_onDeviceEffectInvoke,
     onSceneInvoke = Some host_onSceneInvoke, onAdaptersStreamStart = Some host_onAdaptersStreamStart,
     onAdaptersStreamStop = Some host_onAdaptersStreamStop, onUnknownRequest = Some host_onUnknownRequest\<rparr>"

section \<open>Start, poll, stop\<close>

text \<open>What the constructor does to a factory.\<close>

definition bindFactory :: "adapter_factory \<Rightarrow> adapter_factory" where
  "bindFactory f = f\<lparr>af_dispatcher := True, af_actionResultSubmitter := True\<rparr>"

text \<open>
  A host as the constructor leaves it: the dispatcher, the clocks and the scripts are those of the
  argument, everything else is in its initial state.
\<close>

definition newHost :: "adapter_factory option \<Rightarrow> host \<Rightarrow> host" where
  "newHost factory h = h\<lparr>h_factory := map_option bindFactory factory, h_factoryExecution := None,
     h_factoryActive := False, h_instances := [], h_resultQueue := [], h_objects := (\<lambda>a. None), h_nextObject := 0,
     h_started := (\<lambda>a. None), h_stopDone := (\<lambda>a. False), h_registry := [], h_useAfterFree := False,
     h_startAbandoned := False\<rparr>"

definition takeFactoryBackend :: "host \<Rightarrow> bool \<times> host" where
  "takeFactoryBackend h =
     (case h_factoryBackends h of [] \<Rightarrow> (False, h) | b # bs \<Rightarrow> (b, h\<lparr>h_factoryBackends := bs\<rparr>))"

text \<open>The stopping hook is queued ahead of the stop, or runs inline; the stop flag is set before.\<close>

definition announceStop :: "host \<Rightarrow> host" where
  "announceStop h =
     (case h_factory h of
        None \<Rightarrow> h
      | Some _ \<Rightarrow>
          (case onFactory FactoryStopping (updateFactory (\<lambda>f. f\<lparr>af_stopRequested := True\<rparr>) h) of
             (None, h1) \<Rightarrow> h1
           | (Some e, h1) \<Rightarrow> factory_onProtocolError (''Failed to dispatch factory stopping hook: '' @ e) h1))"

definition shutdownFactoryExecution :: "int \<Rightarrow> host \<Rightarrow> host" where
  "shutdownFactoryExecution budget h =
     (if \<not> h_factoryActive h then h
      else
        let h1 = announceStop (h\<lparr>h_factoryActive := False\<rparr>)
        in case h_factoryExecution h1 of
             None \<Rightarrow> h1
           | Some b \<Rightarrow>
               (case stopBackend budget b (h1\<lparr>h_factoryExecution := None\<rparr>) of
                  (None, h2) \<Rightarrow> h2
                | (Some e, h2) \<Rightarrow>
                    factory_onProtocolError (''Factory execution backend stop timed out: '' @ e) h2))"

text \<open>The factory's backend, once per life cycle.\<close>

definition activateFactory :: "host \<Rightarrow> string option \<times> host" where
  "activateFactory h =
     (if h_factoryActive h then (None, h)
      else
        (case takeFactoryBackend h of
           (False, h1) \<Rightarrow> (None, h1\<lparr>h_factoryActive := True\<rparr>)
         | (True, h1) \<Rightarrow>
             (case takeThread h1 of
                (thrown, h2) \<Rightarrow>
                  (case backend_start thrown newBackend of
                     (Some e, _) \<Rightarrow> (Some (''Failed to start factory execution backend: '' @ e), h2)
                   | (None, b) \<Rightarrow> (None, h2\<lparr>h_factoryExecution := Some b, h_factoryActive := True\<rparr>)))))"

definition host_start :: "host \<Rightarrow> string option \<times> host" where
  "host_start h =
     (if h_factory h = None then (Some ''SidecarHost has no factory'', h)
      else
        (case activateFactory h of
           (Some e, h1) \<Rightarrow> (Some e, h1)
         | (None, h1) \<Rightarrow>
             (case dispatcher_start h1 of
                (None, h2) \<Rightarrow> (None, h2)
              | (Some e, h2) \<Rightarrow> (Some e, shutdownFactoryExecution kShutdownBudget h2))))"

definition host_stop :: "int \<Rightarrow> host \<Rightarrow> host" where
  "host_stop budget h =
     (let clamped = max 0 budget in
      case steadyNow h of
        (now', h1) \<Rightarrow>
          let deadline = now' + clamped;
              factoryReserve = min (clamped div 4) kFactoryStopReserveMax;
              h2 = stopAndDestroyInstances (deadline - factoryReserve) h1
          in case remainingUntil deadline h2 of
               (left, h3) \<Rightarrow>
                 dispatcher_stop
                   (updateFactory (\<lambda>f. f\<lparr>af_actionResultSubmitter := False\<rparr>)
                     ((shutdownFactoryExecution (atLeastMinimumSlice left) h3)\<lparr>h_resultQueue := []\<rparr>)))"

definition host_pollOnce :: "host \<Rightarrow> string option \<times> host" where
  "host_pollOnce h =
     (case dispatcher_pollOnce hostHandlers (flushSendQueue hostHandlers (drainDeferredResults h)) of
        (e, h1) \<Rightarrow> (e, flushSendQueue hostHandlers (drainDeferredResults h1)))"

end
