(* ===== verification/Poll_Frame.thy ===== *)
theory Poll_Frame
  imports Dispatcher
begin

text \<open>
  The dispatcher below its owner: whatever arrives on the socket, the owner's state changes only
  through the handlers. The interface is a preorder on states that does not look at the dispatcher's
  own fields; a poll respects it when every handler does.
\<close>

definition abides_opt :: "('d \<Rightarrow> 'd \<Rightarrow> bool) \<Rightarrow> ('a, 'd) handler \<Rightarrow> bool" where
  "abides_opt R h = (\<forall>g x d. h = Some g \<longrightarrow> R d (g x d))"

definition abides_notify :: "('d \<Rightarrow> 'd \<Rightarrow> bool) \<Rightarrow> ('d \<Rightarrow> 'd) option \<Rightarrow> bool" where
  "abides_notify R n = (\<forall>g d. n = Some g \<longrightarrow> R d (g d))"

definition abides :: "('d \<Rightarrow> 'd \<Rightarrow> bool) \<Rightarrow> 'd handlers \<Rightarrow> bool" where
  "abides R hs =
     (abides_notify R (onConnected hs) \<and> abides_notify R (onDisconnected hs)
      \<and> abides_opt R (onProtocolError hs) \<and> abides_opt R (onBootstrap hs) \<and> abides_opt R (onConfigChanged hs)
      \<and> abides_opt R (onInstanceRemoved hs) \<and> abides_opt R (onChannelInvoke hs)
      \<and> abides_opt R (onAdapterActionInvoke hs) \<and> abides_opt R (onDeviceNameUpdate hs)
      \<and> abides_opt R (onDeviceEffectInvoke hs) \<and> abides_opt R (onSceneInvoke hs)
      \<and> abides_opt R (onAdaptersStreamStart hs) \<and> abides_opt R (onAdaptersStreamStop hs)
      \<and> abides_opt R (onUnknownRequest hs))"

section \<open>The owner's part of the state\<close>

lemma more_nowMs [simp]: "dispatcher.more (snd (nowMs d)) = dispatcher.more d"
  by (simp add: nowMs_def split: list.split)

lemma more_hostStderrLine [simp]: "dispatcher.more (hostStderrLine l d) = dispatcher.more d"
  by (simp add: hostStderrLine_def)

lemma more_closeFd [simp]: "dispatcher.more (closeFd fd d) = dispatcher.more d"
  by (simp add: closeFd_def trace_def)

lemma more_transport [simp]:
  "dispatcher.more (trace evs d) = dispatcher.more d" "dispatcher.more (drainWakeFd d) = dispatcher.more d"
  "dispatcher.more (compact d) = dispatcher.more d" "dispatcher.more (dropClientFd d) = dispatcher.more d"
  "dispatcher.more (closeClientDeferred d) = dispatcher.more d" "dispatcher.more (server_wakeup d) = dispatcher.more d"
  by (simp_all add: trace_def drainWakeFd_def compact_def dropClientFd_def closeClientDeferred_def server_wakeup_def)

lemma more_stop [simp]: "dispatcher.more (stop d) = dispatcher.more d"
  by (simp add: stop_def Let_def)

lemma more_reports [simp]:
  "dispatcher.more (noteSendFailure f e d) = dispatcher.more d"
  "dispatcher.more (reportOverflow n d) = dispatcher.more d"
  "dispatcher.more (reportBackpressure q m d) = dispatcher.more d"
  by (auto simp: nowMs_def hostStderrLine_def noteSendFailure_def reportOverflow_def reportBackpressure_def
      split: list.split)

lemma more_queueOutboundFrame [simp]: "dispatcher.more (snd (queueOutboundFrame f d)) = dispatcher.more d"
  by (simp add: queueOutboundFrame_def Let_def split: prod.split)

lemma more_stampMs [simp]: "dispatcher.more (snd (stampMs ts d)) = dispatcher.more d"
  by (simp add: stampMs_def)

lemma more_take:
  "takeStatus d = (a, d') \<Longrightarrow> dispatcher.more d' = dispatcher.more d"
  "takeAccept d = (b, d') \<Longrightarrow> dispatcher.more d' = dispatcher.more d"
  "takeWait d = (c, d') \<Longrightarrow> dispatcher.more d' = dispatcher.more d"
  "takeFd d = (e, d') \<Longrightarrow> dispatcher.more d' = dispatcher.more d"
  by (auto simp: takeStatus_def takeAccept_def takeWait_def takeFd_def split: list.splits)

lemma more_setNonBlocking: "setNonBlocking d = (a, d') \<Longrightarrow> dispatcher.more d' = dispatcher.more d"
  by (auto simp: setNonBlocking_def split: prod.splits option.splits dest!: more_take(1))

lemma more_orStop:
  "(\<And>d. dispatcher.more (snd (k d)) = dispatcher.more d) \<Longrightarrow> dispatcher.more (snd (orStop what k d)) = dispatcher.more d"
  by (auto simp: orStop_def split: prod.split option.split dest: more_take(1))

lemma more_addWake: "dispatcher.more (snd (addWake d)) = dispatcher.more d"
  unfolding addWake_def by (subst more_orStop) simp_all

lemma more_openWake: "dispatcher.more (snd (openWake d)) = dispatcher.more d"
  by (auto simp: openWake_def more_addWake split: prod.split sum.split dest: more_take(4))

lemma more_openEpoll: "dispatcher.more (snd (openEpoll d)) = dispatcher.more d"
  by (auto simp: openEpoll_def more_openWake more_orStop split: prod.split sum.split dest: more_take(4))

lemma more_server_start [simp]: "dispatcher.more (snd (server_start d)) = dispatcher.more d"
  by (auto simp: server_start_def more_openEpoll more_orStop Let_def split: prod.split sum.split dest!: more_take(4))

lemma more_dispatcher_start [simp]: "dispatcher.more (snd (dispatcher_start d)) = dispatcher.more d"
  using more_server_start [of d] by (auto simp: dispatcher_start_def simp del: more_server_start
      split: prod.split option.split)

lemma more_dispatcher_stop [simp]: "dispatcher.more (dispatcher_stop d) = dispatcher.more d"
  by (simp add: dispatcher_stop_def)

lemma more_serverWrite: "dispatcher.more (snd (serverWrite bs d)) = dispatcher.more d"
  by (simp add: serverWrite_def split: prod.split)

lemma more_runtime_send [simp]: "dispatcher.more (snd (runtime_send ty c bs d)) = dispatcher.more d"
proof -
  have "dispatcher.more d' = dispatcher.more d" if "serverWrite b d = (e, d')" for b d e d'
    using more_serverWrite [of b d] that by simp
  then show ?thesis
    by (auto simp: runtime_send_def server_send_def Let_def split: prod.split option.split)
qed

lemma more_dropRemaining [simp]: "dispatcher.more (dropRemaining n d) = dispatcher.more d"
  by (simp add: dropRemaining_def Let_def)

section \<open>The interface\<close>

locale owner_relation =
  fixes R :: "'z dispatcher_scheme \<Rightarrow> 'z dispatcher_scheme \<Rightarrow> bool"
  assumes same_owner: "dispatcher.more d' = dispatcher.more d \<Longrightarrow> R d d'"
    and R_trans: "R d d1 \<Longrightarrow> R d1 d2 \<Longrightarrow> R d d2"
begin

lemma R_refl: "R d d"
  by (rule same_owner) simp

lemma R_callNotify: "abides_notify R n \<Longrightarrow> R d (callNotify n d)"
  by (simp add: abides_notify_def callNotify_def R_refl split: option.split)

lemma R_callHandler: "abides_opt R h \<Longrightarrow> R d (callHandler h x d)"
  by (simp add: abides_opt_def callHandler_def R_refl split: option.split)

lemma R_closeClient: "abides_notify R n \<Longrightarrow> R d (closeClient n d)"
  unfolding closeClient_def by (rule R_trans [OF same_owner R_callNotify]) simp

lemma R_acceptClient:
  assumes n: "abides_notify R n" and a: "acceptClient n d = (e, new, d')"
  shows "R d d'"
proof -
  obtain acc d1 where t: "takeAccept d = (acc, d1)"
    by fastforce
  have d1: "R d d1"
    by (rule same_owner [OF more_take(2) [OF t]])
  show ?thesis
  proof (cases acc)
    case (Inr err)
    then show ?thesis
      using a t d1 by (auto simp: acceptClient_def split: errno.splits)
  next
    case (Inl fd)
    obtain nb d2 where nb: "setNonBlocking d1 = (nb, d2)"
      by fastforce
    have d2: "R d d2"
      by (rule R_trans [OF d1 same_owner [OF more_setNonBlocking [OF nb]]])
    show ?thesis
    proof (cases nb)
      case (Some err)
      then have "d' = trace [Closed (int fd)] d2"
        using a t Inl nb by (simp add: acceptClient_def)
      then show ?thesis
        using R_trans [OF d2 same_owner [of d' d2]] by simp
    next
      case None
      let ?d3 = "(if 0 \<le> m_clientFd d2 then closeClient n d2 else d2)\<lparr>m_clientFd := int fd\<rparr>"
      have "R d (if 0 \<le> m_clientFd d2 then closeClient n d2 else d2)"
        using d2 R_trans [OF d2 R_closeClient [OF n]] by simp
      then have d3: "R d ?d3"
        by (rule R_trans [OF _ same_owner]) simp
      obtain st d4 where st: "takeStatus ?d3 = (st, d4)"
        by fastforce
      have d4: "R d d4"
        by (rule R_trans [OF d3 same_owner [OF more_take(1) [OF st]]])
      have "dispatcher.more d' = dispatcher.more d4"
        using a t Inl nb None st by (cases st) (auto simp: acceptClient_def Let_def)
      then show ?thesis
        by (rule R_trans [OF d4 same_owner])
    qed
  qed
qed

lemma R_frameLoop:
  assumes "\<And>h p d. R d (f h p d)"
  shows "R d (snd (frameLoop n (Some f) d))"
proof (induction n arbitrary: d)
  case (Suc n)
  have "R d (deliver1 (Some f) fr d)" for fr
    using assms by (simp add: deliver1_def Let_def) (rule R_trans [OF same_owner assms], simp)
  with Suc show ?case
    by (auto simp: frameLoop_step Let_def R_refl intro: R_trans split: option.split prod.split)
qed (simp add: R_refl)

lemma R_readClient:
  assumes f: "\<And>h p d. R d (f h p d)" and n: "abides_notify R n"
  shows "R d (snd (readClient (Some f) n d))"
proof -
  obtain bs e rs where rl: "readLoop (os_reads (m_os d)) = (bs, e, rs)"
    using prod_cases3 by blast
  let ?d = "d\<lparr>m_rxBuffer := m_rxBuffer d @ bs, m_os := (m_os d)\<lparr>os_reads := rs\<rparr>\<rparr>"
  have d': "R d ?d"
    by (rule same_owner) simp
  obtain x d2 where l: "frameLoop (Suc (length (m_rxBuffer ?d))) (Some f) ?d = (x, d2)"
    by fastforce
  have "R ?d (snd (frameLoop (Suc (length (m_rxBuffer ?d))) (Some f) ?d))"
    by (rule R_frameLoop [OF f])
  then have d2: "R d d2"
    unfolding l snd_conv by (rule R_trans [OF d'])
  have "R d (compact d2)"
    by (rule R_trans [OF d2 same_owner]) simp
  have "R d (closeClient n d2)" "R d (closeClient n ?d)"
    by (rule R_trans [OF d2 R_closeClient [OF n]], rule R_trans [OF d' R_closeClient [OF n]])
  then show ?thesis
    using rl l d2 \<open>R d (compact d2)\<close> by (cases e; cases x) (simp_all add: readClient_def Let_def)
qed

lemma R_server_pollOnce:
  assumes f: "\<And>h p d. R d (f h p d)" and cb: "cb_onFrame cb = Some f"
    and c: "abides_notify R (cb_onConnected cb)" and n: "abides_notify R (cb_onDisconnected cb)"
  shows "R d (snd (server_pollOnce cb d))"
proof -
  have ready: "R d (snd (handleReady cb evs d1))" if "R d d1" for evs d1
  proof (rule handleReady_preserves [where P = "R d"])
    show "R d (if e = None \<and> new then callNotify (cb_onConnected cb) s' else s')"
      if "R d s" "acceptClient (cb_onDisconnected cb) s = (e, new, s')" for s e new s'
      using R_trans [OF that(1) R_acceptClient [OF n that(2)]] R_callNotify [OF c] by (auto intro: R_trans)
    show "R d (drainWakeFd s)" if "R d s" for s
      by (rule R_trans [OF that same_owner]) simp
    show "R d (closeClient (cb_onDisconnected cb) s)" if "R d s" for s
      by (rule R_trans [OF that R_closeClient [OF n]])
    show "R d (snd (readClient (cb_onFrame cb) (cb_onDisconnected cb) s))" if "R d s" for s
      unfolding cb by (rule R_trans [OF that R_readClient [OF f n]])
  qed (rule that)
  let ?d1 = "if m_notifyDisconnect d then callNotify (cb_onDisconnected cb) (d\<lparr>m_notifyDisconnect := False\<rparr>) else d"
  obtain w d2 where w: "takeWait ?d1 = (w, d2)"
    by fastforce
  have "R d (d\<lparr>m_notifyDisconnect := False\<rparr>)"
    by (rule same_owner) simp
  then have "R d ?d1"
    by (auto intro: R_refl R_trans R_callNotify [OF n])
  then have d2: "R d d2"
    by (rule R_trans [OF _ same_owner [OF more_take(3) [OF w]]])
  show ?thesis
    using ready [OF d2] d2 w R_refl by (cases w) (auto simp: server_pollOnce_def Let_def split: errno.splits)
qed

lemma R_handlerOr: "abides_opt R g \<Longrightarrow> R d (snd (k d)) \<Longrightarrow> R d (snd (handlerOr g x k d))"
  by (cases g) (simp_all add: handlerOr_def abides_opt_def)

lemma R_handleRequestFrame:
  assumes "abides R hs"
  shows "R d (snd (handleRequestFrame hs header payload d))"
proof -
  have dflt: "R d (snd (sendDefaultCmd i msg d))" "R d (snd (sendDefaultAction i msg d))" for i msg d
    by (rule same_owner, simp add: sendDefaultCmd_def sendDefaultAction_def defaultCmdResponse_def
        defaultActionResponse_def sendCmdResult_def sendActionResult_def sendJson_def case_prod_beta)+
  have "R d (snd (handleCommand hs c i corr tok m d))" for c i corr tok m
    using assms unfolding handleCommand_def Let_def
    by (simp add: abides_def R_callHandler R_handlerOr dflt R_trans [OF R_callHandler dflt(1)] split: if_split)
  then show ?thesis
    using assms by (simp add: handleRequestFrame_def protocolError_def Let_def abides_def R_callHandler
        split: sum.split option.split)
qed

lemma R_flushSendQueue:
  assumes "abides R hs"
  shows "R d (flushSendQueue hs d)"
proof -
  have noted: "R d (noteFlushFailure hs f e d)" for f e d
    using assms by (auto simp: noteFlushFailure_def abides_def R_callHandler intro: same_owner)
  have loop: "R d (flushLoop hs fs d)" for fs d
  proof (induction fs arbitrary: d)
    case (Cons f fs)
    obtain e d1 where s: "runtime_send (of_type f) (of_correlationId f) (bytes_of_string (of_payload f)) d = (e, d1)"
      by fastforce
    have d1: "R d d1"
      using same_owner [OF more_runtime_send, of d "of_type f" "of_correlationId f" "bytes_of_string (of_payload f)"] s
      by simp
    show ?case
    proof (cases e)
      case None
      then show ?thesis
        using s Cons [of d1] d1 by (simp add: R_trans [OF d1])
    next
      case (Some x)
      have "R d (noteFlushFailure hs f x d1)"
        by (rule R_trans [OF d1 noted])
      moreover from this have "R d (dropRemaining n (noteFlushFailure hs f x d1))" for n
        by (rule R_trans [OF _ same_owner]) simp
      moreover have "R d (flushLoop hs fs (noteFlushFailure hs f x d1))"
        using Cons by (rule R_trans [OF R_trans [OF d1 noted]])
      ultimately show ?thesis
        using s Some by (simp add: Let_def)
    qed
  qed (simp add: R_refl)
  show ?thesis
    unfolding flushSendQueue_def by (rule R_trans [OF same_owner loop]) simp
qed

lemma R_dispatcher_pollOnce:
  assumes "abides R hs"
  shows "R d (snd (dispatcher_pollOnce hs d))"
proof -
  have p: "R d (snd (server_pollOnce (dispatcherCallbacks hs) d))" for d
    using assms R_handleRequestFrame [OF assms]
    by (intro R_server_pollOnce [where f = "\<lambda>header payload d.
        if messageType header \<noteq> MsgRequest then d else snd (handleRequestFrame hs header payload d)"])
      (auto simp: dispatcherCallbacks_def abides_def abides_notify_def R_callNotify R_refl)
  let ?d1 = "flushSendQueue hs (d\<lparr>d_polling := True\<rparr>)"
  obtain e d2 where e: "server_pollOnce (dispatcherCallbacks hs) ?d1 = (e, d2)"
    by fastforce
  have "R d (d\<lparr>d_polling := True\<rparr>)"
    by (rule same_owner) simp
  then have "R d ?d1"
    by (rule R_trans [OF _ R_flushSendQueue [OF assms]])
  moreover have "R ?d1 d2"
    using p [of ?d1] e by simp
  ultimately have "R d (flushSendQueue hs d2)"
    by (blast intro: R_trans R_flushSendQueue [OF assms])
  then have "R d ((flushSendQueue hs d2)\<lparr>d_polling := False\<rparr>)"
    by (rule R_trans [OF _ same_owner]) simp
  then show ?thesis
    using e by (simp add: dispatcher_pollOnce_def R_refl Let_def)
qed

end

end
