(* ===== verification/Host_Rules.thy ===== *)
theory Host_Rules
  imports Host_Loop Poll_Frame
begin

text \<open>
  What the operations of the host leave alone. \<open>mild A\<close> is the preorder of everything adapter code and
  error reports can do: queue frames and results, consume their scripts, change the members of an
  object that exists, and hand further tasks to the factory's backend; \<open>A\<close> is the set of objects the
  operation uses.
\<close>

named_theorems only_rules \<open>operations of the dispatcher\<close>
named_theorems mild_rules \<open>operations that are mild\<close>

section \<open>Operations of the dispatcher\<close>

definition only_dispatcher :: "'z dispatcher_scheme \<Rightarrow> 'z dispatcher_scheme \<Rightarrow> bool" where
  "only_dispatcher d d' = (keeps d d' \<and> dispatcher.more d' = dispatcher.more d)"

lemma only_refl [only_rules]: "only_dispatcher d d"
  by (simp add: only_dispatcher_def)

lemma only_trans: "only_dispatcher d d1 \<Longrightarrow> only_dispatcher d1 d2 \<Longrightarrow> only_dispatcher d d2"
  by (auto simp: only_dispatcher_def intro: keeps_trans)

lemma only_queue [only_rules]: "only_dispatcher d (snd (queueOutboundFrame f d))"
  by (simp add: only_dispatcher_def keeps_queue)

lemma only_nowMs [only_rules]: "only_dispatcher d (snd (nowMs d))"
  by (simp add: only_dispatcher_def keeps_nowMs)

lemma only_stampMs [only_rules]: "only_dispatcher d (snd (stampMs ts d))"
  by (simp add: stampMs_def only_rules)

lemma only_wakeup [only_rules]: "only_dispatcher d (server_wakeup d)"
  by (simp add: only_dispatcher_def keeps_def) (simp add: server_wakeup_def rx_view_def queue_inv_def)

lemma only_hostStderrLine [only_rules]: "only_dispatcher d (hostStderrLine l d)"
  by (simp add: only_dispatcher_def keeps_def) (simp add: hostStderrLine_def rx_view_def queue_inv_def)

lemma only_stamped_queue [only_rules]:
  "only_dispatcher d (snd (queueOutboundFrame f (snd (stampMs ts d))))"
  by (rule only_trans [OF only_stampMs only_queue])

lemma only_send [only_rules]:
  "only_dispatcher d (snd (sendJson ty c j d))" "only_dispatcher d (snd (sendEvent cmd fs d))"
  "only_dispatcher d (snd (sendJson ty c j (snd (stampMs ts d))))"
  "only_dispatcher d (snd (sendEvent cmd fs (snd (stampMs ts d))))"
  by (simp_all add: sendEvent_def sendJson_def only_rules)

lemma only_senders [only_rules]:
  "only_dispatcher d (snd (sendCmdResult r d))"
  "only_dispatcher d (snd (sendActionResult ar d))"
  "only_dispatcher d (snd (sendConnectionStateChanged x b d))"
  "only_dispatcher d (snd (sendError x pl cat msg ps ctx fj ts d))"
  "only_dispatcher d (snd (sendLog x pl e d))"
  "only_dispatcher d (snd (sendAdapterMetaUpdated x j d))"
  "only_dispatcher d (snd (sendAdapterDescriptor x ds c d))"
  "only_dispatcher d (snd (sendAdapterDescriptorUpdated x ds d))"
  "only_dispatcher d (snd (sendChannelStateUpdated x dv ch v ts d))"
  "only_dispatcher d (snd (sendChannelColorStateUpdated x dv ch r' g b' ts d))"
  "only_dispatcher d (snd (sendDeviceUpdated x dev chs d))"
  "only_dispatcher d (snd (sendDeviceRemoved x y d))"
  "only_dispatcher d (snd (sendChannelUpdated x y c' d))"
  by (simp_all add: sendCmdResult_def sendActionResult_def sendConnectionStateChanged_def sendError_def sendLog_def
      sendAdapterMetaUpdated_def sendAdapterDescriptor_def sendAdapterDescriptorUpdated_def
      sendChannelStateUpdated_def sendChannelColorStateUpdated_def sendDeviceUpdated_def sendDeviceRemoved_def
      sendChannelUpdated_def only_rules case_prod_beta Let_def)

lemma only_senders' [only_rules]:
  "only_dispatcher d (snd (sendRoomUpdated x rm d))"
  "only_dispatcher d (snd (sendRoomRemoved x y d))"
  "only_dispatcher d (snd (sendGroupUpdated x gr d))"
  "only_dispatcher d (snd (sendGroupRemoved x y d))"
  "only_dispatcher d (snd (sendSceneUpdated x sc d))"
  "only_dispatcher d (snd (sendSceneRemoved x y d))"
  "only_dispatcher d (snd (sendStreamOpen x st cm k ct ce m d))"
  "only_dispatcher d (snd (sendStreamData x st cm sq pj ts d))"
  "only_dispatcher d (snd (sendStreamError x st cm msg co ps ctx d))"
  "only_dispatcher d (snd (sendStreamEnd x st cm rs d))"
  by (simp_all add: sendRoomUpdated_def sendRoomRemoved_def sendGroupUpdated_def sendGroupRemoved_def
      sendSceneUpdated_def sendSceneRemoved_def sendStreamOpen_def sendStreamData_def sendStreamError_def
      sendStreamEnd_def only_rules case_prod_beta Let_def)

lemma only_viaDispatcher [only_rules]:
  "only_dispatcher d (snd (send d)) \<Longrightarrow> only_dispatcher d (snd (viaDispatcher b send d))"
  by (simp add: viaDispatcher_def only_rules)

lemma only_default [only_rules]:
  "only_dispatcher d (snd (defaultCmdResponse i m d))" "only_dispatcher d (snd (defaultActionResponse i m d))"
  "only_dispatcher d (snd (normalizeCmdResponse r d))" "only_dispatcher d (snd (normalizeActionResponse ar d))"
  by (simp_all add: defaultCmdResponse_def defaultActionResponse_def normalizeCmdResponse_def
      normalizeActionResponse_def only_rules case_prod_beta)

section \<open>Mild operations\<close>

text \<open>The factory's backend before and after: nothing but further factory tasks.\<close>

definition queueOn :: "factory_call list \<Rightarrow> host_task backend \<Rightarrow> host_task backend" where
  "queueOn cs b = fold (\<lambda>c. snd \<circ> backend_execute (Some (TaskFactory c))) cs b"

definition queuedOn :: "host_task backend option \<Rightarrow> host_task backend option \<Rightarrow> bool" where
  "queuedOn bo bo' = (\<exists>cs. bo' = map_option (queueOn cs) bo)"

definition factory_flags :: "adapter_factory \<Rightarrow> bool \<times> bool \<times> bool" where
  "factory_flags f = (af_dispatcher f, af_actionResultSubmitter f, af_stopRequested f)"

definition mild :: "nat set \<Rightarrow> host \<Rightarrow> host \<Rightarrow> bool" where
  "mild A h h' = (keeps h h'
     \<and> queuedOn (h_factoryExecution h) (h_factoryExecution h')
     \<and> map_option factory_flags (h_factory h') = map_option factory_flags (h_factory h)
     \<and> h_factoryActive h' = h_factoryActive h \<and> h_instances h' = h_instances h
     \<and> prefix (h_resultQueue h) (h_resultQueue h')
     \<and> (\<forall>a. map_option in_externalId (h_objects h' a) = map_option in_externalId (h_objects h a))
     \<and> h_nextObject h' = h_nextObject h \<and> h_registry h' = h_registry h
     \<and> h_startAbandoned h' = h_startAbandoned h
     \<and> h_now h' = h_now h \<and> h_delays h' = h_delays h \<and> h_waits h' = h_waits h
     \<and> ((\<forall>a \<in> A. h_objects h a \<noteq> None) \<longrightarrow> h_useAfterFree h' = h_useAfterFree h))"

lemma queueOn_Nil [simp]: "queueOn [] = id"
  by (simp add: queueOn_def fun_eq_iff)

lemma queueOn_append: "queueOn ds (queueOn cs b) = queueOn (cs @ ds) b"
  by (simp add: queueOn_def)

lemma queuedOn_refl [simp]: "queuedOn bo bo"
  by (auto simp: queuedOn_def option.map_id intro!: exI [of _ "[]"])

lemma queuedOn_trans: "queuedOn bo bo1 \<Longrightarrow> queuedOn bo1 bo2 \<Longrightarrow> queuedOn bo bo2"
  by (auto simp: queuedOn_def option.map_comp comp_def queueOn_append)

lemma mild_refl [mild_rules]: "mild A h h"
  by (simp add: mild_def)

lemma mild_alive: "mild A h h' \<Longrightarrow> h_objects h' a = None \<longleftrightarrow> h_objects h a = None"
  by (auto simp: mild_def) (metis option.map_disc_iff)+

lemma mild_trans:
  assumes "mild A h h1" and "mild A h1 h2"
  shows "mild A h h2"
proof -
  have "(\<forall>a \<in> A. h_objects h1 a \<noteq> None) = (\<forall>a \<in> A. h_objects h a \<noteq> None)"
    using mild_alive [OF assms(1)] by simp
  moreover have "keeps h h2" "prefix (h_resultQueue h) (h_resultQueue h2)"
    "queuedOn (h_factoryExecution h) (h_factoryExecution h2)"
    using assms by (auto simp: mild_def intro: keeps_trans prefix_order.trans queuedOn_trans)
  ultimately show ?thesis
    using assms by (simp add: mild_def)
qed

lemma mild_mono: "mild A h h' \<Longrightarrow> A \<subseteq> B \<Longrightarrow> mild B h h'"
  by (auto simp: mild_def)

lemma mild_only: "only_dispatcher h h' \<Longrightarrow> mild A h h'"
proof -
  assume a: "only_dispatcher h h'"
  then have m: "dispatcher.more h' = dispatcher.more h"
    by (simp add: only_dispatcher_def)
  have "h_factoryExecution h' = h_factoryExecution h" "h_factory h' = h_factory h"
    "h_factoryActive h' = h_factoryActive h" "h_instances h' = h_instances h" "h_resultQueue h' = h_resultQueue h"
    "h_objects h' = h_objects h" "h_nextObject h' = h_nextObject h" "h_registry h' = h_registry h"
    "h_startAbandoned h' = h_startAbandoned h" "h_now h' = h_now h" "h_delays h' = h_delays h"
    "h_waits h' = h_waits h" "h_useAfterFree h' = h_useAfterFree h"
    using m by (cases h; cases h'; simp)+
  then show ?thesis
    using a by (simp add: mild_def only_dispatcher_def)
qed

lemma keeps_host [simp]:
  "keeps h (h\<lparr>h_factory := f\<rparr>) = True" "keeps h (h\<lparr>h_factoryExecution := fx\<rparr>) = True"
  "keeps h (h\<lparr>h_factoryActive := b\<rparr>) = True" "keeps h (h\<lparr>h_instances := is\<rparr>) = True"
  "keeps h (h\<lparr>h_resultQueue := q\<rparr>) = True" "keeps h (h\<lparr>h_objects := os\<rparr>) = True"
  "keeps h (h\<lparr>h_started := st\<rparr>) = True" "keeps h (h\<lparr>h_stopDone := sd\<rparr>) = True"
  "keeps h (h\<lparr>h_registry := rg\<rparr>) = True" "keeps h (h\<lparr>h_useAfterFree := u\<rparr>) = True"
  "keeps h (h\<lparr>h_startAbandoned := u\<rparr>) = True"
  "keeps h (h\<lparr>h_instanceHooks := ih\<rparr>) = True" "keeps h (h\<lparr>h_factoryHooks := fh\<rparr>) = True"
  "keeps h (h\<lparr>h_nextObject := n\<rparr>) = True" "keeps h (h\<lparr>h_now := t\<rparr>) = True"
  "keeps h (h\<lparr>h_delays := ds\<rparr>) = True" "keeps h (h\<lparr>h_waits := w\<rparr>) = True"
  by (simp_all add: keeps_def rx_view_def queue_inv_def)

lemma mild_fields [mild_rules]:
  "mild A h (h\<lparr>h_resultQueue := h_resultQueue h @ rs\<rparr>)" "mild A h (h\<lparr>h_instanceHooks := ih\<rparr>)"
  "mild A h (h\<lparr>h_factoryHooks := fh\<rparr>)" "mild A h (h\<lparr>h_started := st\<rparr>)" "mild A h (h\<lparr>h_stopDone := sd\<rparr>)"
  by (simp_all add: mild_def)

section \<open>Hooks and tasks are mild\<close>

lemma mild_queueDeferredResult [mild_rules]: "mild A h (queueDeferredResult r h)"
  unfolding queueDeferredResult_def
  by (rule mild_trans [OF mild_fields(1) mild_only [OF only_wakeup]])

lemma mild_snd_only: "only_dispatcher h (snd (f h)) \<Longrightarrow> mild A h (snd (f h))"
  by (rule mild_only)

lemma mild_submit [mild_rules]: "mild A h (submitCmdResult r h)" "mild A h (submitActionResult ar h)"
  using mild_trans [OF mild_only [OF only_default(3)] mild_queueDeferredResult]
    mild_trans [OF mild_only [OF only_default(4)] mild_queueDeferredResult]
  by (simp_all add: submitCmdResult_def submitActionResult_def case_prod_beta)

lemma mild_instance_operation [mild_rules]: "mild A h (snd (instance_operation i op h))"
  by (cases op)
    (simp_all add: instance_log_def instance_sendError_def instance_sendCmdResult_def instance_sendActionResult_def
      mild_rules mild_only only_rules)

lemma mild_useAfterFree: "a \<in> A \<Longrightarrow> h_objects h a = None \<Longrightarrow> mild A h (h\<lparr>h_useAfterFree := True\<rparr>)"
  by (auto simp: mild_def)

lemma mild_instanceOperation [mild_rules]: "a \<in> A \<Longrightarrow> mild A h (snd (instanceOperation a op h))"
  by (auto simp: instanceOperation_def mild_useAfterFree mild_rules split: option.split)

interpretation instance_code: operations "instanceOperation a" "instanceAt a" "mild {a}" for a
  by unfold_locales (auto intro: mild_rules mild_trans)

lemma mild_takeHook [mild_rules]: "mild A h (snd (takeInstanceHook h))" "mild A h (snd (takeFactoryHook h))"
  by (simp_all add: takeInstanceHook_def takeFactoryHook_def mild_rules split: list.split)

lemma mild_callInstance:
  assumes "\<And>h. mild {a} h (snd (inherited h))"
  shows "mild {a} h (snd (callInstance a inherited h))"
proof -
  obtain p h1 where "takeInstanceHook h = (p, h1)"
    by fastforce
  then show ?thesis
    using mild_takeHook(1) [of "{a}" h] assms [of h1] instance_code.le_program [of a h1]
    by (auto simp: callInstance_def mild_useAfterFree split: option.split hook.split intro: mild_trans)
qed

lemma mild_updateInstance [mild_rules]:
  assumes "\<And>i. in_externalId (f i) = in_externalId i"
  shows "mild {a} h (updateInstance a f h)"
  using assms by (auto simp: updateInstance_def mild_useAfterFree mild_def split: option.split)

lemma in_externalId_updates [simp]:
  "in_externalId (cacheConfig q i) = in_externalId i" "in_externalId (instance_setStop b i) = in_externalId i"
  by (simp_all add: cacheConfig_def instance_setStop_def)

lemma mild_instance_onProtocolError [mild_rules]: "mild {a} h (snd (instance_onProtocolError a msg h))"
  unfolding instance_onProtocolError_def by (rule mild_callInstance) (simp add: mild_only only_rules)

lemma mild_reportFailedAnswer:
  "mild {a} h (snd sent) \<Longrightarrow> mild {a} h (snd (reportFailedAnswer a txt sent))"
  by (auto simp: reportFailedAnswer_def split: prod.split option.split
      intro: mild_trans [OF _ mild_instance_onProtocolError])

lemma mild_defaults [mild_rules]:
  "mild {a} h (snd (instance_defaultCmd a i m t h))" "mild {a} h (snd (instance_defaultAction a i m t h))"
  unfolding instance_defaultCmd_def instance_defaultAction_def case_prod_beta
  by (intro mild_reportFailedAnswer mild_trans [OF mild_only [OF only_default(1)] mild_instanceOperation]
      mild_trans [OF mild_only [OF only_default(2)] mild_instanceOperation]; simp)+

lemma mild_inherited [mild_rules]: "mild {a} h (snd (inheritedInstanceHook a c h))"
  by (cases c) (simp_all add: mild_rules)

lemma mild_hostOnInstance [mild_rules]: "mild {a} h (snd (hostOnInstance a c h))"
  by (cases c) (simp_all add: mild_rules mild_callInstance mild_trans [OF mild_updateInstance mild_callInstance])

lemma mild_hostStart [mild_rules]: "mild {a} h (snd (instance_hostStart a h))"
  unfolding instance_hostStart_def
  by (rule mild_trans [OF mild_updateInstance mild_callInstance]) (simp_all add: mild_rules)

lemma mild_hostStop [mild_rules]: "mild {a} h (snd (instance_hostStop a h))"
  unfolding instance_hostStop_def by (rule mild_callInstance) (simp add: mild_rules)

lemma mild_hostRequestStop [mild_rules]: "mild {a} h (instance_hostRequestStop a h)"
  unfolding instance_hostRequestStop_def by (rule mild_updateInstance) simp

lemma mild_updateFactory [mild_rules]:
  "(\<And>f. factory_flags (u f) = factory_flags f) \<Longrightarrow> mild A h (updateFactory u h)"
  by (cases "h_factory h") (simp_all add: updateFactory_def mild_def)

lemma mild_factoryOperation [mild_rules]: "mild A h (snd (factoryOperation op h))"
proof (cases "h_factory h")
  case (Some f)
  have "mild A h (snd (factory_operation f op h))"
    by (cases op)
      (simp_all add: factory_log_def factory_sendError_def sendFactoryDescriptorUpdated_def factory_sendResult_def
        mild_rules mild_only only_rules factory_flags_def)
  with Some show ?thesis
    by (simp add: factoryOperation_def)
qed (simp add: factoryOperation_def mild_rules)

interpretation factory_code: operations factoryOperation factoryOf "mild {}"
  by unfold_locales (auto intro: mild_rules mild_trans)

lemma mild_empty: "mild {} h h' \<Longrightarrow> mild A h h'"
  by (erule mild_mono) simp

lemma mild_callFactory:
  assumes "\<And>h. mild {} h (inherited h)"
  shows "mild A h (callFactory inherited h)"
proof (rule mild_empty)
  obtain p h1 where "takeFactoryHook h = (p, h1)"
    by fastforce
  then show "mild {} h (callFactory inherited h)"
    using mild_takeHook(2) [of "{}" h] assms [of h1] factory_code.le_program [of h1]
    by (auto simp: callFactory_def mild_rules split: option.split hook.split intro: mild_trans)
qed

lemma mild_factory_onProtocolError [mild_rules]: "mild A h (factory_onProtocolError m h)"
  unfolding factory_onProtocolError_def by (rule mild_callFactory) (simp add: mild_only only_rules)

lemma mild_inherited_factory [mild_rules]: "mild A h (inherited_onFactoryActionInvoke q h)"
proof -
  obtain r h1 where r: "defaultActionResponse (ai_cmdId q) ''Factory action handler not implemented'' h = (r, h1)"
    by fastforce
  obtain e h2 where e: "factoryOperation (FactoryResult r) h1 = (e, h2)"
    by fastforce
  have "mild A h h2"
    using mild_trans [OF mild_only [OF only_default(2)] mild_factoryOperation] r e by (metis snd_conv)
  then show ?thesis
    using r e mild_factory_onProtocolError
    by (auto simp: inherited_onFactoryActionInvoke_def split: option.split intro: mild_trans)
qed

lemma mild_executeOnFactory:
  assumes "\<And>c h. mild {} h (run c h)"
  shows "mild A h (snd (executeOnFactory run task h))"
proof (cases task)
  case (Some c)
  have q: "snd (backend_execute (Some (TaskFactory c)) b) = queueOn [c] b" for b
    by (simp add: queueOn_def)
  show ?thesis
  proof (cases "h_factoryExecution h")
    case None
    with Some show ?thesis
      using mild_empty [OF assms] by (simp add: executeOnFactory_def)
  next
    case (Some b)
    obtain e b1 where "backend_execute (Some (TaskFactory c)) b = (e, b1)"
      by fastforce
    moreover have "queuedOn (Some b) (Some b1)"
      using q [of b] calculation by (auto simp: queuedOn_def intro!: exI [of _ "[c]"])
    ultimately show ?thesis
      using Some \<open>task = Some c\<close> by (simp add: executeOnFactory_def mild_def)
  qed
qed (simp add: executeOnFactory_def mild_rules)

lemma mild_reportProtocolError [mild_rules]: "mild A h (reportProtocolError m h)"
proof (rule mild_empty)
  let ?run = "\<lambda>_. factory_onProtocolError m"
  obtain e h1 where e: "executeOnFactory ?run (Some (FactoryProtocolError m)) h = (e, h1)"
    by fastforce
  then have "mild {} h h1"
    using mild_executeOnFactory [of ?run "{}" h] mild_factory_onProtocolError by (metis snd_conv)
  then show "mild {} h (reportProtocolError m h)"
    using e by (auto simp: reportProtocolError_def mild_rules split: option.split
        intro: mild_trans [OF _ mild_trans [OF mild_factory_onProtocolError mild_factory_onProtocolError]])
qed

lemma mild_reportIf: "mild A h (snd r) \<Longrightarrow> mild A h (reportIf what r)"
  by (auto simp: reportIf_def split: prod.split option.split intro: mild_trans [OF _ mild_reportProtocolError])

lemma mild_respondToBootstrap [mild_rules]: "mild A h (respondToBootstrap q h)"
  unfolding respondToBootstrap_def Let_def
  by (intro mild_reportIf mild_trans [OF mild_callFactory mild_only [OF only_senders(7)]]) (simp add: mild_rules)

lemma mild_runFactoryCall [mild_rules]: "mild A h (runFactoryCall c h)"
  by (cases c) (simp_all add: mild_rules mild_callFactory)

lemma mild_onFactory [mild_rules]: "mild A h (snd (onFactory c h))"
  unfolding onFactory_def by (rule mild_executeOnFactory) (rule mild_runFactoryCall)

text \<open>The object a task works on.\<close>

fun task_object :: "host_task \<Rightarrow> nat option" where
  "task_object (TaskStart a) = Some a"
| "task_object (TaskStop a) = Some a"
| "task_object (TaskCall ao c) = ao"
| "task_object (TaskFactory c) = None"

lemma mild_runTask: "mild (set_option (task_object t)) h (runTask t h)"
proof (cases t)
  case (TaskStart a)
  obtain res h1 where s: "instance_hostStart a h = (res, h1)"
    by fastforce
  then have h1: "mild {a} h h1"
    using mild_hostStart [of a h] by simp
  show ?thesis
  proof (cases res)
    case (Returns ok)
    obtain res2 h2 where e: "(if ok then (Returns True, h1)
        else instance_onProtocolError a ''Instance start() failed'' h1) = (res2, h2)"
      by fastforce
    then have "mild {a} h1 h2"
      using mild_instance_onProtocolError [of a h1 "''Instance start() failed''"]
      by (auto simp: mild_refl split: if_splits)
    then show ?thesis
      using s h1 e TaskStart Returns mild_trans [OF mild_trans [OF h1] mild_fields(4)]
      by (cases res2) (auto intro: mild_trans)
  next
    case Throws
    then show ?thesis
      using s h1 TaskStart by simp
  qed
next
  case (TaskStop a)
  obtain res h1 where s: "instance_hostStop a h = (res, h1)"
    by fastforce
  then have "mild {a} h h1"
    using mild_hostStop [of a h] by simp
  then show ?thesis
    using s TaskStop mild_trans [OF _ mild_fields(5)] by (simp split: outcome.split)
next
  case (TaskCall ao c)
  then show ?thesis
    by (cases ao) (simp_all add: mild_rules)
qed (simp add: mild_rules)

end
