(* ===== verification/Host_Invariant.thy ===== *)
theory Host_Invariant
  imports Host_Rules
begin

text \<open>
  Objects, workers and their tasks: the invariant that no worker reaches an object that is gone, and
  what worker steps, waits and the stop of a backend do to it.
\<close>

section \<open>The invariant\<close>

definition tasks_of :: "host_task cell \<Rightarrow> host_task set" where
  "tasks_of c = set (x_tasks c) \<union> (case x_worker c of Some (InTask t) \<Rightarrow> {t} | _ \<Rightarrow> {})"

definition objects_of :: "host_task cell \<Rightarrow> nat set" where
  "objects_of c = (\<Union>t \<in> tasks_of c. set_option (task_object t))"

text \<open>A backend that runs and accepts tasks, as those of the map and of the factory do.\<close>

definition ready :: "host_task backend \<Rightarrow> bool" where
  "ready b = (cell_inv (b_cell b) \<and> x_started (b_cell b) \<and> \<not> x_stopRequested (b_cell b)
     \<and> b_joinable b \<and> \<not> b_stopping b \<and> b_registry b = [])"

definition runtime_ok :: "host \<Rightarrow> external_id \<Rightarrow> instance_runtime \<Rightarrow> bool" where
  "runtime_ok h x rt = (x \<noteq> [] \<and> rt_externalId rt = x \<and> rt_instance rt < h_nextObject h
     \<and> map_option in_externalId (h_objects h (rt_instance rt)) = Some x
     \<and> objects_of (b_cell (rt_execution rt)) \<subseteq> {rt_instance rt} \<and> ready (rt_execution rt))"

definition leaked_ok :: "host \<Rightarrow> host_task cell \<Rightarrow> bool" where
  "leaked_ok h c = (\<forall>a \<in> objects_of c. a < h_nextObject h \<and> h_objects h a \<noteq> None
     \<and> (\<forall>x. findInstance x h \<noteq> Some a))"

definition factory_ok :: "host_task backend option \<Rightarrow> bool" where
  "factory_ok bo = (\<forall>b. bo = Some b \<longrightarrow> ready b \<and> objects_of (b_cell b) = {})"

definition core :: "host \<Rightarrow> bool" where
  "core h = (distinct (map fst (h_instances h))
     \<and> (\<forall>x rt. findRuntime x h = Some rt \<longrightarrow> runtime_ok h x rt)
     \<and> (\<forall>c \<in> set (h_registry h). leaked_ok h c)
     \<and> factory_ok (h_factoryExecution h)
     \<and> \<not> h_useAfterFree h)"

text \<open>An object that only the host thread holds.\<close>

definition held :: "host \<Rightarrow> nat \<Rightarrow> bool" where
  "held h a = (a < h_nextObject h \<and> h_objects h a \<noteq> None
     \<and> (\<forall>x. findInstance x h \<noteq> Some a)
     \<and> (\<forall>c \<in> set (h_registry h). a \<notin> objects_of c))"

lemma core_runtime: "core h \<Longrightarrow> findRuntime x h = Some rt \<Longrightarrow> runtime_ok h x rt"
  by (simp add: core_def)

lemma runtime_object_unique:
  assumes "core h" and "findRuntime x h = Some rx" and "findRuntime y h = Some ry" and "rt_instance rx = rt_instance ry"
  shows "x = y"
  using core_runtime [OF assms(1,2)] core_runtime [OF assms(1,3)] assms(4) by (auto simp: runtime_ok_def)

section \<open>Backends\<close>

lemma objects_of_step: "worker_step c = Some c' \<Longrightarrow> objects_of c' \<subseteq> objects_of c"
  by (auto simp: worker_step_def objects_of_def tasks_of_def
      split: option.splits worker.splits list.splits if_splits)

lemma objects_of_running: "x_worker c = Some (InTask t) \<Longrightarrow> set_option (task_object t) \<subseteq> objects_of c"
  by (auto simp: objects_of_def tasks_of_def)

lemma ready_step:
  assumes "ready b" and "worker_step (b_cell b) = Some c"
  shows "ready (b\<lparr>b_cell := c\<rparr>)"
proof -
  have "cell_inv c" "\<not> x_stopRequested c"
    using assms worker_step_keeps [OF assms(2)] by (auto simp: ready_def intro: cell_inv_worker)
  moreover have "x_started c"
    using assms by (auto simp: ready_def worker_step_def split: option.splits worker.splits list.splits if_splits)
  ultimately show ?thesis
    using assms by (simp add: ready_def)
qed

lemma ready_execute:
  assumes "ready b"
  shows "backend_execute (Some t) b = (None, snd (backend_execute (Some t) b))" (is ?acc)
    and "ready (snd (backend_execute (Some t) b))"
    and "objects_of (b_cell (snd (backend_execute (Some t) b))) = objects_of (b_cell b) \<union> set_option (task_object t)"
proof -
  show ?acc
    using assms by (simp add: ready_def backend_execute_def Let_def)
  show "ready (snd (backend_execute (Some t) b))"
    using assms by (auto simp: ready_def backend_execute_def Let_def cell_inv_def split: option.splits worker.splits)
  show "objects_of (b_cell (snd (backend_execute (Some t) b))) = objects_of (b_cell b) \<union> set_option (task_object t)"
    using assms by (auto simp: ready_def backend_execute_def Let_def objects_of_def tasks_of_def)
qed

lemma ready_queueOn: "ready b \<Longrightarrow> ready (queueOn cs b)"
  by (induction cs arbitrary: b) (simp_all add: queueOn_def ready_execute(2,3))

lemma objects_queueOn: "ready b \<Longrightarrow> objects_of (b_cell (queueOn cs b)) = objects_of (b_cell b)"
  by (induction cs arbitrary: b) (simp_all add: queueOn_def ready_execute(2,3))

lemma factory_ok_queued: "queuedOn bo bo' \<Longrightarrow> factory_ok bo \<Longrightarrow> factory_ok bo'"
  by (auto simp: queuedOn_def factory_ok_def ready_queueOn objects_queueOn)

lemma objects_of_fresh: "objects_of (b_cell newBackend) = {}"
  by (simp add: newBackend_def freshCell_def objects_of_def tasks_of_def)

lemma ready_started:
  "backend_start thrown newBackend = (None, b) \<Longrightarrow> ready b \<and> objects_of (b_cell b) = {}"
  by (auto simp: backend_start_def newBackend_def freshCell_def ready_def cell_inv_def objects_of_def tasks_of_def
      Let_def split: option.splits)

section \<open>Mild operations keep the invariant\<close>

lemma mild_view:
  assumes "mild A h h'"
  shows "findRuntime x h' = findRuntime x h" and "findInstance x h' = findInstance x h"
    and "h_nextObject h' = h_nextObject h"
    and "h_registry h' = h_registry h" and "h_startAbandoned h' = h_startAbandoned h"
  using assms by (simp_all add: mild_def findRuntime_def findInstance_def)

lemma core_mild:
  assumes "mild A h h'" and "core h" and "\<forall>a \<in> A. h_objects h a \<noteq> None"
  shows "core h'"
proof -
  have v: "h_instances h' = h_instances h" "h_nextObject h' = h_nextObject h" "h_registry h' = h_registry h"
    "\<And>a. map_option in_externalId (h_objects h' a) = map_option in_externalId (h_objects h a)"
    "h_useAfterFree h' = h_useAfterFree h" "\<And>x. findRuntime x h' = findRuntime x h"
    "\<And>x. findInstance x h' = findInstance x h"
    using assms(1,3) by (simp_all add: mild_def findRuntime_def findInstance_def)
  have "factory_ok (h_factoryExecution h')"
    using assms(1,2) factory_ok_queued by (auto simp: mild_def core_def)
  then show ?thesis
    using assms(2) mild_alive [OF assms(1)] by (simp add: core_def runtime_ok_def leaked_ok_def v)
qed

lemma held_mild: "mild A h h' \<Longrightarrow> held h' a = held h a"
  using mild_alive [of A h h' a] by (simp add: held_def mild_view)

lemma mild_finishTask: "mild (objects_of c) h (finishTask c h)"
  by (auto simp: finishTask_def mild_rules split: option.split worker.split
      intro: mild_mono [OF mild_runTask objects_of_running])

lemma held_finishTask [simp]: "held (finishTask c h) a = held h a"
  by (rule held_mild [OF mild_finishTask])

lemma core_finishTask: "core h \<Longrightarrow> \<forall>a \<in> objects_of c. h_objects h a \<noteq> None \<Longrightarrow> core (finishTask c h)"
  using core_mild [OF mild_finishTask] by blast

section \<open>Worker steps keep the invariant\<close>

lemma findRuntime_setExecution:
  "findRuntime x (setExecution y b h) =
     (if x = y then map_option (\<lambda>rt. rt\<lparr>rt_execution := b\<rparr>) (findRuntime x h) else findRuntime x h)"
  by (auto simp: setExecution_def findRuntime_def update_conv' split: option.split)

lemma findInstance_setExecution [simp]: "findInstance x (setExecution y b h) = findInstance x h"
  by (simp add: findInstance_def findRuntime_setExecution option.map_comp comp_def)

lemma setExecution_keys [simp]: "map fst (h_instances (setExecution x b h)) = map fst (h_instances h)"
proof (cases "findRuntime x h")
  case (Some rt)
  then have "x \<in> set (map fst (h_instances h))"
    by (metis findRuntime_def domI dom_map_of_conv_image_fst set_map)
  with Some show ?thesis
    by (simp add: setExecution_def update_keys)
qed (simp add: setExecution_def)

lemma setExecution_frame [simp]:
  "h_nextObject (setExecution x b h) = h_nextObject h" "h_objects (setExecution x b h) = h_objects h"
  "h_registry (setExecution x b h) = h_registry h" "h_factoryExecution (setExecution x b h) = h_factoryExecution h"
  "h_useAfterFree (setExecution x b h) = h_useAfterFree h" "h_startAbandoned (setExecution x b h) = h_startAbandoned h"
  by (simp_all add: setExecution_def split: option.split)

lemma core_setExecution:
  assumes "core h" and "findRuntime x h = Some rt" and "ready b" and "objects_of (b_cell b) \<subseteq> {rt_instance rt}"
  shows "core (setExecution x b h)"
  using assms
  by (auto simp: core_def runtime_ok_def leaked_ok_def findRuntime_setExecution simp del: option.map_ident_strong
      split: if_splits)

lemma held_setExecution [simp]: "held (setExecution x b h) a = held h a"
  by (simp add: held_def)

lemma runtime_alive: "runtime_ok h x rt \<Longrightarrow> \<forall>a \<in> objects_of (b_cell (rt_execution rt)). h_objects h a \<noteq> None"
  by (auto simp: runtime_ok_def)

lemma stepInstance_safe:
  assumes "core h"
  shows "core (stepInstance x h)" and "held (stepInstance x h) a = held h a"
proof -
  have "core (stepInstance x h) \<and> held (stepInstance x h) a = held h a"
  proof (cases "findRuntime x h")
    case (Some rt)
    show ?thesis
    proof (cases "worker_step (b_cell (rt_execution rt))")
      case (Some c)
      let ?h1 = "setExecution x ((rt_execution rt)\<lparr>b_cell := c\<rparr>) h"
      have ok: "runtime_ok h x rt"
        using \<open>findRuntime x h = Some rt\<close> core_runtime [OF assms] by simp
      then have "core ?h1"
        using objects_of_step [OF Some] ready_step [OF _ Some] \<open>findRuntime x h = Some rt\<close>
        by (intro core_setExecution [OF assms, of x rt]) (auto simp: runtime_ok_def)
      then show ?thesis
        using core_finishTask [of ?h1 "b_cell (rt_execution rt)"] runtime_alive [OF ok]
          \<open>findRuntime x h = Some rt\<close> Some
        by (simp add: stepInstance_def)
    qed (use assms Some in \<open>simp add: stepInstance_def\<close>)
  qed (use assms in \<open>simp add: stepInstance_def\<close>)
  then show "core (stepInstance x h)" and "held (stepInstance x h) a = held h a"
    by simp_all
qed

lemma core_setFactory:
  "core h \<Longrightarrow> factory_ok fx \<Longrightarrow> core (h\<lparr>h_factoryExecution := fx\<rparr>)"
  "held (h\<lparr>h_factoryExecution := fx\<rparr>) a = held h a"
  by (simp_all add: core_def runtime_ok_def leaked_ok_def held_def findRuntime_def findInstance_def)

lemma stepFactory_safe:
  assumes "core h"
  shows "core (stepFactory h)" and "held (stepFactory h) a = held h a"
proof -
  have "core (stepFactory h) \<and> held (stepFactory h) a = held h a"
  proof (cases "h_factoryExecution h")
    case (Some b)
    show ?thesis
    proof (cases "worker_step (b_cell b)")
      case (Some c)
      let ?h1 = "h\<lparr>h_factoryExecution := Some (b\<lparr>b_cell := c\<rparr>)\<rparr>"
      have "ready b" "objects_of (b_cell b) = {}"
        using assms \<open>h_factoryExecution h = Some b\<close> by (simp_all add: core_def factory_ok_def)
      moreover from this have "core ?h1"
        using objects_of_step [OF Some] ready_step [OF _ Some]
        by (intro core_setFactory(1) [OF assms]) (simp add: factory_ok_def)
      ultimately show ?thesis
        using core_finishTask [of ?h1 "b_cell b"]
          \<open>h_factoryExecution h = Some b\<close> Some
        by (simp add: stepFactory_def core_setFactory(2))
    qed (use assms Some in \<open>simp add: stepFactory_def\<close>)
  qed (use assms in \<open>simp add: stepFactory_def\<close>)
  then show "core (stepFactory h)" and "held (stepFactory h) a = held h a"
    by simp_all
qed

lemma core_setRegistry:
  "core h \<Longrightarrow> \<forall>c \<in> set rg. leaked_ok h c \<Longrightarrow> core (h\<lparr>h_registry := rg\<rparr>)"
  by (simp add: core_def runtime_ok_def leaked_ok_def findRuntime_def findInstance_def)

lemma stepAbandoned_safe:
  assumes "core h"
  shows "core (stepAbandoned n h)" and "held h a \<Longrightarrow> held (stepAbandoned n h) a"
proof -
  have "core (stepAbandoned n h) \<and> (held h a \<longrightarrow> held (stepAbandoned n h) a)"
  proof (cases "n < length (h_registry h) \<and> worker_step (h_registry h ! n) \<noteq> None")
    case True
    then obtain c where c: "worker_step (h_registry h ! n) = Some c" and n: "h_registry h ! n \<in> set (h_registry h)"
      by auto
    let ?h1 = "h\<lparr>h_registry := (h_registry h)[n := c]\<rparr>"
    have ok: "leaked_ok h (h_registry h ! n)"
      using assms n by (simp add: core_def)
    then have "leaked_ok h c"
      using objects_of_step [OF c] by (auto simp: leaked_ok_def)
    then have "core ?h1"
      using assms set_update_subset_insert [of "h_registry h" n c]
      by (intro core_setRegistry) (auto simp: core_def)
    moreover have "held h a \<Longrightarrow> held ?h1 a"
      using objects_of_step [OF c] n
      by (auto simp: held_def findInstance_def findRuntime_def dest!: subsetD [OF set_update_subset_insert])
    ultimately show ?thesis
      using core_finishTask [of ?h1 "h_registry h ! n"] ok True c
      by (simp add: stepAbandoned_def leaked_ok_def)
  qed (use assms in \<open>auto simp: stepAbandoned_def\<close>)
  then show "core (stepAbandoned n h)" and "held h a \<Longrightarrow> held (stepAbandoned n h) a"
    by simp_all
qed

section \<open>Waits keep the invariant\<close>

text \<open>The host thread holds a backend, out of the map, and the objects its tasks use.\<close>

definition holding :: "nat set \<Rightarrow> host_task backend \<times> host \<Rightarrow> bool" where
  "holding A bh = (core (snd bh) \<and> (\<forall>a \<in> A. held (snd bh) a) \<and> objects_of (b_cell (fst bh)) \<subseteq> A)"

lemma holding_step: "holding A bh \<Longrightarrow> holding A (stepWorker w bh)"
proof (cases bh)
  case (Pair b h)
  assume a: "holding A bh"
  show ?thesis
  proof (cases w)
    case Own
    show ?thesis
    proof (cases "worker_step (b_cell b)")
      case (Some c)
      have "core (finishTask (b_cell b) h)"
        using a Pair by (intro core_finishTask) (auto simp: holding_def held_def)
      then show ?thesis
        using a Pair Own Some objects_of_step [OF Some]
        by (auto simp: holding_def)
    qed (use a Pair Own in simp)
  qed (use a Pair in \<open>simp_all add: holding_def stepInstance_safe stepFactory_safe stepAbandoned_safe\<close>)
qed

lemma stepWorker_backend:
  "b_registry (fst (stepWorker w bh)) = b_registry (fst bh)" "b_stopping (fst (stepWorker w bh)) = b_stopping (fst bh)"
  "ready (fst bh) \<Longrightarrow> ready (fst (stepWorker w bh))"
  by (cases bh; cases w; simp add: ready_step split: option.split)+

lemma steps_backend:
  "b_registry (fst (fold stepWorker ws bh)) = b_registry (fst bh)"
  "b_stopping (fst (fold stepWorker ws bh)) = b_stopping (fst bh)"
  "ready (fst bh) \<Longrightarrow> ready (fst (fold stepWorker ws bh))"
  "holding A bh \<Longrightarrow> holding A (fold stepWorker ws bh)"
  by (induction ws arbitrary: bh) (simp_all add: stepWorker_backend holding_step)

lemma core_time [simp]:
  "core (h\<lparr>h_now := t\<rparr>) = core h" "core (h\<lparr>h_waits := w\<rparr>) = core h" "core (h\<lparr>h_delays := ds\<rparr>) = core h"
  "held (h\<lparr>h_now := t\<rparr>) a = held h a" "held (h\<lparr>h_waits := w\<rparr>) a = held h a" "held (h\<lparr>h_delays := ds\<rparr>) a = held h a"
  by (simp_all add: core_def runtime_ok_def leaked_ok_def held_def findRuntime_def findInstance_def)

lemma hostWait_holding:
  assumes "holding A (b, h)" and "hostWait timeout b h = (b1, h1)"
  shows "holding A (b1, h1)" and "b_registry b1 = b_registry b" and "b_stopping b1 = b_stopping b"
    and "ready b \<Longrightarrow> ready b1"
proof -
  obtain ws h0 where w: "hostWait timeout b h = fold stepWorker ws (b, h0)" and "holding A (b, h0)"
  proof (cases "h_waits h")
    case Nil
    then show ?thesis
      using assms(1) by (intro that [of "[]" "h\<lparr>h_now := h_now h + max 0 timeout\<rparr>"])
        (simp_all add: hostWait_def holding_def)
  next
    case (Cons e rest)
    then show ?thesis
      using assms(1) by (intro that [of "snd e" "h\<lparr>h_waits := rest, h_now := h_now h + min (int (fst e)) (max 0 timeout)\<rparr>"])
        (simp_all add: hostWait_def holding_def case_prod_beta)
  qed
  then have "fold stepWorker ws (b, h0) = (b1, h1)"
    using assms(2) by simp
  then show "holding A (b1, h1)" "b_registry b1 = b_registry b" "b_stopping b1 = b_stopping b" "ready b \<Longrightarrow> ready b1"
    using steps_backend [where ws = ws and bh = "(b, h0)"] \<open>holding A (b, h0)\<close> by (metis fst_conv)+
qed

section \<open>Stopping a backend\<close>

lemma holding_stopBackend:
  assumes "holding A (b, h)" and "b_registry b = []" and "stopBackend timeout b h = (e, h1)"
  shows "core h1" and "e = None \<Longrightarrow> a \<in> A \<Longrightarrow> held h1 a"
proof -
  have "core h1 \<and> (e = None \<longrightarrow> a \<in> A \<longrightarrow> held h1 a)"
  proof (cases "fst (backend_stopBegin b)")
    case False
    then show ?thesis
      using assms by (auto simp: stopBackend_def holding_def split: prod.splits)
  next
    case True
    then obtain b1 where b1: "backend_stopBegin b = (True, b1)" "b_registry b1 = []" "objects_of (b_cell b1) = objects_of (b_cell b)"
      using assms(2) by (auto simp: backend_stopBegin_def Let_def objects_of_def tasks_of_def split: if_splits)
    obtain b2 h2 where w: "hostWait timeout b1 h = (b2, h2)"
      by fastforce
    have h2: "holding A (b2, h2)" "b_registry b2 = []"
      using hostWait_holding [OF _ w, of A] assms(1) b1 by (auto simp: holding_def)
    obtain b3 where s: "backend_stopEnd b2 = (e, b3)" "h1 = h2\<lparr>h_registry := h_registry h2 @ b_registry b3\<rparr>"
      using assms(3) b1 w by (auto simp: stopBackend_def split: prod.splits)
    show ?thesis
    proof (cases e)
      case None
      then have "b_registry b3 = []"
        using s(1) h2(2) by (auto simp: backend_stopEnd_def split: if_splits)
      then have "h1 = h2"
        using s(2) by simp
      then show ?thesis
        using h2(1) by (simp add: holding_def)
    next
      case (Some x)
      then have "b_registry b3 = [b_cell b2]"
        using s(1) h2(2) by (auto simp: backend_stopEnd_def adopt_def split: if_splits)
      moreover have "leaked_ok h2 (b_cell b2)"
        using h2(1) by (auto simp: holding_def held_def leaked_ok_def)
      ultimately show ?thesis
        using s(2) h2(1) Some core_setRegistry [of h2 "h_registry h2 @ [b_cell b2]"]
        by (auto simp: holding_def core_def)
    qed
  qed
  then show "core h1" and "e = None \<Longrightarrow> a \<in> A \<Longrightarrow> held h1 a"
    by simp_all
qed

lemma core_destroyInstance: "core h \<Longrightarrow> held h a \<Longrightarrow> core (destroyInstance a h)"
  by (auto simp: core_def runtime_ok_def leaked_ok_def held_def destroyInstance_def findRuntime_def findInstance_def)

section \<open>Safe operations\<close>

text \<open>
  What every operation of the host does to the invariant: it keeps it, unless it rolls back a start
  whose worker has not stopped.
\<close>

definition safe :: "host \<Rightarrow> host \<Rightarrow> bool" where
  "safe h h' = ((h_startAbandoned h \<longrightarrow> h_startAbandoned h') \<and> (core h \<longrightarrow> h_startAbandoned h' \<or> core h'))"

lemma safe_refl [simp]: "safe h h"
  by (simp add: safe_def)

lemma safe_trans: "safe h h1 \<Longrightarrow> safe h1 h2 \<Longrightarrow> safe h h2"
  by (auto simp: safe_def)

lemma safe_mild: "mild {} h h' \<Longrightarrow> safe h h'"
  using core_mild [of "{}" h h'] by (auto simp: safe_def mild_view)

lemma safe_more: "dispatcher.more h' = dispatcher.more h \<Longrightarrow> safe h h'"
proof -
  assume m: "dispatcher.more h' = dispatcher.more h"
  have v: "h_instances h' = h_instances h" "h_objects h' = h_objects h" "h_nextObject h' = h_nextObject h"
    "h_registry h' = h_registry h" "h_factoryExecution h' = h_factoryExecution h"
    "h_useAfterFree h' = h_useAfterFree h" "h_startAbandoned h' = h_startAbandoned h"
    using m by (cases h; cases h'; simp)+
  show ?thesis
    by (simp add: safe_def core_def runtime_ok_def leaked_ok_def findRuntime_def findInstance_def v)
qed

text \<open>What no worker changes: which instances there are, and the identity of the objects.\<close>

definition outline :: "host \<Rightarrow> bool \<times> nat \<times> (external_id \<times> nat) list \<times> (nat \<Rightarrow> external_id option)" where
  "outline h = (h_startAbandoned h, h_nextObject h, map (\<lambda>(x, rt). (x, rt_instance rt)) (h_instances h),
     \<lambda>a. map_option in_externalId (h_objects h a))"

lemma outline_view:
  assumes "outline h' = outline h"
  shows "h_startAbandoned h' = h_startAbandoned h" and "findInstance x h' = findInstance x h"
    and "map_option in_externalId (h_objects h' a) = map_option in_externalId (h_objects h a)"
    and "length (h_instances h') = length (h_instances h)" and "map fst (h_instances h') = map fst (h_instances h)"
    and "h_nextObject h' = h_nextObject h"
proof -
  have m: "map (\<lambda>(x, rt). (x, rt_instance rt)) (h_instances h') = map (\<lambda>(x, rt). (x, rt_instance rt)) (h_instances h)"
    using assms by (simp add: outline_def)
  have f: "findInstance x k = map_of (map (\<lambda>(x, rt). (x, rt_instance rt)) (h_instances k)) x" for k
    by (simp add: findInstance_def findRuntime_def map_of_map)
  show "findInstance x h' = findInstance x h"
    by (simp only: f m)
  show "length (h_instances h') = length (h_instances h)"
    using arg_cong [OF m, of length] by simp
  show "map fst (h_instances h') = map fst (h_instances h)"
    using arg_cong [OF m, of "map fst"] by (simp add: comp_def case_prod_beta)
  show "map_option in_externalId (h_objects h' a) = map_option in_externalId (h_objects h a)"
    using assms by (auto simp: outline_def dest: fun_cong)
qed (use assms in \<open>simp_all add: outline_def\<close>)

lemma outline_mild: "mild A h h' \<Longrightarrow> outline h' = outline h"
  by (auto simp: mild_def outline_def)

lemma outline_finishTask [simp]: "outline (finishTask c h) = outline h"
  by (rule outline_mild [OF mild_finishTask])

lemma outline_fields [simp]:
  "outline (h\<lparr>h_factoryExecution := fx\<rparr>) = outline h" "outline (h\<lparr>h_registry := rg\<rparr>) = outline h"
  "outline (h\<lparr>h_now := t\<rparr>) = outline h" "outline (h\<lparr>h_waits := w\<rparr>) = outline h"
  by (simp_all add: outline_def)

lemma map_update_pairs:
  "map_of ps x = Some rt \<Longrightarrow> g rt' = g rt \<Longrightarrow>
     map (\<lambda>(y, r). (y, g r)) (AList.update x rt' ps) = map (\<lambda>(y, r). (y, g r)) ps"
  by (induction ps) (auto split: if_splits)

lemma outline_setExecution [simp]: "outline (setExecution x b h) = outline h"
  by (simp add: setExecution_def outline_def findRuntime_def map_update_pairs split: option.split)

lemma outline_steps [simp]:
  "outline (stepInstance x h) = outline h" "outline (stepFactory h) = outline h"
  "outline (stepAbandoned n h) = outline h"
  by (simp_all add: stepInstance_def stepFactory_def stepAbandoned_def split: option.split)

lemma outline_fold: "outline (snd (fold stepWorker ws bh)) = outline (snd bh)"
proof (induction ws arbitrary: bh)
  case (Cons w ws)
  have "outline (snd (stepWorker w bh)) = outline (snd bh)"
    by (cases bh; cases w) (simp_all split: option.split)
  with Cons show ?case
    by simp
qed simp

lemma outline_hostWait: "outline (snd (hostWait timeout b h)) = outline h"
  by (simp add: hostWait_def outline_fold split: list.split prod.split)

lemma outline_stopBackend: "outline (snd (stopBackend timeout b h)) = outline h"
  by (simp add: stopBackend_def case_prod_beta outline_hostWait split: bool.split)

lemmas abandoned_mild = outline_view(1) [OF outline_mild]

lemma safe_executeOnRuntime:
  assumes "task_object t = None \<or> task_object t = findInstance x h"
  shows "safe h (snd (executeOnRuntime x (Some t) h))"
proof (cases "findRuntime x h")
  case (Some rt)
  let ?b = "snd (backend_execute (Some t) (rt_execution rt))"
  have "core (setExecution x ?b h)" if c: "core h"
    using core_runtime [OF c Some] assms Some ready_execute(2,3) [of "rt_execution rt" t]
    by (intro core_setExecution [OF c Some]) (auto simp: runtime_ok_def findInstance_def)
  then show ?thesis
    using Some by (simp add: executeOnRuntime_def safe_def case_prod_beta)
qed (simp add: executeOnRuntime_def)

lemma safe_reportIf: "safe h (snd r) \<Longrightarrow> safe h (reportIf what r)"
  by (auto simp: reportIf_def split: prod.split option.split
      intro: safe_trans [OF _ safe_mild [OF mild_reportProtocolError]])

end
