(* ===== verification/Host_Safety.thy ===== *)
theory Host_Safety
  imports Host_Invariant
begin

text \<open>
  The operations of the host keep its invariant: creating and tearing down instances, the handlers,
  start, poll and stop, in every interleaving with the workers.
\<close>

section \<open>Creating and tearing down\<close>

lemma core_fields [simp]:
  "core (h\<lparr>h_creations := cs\<rparr>) = core h" "core (h\<lparr>h_threads := ts\<rparr>) = core h"
  "core (h\<lparr>h_startAbandoned := b\<rparr>) = core h" "core (h\<lparr>h_resultQueue := q\<rparr>) = core h"
  "core (h\<lparr>h_factoryActive := b\<rparr>) = core h" "core (h\<lparr>h_factoryBackends := bs\<rparr>) = core h"
  "core (h\<lparr>h_factory := f\<rparr>) = core h"
  by (simp_all add: core_def runtime_ok_def leaked_ok_def findRuntime_def findInstance_def)

lemma view_fields [simp]:
  "findRuntime x (h\<lparr>h_creations := cs\<rparr>) = findRuntime x h" "findRuntime x (h\<lparr>h_threads := ts\<rparr>) = findRuntime x h"
  "held (h\<lparr>h_threads := ts\<rparr>) a = held h a"
  by (simp_all add: held_def findRuntime_def findInstance_def)

lemma safe_rollback:
  assumes "holding {a} (b, h)" and "b_registry b = []" and "\<not> h_startAbandoned h"
  shows "h_startAbandoned (rollbackInstance what a b h) \<or> core (rollbackInstance what a b h)"
proof -
  obtain e h1 where s: "stopBackend kExecutionBackendStopTimeout b h = (e, h1)"
    by fastforce
  show ?thesis
  proof (cases e)
    case None
    then show ?thesis
      using holding_stopBackend [OF assms(1,2) s] s by (simp add: rollbackInstance_def core_destroyInstance)
  next
    case (Some x)
    have "h_startAbandoned (reportProtocolError (what @ x) (h1\<lparr>h_startAbandoned := True\<rparr>))"
      using abandoned_mild [OF mild_reportProtocolError, of "what @ x" "h1\<lparr>h_startAbandoned := True\<rparr>"] by simp
    then show ?thesis
      using s Some by (simp add: rollbackInstance_def destroyInstance_def)
  qed
qed

lemma holding_execute:
  assumes "holding A (b, h)" and "set_option (task_object t) \<subseteq> A" and "ready b"
  shows "holding A (snd (backend_execute (Some t) b), h)"
  using assms ready_execute(3) [OF assms(3), of t] by (auto simp: holding_def)

lemma findRuntime_append:
  "findRuntime x (h\<lparr>h_instances := h_instances h @ [(y, rt)]\<rparr>) =
     (case findRuntime x h of None \<Rightarrow> if x = y then Some rt else None | Some r \<Rightarrow> Some r)"
  by (simp add: findRuntime_def map_add_def split: option.split)

lemma core_insert:
  assumes "core h" and "held h a" and "findRuntime x h = None"
    and "runtime_ok h x \<lparr>rt_externalId = x, rt_instance = a, rt_execution = b\<rparr>"
  shows "core (h\<lparr>h_instances := h_instances h @ [(x, \<lparr>rt_externalId = x, rt_instance = a, rt_execution = b\<rparr>)]\<rparr>)"
proof -
  have "x \<notin> fst ` set (h_instances h)"
    using assms(3) by (simp add: findRuntime_def map_of_eq_None_iff)
  moreover have "\<forall>c \<in> set (h_registry h). \<forall>a' \<in> objects_of c. a' \<noteq> a"
    using assms(2) by (auto simp: held_def)
  ultimately show ?thesis
    using assms(1,3,4)
    by (auto simp: core_def runtime_ok_def leaked_ok_def findInstance_def findRuntime_append split: option.splits if_splits)
qed

lemma safe_startInstanceRuntime:
  assumes h: "holding {a} (b, h)" and r: "ready b" and x: "x \<noteq> []" and na: "\<not> h_startAbandoned h"
    and name: "map_option in_externalId (h_objects h a) = Some x" and new: "findRuntime x h = None"
  shows "h_startAbandoned (snd (startInstanceRuntime x a b h)) \<or> core (snd (startInstanceRuntime x a b h))"
proof -
  obtain b1 where b1: "backend_execute (Some (TaskStart a)) b = (None, b1)" and r1: "ready b1"
    using ready_execute(1,2) [OF r, of "TaskStart a"] by (metis snd_conv)
  have h1: "holding {a} (b1, h)"
    using holding_execute [OF h, of "TaskStart a"] r b1 by simp
  obtain b2 h2 where w: "hostWait kInstanceStartTimeout b1 h = (b2, h2)"
    by fastforce
  have h2: "holding {a} (b2, h2)" "ready b2" "b_registry b2 = []"
    using hostWait_holding [OF h1 w] r1 by (simp_all add: ready_def)
  have "outline h2 = outline h"
    using outline_hostWait [of kInstanceStartTimeout b1 h] w by simp
  then have o: "\<not> h_startAbandoned h2" "map_option in_externalId (h_objects h2 a) = Some x"
    "findInstance x h2 = None"
    using na name new outline_view(1-3) [of h2 h] by (simp_all add: findInstance_def [of x h])
  then have new2: "findRuntime x h2 = None"
    by (simp add: findInstance_def)
  have c2: "core h2" "held h2 a" "objects_of (b_cell b2) \<subseteq> {a}"
    using h2(1) by (simp_all add: holding_def)
  then have "runtime_ok h2 x \<lparr>rt_externalId = x, rt_instance = a, rt_execution = b2\<rparr>"
    using o x h2(2) by (simp add: runtime_ok_def held_def)
  with core_insert [OF c2(1,2) new2] show ?thesis
    using b1 w o(1) new2 safe_rollback [OF h2(1,3) o(1)]
    by (simp add: startInstanceRuntime_def split: option.split bool.split)
qed

lemma core_newObject:
  assumes "core h" and "newObject h = (a, h1)"
  shows "core h1" and "held h1 a" and "findRuntime x h1 = findRuntime x h" and "h_startAbandoned h1 = h_startAbandoned h"
    and "h_objects h1 a = Some newInstance"
proof -
  have v: "findRuntime y h1 = findRuntime y h" "findInstance y h1 = findInstance y h"
    "h_instances h1 = h_instances h" "h_registry h1 = h_registry h" "h_factoryExecution h1 = h_factoryExecution h"
    "h_useAfterFree h1 = h_useAfterFree h" "h_nextObject h1 = Suc a" "h_nextObject h = a"
    "h_objects h1 = (h_objects h)(a \<mapsto> newInstance)" "h_startAbandoned h1 = h_startAbandoned h" for y
    using assms(2) by (auto simp: newObject_def findRuntime_def findInstance_def)
  have lt: "rt_instance rt < a" "rt_instance rt \<noteq> a" if "findRuntime y h = Some rt" for y rt
    using core_runtime [OF assms(1) that] v by (simp_all add: runtime_ok_def)
  then have inst: "findInstance y h \<noteq> Some a" for y
    by (auto simp: findInstance_def)
  have lk: "a' < a" "a' \<noteq> a" if "c \<in> set (h_registry h)" "a' \<in> objects_of c" for c a'
    using assms(1) that v by (auto simp: core_def leaked_ok_def)
  show "core h1"
    using assms(1) by (auto simp: core_def runtime_ok_def leaked_ok_def v less_Suc_eq dest: lt lk)
  show "held h1 a"
    using lk inst by (auto simp: held_def v)
  show "findRuntime x h1 = findRuntime x h" "h_startAbandoned h1 = h_startAbandoned h" "h_objects h1 a = Some newInstance"
    by (simp_all add: v)
qed

lemma abandoned_stop: "h_startAbandoned (snd (stopBackend t b h)) = h_startAbandoned h"
  by (rule outline_view(1) [OF outline_stopBackend])

lemma abandoned_report [simp]: "h_startAbandoned (reportProtocolError m h) = h_startAbandoned h"
  by (rule abandoned_mild [OF mild_reportProtocolError])

lemma abandoned_rollback: "h_startAbandoned h \<Longrightarrow> h_startAbandoned (rollbackInstance what a b h)"
  using abandoned_stop [of kExecutionBackendStopTimeout b h]
  by (cases "stopBackend kExecutionBackendStopTimeout b h")
    (simp add: rollbackInstance_def destroyInstance_def split: option.split)

lemma abandoned_startInstance:
  assumes "h_startAbandoned h"
  shows "h_startAbandoned (snd (startInstanceRuntime x a b h))"
proof -
  obtain e b1 where b1: "backend_execute (Some (TaskStart a)) b = (e, b1)"
    by fastforce
  obtain b2 h2 where w: "hostWait kInstanceStartTimeout b1 h = (b2, h2)"
    by fastforce
  have "h_startAbandoned h2"
    using outline_view(1) [OF outline_hostWait, of kInstanceStartTimeout b1 h] assms w by simp
  then show ?thesis
    using assms b1 w by (simp add: startInstanceRuntime_def abandoned_rollback split: option.split bool.split)
qed

lemma abandoned_update: "h_startAbandoned (updateInstance a f h) = h_startAbandoned h"
  by (simp add: updateInstance_def split: option.split)

lemma abandoned_create:
  assumes "h_startAbandoned h"
  shows "h_startAbandoned (snd (createInstanceRuntime q h))"
  using assms
  by (auto simp: createInstanceRuntime_def Let_def takeCreation_def newObject_def takeThread_def destroyInstance_def
      abandoned_update intro!: abandoned_startInstance split: option.split prod.split list.split)

lemma safe_createInstanceRuntime: "safe h (snd (createInstanceRuntime q h))"
proof -
  let ?x = "ad_externalId (cc_adapter q)"
  have "h_startAbandoned (snd (createInstanceRuntime q h)) \<or> core (snd (createInstanceRuntime q h))"
    if c: "core h" and na: "\<not> h_startAbandoned h"
  proof -
    obtain cn h1 where t: "takeCreation h = (cn, h1)"
      by fastforce
    obtain a h2 where n: "newObject h1 = (a, h2)"
      by fastforce
    obtain thrown h3 where th: "takeThread h2 = (thrown, h3)"
      by fastforce
    have h1: "core h1" "h_startAbandoned h1 = h_startAbandoned h" "findRuntime x h1 = findRuntime x h" for x
      using c t by (auto simp: takeCreation_def split: list.splits)
    have h2: "core h2" "held h2 a" "findRuntime x h2 = findRuntime x h" "\<not> h_startAbandoned h2"
      "h_objects h2 a = Some newInstance" for x
      using core_newObject [OF h1(1) n] h1 na by simp_all
    have h3: "core h3" "held h3 a" "findRuntime x h3 = findRuntime x h" "\<not> h_startAbandoned h3"
      "h_objects h3 a = Some newInstance" for x
      using h2 th by (auto simp: takeThread_def split: list.splits)
    have start: "h_startAbandoned (snd (startInstanceRuntime ?x a b (updateInstance a (bindInstance q) h3)))
        \<or> core (snd (startInstanceRuntime ?x a b (updateInstance a (bindInstance q) h3)))"
      if b: "backend_start thrown newBackend = (None, b)" and x: "?x \<noteq> []" "findRuntime ?x h = None" for b
    proof (rule safe_startInstanceRuntime)
      let ?h4 = "updateInstance a (bindInstance q) h3"
      have e: "?h4 = h3\<lparr>h_objects := (h_objects h3)(a \<mapsto> bindInstance q newInstance)\<rparr>"
        using h3 by (simp add: updateInstance_def)
      have "core ?h4" "held ?h4 a"
        using h3(1,2) by (auto simp: e core_def runtime_ok_def leaked_ok_def held_def findRuntime_def findInstance_def)
      then show "holding {a} (b, ?h4)"
        using ready_started [OF b] by (simp add: holding_def)
      show "map_option in_externalId (h_objects ?h4 a) = Some ?x"
        by (simp add: e bindInstance_def instance_bindContext_def)
      show "findRuntime ?x ?h4 = None" "\<not> h_startAbandoned ?h4"
        using h3(3,4) x by (simp_all add: e findRuntime_def)
    qed (use ready_started [OF b] x in simp_all)
    show ?thesis
      using c t n th start h1 h2 h3
      by (auto simp: createInstanceRuntime_def Let_def core_destroyInstance split: option.split prod.split)
  qed
  then show ?thesis
    using abandoned_create by (auto simp: safe_def)
qed

lemma safe_report [intro]: "safe h (reportProtocolError m h)"
  by (rule safe_mild [OF mild_reportProtocolError])

lemma safe_ensureInstance: "safe h (snd (ensureInstance q h))"
proof -
  obtain e h1 where c: "createInstanceRuntime q h = (e, h1)"
    by fastforce
  then have "safe h h1"
    using safe_createInstanceRuntime [of h q] by simp
  then show ?thesis
    using c safe_trans [OF _ safe_report] by (simp add: ensureInstance_def Let_def split: option.split)
qed

section \<open>Teardown\<close>

lemma core_erase:
  assumes "core h" and "findRuntime x h = Some rt"
  shows "core (h\<lparr>h_instances := AList.delete x (h_instances h)\<rparr>)" (is "core ?h1")
    and "held (h\<lparr>h_instances := AList.delete x (h_instances h)\<rparr>) (rt_instance rt)"
proof -
  have v: "findRuntime y ?h1 = (if y = x then None else findRuntime y h)"
    "findInstance y ?h1 = (if y = x then None else findInstance y h)" for y
    by (simp_all add: findRuntime_def findInstance_def delete_conv')
  show "core ?h1"
    using assms(1) by (auto simp: core_def runtime_ok_def leaked_ok_def v distinct_delete split: if_splits)
  have "runtime_ok h x rt"
    using assms by (simp add: core_def)
  moreover have "findInstance y h \<noteq> Some (rt_instance rt)" if "y \<noteq> x" for y
    using runtime_object_unique [OF assms(1) _ assms(2)] that by (auto simp: findInstance_def)
  moreover have "rt_instance rt \<notin> objects_of c" if "c \<in> set (h_registry h)" for c
  proof -
    have "leaked_ok h c" "findInstance x h = Some (rt_instance rt)"
      using assms that by (simp_all add: core_def findInstance_def)
    then show ?thesis
      by (auto simp: leaked_ok_def)
  qed
  ultimately show "held ?h1 (rt_instance rt)"
    by (auto simp: held_def v runtime_ok_def)
qed

lemma holding_mild: "mild A h h' \<Longrightarrow> A \<subseteq> S \<Longrightarrow> holding S (b, h) \<Longrightarrow> holding S (b, h')"
  using core_mild [of A h h'] held_mild [of A h h'] by (auto simp: holding_def held_def [of h] subset_iff)

lemma holding_askToStop:
  assumes "holding {a} (b, h)" and "ready b" and "askToStop x budget a b h = (b1, h1)"
  shows "holding {a} (b1, h1)" and "b_registry b1 = []" and "outline h1 = outline h"
proof -
  obtain b0 where b0: "backend_execute (Some (TaskStop a)) b = (None, b0)" and r0: "ready b0"
    using ready_execute(1,2) [OF assms(2), of "TaskStop a"] by (metis snd_conv)
  have h0: "holding {a} (b0, h)"
    using holding_execute [OF assms(1), of "TaskStop a"] assms(2) b0 by simp
  obtain b2 h2 where w: "hostWait budget b0 h = (b2, h2)"
    by fastforce
  have h2: "holding {a} (b2, h2)" "b_registry b2 = []"
    using hostWait_holding [OF h0 w] r0 by (simp_all add: ready_def)
  have "b1 = b2" and m: "mild {} h2 h1"
    using assms(3) b0 w by (auto simp: askToStop_def mild_rules)
  then show "holding {a} (b1, h1)" "b_registry b1 = []"
    using h2 holding_mild [OF m, of "{a}" b2] by simp_all
  show "outline h1 = outline h"
    using outline_mild [OF m] outline_hostWait [of budget b0 h] w by simp
qed

lemma safe_joinOrLeak:
  assumes "holding {a} (b, h)" and "b_registry b = []"
  shows "core (joinOrLeak x budget a b h)"
proof -
  obtain e h1 where s: "stopBackend budget b h = (e, h1)"
    by fastforce
  have h1: "core h1" "e = None \<Longrightarrow> held h1 a"
    using holding_stopBackend [OF assms s] by simp_all
  have r: "core (reportProtocolError m k)" if "core k" for m k
    using core_mild [OF mild_reportProtocolError [of "{}"] that] by simp
  then show ?thesis
    using s h1 by (auto simp: joinOrLeak_def core_destroyInstance split: option.split)
qed

lemma abandoned_askToStop: "h_startAbandoned (snd (askToStop x budget a b h)) = h_startAbandoned h"
proof -
  obtain e b1 where b1: "backend_execute (Some (TaskStop a)) b = (e, b1)"
    by fastforce
  obtain b2 h2 where w: "hostWait budget b1 h = (b2, h2)"
    by fastforce
  then have "h_startAbandoned h2 = h_startAbandoned h"
    using outline_view(1) [OF outline_hostWait, of budget b1 h] by simp
  then show ?thesis
    using b1 w by (simp add: askToStop_def split: option.split)
qed

lemma abandoned_joinOrLeak: "h_startAbandoned (joinOrLeak x budget a b h) = h_startAbandoned h"
  using abandoned_stop [of budget b h]
  by (cases "stopBackend budget b h") (simp add: joinOrLeak_def destroyInstance_def split: option.split)

lemma stopAndDestroyInstance_cases:
  obtains (unknown) "findRuntime x h = None" "stopAndDestroyInstance x budget h = h"
  | (known) rt h0 h1 b h2 where "findRuntime x h = Some rt"
      "h0 = h\<lparr>h_instances := AList.delete x (h_instances h)\<rparr>"
      "h1 = instance_hostRequestStop (rt_instance rt) h0" "mild {rt_instance rt} h0 h1"
      "askToStop x (atLeastMinimumSlice (budget * 3 div 5)) (rt_instance rt) (rt_execution rt) h1 = (b, h2)"
      "stopAndDestroyInstance x budget h
        = joinOrLeak x (atLeastMinimumSlice (budget - atLeastMinimumSlice (budget * 3 div 5))) (rt_instance rt) b h2"
proof (cases "findRuntime x h")
  case None
  then show ?thesis
    using unknown by (simp add: stopAndDestroyInstance_def Let_def)
next
  case (Some rt)
  define h0 where "h0 = h\<lparr>h_instances := AList.delete x (h_instances h)\<rparr>"
  define h1 where "h1 = instance_hostRequestStop (rt_instance rt) h0"
  obtain b h2 where "askToStop x (atLeastMinimumSlice (budget * 3 div 5)) (rt_instance rt) (rt_execution rt) h1 = (b, h2)"
    by fastforce
  then show ?thesis
    using known [OF Some h0_def h1_def] mild_hostRequestStop [of "rt_instance rt" h0] Some
    by (simp add: stopAndDestroyInstance_def Let_def h0_def h1_def)
qed

lemma core_stopAndDestroyInstance:
  assumes c: "core h"
  shows "core (stopAndDestroyInstance x budget h)"
proof (cases rule: stopAndDestroyInstance_cases [of x h budget])
  case (known rt h0 h1 b h2)
  have ok: "runtime_ok h x rt"
    by (rule core_runtime [OF c known(1)])
  then have "holding {rt_instance rt} (rt_execution rt, h0)"
    using core_erase [OF c known(1)] known(2) by (simp add: holding_def runtime_ok_def)
  then have "holding {rt_instance rt} (rt_execution rt, h1)"
    by (rule holding_mild [OF known(4) subset_refl])
  then have "holding {rt_instance rt} (b, h2)" "b_registry b = []"
    using holding_askToStop [OF _ _ known(5)] ok by (simp_all add: runtime_ok_def)
  then show ?thesis
    unfolding known(6) by (rule safe_joinOrLeak)
qed (simp add: c)

lemma abandoned_stopAndDestroyInstance: "h_startAbandoned (stopAndDestroyInstance x budget h) = h_startAbandoned h"
proof (cases rule: stopAndDestroyInstance_cases [of x h budget])
  case (known rt h0 h1 b h2)
  have "h_startAbandoned h2 = h_startAbandoned h1"
    using abandoned_askToStop [of x _ "rt_instance rt" "rt_execution rt" h1] known(5) by (metis snd_conv)
  then show ?thesis
    unfolding known(6) using abandoned_joinOrLeak abandoned_mild [OF known(4)] known(2) by simp
qed simp

lemma safe_stopAndDestroyInstance: "safe h (stopAndDestroyInstance x budget h)"
  by (simp add: safe_def core_stopAndDestroyInstance abandoned_stopAndDestroyInstance)

lemma safe_fields [simp]:
  "safe h (h\<lparr>h_resultQueue := q\<rparr>)" "safe h (h\<lparr>h_factoryActive := b\<rparr>)" "safe h (h\<lparr>h_factoryBackends := bs\<rparr>)"
  "safe h (h\<lparr>h_factory := f\<rparr>)" "safe h (h\<lparr>h_threads := ts\<rparr>)" "safe h (h\<lparr>h_now := t\<rparr>)" "safe h (h\<lparr>h_delays := ds\<rparr>)"
  by (simp_all add: safe_def)

lemma safe_remainingUntil: "safe h (snd (remainingUntil deadline h))"
  by (simp add: remainingUntil_def steadyNow_def safe_def split: list.split)

lemma safe_requestStop: "safe h (requestStop x h)"
proof (cases "findRuntime x h")
  case (Some rt)
  let ?a = "rt_instance rt"
  have m: "mild {?a} h (instance_hostRequestStop ?a h)"
    by (rule mild_hostRequestStop)
  have "core (instance_hostRequestStop ?a h)" if "core h"
    using core_mild [OF m that] core_runtime [OF that Some] by (auto simp: runtime_ok_def)
  then show ?thesis
    using Some abandoned_mild [OF m] by (simp add: requestStop_def safe_def)
qed (simp add: requestStop_def)

lemma safe_fold: "(\<And>x h. safe h (f x h)) \<Longrightarrow> safe h (fold f xs h)"
  by (induction xs arbitrary: h) (auto intro: safe_trans)

lemma safe_stopLoop: "safe h (stopLoop deadline xs h)"
proof (induction xs arbitrary: h)
  case (Cons x xs)
  obtain left h1 where r: "remainingUntil deadline h = (left, h1)"
    by fastforce
  then have "safe h h1"
    using safe_remainingUntil [of h deadline] by simp
  then show ?case
    using r safe_trans [OF _ safe_trans [OF safe_stopAndDestroyInstance Cons.IH]] by simp
qed simp

lemma safe_stopAndDestroyInstances: "safe h (stopAndDestroyInstances deadline h)"
  unfolding stopAndDestroyInstances_def Let_def
  by (rule safe_trans [OF safe_fold safe_stopLoop]) (rule safe_requestStop)

section \<open>Handlers\<close>

lemma safe_onFactory: "safe h (snd (onFactory c h))"
  by (rule safe_mild [OF mild_onFactory])

lemma safe_dispatchToFactory: "safe h (dispatchToFactory what c h)"
  by (simp add: dispatchToFactory_def safe_reportIf safe_onFactory split: option.split)

text \<open>
  The fan-out runs over the entries of the map it started with; those entries stay current, because
  nothing on the way adds or removes an instance.
\<close>

lemma outline_executeOnRuntime: "outline (snd (executeOnRuntime x t h)) = outline h"
  by (simp add: executeOnRuntime_def case_prod_beta split: option.split)

lemma outline_reportIf: "outline (snd r) = outline h \<Longrightarrow> outline (reportIf what r) = outline h"
  by (auto simp: reportIf_def outline_mild [OF mild_reportProtocolError] split: prod.split option.split)

lemma safe_executeOnRuntimes:
  "\<forall>(x, rt) \<in> set es. findInstance x h = Some (rt_instance rt) \<Longrightarrow> safe h (executeOnRuntimes c es h)"
proof (induction es arbitrary: h)
  case (Cons e es)
  obtain x rt where e: "e = (x, rt)"
    by (cases e)
  let ?t = "TaskCall (Some (rt_instance rt)) c"
  let ?h1 = "reportIf (''Failed to dispatch runtime callback for externalId='' @ apostrophed (rt_externalId rt) @ '': '')
      (executeOnRuntime x (Some ?t) h)"
  have "safe h ?h1"
    using Cons.prems e by (intro safe_reportIf safe_executeOnRuntime) simp
  moreover have "outline ?h1 = outline h"
    by (rule outline_reportIf) (rule outline_executeOnRuntime)
  then have "safe ?h1 (executeOnRuntimes c es ?h1)"
    using Cons.prems outline_view(2) [of ?h1 h] by (intro Cons.IH) auto
  ultimately show ?case
    unfolding e executeOnRuntimes.simps by (rule safe_trans)
qed simp

lemma safe_executeOnAllRuntimes: "safe h (executeOnAllRuntimes c h)"
proof (cases "core h")
  case True
  then have "\<forall>(x, rt) \<in> set (h_instances h). findInstance x h = Some (rt_instance rt)"
    by (auto simp: core_def findInstance_def findRuntime_def intro: map_of_is_SomeI)
  then show ?thesis
    unfolding executeOnAllRuntimes_def by (rule safe_executeOnRuntimes)
next
  case False
  have "outline (executeOnRuntimes c es h) = outline h" for es
    by (induction es arbitrary: h) (auto simp: outline_executeOnRuntime outline_reportIf)
  then show ?thesis
    using False outline_view(1) unfolding executeOnAllRuntimes_def safe_def by blast
qed

lemma safe_sendCmdResult: "safe h (snd (sendCmdResult r h))" "safe h (snd (sendActionResult ar h))" "safe h (snd (nowMs h))"
  by (rule safe_mild, rule mild_only, simp add: only_rules)+

lemma safe_dispatchCmd: "safe h (dispatchCmd x cmdId missing failed c h)"
proof -
  obtain ts h1 where n: "nowMs h = (ts, h1)"
    by fastforce
  then have h1: "safe h h1"
    using safe_sendCmdResult(3) [of h] by simp
  obtain e h2 where x: "executeOnRuntime x (Some (TaskCall (findInstance x h1) c)) h1 = (e, h2)"
    by fastforce
  then have "safe h1 h2"
    using safe_executeOnRuntime [of "TaskCall (findInstance x h1) c" x h1] by simp
  then show ?thesis
    using n x h1 safe_trans [OF _ safe_sendCmdResult(1)] safe_trans
    by (auto simp: dispatchCmd_def split: option.split)
qed

lemma safe_onAdapterActionInvoke: "safe h (host_onAdapterActionInvoke q h)"
proof -
  let ?x = "ai_externalId q"
  obtain ts h1 where n: "nowMs h = (ts, h1)"
    by fastforce
  then have h1: "safe h h1"
    using safe_sendCmdResult(3) [of h] by simp
  let ?t = "TaskCall (findInstance ?x h1) (InstanceAdapterAction q)"
  obtain e h2 where x: "executeOnRuntime ?x (Some ?t) h1 = (e, h2)"
    by fastforce
  obtain e' h3 where f: "onFactory (FactoryActionInvoke q) h1 = (e', h3)"
    by fastforce
  have "safe h1 h2" "safe h1 h3"
    using x f safe_executeOnRuntime [of ?t ?x h1] safe_onFactory [of h1 "FactoryActionInvoke q"] by simp_all
  then show ?thesis
    using n x f h1 safe_trans [OF h1] safe_trans [OF h1 safe_trans [OF _ safe_sendCmdResult(2)]]
      safe_trans [OF h1 safe_sendCmdResult(2)]
    by (simp add: host_onAdapterActionInvoke_def Let_def split: option.split)
qed

lemma safe_onConfigChanged: "safe h (host_onConfigChanged q h)"
proof (cases "h_factory h")
  case (Some f)
  let ?q = "q\<lparr>cc_adapter := normalizeAdapter f (cc_adapter q)\<rparr>"
  let ?x = "ad_externalId (cc_adapter ?q)"
  obtain r h1 where e: "ensureInstance ?q h = (r, h1)"
    by fastforce
  have h1: "safe h h1"
    using safe_ensureInstance [of h ?q] e by simp
  have "safe h (reportIf what (executeOnRuntime ?x (Some (TaskCall (findInstance ?x h1) (InstanceConfigChanged ?q))) h1))" for what
    by (rule safe_trans [OF h1 safe_reportIf [OF safe_executeOnRuntime]]) simp
  moreover have "safe h (reportIf what (onFactory c (updateFactory (cacheFactoryConfig ?q) h)))" for what c
    by (rule safe_trans [OF safe_mild [OF mild_updateFactory] safe_reportIf [OF safe_onFactory]])
      (simp add: cacheFactoryConfig_def factory_flags_def)
  ultimately show ?thesis
    using Some e h1 by (simp add: host_onConfigChanged_def Let_def split: option.split)
qed (simp add: host_onConfigChanged_def)

lemma safe_onBootstrap: "safe h (host_onBootstrap q h)"
proof (cases "h_factory h")
  case (Some f)
  let ?q = "q\<lparr>bs_adapter := normalizeAdapter f (bs_adapter q)\<rparr>"
  let ?h1 = "updateFactory (cacheBootstrap ?q) h"
  have h1: "safe h ?h1"
    by (rule safe_mild [OF mild_updateFactory]) (simp add: cacheBootstrap_def factory_flags_def)
  obtain e h2 where f: "onFactory (FactoryBootstrap ?q) ?h1 = (e, h2)"
    by fastforce
  then have h2: "safe h h2"
    using safe_trans [OF h1 safe_onFactory, of "FactoryBootstrap ?q"] by simp
  have "safe h (respondToBootstrap ?q (reportProtocolError m h2))" for m
    by (rule safe_trans [OF h2 safe_trans [OF safe_report safe_mild [OF mild_respondToBootstrap]]])
  then show ?thesis
    using Some f h2 safe_report by (simp add: host_onBootstrap_def Let_def split: option.split)
qed (simp add: host_onBootstrap_def)

lemma safe_onUnknownRequest: "safe h (host_onUnknownRequest q h)"
  by (auto simp: host_onUnknownRequest_def Let_def intro!: safe_reportIf safe_executeOnRuntime split: option.split)

lemma safe_onInstanceRemoved: "safe h (host_onInstanceRemoved q h)"
  by (auto simp: host_onInstanceRemoved_def safe_stopAndDestroyInstance split: option.split)

interpretation safety: owner_relation safe
  by unfold_locales (auto intro: safe_more safe_trans)

lemma safe_hostHandlers: "abides safe hostHandlers"
  by (auto simp: abides_def abides_opt_def abides_notify_def hostHandlers_def host_onConnected_def
      host_onDisconnected_def host_onProtocolError_def host_onChannelInvoke_def host_onDeviceNameUpdate_def
      host_onDeviceEffectInvoke_def host_onSceneInvoke_def host_onAdaptersStreamStart_def
      host_onAdaptersStreamStop_def safe_dispatchCmd safe_onAdapterActionInvoke safe_onConfigChanged
      safe_onBootstrap safe_onUnknownRequest safe_onInstanceRemoved
      intro: safe_trans [OF safe_dispatchToFactory safe_executeOnAllRuntimes]
        safe_trans [OF safe_report safe_executeOnAllRuntimes])

section \<open>Start, poll, stop\<close>

lemma safe_drainDeferredResults: "safe h (drainDeferredResults h)"
proof -
  have "safe h (drainResult r h)" for r h
    by (cases r) (simp_all add: drainResult_def safe_report safe_reportIf safe_sendCmdResult)
  then show ?thesis
    unfolding drainDeferredResults_def by (rule safe_trans [OF safe_fields(1) safe_fold])
qed

lemma safe_pollOnce: "safe h (snd (host_pollOnce h))"
proof -
  note flush = safety.R_flushSendQueue [OF safe_hostHandlers]
  let ?h0 = "flushSendQueue hostHandlers (drainDeferredResults h)"
  obtain e h1 where p: "dispatcher_pollOnce hostHandlers ?h0 = (e, h1)"
    by fastforce
  have "safe ?h0 h1"
    using safety.R_dispatcher_pollOnce [OF safe_hostHandlers, of ?h0] p by simp
  moreover have "safe h ?h0"
    by (rule safe_trans [OF safe_drainDeferredResults flush])
  moreover have "safe h1 (flushSendQueue hostHandlers (drainDeferredResults h1))"
    by (rule safe_trans [OF safe_drainDeferredResults flush])
  ultimately show ?thesis
    using p by (auto simp: host_pollOnce_def intro: safe_trans)
qed

lemma core_stopFactory:
  assumes "core h" and "h_factoryExecution h = Some b"
  shows "core (snd (stopBackend budget b (h\<lparr>h_factoryExecution := None\<rparr>)))"
proof -
  have "ready b" "objects_of (b_cell b) = {}"
    using assms by (simp_all add: core_def factory_ok_def)
  moreover have "core (h\<lparr>h_factoryExecution := None\<rparr>)"
    by (rule core_setFactory(1) [OF assms(1)]) (simp add: factory_ok_def)
  ultimately have "holding {} (b, h\<lparr>h_factoryExecution := None\<rparr>)" "b_registry b = []"
    by (simp_all add: holding_def ready_def)
  then show ?thesis
    using holding_stopBackend(1) [of "{}" b "h\<lparr>h_factoryExecution := None\<rparr>" budget] by (metis prod.collapse)
qed

lemma safe_announceStop: "safe h (announceStop h)"
proof -
  let ?set = "updateFactory (\<lambda>f. f\<lparr>af_stopRequested := True\<rparr>)"
  obtain e h1 where f: "onFactory FactoryStopping (?set h) = (e, h1)"
    by fastforce
  have "safe h (?set h)"
    by (simp add: updateFactory_def)
  then have "safe h h1"
    using safe_trans [OF _ safe_onFactory, of h "?set h" FactoryStopping] f by simp
  then show ?thesis
    using f safe_trans [OF _ safe_mild [OF mild_factory_onProtocolError]]
    by (simp add: announceStop_def split: option.split)
qed

lemma safe_shutdownFactoryExecution: "safe h (shutdownFactoryExecution budget h)"
proof -
  let ?h1 = "announceStop (h\<lparr>h_factoryActive := False\<rparr>)"
  have h1: "safe h ?h1"
    by (rule safe_trans [OF safe_fields(2) safe_announceStop])
  show ?thesis
  proof (cases "h_factoryExecution ?h1")
    case (Some b)
    obtain e h2 where st: "stopBackend budget b (?h1\<lparr>h_factoryExecution := None\<rparr>) = (e, h2)"
      by fastforce
    have "safe ?h1 h2"
      using core_stopFactory [OF _ Some, of budget] abandoned_stop [of budget b "?h1\<lparr>h_factoryExecution := None\<rparr>"] st
      by (simp add: safe_def)
    then have "safe h h2"
      by (rule safe_trans [OF h1])
    then show ?thesis
      using Some st safe_trans [OF _ safe_mild [OF mild_factory_onProtocolError]]
      by (simp add: shutdownFactoryExecution_def Let_def split: option.split)
  qed (use h1 in \<open>simp add: shutdownFactoryExecution_def Let_def\<close>)
qed

lemma safe_activateFactory: "safe h (snd (activateFactory h))"
proof (cases "h_factoryActive h")
  case False
  obtain wants h1 where f: "takeFactoryBackend h = (wants, h1)"
    by fastforce
  then have h1: "safe h h1"
    by (auto simp: takeFactoryBackend_def split: list.splits)
  obtain thrown h2 where t: "takeThread h1 = (thrown, h2)"
    by fastforce
  then have h2: "safe h h2"
    using h1 by (auto simp: takeThread_def intro: safe_trans split: list.splits)
  have "safe h (h2\<lparr>h_factoryExecution := Some b, h_factoryActive := True\<rparr>)"
    if "backend_start thrown newBackend = (None, b)" for b
    using h2 ready_started [OF that] core_setFactory(1) [of h2 "Some b"]
    by (auto simp: safe_def factory_ok_def)
  moreover have "safe h (h1\<lparr>h_factoryActive := True\<rparr>)"
    by (rule safe_trans [OF h1 safe_fields(2)])
  ultimately show ?thesis
    using False f t h2 by (auto simp: activateFactory_def split: bool.split prod.split option.split)
qed (simp add: activateFactory_def)

lemma safe_host_start: "safe h (snd (host_start h))"
proof -
  obtain e h1 where a: "activateFactory h = (e, h1)"
    by fastforce
  obtain e' h2 where d: "dispatcher_start h1 = (e', h2)"
    by fastforce
  have h1: "safe h h1"
    using safe_activateFactory [of h] a by simp
  have "safe h1 h2"
    using safety.same_owner [OF more_dispatcher_start, of h1] d by simp
  then have "safe h h2"
    by (rule safe_trans [OF h1])
  moreover from this have "safe h (shutdownFactoryExecution kShutdownBudget h2)"
    by (rule safe_trans [OF _ safe_shutdownFactoryExecution])
  ultimately show ?thesis
    using a d h1 by (simp add: host_start_def split: option.split)
qed

lemma safe_host_stop: "safe h (host_stop budget h)"
proof -
  obtain t h1 where n: "steadyNow h = (t, h1)"
    by fastforce
  then have h1: "safe h h1"
    by (auto simp: steadyNow_def split: list.splits intro: safe_trans [OF safe_fields(6) safe_fields(7)])
  let ?h2 = "stopAndDestroyInstances (t + max 0 budget - min (max 0 budget div 4) kFactoryStopReserveMax) h1"
  obtain left h3 where r: "remainingUntil (t + max 0 budget) ?h2 = (left, h3)"
    by fastforce
  have "safe h1 (snd (remainingUntil (t + max 0 budget) ?h2))"
    by (rule safe_trans [OF safe_stopAndDestroyInstances safe_remainingUntil])
  then have "safe h1 h3"
    using r by simp
  then have h3: "safe h h3"
    by (rule safe_trans [OF h1])
  let ?h4 = "(shutdownFactoryExecution (atLeastMinimumSlice left) h3)\<lparr>h_resultQueue := []\<rparr>"
  have "safe h ?h4"
    by (rule safe_trans [OF h3 safe_trans [OF safe_shutdownFactoryExecution safe_fields(1)]])
  moreover have "safe ?h4 (updateFactory u ?h4)" for u
    by (simp add: updateFactory_def)
  moreover have "safe k (dispatcher_stop k)" for k
    by (rule safety.same_owner) simp
  ultimately have "safe h (dispatcher_stop (updateFactory u ?h4))" for u
    by (blast intro: safe_trans)
  then show ?thesis
    using n r by (simp add: host_stop_def Let_def)
qed

section \<open>The running host\<close>

text \<open>
  One step: an operation of the host thread, or one step of a worker. Scripts and system calls are part
  of the state, so a host can be started with any behaviour of its environment.
\<close>

inductive host_step :: "host \<Rightarrow> host \<Rightarrow> bool" where
  start: "host_step h (snd (host_start h))"
| poll: "host_step h (snd (host_pollOnce h))"
| stop: "host_step h (host_stop budget h)"
| instance_worker: "host_step h (stepInstance x h)"
| factory_worker: "host_step h (stepFactory h)"
| abandoned_worker: "host_step h (stepAbandoned n h)"
| reap: "host_step h (h\<lparr>h_registry := reapFinished (h_registry h)\<rparr>)"

inductive_cases host_stepE: "host_step h h'"

lemma safe_workers: "safe h (stepInstance x h)" "safe h (stepFactory h)" "safe h (stepAbandoned n h)"
  by (simp_all add: safe_def stepInstance_safe stepFactory_safe stepAbandoned_safe
      outline_view(1) [OF outline_steps(1)] outline_view(1) [OF outline_steps(2)] outline_view(1) [OF outline_steps(3)])

lemma safe_step: "host_step h h' \<Longrightarrow> safe h h'"
proof (erule host_stepE)
  assume "h' = h\<lparr>h_registry := reapFinished (h_registry h)\<rparr>"
  moreover have "core (h\<lparr>h_registry := reapFinished (h_registry h)\<rparr>)" if "core h"
    using that by (intro core_setRegistry) (simp_all add: reapFinished_def core_def)
  ultimately show "safe h h'"
    by (simp add: safe_def)
qed (auto simp: safe_host_start safe_pollOnce safe_host_stop safe_workers)

lemma core_newHost: "core (newHost f h)"
  by (simp add: newHost_def core_def factory_ok_def findRuntime_def)

lemma safe_reachable: "host_step\<^sup>*\<^sup>* h0 h \<Longrightarrow> safe h0 h"
  by (induction rule: rtranclp_induct) (auto intro: safe_trans safe_step)

text \<open>A host without peer and without scripts, and the request that creates an instance of it.\<close>

definition rawHost :: host where
  "rawHost = \<lparr>m_socketPath = ''/run/a.sock'', m_serverFd = - 1, m_epollFd = - 1, m_clientFd = - 1, m_wakeFd = - 1,
      m_notifyDisconnect = False, m_rxBuffer = [], m_rxOffset = 0,
      m_os = \<lparr>os_fds = [], os_accepts = [], os_status = [], os_reads = [], os_sends = [], os_waits = [],
        os_wake = 0, os_trace = []\<rparr>,
      d_started = True, d_polling = False, d_sendQueue = [], d_lastQueueWarningTsMs = 0, d_maxObservedQueueDepth = 0,
      d_lastLogSendFailureTsMs = 0, d_suppressedLogSendFailures = 0, d_droppedOutboundFrames = 0,
      d_lastQueueOverflowTsMs = 0, d_clock = [], d_stderr = [],
      h_factory = None, h_factoryExecution = None, h_factoryActive = False, h_instances = [], h_resultQueue = [],
      h_objects = (\<lambda>a. None), h_nextObject = 0, h_started = (\<lambda>a. None), h_stopDone = (\<lambda>a. False), h_registry = [],
      h_useAfterFree = False, h_startAbandoned = False, h_instanceHooks = [], h_factoryHooks = [], h_creations = [],
      h_factoryBackends = [True], h_threads = [], h_now = 0, h_delays = [], h_waits = []\<rparr>"

definition sampleHost :: host where
  "sampleHost = newHost (Some (newFactory (defaultGetters ''demo''))) rawHost"

definition sampleConfig :: config_changed_request where
  "sampleConfig = emptyConfigChanged\<lparr>cc_adapter := emptyAdapter\<lparr>ad_externalId := ''a''\<rparr>\<rparr>"

text \<open>The same host with one instance that waits for work.\<close>

definition sampleRunning :: host where
  "sampleRunning = sampleHost\<lparr>
     h_instances := [(''a'', \<lparr>rt_externalId = ''a'', rt_instance = 0,
       rt_execution = snd (backend_start None newBackend)\<rparr>)],
     h_objects := (\<lambda>a. None)(0 \<mapsto> bindInstance sampleConfig newInstance), h_nextObject := 1\<rparr>"

lemma core_sampleRunning: "core sampleRunning"
  by (simp add: core_def sampleRunning_def sampleHost_def newHost_def rawHost_def findRuntime_def runtime_ok_def
      factory_ok_def ready_def cell_inv_def objects_of_def tasks_of_def backend_start_def newBackend_def freshCell_def
      bindInstance_def instance_bindContext_def sampleConfig_def emptyConfigChanged_def Let_def)

lemma sampleHost_started:
  "\<not> h_startAbandoned (stepFactory (snd (host_start sampleHost)))"
  by (simp add: sampleHost_def rawHost_def newHost_def host_start_def activateFactory_def takeFactoryBackend_def takeThread_def
      backend_start_def newBackend_def freshCell_def dispatcher_start_def server_start_def takeFd_def stop_def
      closeFd_def trace_def stepFactory_def Let_def shutdownFactoryExecution_def announceStop_def onFactory_def
      executeOnFactory_def updateFactory_def stopBackend_def hostWait_def backend_stopBegin_def backend_execute_def
      backend_stopEnd_def adopt_def callFactory_def factory_onProtocolError_def takeFactoryHook_def hostStderrLine_def)

section \<open>Properties\<close>

text \<open>
  C1: no worker touches an object that is gone. Whatever the peer sends, whatever adapter code does
  and however workers and host interleave, as long as no start was rolled back while its worker was
  still running: no task runs on a destroyed instance; every instance of the map is alive, carries
  its own external id and has a backend that accepts tasks; and the objects that workers given up at
  a stop may still use are alive and out of the map.
\<close>

theorem no_use_after_free:
  assumes "host_step\<^sup>*\<^sup>* (newHost f h0) h" and "\<not> h_startAbandoned h"
  shows "\<not> h_useAfterFree h
    \<and> (\<forall>x rt. findRuntime x h = Some rt \<longrightarrow> map_option in_externalId (h_objects h (rt_instance rt)) = Some x
         \<and> backend_accepting (rt_execution rt))
    \<and> (\<forall>c \<in> set (h_registry h). \<forall>a \<in> objects_of c. h_objects h a \<noteq> None \<and> (\<forall>x. findInstance x h \<noteq> Some a))"
proof -
  have c: "core h"
    using safe_reachable [OF assms(1)] core_newHost [of f h0] assms(2) by (simp add: safe_def)
  then show ?thesis
    using core_runtime [OF c]
    by (auto simp: core_def leaked_ok_def runtime_ok_def ready_def backend_accepting_def)
qed

theorem no_use_after_free_witness:
  "\<not> h_useAfterFree (stepFactory (snd (host_start sampleHost)))"
proof -
  have "host_step\<^sup>*\<^sup>* (newHost (Some (newFactory (defaultGetters ''demo''))) rawHost)
      (stepFactory (snd (host_start sampleHost)))"
    unfolding sampleHost_def
    by (rule rtranclp.rtrancl_into_rtrancl, rule r_into_rtranclp, rule host_step.start, rule host_step.factory_worker)
  then show ?thesis
    using no_use_after_free sampleHost_started by blast
qed

text \<open>
  C38: what a rolled-back start leaves behind. If the start hook of a new instance neither returns
  within the two seconds the host waits for it nor within the three seconds the rollback waits for
  its worker, the request fails with a time-out, and the instance is destroyed while the worker is
  still inside its hook: when that hook goes on, it uses a destroyed object.
\<close>

theorem start_timeout_destroys_running_instance:
  assumes "h_factory h = Some f" and "h_factoryExecution h = None" and "h_factoryHooks h = []"
    and "ad_externalId (cc_adapter q) = x" and "x \<noteq> []" and "findRuntime x h = None"
    and "sint (ds_maxInstances (factory_descriptor (af_getters f))) = 0"
    and "h_creations h = []" and "h_threads h = []" and "h_waits h = [(2000, [Own]), (3000, [])]"
    and "\<not> h_useAfterFree h"
  shows "fst (createInstanceRuntime q h)
        = Some (''Timed out waiting for instance start completion for externalId='' @ apostrophed x)
    \<and> h_objects (snd (createInstanceRuntime q h)) (h_nextObject h) = None
    \<and> findRuntime x (snd (createInstanceRuntime q h)) = None
    \<and> \<not> h_useAfterFree (snd (createInstanceRuntime q h))
    \<and> h_useAfterFree (stepAbandoned (length (h_registry h)) (snd (createInstanceRuntime q h)))"
  using assms
  by (simp add: createInstanceRuntime_def takeCreation_def newObject_def takeThread_def backend_start_def
      newBackend_def freshCell_def updateInstance_def startInstanceRuntime_def backend_execute_def hostWait_def
      worker_step_def finishTask_def rollbackInstance_def stopBackend_def backend_stopBegin_def backend_stopEnd_def
      adopt_def destroyInstance_def reportProtocolError_def executeOnFactory_def factory_onProtocolError_def
      callFactory_def takeFactoryHook_def hostStderrLine_def stepAbandoned_def nth_append instance_hostStart_def
      callInstance_def instance_onProtocolError_def findRuntime_def Let_def kInstanceStartTimeout_def
      kExecutionBackendStopTimeout_def)

theorem start_timeout_destroys_running_instance_witness:
  "h_useAfterFree (stepAbandoned 0
     (snd (createInstanceRuntime sampleConfig (sampleHost\<lparr>h_waits := [(2000, [Own]), (3000, [])]\<rparr>))))"
  using start_timeout_destroys_running_instance [of "sampleHost\<lparr>h_waits := [(2000, [Own]), (3000, [])]\<rparr>"
      "bindFactory (newFactory (defaultGetters ''demo''))" sampleConfig "''a''"]
  by (simp add: sampleHost_def rawHost_def newHost_def sampleConfig_def findRuntime_def bindFactory_def newFactory_def
      defaultGetters_def factory_descriptor_def)

end
