(* ===== verification/Host_Frame.thy ===== *)
theory Host_Frame
  imports Host_Safety
begin

text \<open>
  What the handlers of the host leave alone, as an interface: a relation that does not look at the
  instance plane (instances, backends, objects, registry, clock and scripts) and that reports and
  adapter code respect is respected by every handler. Two relations are of this kind: the receive
  side and the queue bounds of the dispatcher, and the results that wait to be sent.
\<close>

locale plane_relation =
  fixes le :: "host \<Rightarrow> host \<Rightarrow> bool"
  assumes le_trans: "le h h1 \<Longrightarrow> le h1 h2 \<Longrightarrow> le h h2"
    and le_mild: "mild A h h' \<Longrightarrow> le h h'"
    and le_instances: "le h (h\<lparr>h_instances := is\<rparr>)"
    and le_factoryExecution: "le h (h\<lparr>h_factoryExecution := fx\<rparr>)"
    and le_registry: "le h (h\<lparr>h_registry := rg\<rparr>)"
    and le_objects: "le h (h\<lparr>h_objects := os\<rparr>)"
    and le_newObject: "le h (snd (newObject h))"
    and le_wait: "le h (h\<lparr>h_waits := w, h_now := t\<rparr>)"
    and le_elapsed: "le h (h\<lparr>h_now := t\<rparr>)"
    and le_abandoned: "le h (h\<lparr>h_startAbandoned := b\<rparr>)"
    and le_scripts: "le h (h\<lparr>h_creations := cs\<rparr>)" "le h (h\<lparr>h_threads := ts\<rparr>)"
begin

lemma le_refl: "le h h"
  by (rule le_mild [OF mild_refl])

lemma le_report: "le h (reportProtocolError m h)"
  by (rule le_mild [OF mild_reportProtocolError])

lemma le_reportIf: "le h (snd r) \<Longrightarrow> le h (reportIf what r)"
  by (auto simp: reportIf_def split: prod.split option.split intro: le_trans [OF _ le_report])

lemma le_finishTask: "le h (finishTask c h)"
  by (rule le_mild [OF mild_finishTask])

lemma le_setExecution: "le h (setExecution x b h)"
  by (simp add: setExecution_def le_refl le_instances split: option.split)

lemma le_workers: "le h (stepInstance x h)" "le h (stepFactory h)" "le h (stepAbandoned n h)"
  by (simp_all add: stepInstance_def stepFactory_def stepAbandoned_def le_refl
      le_trans [OF le_setExecution le_finishTask] le_trans [OF le_factoryExecution le_finishTask]
      le_trans [OF le_registry le_finishTask] split: option.split)

lemma le_steps: "le h (snd (fold stepWorker ws (b, h)))"
proof (induction ws arbitrary: b h)
  case (Cons w ws)
  have "le h (snd (stepWorker w (b, h)))"
    by (cases w) (simp_all add: le_refl le_workers le_finishTask split: option.split)
  then show ?case
    using Cons.IH [where b = "fst (stepWorker w (b, h))" and h = "snd (stepWorker w (b, h))"]
    by (auto intro: le_trans)
qed (simp add: le_refl)

lemma le_hostWait: "le h (snd (hostWait timeout b h))"
  by (auto simp: hostWait_def le_elapsed split: list.split intro: le_trans [OF le_wait le_steps])

lemma le_stopBackend: "le h (snd (stopBackend timeout b h))"
  by (auto simp: stopBackend_def case_prod_beta le_refl split: bool.split intro: le_trans [OF le_hostWait le_registry])

lemma le_askToStop: "le h (snd (askToStop x budget a b h))"
  by (auto simp: askToStop_def case_prod_beta le_report le_hostWait split: option.split
      intro: le_trans [OF le_hostWait le_report])

lemma le_joinOrLeak: "le h (joinOrLeak x budget a b h)"
proof -
  obtain e h1 where s: "stopBackend budget b h = (e, h1)"
    by fastforce
  have h1: "le h h1"
    using le_stopBackend [of h budget b] s by simp
  have "le h (destroyInstance a h1)"
    unfolding destroyInstance_def by (rule le_trans [OF h1 le_objects])
  moreover have "le h (reportProtocolError m (reportProtocolError m' h1))" for m m'
    by (rule le_trans [OF h1 le_trans [OF le_report le_report]])
  ultimately show ?thesis
    using s by (simp add: joinOrLeak_def split: option.split)
qed

lemma le_stopAndDestroyInstance: "le h (stopAndDestroyInstance x budget h)"
proof (cases rule: stopAndDestroyInstance_cases [of x h budget])
  case (known rt h0 h1 b h2)
  have "le h h1"
    using le_trans [OF le_instances le_mild [OF known(4) [unfolded known(2)]]] .
  moreover have "le h1 h2"
    using le_askToStop [of h1] known(5) by (metis snd_conv)
  ultimately show ?thesis
    unfolding known(6) by (blast intro: le_trans le_joinOrLeak)
qed (simp add: le_refl)

lemma le_rollback: "le h (rollbackInstance what a b h)"
proof -
  obtain e h1 where s: "stopBackend kExecutionBackendStopTimeout b h = (e, h1)"
    by fastforce
  have h1: "le h h1"
    using le_stopBackend [of h kExecutionBackendStopTimeout b] s by simp
  have "le h (destroyInstance a h1)" "le h (destroyInstance a (reportProtocolError m (h1\<lparr>h_startAbandoned := True\<rparr>)))" for m
    unfolding destroyInstance_def
    by (rule le_trans [OF h1 le_objects], rule le_trans [OF h1 le_trans [OF le_abandoned le_trans [OF le_report le_objects]]])
  then show ?thesis
    using s by (simp add: rollbackInstance_def split: option.split)
qed

lemma le_startInstanceRuntime: "le h (snd (startInstanceRuntime x a b h))"
proof -
  obtain e b1 where e: "backend_execute (Some (TaskStart a)) b = (e, b1)"
    by fastforce
  obtain b2 h2 where w: "hostWait kInstanceStartTimeout b1 h = (b2, h2)"
    by fastforce
  then have h2: "le h h2"
    using le_hostWait [of h kInstanceStartTimeout b1] by simp
  have "le h (rollbackInstance what a b' h2)" "le h (h2\<lparr>h_instances := is\<rparr>)" for what b' "is"
    by (rule le_trans [OF h2 le_rollback], rule le_trans [OF h2 le_instances])
  then show ?thesis
    using e w by (simp add: startInstanceRuntime_def le_rollback split: option.split bool.split)
qed

lemma le_createInstanceRuntime: "le h (snd (createInstanceRuntime q h))"
proof -
  obtain cn h1 where t: "takeCreation h = (cn, h1)"
    by fastforce
  obtain a h2 where n: "newObject h1 = (a, h2)"
    by fastforce
  obtain thrown h3 where th: "takeThread h2 = (thrown, h3)"
    by fastforce
  have h1: "le h h1"
    using t by (auto simp: takeCreation_def le_refl le_scripts split: list.splits)
  then have h2: "le h h2"
    using le_trans [OF _ le_newObject, of h h1] n by simp
  then have h3: "le h h3"
    using th by (auto simp: takeThread_def le_trans [OF h2 le_scripts(2)] split: list.splits)
  have "le h3 (updateInstance a f h3)" for f
    by (cases "h_objects h3 a") (simp_all add: updateInstance_def le_objects le_mild [OF mild_useAfterFree [of a "{a}"]])
  then have "le h (snd (startInstanceRuntime x a b (updateInstance a f h3)))" for x b f
    by (blast intro: le_trans h3 le_startInstanceRuntime)
  moreover have "le h (destroyInstance a h2)" "le h (destroyInstance a h3)"
    unfolding destroyInstance_def by (rule le_trans [OF h2 le_objects], rule le_trans [OF h3 le_objects])
  ultimately show ?thesis
    using t n th h1 le_refl by (simp add: createInstanceRuntime_def Let_def split: option.split prod.split)
qed

lemma le_ensureInstance: "le h (snd (ensureInstance q h))"
proof -
  obtain e h1 where c: "createInstanceRuntime q h = (e, h1)"
    by fastforce
  then have "le h h1"
    using le_createInstanceRuntime [of h q] by simp
  then show ?thesis
    using c le_refl le_trans [OF _ le_report] by (simp add: ensureInstance_def Let_def split: option.split)
qed

lemma le_executeOnRuntime: "le h (snd (executeOnRuntime x t h))"
  by (simp add: executeOnRuntime_def case_prod_beta le_refl le_setExecution split: option.split)

lemma le_executeOnRuntimes: "le h (executeOnRuntimes c es h)"
proof (induction es arbitrary: h)
  case (Cons e es)
  obtain x rt where "e = (x, rt)"
    by (cases e)
  then show ?case
    unfolding executeOnRuntimes.simps using le_trans [OF le_reportIf [OF le_executeOnRuntime] Cons.IH] by simp
qed (simp add: le_refl)

lemma le_onFactory: "le h (snd (onFactory c h))"
  by (rule le_mild [OF mild_onFactory])

lemma le_dispatchToFactory: "le h (dispatchToFactory what c h)"
  by (simp add: dispatchToFactory_def le_refl le_reportIf le_onFactory split: option.split)

lemma le_only: "only_dispatcher h h' \<Longrightarrow> le h h'"
  by (rule le_mild [OF mild_only])

lemma le_dispatchCmd: "le h (dispatchCmd x cmdId missing failed c h)"
proof -
  obtain ts h1 where n: "nowMs h = (ts, h1)"
    by fastforce
  then have h1: "le h h1"
    using le_only [OF only_nowMs, of h] by simp
  obtain e h2 where x: "executeOnRuntime x (Some (TaskCall (findInstance x h1) c)) h1 = (e, h2)"
    by fastforce
  then have h2: "le h h2"
    using le_trans [OF h1 le_executeOnRuntime, of x "Some (TaskCall (findInstance x h1) c)"] by simp
  show ?thesis
    using n x h2 le_trans [OF h1 le_only [OF only_senders(1)]] le_trans [OF h2 le_only [OF only_senders(1)]]
    by (simp add: dispatchCmd_def split: option.split)
qed

lemma le_onAdapterActionInvoke: "le h (host_onAdapterActionInvoke q h)"
proof -
  let ?x = "ai_externalId q"
  obtain ts h1 where n: "nowMs h = (ts, h1)"
    by fastforce
  then have h1: "le h h1"
    using le_only [OF only_nowMs, of h] by simp
  obtain e h2 where x: "executeOnRuntime ?x (Some (TaskCall (findInstance ?x h1) (InstanceAdapterAction q))) h1 = (e, h2)"
    by fastforce
  then have h2: "le h h2"
    using le_trans [OF h1 le_executeOnRuntime, of ?x "Some (TaskCall (findInstance ?x h1) (InstanceAdapterAction q))"]
    by simp
  obtain e' h3 where f: "onFactory (FactoryActionInvoke q) h1 = (e', h3)"
    by fastforce
  then have h3: "le h h3"
    using le_trans [OF h1 le_onFactory, of "FactoryActionInvoke q"] by simp
  note answers = le_trans [OF _ le_only [OF only_senders(2)], of h]
  show ?thesis
    using n x f h2 h3 answers [OF h1] answers [OF h2] answers [OF h3]
    by (simp add: host_onAdapterActionInvoke_def Let_def split: option.split)
qed

lemma le_onConfigChanged: "le h (host_onConfigChanged q h)"
proof (cases "h_factory h")
  case (Some f)
  let ?q = "q\<lparr>cc_adapter := normalizeAdapter f (cc_adapter q)\<rparr>"
  obtain r h1 where e: "ensureInstance ?q h = (r, h1)"
    by fastforce
  then have h1: "le h h1"
    using le_ensureInstance [of h ?q] by simp
  have "le h (reportIf what (executeOnRuntime x t h1))" for what x t
    by (rule le_trans [OF h1 le_reportIf [OF le_executeOnRuntime]])
  moreover have "le h (reportIf what (onFactory c (updateFactory (cacheFactoryConfig ?q) h)))" for what c
    by (rule le_trans [OF le_mild [OF mild_updateFactory] le_reportIf [OF le_onFactory]])
      (simp add: cacheFactoryConfig_def factory_flags_def)
  ultimately show ?thesis
    using Some e h1 by (simp add: host_onConfigChanged_def Let_def split: option.split)
qed (simp add: host_onConfigChanged_def le_refl)

lemma le_onBootstrap: "le h (host_onBootstrap q h)"
proof (cases "h_factory h")
  case (Some f)
  let ?q = "q\<lparr>bs_adapter := normalizeAdapter f (bs_adapter q)\<rparr>"
  let ?h1 = "updateFactory (cacheBootstrap ?q) h"
  have h1: "le h ?h1"
    by (rule le_mild [OF mild_updateFactory]) (simp add: cacheBootstrap_def factory_flags_def)
  obtain e h2 where f: "onFactory (FactoryBootstrap ?q) ?h1 = (e, h2)"
    by fastforce
  then have h2: "le h h2"
    using le_trans [OF h1 le_onFactory, of "FactoryBootstrap ?q"] by simp
  have "le h (respondToBootstrap ?q (reportProtocolError m h2))" for m
    by (rule le_trans [OF h2 le_trans [OF le_report le_mild [OF mild_respondToBootstrap]]])
  then show ?thesis
    using Some f h2 le_report by (simp add: host_onBootstrap_def Let_def split: option.split)
qed (simp add: host_onBootstrap_def le_refl)

lemma le_hostHandlers: "abides le hostHandlers"
  by (auto simp: abides_def abides_opt_def abides_notify_def hostHandlers_def host_onConnected_def
      host_onDisconnected_def host_onProtocolError_def host_onChannelInvoke_def host_onDeviceNameUpdate_def
      host_onDeviceEffectInvoke_def host_onSceneInvoke_def host_onAdaptersStreamStart_def
      host_onAdaptersStreamStop_def host_onUnknownRequest_def host_onInstanceRemoved_def executeOnAllRuntimes_def
      Let_def le_refl le_report le_dispatchCmd le_onAdapterActionInvoke le_onConfigChanged
      le_onBootstrap le_stopAndDestroyInstance le_reportIf le_executeOnRuntime split: option.split
      intro: le_trans [OF le_dispatchToFactory le_executeOnRuntimes] le_trans [OF le_report le_executeOnRuntimes])

end

interpretation receive_side: plane_relation keeps
proof
  show "mild A h h' \<Longrightarrow> keeps h h'" for A h h'
    by (simp add: mild_def)
  show "keeps h h1 \<Longrightarrow> keeps h1 h2 \<Longrightarrow> keeps h h2" for h h1 h2 :: host
    by (rule keeps_trans)
qed (simp_all add: newObject_def keeps_def rx_view_def queue_inv_def)

definition results_kept :: "host \<Rightarrow> host \<Rightarrow> bool" where
  "results_kept h h' = prefix (h_resultQueue h) (h_resultQueue h')"

interpretation results: plane_relation results_kept
proof
  show "mild A h h' \<Longrightarrow> results_kept h h'" for A h h'
    by (simp add: mild_def results_kept_def)
  show "results_kept h h1 \<Longrightarrow> results_kept h1 h2 \<Longrightarrow> results_kept h h2" for h h1 h2
    by (simp add: results_kept_def)
qed (simp_all add: newObject_def results_kept_def)

section \<open>The dispatcher under a running host\<close>

lemma good_hostHandlers: "good_handlers hostHandlers"
  using receive_side.le_hostHandlers
  by (simp add: abides_def good_handlers_def abides_opt_def good_opt_def abides_notify_def good_notify_def)

definition bounded :: "host \<Rightarrow> bool" where
  "bounded h = (server_inv h \<and> queue_inv h)"

lemma bounded_keeps: "keeps h h' \<Longrightarrow> bounded h \<Longrightarrow> bounded h'"
  unfolding bounded_def by (rule keeps_inv)

lemma bounded_drain: "bounded h \<Longrightarrow> bounded (drainDeferredResults h)"
proof -
  have d: "keeps h (drainResult r h)" for r h
    by (cases r) (simp_all add: drainResult_def receive_side.le_report receive_side.le_reportIf keeps_sendCmdResult
        keeps_sendActionResult)
  have "keeps h (fold drainResult rs h)" for rs h
    by (induction rs arbitrary: h) (auto intro: keeps_trans d)
  then show "bounded h \<Longrightarrow> bounded (drainDeferredResults h)"
    unfolding drainDeferredResults_def by (blast intro: bounded_keeps keeps_trans [OF keeps_host(5) [THEN iffD2]])
qed

lemma bounded_pollOnce: "bounded h \<Longrightarrow> bounded (snd (host_pollOnce h))"
proof -
  assume "bounded h"
  have flush: "bounded (flushSendQueue hostHandlers k)" if "bounded k" for k
    using flushSendQueue_inv [OF good_hostHandlers] that by (simp add: bounded_def)
  have poll: "bounded (snd (dispatcher_pollOnce hostHandlers k))" if "bounded k" for k
    using dispatcher_pollOnce_inv [OF good_hostHandlers] that by (simp add: bounded_def)
  show ?thesis
    using flush [OF bounded_drain [OF poll [OF flush [OF bounded_drain [OF \<open>bounded h\<close>]]]]]
    by (simp add: host_pollOnce_def case_prod_beta)
qed

text \<open>A start of the transport does not touch the queue.\<close>

lemma base_stop [simp]: "server.more (stop s) = server.more s"
  by (simp add: stop_def closeFd_def trace_def Let_def)

lemma base_take:
  "takeStatus s = (a, s') \<Longrightarrow> server.more s' = server.more s" "takeFd s = (e, s') \<Longrightarrow> server.more s' = server.more s"
  by (auto simp: takeStatus_def takeFd_def split: list.splits)

lemma base_orStop:
  "(\<And>s. server.more (snd (k s)) = server.more s) \<Longrightarrow> server.more (snd (orStop what k s)) = server.more s"
  by (auto simp: orStop_def split: prod.split option.split dest: base_take(1))

lemma base_addWake: "server.more (snd (addWake s)) = server.more s"
  unfolding addWake_def by (subst base_orStop) (simp_all add: trace_def drainWakeFd_def)

lemma base_openWake: "server.more (snd (openWake s)) = server.more s"
  by (auto simp: openWake_def base_addWake split: prod.split sum.split dest: base_take(2))

lemma base_openEpoll: "server.more (snd (openEpoll s)) = server.more s"
  by (auto simp: openEpoll_def base_openWake base_orStop trace_def split: prod.split sum.split dest: base_take(2))

lemma base_server_start: "server.more (snd (server_start s)) = server.more s"
  by (auto simp: server_start_def base_openEpoll base_orStop trace_def Let_def
      split: prod.split sum.split dest!: base_take(2))

lemma server_start_queue: "d_sendQueue (snd (server_start d)) = d_sendQueue d"
  using base_server_start [of d] by (cases d; cases "snd (server_start d)"; simp)

lemma bounded_dispatcher_start: "bounded h \<Longrightarrow> bounded (snd (dispatcher_start h))"
proof -
  assume b: "bounded h"
  obtain e d where s: "server_start h = (e, d)"
    by fastforce
  have "server_inv d" "d_sendQueue d = d_sendQueue h"
    using server_inv_start [of h] server_start_queue [of h] s by simp_all
  then have "bounded d" "bounded (d\<lparr>d_started := True\<rparr>)"
    using b by (simp_all add: bounded_def queue_inv_def server_inv_def)
  then show ?thesis
    using s by (simp add: dispatcher_start_def split: option.split)
qed

lemma keeps_updateFactory [simp]: "keeps h (updateFactory f h)"
  by (simp add: updateFactory_def)

lemma keeps_announceStop: "keeps h (announceStop h)"
proof -
  obtain e h1 where c: "onFactory FactoryStopping (updateFactory (\<lambda>f. f\<lparr>af_stopRequested := True\<rparr>) h) = (e, h1)"
    by fastforce
  have "keeps h h1"
    using keeps_trans [OF keeps_updateFactory receive_side.le_onFactory] c by (metis snd_conv)
  then have "keeps h h1" "keeps h (factory_onProtocolError m h1)" for m
    using keeps_trans [OF _ receive_side.le_mild [OF mild_factory_onProtocolError]] by blast+
  then show ?thesis
    using c by (simp add: announceStop_def split: option.split)
qed

lemma bounded_shutdown: "bounded h \<Longrightarrow> bounded (shutdownFactoryExecution budget h)"
proof (rule bounded_keeps)
  let ?h1 = "announceStop (h\<lparr>h_factoryActive := False\<rparr>)"
  have h1: "keeps h ?h1"
    by (rule keeps_trans [OF _ keeps_announceStop]) simp
  show "keeps h (shutdownFactoryExecution budget h)"
  proof (cases "h_factoryExecution ?h1")
    case None
    then show ?thesis
      using h1 by (simp add: shutdownFactoryExecution_def Let_def)
  next
    case (Some b)
    obtain e h2 where s: "stopBackend budget b (?h1\<lparr>h_factoryExecution := None\<rparr>) = (e, h2)"
      by fastforce
    have "keeps ?h1 h2"
      using keeps_trans [OF receive_side.le_factoryExecution receive_side.le_stopBackend] s by (metis snd_conv)
    then have "keeps h h2"
      by (rule keeps_trans [OF h1])
    moreover from this have "keeps h (factory_onProtocolError m h2)" for m
      using keeps_trans [OF _ receive_side.le_mild [OF mild_factory_onProtocolError]] by blast
    ultimately show ?thesis
      using Some s by (simp add: shutdownFactoryExecution_def Let_def split: option.split)
  qed
qed

lemma keeps_activate: "keeps h (snd (activateFactory h))"
  by (simp add: activateFactory_def takeFactoryBackend_def takeThread_def keeps_def rx_view_def queue_inv_def
      split: list.split bool.split prod.split option.split)

lemma bounded_start: "bounded h \<Longrightarrow> bounded (snd (host_start h))"
proof -
  assume b: "bounded h"
  obtain e h1 where a: "activateFactory h = (e, h1)"
    by fastforce
  have h1: "bounded h1"
    using bounded_keeps [OF keeps_activate b] a by simp
  obtain e' h2 where d: "dispatcher_start h1 = (e', h2)"
    by fastforce
  have "bounded h2"
    using bounded_dispatcher_start [OF h1] d by simp
  then show ?thesis
    using a d b h1 bounded_shutdown by (simp add: host_start_def split: option.split)
qed

lemma stop_fields: "d_started (stop d) = d_started d" "d_sendQueue (stop d) = d_sendQueue d" "m_clientFd (stop d) = - 1"
  by (auto simp: stop_def closeFd_def trace_def Let_def)

lemma dispatcher_stop_fields [simp]:
  "\<not> d_started (dispatcher_stop d)" "d_sendQueue (dispatcher_stop d) = []" "m_clientFd (dispatcher_stop d) = - 1"
  by (simp_all add: dispatcher_stop_def stop_fields server_wakeup_def)

lemma bounded_stop: "bounded (host_stop budget h)"
proof -
  have "queue_inv (dispatcher_stop k)" "server_inv (dispatcher_stop k)" for k :: host
    by (simp_all add: queue_inv_def) (simp add: dispatcher_stop_def server_inv_stop)
  then show ?thesis
    by (simp add: host_stop_def bounded_def Let_def split: prod.split)
qed

lemma bounded_reap: "bounded h \<Longrightarrow> bounded (h\<lparr>h_registry := rg\<rparr>)"
  by (erule bounded_keeps [rotated]) simp

lemma bounded_step: "host_step h h' \<Longrightarrow> bounded h \<Longrightarrow> bounded h'"
  by (erule host_stepE)
    (auto simp: bounded_start bounded_pollOnce bounded_stop bounded_reap intro: bounded_keeps receive_side.le_workers)

text \<open>
  C6: the host keeps the dispatcher's bounds. With the handlers that the host installs, and whatever
  the peer, the adapter code and the workers do, every reachable host holds less than one frame of
  undelivered input and never more than a header and the maximal payload, and every queued frame is
  admissible with at most \<^verbatim>\<open>kHostQueueMaxDepth\<close> frames that may be shed.
\<close>

theorem host_keeps_bounds:
  assumes "host_step\<^sup>*\<^sup>* h0 h" and "server_inv h0" and "queue_inv h0"
  shows "server_inv h \<and> queue_inv h"
  using assms(1)
proof (induction rule: rtranclp_induct)
  case base
  then show ?case
    using assms(2,3) by simp
next
  case (step h h')
  then show ?case
    using bounded_step [of h h'] by (simp add: bounded_def)
qed

theorem host_keeps_bounds_witness:
  "server_inv (snd (host_pollOnce sampleRunning)) \<and> queue_inv (snd (host_pollOnce sampleRunning))"
  by (rule host_keeps_bounds [where ?h0.0 = sampleRunning])
    (auto intro: host_step.poll simp: server_inv_empty queue_inv_clear sampleRunning_def sampleHost_def newHost_def rawHost_def)

end
