(* ===== verification/Host_Teardown.thy ===== *)
theory Host_Teardown
  imports Host_Frame
begin

text \<open>
  How long a teardown takes and what it leaves: the shared deadline of \<^verbatim>\<open>SidecarHost::stop\<close>, the
  slices of the instances, and the state afterwards.
\<close>

section \<open>Time\<close>

text \<open>
  The clock after an operation: what the waits may add, and what the delays between two readings have
  added. \<open>late\<close> is the clock with all delays still to come.
\<close>

definition late :: "host \<Rightarrow> int" where
  "late h = h_now h + int (sum_list (h_delays h))"

lemma late_mild: "mild A h h' \<Longrightarrow> late h' = late h \<and> h_now h' = h_now h \<and> h_delays h' = h_delays h"
  by (simp add: mild_def late_def)

lemma time_finishTask [simp]: "h_now (finishTask c h) = h_now h" "h_delays (finishTask c h) = h_delays h"
  using late_mild [OF mild_finishTask [of c h]] by simp_all

lemma time_workers [simp]:
  "h_now (stepInstance x h) = h_now h" "h_now (stepFactory h) = h_now h" "h_now (stepAbandoned n h) = h_now h"
  "h_delays (stepInstance x h) = h_delays h" "h_delays (stepFactory h) = h_delays h"
  "h_delays (stepAbandoned n h) = h_delays h"
  by (simp_all add: stepInstance_def stepFactory_def stepAbandoned_def setExecution_def split: option.split)

lemma time_steps:
  "h_now (snd (fold stepWorker ws bh)) = h_now (snd bh) \<and> h_delays (snd (fold stepWorker ws bh)) = h_delays (snd bh)"
proof (induction ws arbitrary: bh)
  case (Cons w ws)
  have "h_now (snd (stepWorker w bh)) = h_now (snd bh) \<and> h_delays (snd (stepWorker w bh)) = h_delays (snd bh)"
    by (cases bh; cases w) (simp_all split: option.split)
  with Cons show ?case
    by simp
qed simp

lemma late_hostWait:
  assumes "0 \<le> timeout"
  shows "late h \<le> late (snd (hostWait timeout b h))" and "late (snd (hostWait timeout b h)) \<le> late h + timeout"
    and "h_delays (snd (hostWait timeout b h)) = h_delays h"
  using assms by (simp_all add: hostWait_def late_def time_steps split: list.split prod.split)

lemma late_stopBackend:
  assumes "0 \<le> timeout"
  shows "late h \<le> late (snd (stopBackend timeout b h))" and "late (snd (stopBackend timeout b h)) \<le> late h + timeout"
    and "h_delays (snd (stopBackend timeout b h)) = h_delays h"
proof -
  obtain w b1 where "backend_stopBegin b = (w, b1)"
    by fastforce
  then show "late h \<le> late (snd (stopBackend timeout b h))" "late (snd (stopBackend timeout b h)) \<le> late h + timeout"
    "h_delays (snd (stopBackend timeout b h)) = h_delays h"
    using late_hostWait [OF assms, where h = h and b = b1] assms
    by (simp_all add: stopBackend_def late_def case_prod_beta split: bool.split)
qed

lemma late_askToStop:
  assumes "0 \<le> budget"
  shows "late h \<le> late (snd (askToStop x budget a b h)) \<and> late (snd (askToStop x budget a b h)) \<le> late h + budget
     \<and> h_delays (snd (askToStop x budget a b h)) = h_delays h"
proof -
  obtain e b1 where e: "backend_execute (Some (TaskStop a)) b = (e, b1)"
    by fastforce
  obtain b2 h2 where w: "hostWait budget b1 h = (b2, h2)"
    by fastforce
  then show ?thesis
    using e assms late_hostWait [OF assms, where h = h and b = b1] late_mild [OF mild_reportProtocolError]
    by (auto simp: askToStop_def split: option.split)
qed

lemma late_joinOrLeak:
  assumes "0 \<le> budget"
  shows "late h \<le> late (joinOrLeak x budget a b h) \<and> late (joinOrLeak x budget a b h) \<le> late h + budget
     \<and> h_delays (joinOrLeak x budget a b h) = h_delays h"
proof -
  obtain e h1 where "stopBackend budget b h = (e, h1)"
    by fastforce
  then show ?thesis
    using late_stopBackend [OF assms, where h = h and b = b] late_mild [OF mild_reportProtocolError]
    by (auto simp: joinOrLeak_def destroyInstance_def late_def split: option.split)
qed

text \<open>The two budgets of one instance together: 124 ms are the worst case of the two minimum slices.\<close>

lemma slices:
  assumes "kMinimumStopSlice \<le> budget"
  shows "atLeastMinimumSlice (budget * 3 div 5) + atLeastMinimumSlice (budget - atLeastMinimumSlice (budget * 3 div 5))
     \<le> max budget 124"
  using assms unfolding atLeastMinimumSlice_def kMinimumStopSlice_def max_def by presburger

lemma atLeast_pos [simp]: "0 \<le> atLeastMinimumSlice v"
  by (simp add: atLeastMinimumSlice_def kMinimumStopSlice_def)

lemma late_stopAndDestroyInstance:
  assumes "kMinimumStopSlice \<le> budget"
  shows "late h \<le> late (stopAndDestroyInstance x budget h)
     \<and> late (stopAndDestroyInstance x budget h) \<le> late h + max budget 124
     \<and> h_delays (stopAndDestroyInstance x budget h) = h_delays h"
proof (cases rule: stopAndDestroyInstance_cases [of x h budget])
  case (known rt h0 h1 b h2)
  let ?s = "atLeastMinimumSlice (budget * 3 div 5)"
  have "late h1 = late h" "h_delays h1 = h_delays h"
    using late_mild [OF known(4)] known(2) by (simp_all add: late_def)
  moreover have "late h1 \<le> late h2" "late h2 \<le> late h1 + ?s" "h_delays h2 = h_delays h1"
    using late_askToStop [of ?s h1 x "rt_instance rt" "rt_execution rt"] known(5) by simp_all
  ultimately show ?thesis
    unfolding known(6)
    using slices [OF assms] late_joinOrLeak [of "atLeastMinimumSlice (budget - ?s)" h2 x "rt_instance rt" b] by simp
qed (use assms in \<open>simp add: kMinimumStopSlice_def\<close>)

lemma remainingUntil_late:
  assumes "remainingUntil deadline h = (left, h1)"
  shows "late h1 = late h" and "left \<le> max 0 (deadline - h_now h1)" and "0 \<le> left"
  using assms by (auto simp: remainingUntil_def steadyNow_def late_def split: list.splits)

lemma div_le_self: "0 \<le> (v :: int) \<Longrightarrow> v div (1 + int n) \<le> v"
  using zdiv_mono2 [of v 1 "1 + int n"] by simp

lemma atLeast_le: "atLeastMinimumSlice v \<le> max v 50"
  by (simp add: atLeastMinimumSlice_def kMinimumStopSlice_def)

text \<open>Every instance of the loop takes its share of what is left, or the two minimum slices.\<close>

lemma late_stopLoop:
  assumes "late h \<le> B" and "deadline + int S \<le> B" and "sum_list (h_delays h) \<le> S"
  shows "late (stopLoop deadline xs h) \<le> B + 124 * int (length xs) \<and> sum_list (h_delays (stopLoop deadline xs h)) \<le> S"
  using assms
proof (induction xs arbitrary: h B)
  case (Cons x xs)
  obtain left h1 where r: "remainingUntil deadline h = (left, h1)"
    by fastforce
  let ?slice = "atLeastMinimumSlice (left div (1 + int (length xs)))"
  let ?h2 = "stopAndDestroyInstance x ?slice h1"
  have h1: "late h1 = late h" "left \<le> max 0 (deadline - h_now h1)" "0 \<le> left"
    using remainingUntil_late [OF r] by simp_all
  have d1: "sum_list (h_delays h1) \<le> S"
    using r Cons.prems(3) by (auto simp: remainingUntil_def steadyNow_def split: list.splits)
  have "left div (1 + int (length xs)) \<le> left"
    using h1(3) by (rule div_le_self)
  then have sl: "?slice \<le> max left 50" "kMinimumStopSlice \<le> ?slice"
    by (simp_all add: atLeastMinimumSlice_def kMinimumStopSlice_def)
  then have "late ?h2 \<le> late h1 + max ?slice 124" and d2: "h_delays ?h2 = h_delays h1"
    using late_stopAndDestroyInstance [of ?slice h1 x] by simp_all
  moreover have "late h1 = h_now h1 + int (sum_list (h_delays h1))"
    by (simp add: late_def)
  ultimately have "late ?h2 \<le> B + 124"
    using Cons.prems(1,2) h1(1,2) sl(1) d1 by linarith
  then have "late (stopLoop deadline xs ?h2) \<le> (B + 124) + 124 * int (length xs)
      \<and> sum_list (h_delays (stopLoop deadline xs ?h2)) \<le> S"
    using Cons.prems(2) d1 d2 by (intro Cons.IH) simp_all
  then show ?case
    using r by (simp add: algebra_simps)
qed simp

lemma late_requestStops: "late (fold requestStop xs h) = late h \<and> h_delays (fold requestStop xs h) = h_delays h"
proof (induction xs arbitrary: h)
  case (Cons x xs)
  have "late (requestStop x h) = late h \<and> h_delays (requestStop x h) = h_delays h"
    using late_mild [OF mild_hostRequestStop] by (simp add: requestStop_def split: option.split)
  with Cons show ?case
    by simp
qed simp

lemma late_stopAndDestroyInstances:
  assumes "late h \<le> B" and "deadline + int S \<le> B" and "sum_list (h_delays h) \<le> S"
  shows "late (stopAndDestroyInstances deadline h) \<le> B + 124 * int (length (h_instances h))"
    and "sum_list (h_delays (stopAndDestroyInstances deadline h)) \<le> S"
  using late_stopLoop [of "fold requestStop (map fst (h_instances h)) h" B deadline S "map fst (h_instances h)"]
    late_requestStops [of "map fst (h_instances h)" h] assms
  by (simp_all add: stopAndDestroyInstances_def Let_def)

lemma late_announceStop: "late (announceStop h) = late h \<and> h_delays (announceStop h) = h_delays h"
proof -
  let ?k = "updateFactory (\<lambda>f. f\<lparr>af_stopRequested := True\<rparr>) h"
  obtain e h1 where f: "onFactory FactoryStopping ?k = (e, h1)"
    by fastforce
  have "late ?k = late h" "h_delays ?k = h_delays h"
    by (simp_all add: updateFactory_def late_def)
  moreover have "late h1 = late ?k" "h_delays h1 = h_delays ?k"
    using late_mild [OF mild_onFactory, of FactoryStopping ?k] f by simp_all
  ultimately show ?thesis
    using f late_mild [OF mild_factory_onProtocolError] by (simp add: announceStop_def split: option.split)
qed

lemma late_shutdownFactoryExecution:
  assumes "0 \<le> budget"
  shows "late (shutdownFactoryExecution budget h) \<le> late h + budget"
proof -
  let ?h1 = "announceStop (h\<lparr>h_factoryActive := False\<rparr>)"
  have h1: "late ?h1 = late h"
    using late_announceStop [of "h\<lparr>h_factoryActive := False\<rparr>"] late_def [of "h\<lparr>h_factoryActive := False\<rparr>"]
    by (simp add: late_def [of h])
  show ?thesis
  proof (cases "h_factoryExecution ?h1")
    case (Some b)
    let ?k = "?h1\<lparr>h_factoryExecution := None\<rparr>"
    obtain e h2 where s: "stopBackend budget b ?k = (e, h2)"
      by fastforce
    have "late ?k = late ?h1"
      by (simp add: late_def)
    then show ?thesis
      using late_stopBackend(2) [OF assms, where h = ?k and b = b] s Some h1 assms
        late_mild [OF mild_factory_onProtocolError]
      by (simp add: shutdownFactoryExecution_def Let_def split: option.split)
  qed (use h1 assms in \<open>simp add: shutdownFactoryExecution_def Let_def\<close>)
qed

lemma host_now_more: "dispatcher.more h' = dispatcher.more h \<Longrightarrow> h_now h' = h_now h"
  by (cases h; cases h'; simp)

lemma stop_arith:
  fixes l2 :: int
  assumes "l3 = l2" and "l2 \<le> D + S + n" and "left \<le> max 0 (D - now3)" and "l3 = now3 + d3" and "d3 \<le> S"
    and "sl \<le> max left 50" and "0 \<le> n"
  shows "l3 + sl \<le> D + S + n + 50"
  using assms by (auto simp: max_def split: if_splits)

section \<open>What a teardown leaves\<close>

text \<open>What neither workers nor waits nor reports change.\<close>

definition settings :: "host \<Rightarrow> bool \<times> (bool \<times> bool \<times> bool) option" where
  "settings h = (h_factoryActive h, map_option factory_flags (h_factory h))"

lemma settings_mild: "mild A h h' \<Longrightarrow> settings h' = settings h"
  by (simp add: mild_def settings_def)

lemma settings_finishTask [simp]: "settings (finishTask c h) = settings h"
  by (rule settings_mild [OF mild_finishTask])

lemma settings_fields [simp]:
  "settings (h\<lparr>h_instances := is\<rparr>) = settings h" "settings (h\<lparr>h_factoryExecution := fx\<rparr>) = settings h"
  "settings (h\<lparr>h_registry := rg\<rparr>) = settings h" "settings (h\<lparr>h_now := t\<rparr>) = settings h"
  "settings (h\<lparr>h_waits := w\<rparr>) = settings h" "settings (h\<lparr>h_delays := ds\<rparr>) = settings h"
  "settings (h\<lparr>h_objects := os\<rparr>) = settings h" "settings (h\<lparr>h_resultQueue := q\<rparr>) = settings h"
  by (simp_all add: settings_def)

lemma settings_workers [simp]:
  "settings (stepInstance x h) = settings h" "settings (stepFactory h) = settings h"
  "settings (stepAbandoned n h) = settings h"
  by (simp_all add: stepInstance_def stepFactory_def stepAbandoned_def setExecution_def split: option.split)

lemma settings_steps: "settings (snd (fold stepWorker ws bh)) = settings (snd bh)"
proof (induction ws arbitrary: bh)
  case (Cons w ws)
  have "settings (snd (stepWorker w bh)) = settings (snd bh)"
    by (cases bh; cases w) (simp_all split: option.split)
  with Cons show ?case
    by simp
qed simp

lemma settings_hostWait: "settings (snd (hostWait timeout b h)) = settings h"
  by (simp add: hostWait_def settings_steps split: list.split prod.split)

lemma settings_stopBackend: "settings (snd (stopBackend timeout b h)) = settings h"
  by (simp add: stopBackend_def case_prod_beta settings_hostWait split: bool.split)

text \<open>A view that waits and reports keep is kept by the two halves of a teardown.\<close>

lemma askToStop_keeps:
  assumes "\<And>b. v (snd (hostWait budget b h)) = v h" and "\<And>m k. v (reportProtocolError m k) = v k"
  shows "v (snd (askToStop x budget a b h)) = v h"
proof -
  obtain e b1 where e: "backend_execute (Some (TaskStop a)) b = (e, b1)"
    by fastforce
  obtain b2 h2 where "hostWait budget b1 h = (b2, h2)"
    by fastforce
  with assms(1) [of b1] show ?thesis
    using e by (simp add: askToStop_def assms(2) split: option.split)
qed

lemma joinOrLeak_keeps:
  assumes "v (snd (stopBackend budget b h)) = v h" and "\<And>m k. v (reportProtocolError m k) = v k"
    and "\<And>k. v (destroyInstance a k) = v k"
  shows "v (joinOrLeak x budget a b h) = v h"
proof -
  obtain e h1 where "stopBackend budget b h = (e, h1)"
    by fastforce
  with assms show ?thesis
    by (simp add: joinOrLeak_def split: option.split)
qed

lemma settings_stopAndDestroyInstance: "settings (stopAndDestroyInstance x budget h) = settings h"
proof (cases rule: stopAndDestroyInstance_cases [of x h budget])
  case (known rt h0 h1 b h2)
  have r: "settings (reportProtocolError m k) = settings k" for m k
    by (rule settings_mild [OF mild_reportProtocolError])
  have "settings h2 = settings h1"
    using askToStop_keeps [of settings _ h1 x "rt_instance rt" "rt_execution rt", OF settings_hostWait r] known(5)
    by (metis snd_conv)
  moreover have "settings h1 = settings h"
    using settings_mild [OF known(4)] known(2) by simp
  ultimately show ?thesis
    unfolding known(6) by (subst joinOrLeak_keeps) (simp_all add: settings_stopBackend r destroyInstance_def)
qed simp

text \<open>Which instances are left, as a view that waits and reports keep.\<close>

definition roster :: "host \<Rightarrow> (external_id \<times> nat) list" where
  "roster h = map (\<lambda>(x, rt). (x, rt_instance rt)) (h_instances h)"

lemma roster_outline: "outline h' = outline h \<Longrightarrow> roster h' = roster h"
  by (simp add: outline_def roster_def)

lemma roster_report: "roster (reportProtocolError m h) = roster h"
  by (rule roster_outline [OF outline_mild [OF mild_reportProtocolError]])

lemma roster_keys: "map fst (roster h) = map fst (h_instances h)"
  by (simp add: roster_def comp_def case_prod_beta)

lemma roster_delete:
  "map (\<lambda>(x, rt). (x, rt_instance rt)) (AList.delete x ps) = AList.delete x (map (\<lambda>(x, rt). (x, rt_instance rt)) ps)"
  by (induction ps) auto

lemma roster_stopAndDestroyInstance: "roster (stopAndDestroyInstance x budget h) = AList.delete x (roster h)"
proof (cases rule: stopAndDestroyInstance_cases [of x h budget])
  case unknown
  then have "x \<notin> fst ` set (roster h)"
    unfolding set_map [symmetric] roster_keys by (simp add: findRuntime_def map_of_eq_None_iff)
  then show ?thesis
    using unknown by (simp add: delete_idem)
next
  case (known rt h0 h1 b h2)
  have "roster h2 = roster h1"
    using askToStop_keeps [of roster _ h1 x "rt_instance rt" "rt_execution rt",
        OF roster_outline [OF outline_hostWait] roster_report] known(5)
    by (metis snd_conv)
  moreover have "roster h1 = AList.delete x (roster h)"
    using roster_outline [OF outline_mild [OF known(4)]] known(2)
    by (simp add: roster_def roster_delete)
  moreover have "roster (joinOrLeak x t (rt_instance rt) b h2) = roster h2" for t
    by (rule joinOrLeak_keeps [OF roster_outline [OF outline_stopBackend] roster_report])
      (simp add: roster_def destroyInstance_def)
  ultimately show ?thesis
    unfolding known(6) by simp
qed

lemma time_roster: "roster (snd (remainingUntil deadline h)) = roster h" "settings (snd (remainingUntil deadline h)) = settings h"
  by (simp_all add: remainingUntil_def steadyNow_def roster_def settings_def split: list.split)

lemma stopLoop_leaves:
  "roster (stopLoop deadline xs h) = filter (\<lambda>(y, a). y \<notin> set xs) (roster h)
   \<and> settings (stopLoop deadline xs h) = settings h"
proof (induction xs arbitrary: h)
  case (Cons x xs)
  obtain left h1 where "remainingUntil deadline h = (left, h1)"
    by fastforce
  then show ?case
    using Cons.IH time_roster [of deadline h]
    by (auto simp: roster_stopAndDestroyInstance settings_stopAndDestroyInstance AList.delete_eq
        intro!: filter_cong)
qed (simp add: case_prod_beta)

lemma requestStops_leave: "roster (fold requestStop xs h) = roster h \<and> settings (fold requestStop xs h) = settings h"
proof (induction xs arbitrary: h)
  case (Cons x xs)
  have "roster (requestStop x h) = roster h \<and> settings (requestStop x h) = settings h"
    using roster_outline [OF outline_mild [OF mild_hostRequestStop]] settings_mild [OF mild_hostRequestStop]
    by (simp add: requestStop_def split: option.split)
  with Cons show ?case
    by simp
qed simp

lemma stopAndDestroyInstances_leaves:
  "h_instances (stopAndDestroyInstances deadline h) = [] \<and> settings (stopAndDestroyInstances deadline h) = settings h"
proof -
  let ?xs = "map fst (h_instances h)"
  have "filter (\<lambda>(y, a). y \<notin> set ?xs) (roster h) = []"
    by (force simp: roster_def filter_empty_conv)
  then have "roster (stopAndDestroyInstances deadline h) = []"
    using stopLoop_leaves [of deadline ?xs "fold requestStop ?xs h"] requestStops_leave [of ?xs h]
    by (simp add: stopAndDestroyInstances_def Let_def)
  then show ?thesis
    using stopLoop_leaves [of deadline ?xs "fold requestStop ?xs h"] requestStops_leave [of ?xs h]
    by (simp add: stopAndDestroyInstances_def Let_def roster_def)
qed

lemma settings_announceStop:
  "settings (announceStop h) = (h_factoryActive h, map_option (\<lambda>f. (af_dispatcher f, af_actionResultSubmitter f, True)) (h_factory h))"
proof (cases "h_factory h")
  case (Some f)
  let ?k = "updateFactory (\<lambda>f. f\<lparr>af_stopRequested := True\<rparr>) h"
  obtain e h1 where o: "onFactory FactoryStopping ?k = (e, h1)"
    by fastforce
  have "settings ?k = (h_factoryActive h, Some (af_dispatcher f, af_actionResultSubmitter f, True))"
    using Some by (simp add: updateFactory_def settings_def factory_flags_def)
  moreover have "settings h1 = settings ?k"
    using settings_mild [OF mild_onFactory, of FactoryStopping ?k] o by simp
  moreover have "settings (factory_onProtocolError m h1) = settings h1" for m
    by (rule settings_mild [OF mild_factory_onProtocolError])
  ultimately show ?thesis
    using Some o by (simp add: announceStop_def split: option.split)
qed (simp add: announceStop_def settings_def)

lemma settings_shutdown:
  "settings (shutdownFactoryExecution budget h) =
     (False, map_option (\<lambda>f. (af_dispatcher f, af_actionResultSubmitter f, af_stopRequested f \<or> h_factoryActive h)) (h_factory h))"
proof (cases "h_factoryActive h")
  case True
  let ?h1 = "announceStop (h\<lparr>h_factoryActive := False\<rparr>)"
  have h1: "settings ?h1 = (False, map_option (\<lambda>f. (af_dispatcher f, af_actionResultSubmitter f, True)) (h_factory h))"
    using settings_announceStop [of "h\<lparr>h_factoryActive := False\<rparr>"] by simp
  have r: "settings (factory_onProtocolError m k) = settings k" for m k
    by (rule settings_mild [OF mild_factory_onProtocolError])
  show ?thesis
  proof (cases "h_factoryExecution ?h1")
    case (Some b)
    obtain e h2 where s: "stopBackend budget b (?h1\<lparr>h_factoryExecution := None\<rparr>) = (e, h2)"
      by fastforce
    then have "settings h2 = settings ?h1"
      using settings_stopBackend [of budget b "?h1\<lparr>h_factoryExecution := None\<rparr>"] by simp
    then show ?thesis
      using True Some s h1 by (simp add: shutdownFactoryExecution_def r Let_def split: option.split)
  qed (use True h1 in \<open>simp add: shutdownFactoryExecution_def Let_def\<close>)
next
  case False
  then show ?thesis
    by (cases "h_factory h") (simp_all add: shutdownFactoryExecution_def settings_def factory_flags_def)
qed

lemma roster_announceStop: "roster (announceStop h) = roster h"
proof -
  let ?k = "updateFactory (\<lambda>f. f\<lparr>af_stopRequested := True\<rparr>) h"
  obtain e h1 where o: "onFactory FactoryStopping ?k = (e, h1)"
    by fastforce
  have "roster h1 = roster ?k"
    using roster_outline [OF outline_mild [OF mild_onFactory], of FactoryStopping ?k] o by simp
  moreover have "roster ?k = roster h"
    by (simp add: updateFactory_def roster_def)
  moreover have "roster (factory_onProtocolError m h1) = roster h1" for m
    by (rule roster_outline [OF outline_mild [OF mild_factory_onProtocolError]])
  ultimately show ?thesis
    using o by (simp add: announceStop_def split: option.split)
qed

lemma roster_shutdown: "roster (shutdownFactoryExecution budget h) = roster h"
proof -
  let ?h1 = "announceStop (h\<lparr>h_factoryActive := False\<rparr>)"
  have h1: "roster ?h1 = roster h"
    using roster_announceStop [of "h\<lparr>h_factoryActive := False\<rparr>"] by (simp add: roster_def)
  have r: "roster (factory_onProtocolError m k) = roster k" for m k
    by (rule roster_outline [OF outline_mild [OF mild_factory_onProtocolError]])
  show ?thesis
  proof (cases "h_factoryExecution ?h1")
    case (Some b)
    obtain e h2 where s: "stopBackend budget b (?h1\<lparr>h_factoryExecution := None\<rparr>) = (e, h2)"
      by fastforce
    then have "roster h2 = roster ?h1"
      using roster_outline [OF outline_stopBackend, of budget b "?h1\<lparr>h_factoryExecution := None\<rparr>"]
      by (simp add: roster_def)
    then show ?thesis
      using Some s h1 by (simp add: shutdownFactoryExecution_def r Let_def split: option.split)
  qed (use h1 in \<open>simp add: shutdownFactoryExecution_def Let_def\<close>)
qed

lemma roster_Nil: "roster h = [] \<longleftrightarrow> h_instances h = []"
  by (simp add: roster_def)

lemma inactive_shutdown:
  "\<not> h_factoryActive (shutdownFactoryExecution budget h)"
  using settings_shutdown [of budget h] by (simp add: settings_def)

text \<open>The pieces of a stop.\<close>

lemma host_stop_pieces:
  obtains h3 left where "host_stop budget h = dispatcher_stop (updateFactory (\<lambda>f. f\<lparr>af_actionResultSubmitter := False\<rparr>)
      ((shutdownFactoryExecution (atLeastMinimumSlice left) h3)\<lparr>h_resultQueue := []\<rparr>))"
    and "h_instances h3 = []" and "settings h3 = settings h"
proof -
  obtain t h1 where n: "steadyNow h = (t, h1)"
    by fastforce
  define h2 where "h2 = stopAndDestroyInstances (t + max 0 budget - min (max 0 budget div 4) kFactoryStopReserveMax) h1"
  obtain left h3 where r: "remainingUntil (t + max 0 budget) h2 = (left, h3)"
    by fastforce
  have "settings h1 = settings h"
    using n by (auto simp: steadyNow_def settings_def split: list.splits)
  moreover have "h_instances h2 = []" "settings h2 = settings h1"
    using stopAndDestroyInstances_leaves by (simp_all add: h2_def)
  moreover have "roster h3 = roster h2" "settings h3 = settings h2"
    using time_roster [of "t + max 0 budget" h2] r by simp_all
  ultimately have "h_instances h3 = []" "settings h3 = settings h"
    using roster_Nil by metis+
  then show ?thesis
    using n r that [of left h3] by (simp add: host_stop_def h2_def Let_def)
qed

lemma dispatcher_stop_host [simp]:
  "h_instances (dispatcher_stop h) = h_instances h" "h_resultQueue (dispatcher_stop h) = h_resultQueue h"
  "h_factoryActive (dispatcher_stop h) = h_factoryActive h" "h_factory (dispatcher_stop h) = h_factory h"
proof -
  have "dispatcher.more (dispatcher_stop h) = dispatcher.more h"
    by simp
  then show "h_instances (dispatcher_stop h) = h_instances h" "h_resultQueue (dispatcher_stop h) = h_resultQueue h"
    "h_factoryActive (dispatcher_stop h) = h_factoryActive h" "h_factory (dispatcher_stop h) = h_factory h"
    by (cases h; cases "dispatcher_stop h"; simp)+
qed

lemma settings_more: "dispatcher.more h' = dispatcher.more h \<Longrightarrow> settings h' = settings h"
  by (cases h; cases h'; simp add: settings_def)

lemma flags_activate: "snd (settings (snd (activateFactory h))) = snd (settings h)"
  by (simp add: activateFactory_def takeFactoryBackend_def takeThread_def settings_def
      split: list.split bool.split prod.split option.split)

text \<open>A start leaves the factory's flags as they are, or, when it fails, shuts the factory down.\<close>

lemma flags_start:
  assumes "snd (settings h) = Some (dp, False, True)"
  shows "snd (settings (snd (host_start h))) = Some (dp, False, True)"
proof -
  obtain e h1 where a: "activateFactory h = (e, h1)"
    by fastforce
  obtain e' h2 where d: "dispatcher_start h1 = (e', h2)"
    by fastforce
  have h1: "snd (settings h1) = Some (dp, False, True)"
    using flags_activate [of h] a assms by simp
  then have h2: "snd (settings h2) = Some (dp, False, True)"
    using settings_more [OF more_dispatcher_start, of h1] d by simp
  then have "snd (settings (shutdownFactoryExecution b h2)) = Some (dp, False, True)" for b
    using settings_shutdown [of b h2] by (auto simp: settings_def factory_flags_def)
  then show ?thesis
    using a d assms h1 h2 by (simp add: host_start_def split: option.split)
qed

lemma stop_flags:
  "map_option factory_flags (h_factory (host_stop budget h))
     = map_option (\<lambda>f. (af_dispatcher f, False, af_stopRequested f \<or> h_factoryActive h)) (h_factory h)"
  "h_instances (host_stop budget h) = []" "\<not> h_factoryActive (host_stop budget h)"
  "h_resultQueue (host_stop budget h) = []"
proof -
  obtain h3 left where st: "host_stop budget h = dispatcher_stop (updateFactory (\<lambda>f. f\<lparr>af_actionResultSubmitter := False\<rparr>)
      ((shutdownFactoryExecution (atLeastMinimumSlice left) h3)\<lparr>h_resultQueue := []\<rparr>))"
    and h3: "h_instances h3 = []" "settings h3 = settings h"
    by (rule host_stop_pieces)
  let ?h4 = "shutdownFactoryExecution (atLeastMinimumSlice left) h3"
  have h4: "settings ?h4 = (False, map_option (\<lambda>f. (af_dispatcher f, af_actionResultSubmitter f,
      af_stopRequested f \<or> h_factoryActive h3)) (h_factory h3))"
    by (rule settings_shutdown)
  then show "map_option factory_flags (h_factory (host_stop budget h))
     = map_option (\<lambda>f. (af_dispatcher f, False, af_stopRequested f \<or> h_factoryActive h)) (h_factory h)"
    unfolding st using h3(2)
    by (cases "h_factory h3"; cases "h_factory h"; cases "h_factory ?h4")
      (simp_all add: settings_def updateFactory_def factory_flags_def)
  show "h_instances (host_stop budget h) = []"
    unfolding st using roster_shutdown [of "atLeastMinimumSlice left" h3] h3(1) by (simp add: updateFactory_def roster_def)
  show "\<not> h_factoryActive (host_stop budget h)" "h_resultQueue (host_stop budget h) = []"
    unfolding st using inactive_shutdown by (simp_all add: updateFactory_def)
qed

lemma stop_dispatcher:
  "\<not> d_started (host_stop budget h)" "d_sendQueue (host_stop budget h) = []" "m_clientFd (host_stop budget h) = - 1"
  by (simp_all add: host_stop_def Let_def split: prod.split)

section \<open>Stuck instances\<close>

text \<open>When no worker moves, every wait runs to its end.\<close>

definition stuck :: "host \<Rightarrow> bool" where
  "stuck h = (h_waits h = [] \<and> h_delays h = [])"

lemma stuck_wait: "stuck h \<Longrightarrow> hostWait timeout b h = (b, h\<lparr>h_now := h_now h + max 0 timeout\<rparr>)"
  by (simp add: stuck_def hostWait_def)

lemma stuck_mild: "mild A h h' \<Longrightarrow> stuck h' = stuck h"
  by (simp add: mild_def stuck_def)

lemma stuck_stopBackend:
  assumes "stuck h" and "ready b" and "stopBackend timeout b h = (e, h')"
  shows "h_now h' = h_now h + max 0 timeout" and "stuck h'"
  using assms by (auto simp: stopBackend_def backend_stopBegin_def ready_def Let_def stuck_wait stuck_def
      split: prod.splits)

lemma stuck_report [simp]: "stuck (reportProtocolError m h) = stuck h" "h_now (reportProtocolError m h) = h_now h"
  using stuck_mild [OF mild_reportProtocolError [of "{}" h m]] late_mild [OF mild_reportProtocolError [of "{}" h m]]
  by simp_all

lemma stuck_destroy [simp]: "stuck (destroyInstance a h) = stuck h" "h_now (destroyInstance a h) = h_now h"
  by (simp_all add: stuck_def destroyInstance_def)

lemma stuck_stopAndDestroyInstance:
  assumes c: "core h" and s: "stuck h" and x: "findInstance x h \<noteq> None"
  shows "h_now h + 100 \<le> h_now (stopAndDestroyInstance x budget h)" and "stuck (stopAndDestroyInstance x budget h)"
proof -
  let ?s = "atLeastMinimumSlice (budget * 3 div 5)" and ?j = "atLeastMinimumSlice (budget - atLeastMinimumSlice (budget * 3 div 5))"
  have "h_now h + 100 \<le> h_now (stopAndDestroyInstance x budget h) \<and> stuck (stopAndDestroyInstance x budget h)"
  proof (cases rule: stopAndDestroyInstance_cases [of x h budget])
    case unknown
    then show ?thesis
      using x by (simp add: findInstance_def)
  next
    case (known rt h0 h1 b h2)
    let ?a = "rt_instance rt"
    have r: "ready (rt_execution rt)"
      using core_runtime [OF c known(1)] by (simp add: runtime_ok_def)
    obtain b0 where ex: "backend_execute (Some (TaskStop ?a)) (rt_execution rt) = (None, b0)" "ready b0"
      using ready_execute(1,2) [OF r, of "TaskStop ?a"] by (metis snd_conv)
    have h1: "stuck h1" "h_now h1 = h_now h"
      using stuck_mild [OF known(4)] late_mild [OF known(4)] s known(2) by (simp_all add: stuck_def)
    have w: "hostWait ?s b0 h1 = (b0, h1\<lparr>h_now := h_now h + ?s\<rparr>)"
      using stuck_wait [OF h1(1)] h1(2) by simp
    have "stuck (h1\<lparr>h_now := h_now h + ?s\<rparr>)"
      using h1(1) by (simp add: stuck_def)
    then have h2: "b = b0" "stuck h2" "h_now h2 = h_now h + ?s"
      using known(5) ex(1) w by (auto simp: askToStop_def split: if_splits)
    obtain e h3 where st: "stopBackend ?j b h2 = (e, h3)"
      by fastforce
    have h3: "h_now h3 = h_now h + ?s + ?j" "stuck h3"
      using stuck_stopBackend [OF h2(2) _ st] ex(2) h2 by simp_all
    then have "h_now (joinOrLeak x ?j ?a b h2) = h_now h3 \<and> stuck (joinOrLeak x ?j ?a b h2)"
      using st by (simp add: joinOrLeak_def split: option.split)
    moreover have "100 \<le> ?s + ?j"
      by (simp add: atLeastMinimumSlice_def kMinimumStopSlice_def)
    ultimately show ?thesis
      unfolding known(6) using h3 by simp
  qed
  then show "h_now h + 100 \<le> h_now (stopAndDestroyInstance x budget h)" "stuck (stopAndDestroyInstance x budget h)"
    by simp_all
qed

lemma findInstance_roster: "findInstance x h = map_of (roster h) x"
  by (simp add: findInstance_def findRuntime_def roster_def map_of_map)

lemma stuck_stopLoop:
  assumes "core h" and "stuck h" and "distinct xs" and "\<forall>x \<in> set xs. findInstance x h \<noteq> None"
  shows "h_now h + 100 * int (length xs) \<le> h_now (stopLoop deadline xs h) \<and> stuck (stopLoop deadline xs h)"
  using assms
proof (induction xs arbitrary: h)
  case (Cons x xs)
  have r: "remainingUntil deadline h = (max 0 (deadline - h_now h), h)"
    using Cons.prems(2) by (simp add: remainingUntil_def steadyNow_def stuck_def)
  let ?h1 = "stopAndDestroyInstance x (atLeastMinimumSlice (max 0 (deadline - h_now h) div (1 + int (length xs)))) h"
  have "findInstance y ?h1 \<noteq> None" if "y \<in> set xs" for y
    using Cons.prems that by (auto simp: findInstance_roster roster_stopAndDestroyInstance delete_conv')
  then have "h_now ?h1 + 100 * int (length xs) \<le> h_now (stopLoop deadline xs ?h1) \<and> stuck (stopLoop deadline xs ?h1)"
    using Cons.prems by (intro Cons.IH) (simp_all add: core_stopAndDestroyInstance stuck_stopAndDestroyInstance)
  then show ?case
    using stuck_stopAndDestroyInstance(1) [OF Cons.prems(1,2), of x
        "atLeastMinimumSlice (max 0 (deadline - h_now h) div (1 + int (length xs)))"] Cons.prems(4) r
    by simp
qed simp

lemma requested:
  assumes "core h" and "stuck h"
  shows "core (fold requestStop xs h) \<and> stuck (fold requestStop xs h) \<and> h_now (fold requestStop xs h) = h_now h
    \<and> roster (fold requestStop xs h) = roster h"
  using assms
proof (induction xs arbitrary: h)
  case (Cons x xs)
  have "core (requestStop x h) \<and> stuck (requestStop x h) \<and> h_now (requestStop x h) = h_now h \<and> roster (requestStop x h) = roster h"
  proof (cases "findRuntime x h")
    case (Some rt)
    have m: "mild {rt_instance rt} h (instance_hostRequestStop (rt_instance rt) h)"
      by (rule mild_hostRequestStop)
    have "\<forall>a \<in> {rt_instance rt}. h_objects h a \<noteq> None"
      using core_runtime [OF Cons.prems(1) Some] by (auto simp: runtime_ok_def)
    then show ?thesis
      using Some core_mild [OF m Cons.prems(1)] stuck_mild [OF m] late_mild [OF m] roster_outline [OF outline_mild [OF m]]
        Cons.prems(2) by (simp add: requestStop_def)
  qed (use Cons.prems in \<open>simp add: requestStop_def\<close>)
  with Cons show ?case
    by simp
qed simp

lemma now_announceStop: "h_now (announceStop h) = h_now h \<and> h_waits (announceStop h) = h_waits h"
proof -
  let ?k = "updateFactory (\<lambda>f. f\<lparr>af_stopRequested := True\<rparr>) h"
  obtain e h1 where f: "onFactory FactoryStopping ?k = (e, h1)"
    by fastforce
  have "h_now h1 = h_now ?k" "h_waits h1 = h_waits ?k"
    using mild_onFactory [of "{}" ?k FactoryStopping] f by (simp_all add: mild_def)
  moreover have "h_now (factory_onProtocolError m k) = h_now k" "h_waits (factory_onProtocolError m k) = h_waits k" for m k
    using mild_factory_onProtocolError [of "{}" k m] by (simp_all add: mild_def)
  moreover have "h_now ?k = h_now h" "h_waits ?k = h_waits h"
    by (simp_all add: updateFactory_def)
  ultimately show ?thesis
    using f by (simp add: announceStop_def split: option.split)
qed

lemma stuck_shutdown: "stuck h \<Longrightarrow> h_now h \<le> h_now (shutdownFactoryExecution budget h)"
proof -
  let ?h1 = "announceStop (h\<lparr>h_factoryActive := False\<rparr>)"
  assume "stuck h"
  then have w: "h_waits ?h1 = []" "h_now ?h1 = h_now h"
    using now_announceStop [of "h\<lparr>h_factoryActive := False\<rparr>"] by (simp_all add: stuck_def)
  have r: "h_now (factory_onProtocolError m k) = h_now k" for m k
    using mild_factory_onProtocolError [of "{}" k m] by (simp add: mild_def)
  show ?thesis
    using w by (auto simp: shutdownFactoryExecution_def stopBackend_def hostWait_def r Let_def
        split: option.split prod.split bool.split)
qed

section \<open>Properties\<close>

lemma late_host_stop:
  "late (host_stop budget h) \<le> late h + max 0 budget + 124 * int (length (h_instances h)) + 50"
proof -
  let ?b = "max 0 budget"
  obtain t h1 where n: "steadyNow h = (t, h1)"
    by fastforce
  have h1: "h_now h1 = t" "late h1 = late h" "h_instances h1 = h_instances h"
    using n by (auto simp: steadyNow_def late_def split: list.splits)
  let ?S = "sum_list (h_delays h1)"
  define res where "res = min (?b div 4) kFactoryStopReserveMax"
  let ?h2 = "stopAndDestroyInstances (t + ?b - res) h1"
  obtain left h3 where r: "remainingUntil (t + ?b) ?h2 = (left, h3)"
    by fastforce
  have "0 \<le> res"
    by (simp add: res_def kFactoryStopReserveMax_def)
  moreover have late1: "late h1 = t + int ?S"
    using h1(1) by (simp add: late_def)
  ultimately have "late h1 \<le> t + ?b + int ?S" "t + ?b - res + int ?S \<le> t + ?b + int ?S"
    by simp_all
  from late_stopAndDestroyInstances [OF this order.refl]
  have l2: "late ?h2 \<le> (t + ?b + int ?S) + 124 * int (length (h_instances h))" "sum_list (h_delays ?h2) \<le> ?S"
    using h1(3) by simp_all
  have r3: "late h3 = late ?h2" "left \<le> max 0 (t + ?b - h_now h3)" "sum_list (h_delays h3) \<le> sum_list (h_delays ?h2)"
    using remainingUntil_late [OF r] r by (auto simp: remainingUntil_def steadyNow_def split: list.splits)
  have d3: "int (sum_list (h_delays h3)) \<le> int ?S"
    using l2(2) r3(3) by simp
  have "late h3 + atLeastMinimumSlice left
      \<le> t + ?b + int ?S + 124 * int (length (h_instances h)) + 50"
    by (rule stop_arith [OF r3(1) l2(1) r3(2) late_def d3 atLeast_le]) simp
  then have fin: "late (shutdownFactoryExecution (atLeastMinimumSlice left) h3)
      \<le> t + ?b + int ?S + 124 * int (length (h_instances h)) + 50"
    using late_shutdownFactoryExecution [of "atLeastMinimumSlice left" h3] by simp
  have m: "late k' = late k" if "dispatcher.more k' = dispatcher.more k" for k k'
    using that by (cases k; cases k'; simp add: late_def)
  have "late (host_stop budget h) = late (shutdownFactoryExecution (atLeastMinimumSlice left) h3)"
    using n r m [OF more_dispatcher_stop] by (simp add: host_stop_def Let_def updateFactory_def res_def) (simp add: late_def)
  moreover have "t + int ?S = late h"
    using late1 h1(2) by simp
  ultimately show ?thesis
    using fin by linarith
qed

text \<open>
  C2: a stop keeps its budget. Whatever the adapters do, and if all other code took no time, the
  host has stopped at most the budget, 124 ms per instance and 50 ms for the factory after the call;
  time taken by other code adds to that and to nothing else.
\<close>

theorem stop_within_budget:
  "h_now (host_stop budget h) \<le> h_now h + max 0 budget + 124 * int (length (h_instances h)) + 50
     + int (sum_list (h_delays h))"
proof -
  have "h_now (host_stop budget h) \<le> late (host_stop budget h)"
    by (simp add: late_def)
  then show ?thesis
    using late_host_stop [of budget h] by (simp add: late_def [of h])
qed

text \<open>
  C3: a stop leaves nothing behind. Whatever the state, no instance is left in the map, no result is
  queued, the factory is inactive and its backend gone, it has been told to stop if it was active,
  and the dispatcher is stopped with an empty queue and no client. A second shutdown of the factory
  changes nothing, so its stopping hook runs once however often the host is stopped.
\<close>

theorem stop_leaves_nothing:
  "h_instances (host_stop budget h) = [] \<and> h_resultQueue (host_stop budget h) = []
   \<and> \<not> h_factoryActive (host_stop budget h)
   \<and> map_option factory_flags (h_factory (host_stop budget h))
       = map_option (\<lambda>f. (af_dispatcher f, False, af_stopRequested f \<or> h_factoryActive h)) (h_factory h)
   \<and> \<not> d_started (host_stop budget h) \<and> d_sendQueue (host_stop budget h) = [] \<and> m_clientFd (host_stop budget h) = - 1
   \<and> shutdownFactoryExecution b2 (shutdownFactoryExecution b1 h) = shutdownFactoryExecution b1 h"
  using stop_flags [of budget h] stop_dispatcher [of budget h] inactive_shutdown [of b1 h]
  by (simp add: shutdownFactoryExecution_def [of b2])

text \<open>
  C40: a restarted host no longer delivers results of its factory. \<^verbatim>\<open>stop\<close> unbinds the factory's
  result submitter and raises its stop flag, and \<^verbatim>\<open>start\<close> restores neither: after a stop and a start the
  factory's \<^verbatim>\<open>sendResult\<close> fails for every result, and the factory still reads a stop request.
\<close>

theorem restart_loses_factory_results:
  assumes "h_factory h = Some f" and "h_factoryActive h"
  shows "\<exists>f'. h_factory (snd (host_start (host_stop budget h))) = Some f' \<and> af_stopRequested f'
    \<and> factory_sendResult f' r k = (Some ''Factory action result submitter not bound'', k)"
proof -
  have "snd (settings (host_stop budget h)) = Some (af_dispatcher f, False, True)"
    using stop_flags [of budget h] assms by (simp add: settings_def)
  from flags_start [OF this] obtain f' where "h_factory (snd (host_start (host_stop budget h))) = Some f'"
    and "factory_flags f' = (af_dispatcher f, False, True)"
    by (auto simp: settings_def)
  then show ?thesis
    by (intro exI [of _ f']) (simp add: factory_sendResult_def factory_flags_def)
qed

theorem restart_loses_factory_results_witness:
  "\<exists>f'. h_factory (snd (host_start (host_stop 2000 (sampleHost\<lparr>h_factoryActive := True\<rparr>)))) = Some f'
    \<and> af_stopRequested f'
    \<and> factory_sendResult f' emptyActionResponse sampleHost
        = (Some ''Factory action result submitter not bound'', sampleHost)"
  by (rule restart_loses_factory_results [where f = "bindFactory (newFactory (defaultGetters ''demo''))"])
    (simp_all add: sampleHost_def newHost_def)

text \<open>
  C39: the minimum slices are not covered by the budget. When no worker reacts, a stop takes at least
  100 ms per instance whatever the budget and the number of instances, so the total grows with the
  instances; 21 stuck instances take longer than the whole shutdown budget of two seconds.
\<close>

theorem stuck_stop_exceeds_budget:
  assumes "core h" and "h_waits h = []" and "h_delays h = []"
  shows "h_now h + 100 * int (length (h_instances h)) \<le> h_now (host_stop budget h)"
proof -
  let ?xs = "map fst (h_instances h)"
  define h0 where "h0 = fold requestStop ?xs h"
  define d where "d = h_now h + max 0 budget - min (max 0 budget div 4) kFactoryStopReserveMax"
  have n: "steadyNow h = (h_now h, h)"
    using assms(3) by (simp add: steadyNow_def)
  have m: "core h0 \<and> stuck h0 \<and> h_now h0 = h_now h \<and> roster h0 = roster h"
    unfolding h0_def using requested [of h ?xs] assms by (simp add: stuck_def)
  then have "findInstance x h0 \<noteq> None" if "x \<in> set ?xs" for x
    using that by (auto simp: findInstance_roster roster_def map_of_eq_None_iff image_image case_prod_beta)
  moreover have "distinct ?xs"
    using assms(1) by (simp add: core_def)
  ultimately have l: "h_now h + 100 * int (length (h_instances h)) \<le> h_now (stopLoop d ?xs h0)" "stuck (stopLoop d ?xs h0)"
    using stuck_stopLoop [of h0 ?xs d] m by auto
  have "remainingUntil (h_now h + max 0 budget) (stopLoop d ?xs h0) =
      (max 0 (h_now h + max 0 budget - h_now (stopLoop d ?xs h0)), stopLoop d ?xs h0)"
    using l(2) by (simp add: remainingUntil_def steadyNow_def stuck_def)
  then have "h_now (host_stop budget h) = h_now (shutdownFactoryExecution (atLeastMinimumSlice
      (max 0 (h_now h + max 0 budget - h_now (stopLoop d ?xs h0)))) (stopLoop d ?xs h0))"
    using n by (simp add: host_stop_def Let_def host_now_more [OF more_dispatcher_stop] updateFactory_def
        stopAndDestroyInstances_def h0_def d_def)
  then have "h_now (stopLoop d ?xs h0) \<le> h_now (host_stop budget h)"
    using stuck_shutdown [OF l(2)] by simp
  with l(1) show ?thesis
    by (rule order.trans)
qed

theorem stuck_stop_exceeds_budget_witness:
  "100 \<le> h_now (host_stop 0 sampleRunning)"
  using stuck_stop_exceeds_budget [OF core_sampleRunning, of 0]
  by (simp add: sampleRunning_def sampleHost_def newHost_def rawHost_def)

end
