(* ===== verification/Host_Commands.thy ===== *)
theory Host_Commands
  imports Host_Teardown
begin

text \<open>
  What becomes of a command inside the host: routing to the worker of its instance or to an error
  answer, results on their way back to the peer, the fan-out to all instances, and the instance map
  as a store.
\<close>

section \<open>Result frames\<close>

definition cmdResultFrame :: "cmd_response \<Rightarrow> i64 \<Rightarrow> outbound_frame" where
  "cmdResultFrame r ts = responseFrame (cr_id r) (envelopeWithCmdId ResultCmd (cr_id r) (cmdResultFields r ts))"

definition actionResultFrame :: "action_response \<Rightarrow> i64 \<Rightarrow> outbound_frame" where
  "actionResultFrame r ts = responseFrame (ar_id r) (envelopeWithCmdId ResultAction (ar_id r) (actionResultFields r ts))"

lemma response_not_sheddable: "\<not> sheddable (responseFrame i j)"
  by (simp add: sheddable_def responseFrame_def emptyFrame_def wire_defs)

lemma sendCmdResult_queue:
  assumes "stampMs (cr_tsMs r) d = (ts, d1)"
  shows "sendCmdResult r d = queueOutboundFrame (cmdResultFrame r ts) d1"
  using assms by (simp add: sendCmdResult_def sendJson_def cmdResultFrame_def responseFrame_def)

lemma sendActionResult_queue:
  assumes "stampMs (ar_tsMs r) d = (ts, d1)"
  shows "sendActionResult r d = queueOutboundFrame (actionResultFrame r ts) d1"
  using assms by (simp add: sendActionResult_def sendJson_def actionResultFrame_def responseFrame_def)

lemma length_status: "length (enumText (cmdStatusValue s)) \<le> 3"
  by (induction s) code_simp+

text \<open>A response of moderate size with an error text and a final value is admissible.\<close>

lemma result_size:
  assumes "cr_errorContext r = []" "cr_errorParams r = []" "length (scalarJson (cr_finalValue r)) \<le> 100000"
    and "length (cr_error r) \<le> 10000"
  shows "admissible (cmdResultFrame r ts)"
proof -
  have q: "length (jsonQuoted ''status'') = 8" "length (jsonQuoted ''error'') = 7" "length (jsonQuoted ''errorCtx'') = 10"
    "length (jsonQuoted ''errorParams'') = 13" "length (jsonQuoted ''finalValue'') = 12" "length (jsonQuoted ''tsMs'') = 6"
    "length (jsonQuoted []) = 2"
    by (simp_all add: jsonQuoted_def escapeChar_def)
  have "length (scalarListJson []) = 2"
    by (simp_all add: scalarListJson_def jsonArray_Nil scalarJson_def)
  then have "length (jsonObject (cmdResultFields r ts)) \<le> 161000"
    using length_fields [of "cmdResultFields r ts"] q length_jsonQuoted [of "cr_error r"] assms length_status [of "cr_status r"]
      length_toStringS64 [of ts]
    by (simp add: cmdResultFields_def)
  then have "length (envelopeWithCmdId ResultCmd (cr_id r) (cmdResultFields r ts)) \<le> 161200"
    using envelope_size [of ResultCmd "cr_id r" "cmdResultFields r ts"] by linarith
  moreover have "envelopeWithCmdId ResultCmd (cr_id r) (cmdResultFields r ts) \<noteq> []"
    by (simp add: envelopeWithCmdId_def closeEnvelope_cmd_fields)
  ultimately show ?thesis
    by (simp add: admissible_def cmdResultFrame_def responseFrame_def kMaxPayloadSize_def)
qed

lemma plain_result_size:
  assumes "cr_errorContext r = []" "cr_errorParams r = []" "cr_finalValue r = ScalarNull"
    and "length (cr_error r) \<le> 10000"
  shows "admissible (cmdResultFrame r ts)"
  using assms by (intro result_size) (simp_all add: scalarJson_def)

lemma conforming_cmdResultFrame: "conforming (cmdResultFrame r ts)"
  unfolding cmdResultFrame_def by (rule conforming_response)

lemma sendCmdResult_room:
  assumes "d_started d" and "length (d_sendQueue d) < kHostQueueMaxDepth" and "\<And>ts. admissible (cmdResultFrame r ts)"
  shows "\<exists>ts. d_sendQueue (snd (sendCmdResult r d)) = d_sendQueue d @ [cmdResultFrame r ts]
    \<and> (0 < sint (cr_tsMs r) \<longrightarrow> ts = cr_tsMs r)"
proof -
  obtain ts d1 where st: "stampMs (cr_tsMs r) d = (ts, d1)"
    by fastforce
  then have "d_started d1" "d_sendQueue d1 = d_sendQueue d" "0 < sint (cr_tsMs r) \<longrightarrow> ts = cr_tsMs r"
    using assms(1) stampMs_started by (auto simp: stampMs_def)
  then show ?thesis
    using queue_room(2) [of d1 "cmdResultFrame r ts"] assms sendCmdResult_queue [OF st] by auto
qed

section \<open>Routing a command\<close>

lemma only_instances: "only_dispatcher h h' \<Longrightarrow> h_instances h' = h_instances h \<and> h_resultQueue h' = h_resultQueue h
    \<and> h_objects h' = h_objects h \<and> h_instanceHooks h' = h_instanceHooks h"
proof -
  assume "only_dispatcher h h'"
  then have "dispatcher.more h' = dispatcher.more h"
    by (simp add: only_dispatcher_def)
  then show ?thesis
    by (cases h; cases h'; simp)
qed

lemma dispatchCmd_refused:
  assumes "d_started h" and "length (d_sendQueue h) < kHostQueueMaxDepth"
    and "length x + length missing + length failed \<le> 9000" and "findRuntime x h = None \<or> x = []"
  shows "\<exists>r ts. cr_id r = i \<and> cr_status r = CmdStatus_InvalidArgument
      \<and> d_sendQueue (dispatchCmd x i missing failed c h) = d_sendQueue h @ [cmdResultFrame r ts]
      \<and> dispatcher.more (dispatchCmd x i missing failed c h) = dispatcher.more h"
proof -
  obtain t h1 where n: "nowMs h = (t, h1)"
    by fastforce
  have h1: "d_started h1" "d_sendQueue h1 = d_sendQueue h" "dispatcher.more h1 = dispatcher.more h"
    using nowMs_started [OF n] assms(1) only_nowMs [of h] n by (auto simp: only_dispatcher_def)
  have f: "findRuntime x h1 = findRuntime x h"
    using h1(3) by (cases h; cases h1; simp add: findRuntime_def)
  define msg where "msg = (if x = [] then missing else failed @ ''Unknown instance externalId: '' @ x)"
  let ?r = "invalidCmd i t msg"
  have d: "dispatchCmd x i missing failed c h = snd (sendCmdResult ?r h1)"
    using assms(4) n f by (auto simp: dispatchCmd_def msg_def executeOnRuntime_def)
  have "length msg \<le> 10000"
    using assms(3) by (simp add: msg_def)
  then have "admissible (cmdResultFrame ?r ts)" for ts
    by (intro plain_result_size) (simp_all add: invalidCmd_def emptyCmdResponse_def)
  then obtain ts where "d_sendQueue (snd (sendCmdResult ?r h1)) = d_sendQueue h @ [cmdResultFrame ?r ts]"
    using sendCmdResult_room [of h1 ?r] h1(1,2) assms(2) by auto
  moreover have "dispatcher.more (snd (sendCmdResult ?r h1)) = dispatcher.more h"
    using only_senders(1) [of h1 ?r] h1(3) by (simp add: only_dispatcher_def)
  ultimately show ?thesis
    unfolding d by (intro exI [of _ ?r] exI [of _ ts]) (simp add: invalidCmd_def)
qed

definition pendingOf :: "external_id \<Rightarrow> host \<Rightarrow> host_task list" where
  "pendingOf x h = (case findRuntime x h of None \<Rightarrow> [] | Some rt \<Rightarrow> backend_pending (rt_execution rt))"

lemma executeOnRuntime_known:
  assumes "findRuntime x h = Some rt" and "ready (rt_execution rt)"
  shows "fst (executeOnRuntime x (Some t) h) = None"
    and "snd (executeOnRuntime x (Some t) h) = setExecution x (snd (backend_execute (Some t) (rt_execution rt))) h"
    and "pendingOf y (snd (executeOnRuntime x (Some t) h)) = pendingOf y h @ (if y = x then [t] else [])"
proof -
  have b: "backend_accepting (rt_execution rt)"
    using assms(2) by (simp add: ready_def backend_accepting_def)
  show "fst (executeOnRuntime x (Some t) h) = None"
    and s: "snd (executeOnRuntime x (Some t) h) = setExecution x (snd (backend_execute (Some t) (rt_execution rt))) h"
    using assms(1) backend.exec_accepts [OF b, of t] by (simp_all add: executeOnRuntime_def case_prod_beta)
  show "pendingOf y (snd (executeOnRuntime x (Some t) h)) = pendingOf y h @ (if y = x then [t] else [])"
    using assms(1) backend.exec_accepts [OF b, of t]
    by (simp add: s pendingOf_def findRuntime_setExecution)
qed

lemma setExecution_outside [simp]:
  "d_sendQueue (setExecution x b h) = d_sendQueue h" "h_resultQueue (setExecution x b h) = h_resultQueue h"
  "d_started (setExecution x b h) = d_started h" "roster (setExecution x b h) = roster h"
  "h_instanceHooks (setExecution x b h) = h_instanceHooks h"
  using roster_outline [OF outline_setExecution [of x b h]]
  by (simp_all add: setExecution_def split: option.split)

lemma core_ready: "core h \<Longrightarrow> findRuntime x h = Some rt \<Longrightarrow> ready (rt_execution rt) \<and> x \<noteq> []"
  using core_runtime [of h x rt] by (simp add: runtime_ok_def)

text \<open>A command for a known instance becomes one task of that instance.\<close>

lemma dispatchCmd_known:
  assumes "core h" and "findRuntime x h = Some rt" and "nowMs h = (t, h1)"
  shows "dispatchCmd x i missing failed c h
    = snd (executeOnRuntime x (Some (TaskCall (Some (rt_instance rt)) c)) h1)"
    and "findRuntime x h1 = Some rt" and "ready (rt_execution rt)"
proof -
  have "h_instances h1 = h_instances h"
    using only_instances [OF only_nowMs [of h]] assms(3) by simp
  then show f: "findRuntime x h1 = Some rt"
    using assms(2) by (simp add: findRuntime_def)
  show r: "ready (rt_execution rt)"
    using core_ready [OF assms(1,2)] by simp
  obtain e h2 where x: "executeOnRuntime x (Some (TaskCall (Some (rt_instance rt)) c)) h1 = (e, h2)"
    by fastforce
  then have "e = None"
    using executeOnRuntime_known(1) [OF f r, of "TaskCall (Some (rt_instance rt)) c"] by simp
  then show "dispatchCmd x i missing failed c h
      = snd (executeOnRuntime x (Some (TaskCall (Some (rt_instance rt)) c)) h1)"
    using assms(3) core_ready [OF assms(1,2)] f x by (simp add: dispatchCmd_def findInstance_def)
qed

section \<open>Results on their way back\<close>

fun resultFrame :: "deferred_result \<Rightarrow> outbound_frame" where
  "resultFrame (DeferredCmdResult r) = cmdResultFrame r (cr_tsMs r)"
| "resultFrame (DeferredActionResult r) = actionResultFrame r (ar_tsMs r)"

text \<open>A result with an id, a time stamp and an encoding that fits into a frame.\<close>

fun deliverable :: "deferred_result \<Rightarrow> bool" where
  "deliverable (DeferredCmdResult r) =
     (cr_id r \<noteq> 0 \<and> 0 < sint (cr_tsMs r) \<and> admissible (cmdResultFrame r (cr_tsMs r)))"
| "deliverable (DeferredActionResult r) =
     (ar_id r \<noteq> 0 \<and> 0 < sint (ar_tsMs r) \<and> admissible (actionResultFrame r (ar_tsMs r)))"

lemma queue_response:
  assumes "d_started d" and "admissible (responseFrame i j)"
  shows "fst (queueOutboundFrame (responseFrame i j) d) = None"
    and "d_sendQueue (snd (queueOutboundFrame (responseFrame i j) d)) = enqueueFrame (responseFrame i j) (d_sendQueue d)"
proof -
  have "\<not> fst (admitFrame (responseFrame i j) (d_sendQueue d))"
    by (simp add: admitFrame_def responseFrame_def emptyFrame_def wire_defs split: option.split)
  then show "fst (queueOutboundFrame (responseFrame i j) d) = None"
    using queue_admits(2) [OF assms, of False] by (metis prod.collapse)
  show "d_sendQueue (snd (queueOutboundFrame (responseFrame i j) d)) = enqueueFrame (responseFrame i j) (d_sendQueue d)"
    using queue_enqueues [OF assms] .
qed

lemma sendCmdResult_accepted:
  assumes "d_started d" and "\<And>ts. admissible (cmdResultFrame r ts)"
  shows "fst (sendCmdResult r d) = None"
proof -
  obtain ts d1 where st: "stampMs (cr_tsMs r) d = (ts, d1)"
    by fastforce
  then show ?thesis
    using queue_response(1) [of d1] stampMs_started [OF st] assms sendCmdResult_queue [OF st]
    by (simp add: cmdResultFrame_def)
qed

lemma drainResult_sends:
  assumes "d_started h" and "deliverable r"
  shows "drainResult r h = snd (queueOutboundFrame (resultFrame r) h)"
proof -
  obtain i j where f: "resultFrame r = responseFrame i j"
    by (cases r) (simp_all add: cmdResultFrame_def actionResultFrame_def)
  have "admissible (resultFrame r)"
    using assms(2) by (cases r) simp_all
  then obtain h1 where q: "queueOutboundFrame (resultFrame r) h = (None, h1)"
    using queue_response(1) [OF assms(1), of i j] f by (cases "queueOutboundFrame (resultFrame r) h") simp
  show ?thesis
  proof (cases r)
    case (DeferredCmdResult c)
    then show ?thesis
      using assms(2) q sendCmdResult_queue [of c h "cr_tsMs c" h]
      by (simp add: drainResult_def reportIf_def stampMs_def)
  next
    case (DeferredActionResult c)
    then show ?thesis
      using assms(2) q sendActionResult_queue [of c h "ar_tsMs c" h]
      by (simp add: drainResult_def reportIf_def stampMs_def)
  qed
qed

lemma drain_sends:
  assumes "d_started h" and "list_all deliverable rs"
  shows "d_sendQueue (fold drainResult rs h) = fold enqueueFrame (map resultFrame rs) (d_sendQueue h)
    \<and> dispatcher.more (fold drainResult rs h) = dispatcher.more h"
  using assms
proof (induction rs arbitrary: h)
  case (Cons r rs)
  obtain i j where f: "resultFrame r = responseFrame i j"
    by (cases r) (simp_all add: cmdResultFrame_def actionResultFrame_def)
  have "admissible (resultFrame r)"
    using Cons.prems(2) by (cases r) simp_all
  then have "d_sendQueue (drainResult r h) = enqueueFrame (resultFrame r) (d_sendQueue h)"
    and "d_started (drainResult r h)" and "dispatcher.more (drainResult r h) = dispatcher.more h"
    using drainResult_sends [OF Cons.prems(1)] Cons.prems queue_response(2) [of h i j] f
    by (simp_all add: queue_started)
  then show ?case
    using Cons.IH [of "drainResult r h"] Cons.prems by simp
qed simp

text \<open>The inherited hook of a channel command hands in one result.\<close>

lemma hook_submits:
  assumes "h_objects k a = Some ob" and "in_cmdResultSubmitter ob" and "h_instanceHooks k = []" and "ci_cmdId q \<noteq> 0"
  shows "\<exists>r. cr_id r = ci_cmdId q \<and> cr_status r = CmdStatus_NotImplemented \<and> length (cr_error r) \<le> 10000
    \<and> cr_errorContext r = [] \<and> cr_errorParams r = [] \<and> cr_finalValue r = ScalarNull
    \<and> h_resultQueue (snd (hostOnInstance a (InstanceChannelInvoke q) k)) = h_resultQueue k @ [DeferredCmdResult r]
    \<and> d_sendQueue (snd (hostOnInstance a (InstanceChannelInvoke q) k)) = d_sendQueue k
    \<and> d_started (snd (hostOnInstance a (InstanceChannelInvoke q) k)) = d_started k"
proof -
  obtain t k1 where n: "nowMs k = (t, k1)"
    by fastforce
  let ?r = "emptyCmdResponse\<lparr>cr_id := ci_cmdId q, cr_status := CmdStatus_NotImplemented,
    cr_error := ''Channel invoke handler not implemented'', cr_tsMs := t\<rparr>"
  obtain ts k2 where st: "stampMs t k1 = (ts, k2)"
    by fastforce
  have k1: "h_objects k1 = h_objects k" "h_resultQueue k1 = h_resultQueue k"
    using only_instances [OF only_nowMs [of k]] n by simp_all
  have k2: "h_resultQueue k2 = h_resultQueue k"
    using only_instances [OF only_stampMs [of k1 t]] st k1 by simp
  have "snd (hostOnInstance a (InstanceChannelInvoke q) k) = queueDeferredResult (DeferredCmdResult (?r\<lparr>cr_tsMs := ts\<rparr>)) k2"
    using assms n st k1 by (simp add: callInstance_def takeInstanceHook_def instance_defaultCmd_def defaultCmdResponse_def
        instanceOperation_def instance_sendCmdResult_def submitCmdResult_def normalizeCmdResponse_def reportFailedAnswer_def)
  then show ?thesis
    using nowMs_started [OF n] stampMs_started [OF st] k2
    by (intro exI [of _ "?r\<lparr>cr_tsMs := ts\<rparr>"]) (simp add: queueDeferredResult_def frame_rules,
      simp add: server_wakeup_def emptyCmdResponse_def)
qed

text \<open>An instance whose worker waits and has nothing to do runs the next task in two steps.\<close>

lemma idle_runs:
  assumes "findRuntime x h = Some rt" and "ready (rt_execution rt)" and "x_worker (b_cell (rt_execution rt)) = Some AtLoop"
    and "x_tasks (b_cell (rt_execution rt)) = []"
  shows "\<exists>b. stepInstance x (stepInstance x (snd (executeOnRuntime x (Some t) h))) = runTask t (setExecution x b h)"
proof -
  let ?b0 = "snd (backend_execute (Some t) (rt_execution rt))"
  have c0: "x_tasks (b_cell ?b0) = [t]" "x_worker (b_cell ?b0) = Some AtLoop"
    using assms(2-4) by (simp_all add: backend_execute_def ready_def Let_def)
  define b1 where "b1 = ?b0\<lparr>b_cell := (b_cell ?b0)\<lparr>x_tasks := [], x_worker := Some (InTask t), x_ran := x_ran (b_cell ?b0) @ [t]\<rparr>\<rparr>"
  define b2 where "b2 = b1\<lparr>b_cell := (b_cell b1)\<lparr>x_worker := Some AtLoop\<rparr>\<rparr>"
  have f: "findRuntime x (setExecution x b k) = Some (rt\<lparr>rt_execution := b\<rparr>)" if "findRuntime x k = Some (rt\<lparr>rt_execution := b'\<rparr>)" for b b' k
    using that by (simp add: findRuntime_setExecution)
  have u: "setExecution x b (setExecution x b' k) = setExecution x b k" for b b' k
    by (simp add: setExecution_def findRuntime_def update_conv' split: option.split)
  have f0: "findRuntime x h = Some (rt\<lparr>rt_execution := rt_execution rt\<rparr>)"
    using assms(1) by simp
  have "stepInstance x (setExecution x ?b0 h) = setExecution x b1 h"
    using f [OF f0, of ?b0] c0 by (simp add: stepInstance_def worker_step_def finishTask_def u b1_def)
  moreover have "stepInstance x (setExecution x b1 h) = runTask t (setExecution x b2 h)"
    using f [OF f0, of b1] by (simp add: stepInstance_def worker_step_def finishTask_def u b1_def b2_def)
  ultimately show ?thesis
    using executeOnRuntime_known(2) [OF assms(1,2), of t] by auto
qed

text \<open>
  A channel command from frame to frame: the instance is idle, and its hook hands in one result, of
  which \<^verbatim>\<open>P\<close> says what is known.
\<close>

lemma channel_command_served:
  assumes "core h" and "d_started h" and "length (d_sendQueue h) < kHostQueueMaxDepth"
    and "findRuntime x h = Some rt" and "x_worker (b_cell (rt_execution rt)) = Some AtLoop"
    and "x_tasks (b_cell (rt_execution rt)) = []" and "h_objects h (rt_instance rt) = Some ob"
    and "h_resultQueue h = []" and "hdr_type header = MsgRequest" and "\<forall>u. v \<noteq> ScalarDouble u"
    and q: "q = channelInvokeRequest i (membersOf [] (channelInvokeFields x dv ch v))"
    and hook: "\<And>k. h_objects k (rt_instance rt) = Some ob \<Longrightarrow> h_instanceHooks k = h_instanceHooks h \<Longrightarrow>
      \<exists>r. P r \<and> h_resultQueue (snd (hostOnInstance (rt_instance rt) (InstanceChannelInvoke q) k))
            = h_resultQueue k @ [DeferredCmdResult r]
          \<and> d_sendQueue (snd (hostOnInstance (rt_instance rt) (InstanceChannelInvoke q) k)) = d_sendQueue k
          \<and> d_started (snd (hostOnInstance (rt_instance rt) (InstanceChannelInvoke q) k)) = d_started k"
    and P: "\<And>r. P r \<Longrightarrow> cr_id r \<noteq> 0 \<and> (\<forall>ts. admissible (cmdResultFrame r ts))"
  shows "\<exists>r ts. P r \<and> d_sendQueue (drainDeferredResults (stepInstance x (stepInstance x
          (snd (handleRequestFrame hostHandlers header
            (request_bytes CmdChannelInvoke i (channelInvokeFields x dv ch v)) h)))))
        = d_sendQueue h @ [cmdResultFrame r ts] \<and> (0 < sint (cr_tsMs r) \<longrightarrow> ts = cr_tsMs r)"
proof -
  let ?t = "TaskCall (Some (rt_instance rt)) (InstanceChannelInvoke q)"
  have x: "ci_externalId q = x" "ci_cmdId q = i"
    using channelInvokeRequest_fields [OF assms(10)] q by simp_all
  obtain t h1 where n: "nowMs h = (t, h1)"
    by fastforce
  note known = dispatchCmd_known [OF assms(1,4) n]
  have "snd (handleRequestFrame hostHandlers header (request_bytes CmdChannelInvoke i (channelInvokeFields x dv ch v)) h)
      = host_onChannelInvoke q h"
    using channel_invoke_frame [OF _ assms(9), of hostHandlers] q by (simp add: hostHandlers_def)
  then have e: "snd (handleRequestFrame hostHandlers header
      (request_bytes CmdChannelInvoke i (channelInvokeFields x dv ch v)) h) = snd (executeOnRuntime x (Some ?t) h1)"
    using known(1) by (simp add: host_onChannelInvoke_def x)
  obtain b where b: "stepInstance x (stepInstance x (snd (executeOnRuntime x (Some ?t) h1)))
      = runTask ?t (setExecution x b h1)"
    using idle_runs [OF known(2,3) assms(5,6), of ?t] by blast
  let ?k = "setExecution x b h1"
  have k: "h_objects ?k (rt_instance rt) = Some ob" "h_instanceHooks ?k = h_instanceHooks h"
    "d_sendQueue ?k = d_sendQueue h" "d_started ?k" "h_resultQueue ?k = []"
    using nowMs_started [OF n] only_instances [OF only_nowMs [of h]] n assms(2,7,8) by simp_all
  obtain r where r: "P r" and s: "h_resultQueue (runTask ?t ?k) = [DeferredCmdResult r]"
      "d_sendQueue (runTask ?t ?k) = d_sendQueue h" "d_started (runTask ?t ?k)"
    using hook [OF k(1,2)] k(3-5) by auto
  have a: "cr_id r \<noteq> 0" "\<And>ts. admissible (cmdResultFrame r ts)"
    using P [OF r] by simp_all
  let ?k1 = "(runTask ?t ?k)\<lparr>h_resultQueue := []\<rparr>"
  have k1: "d_started ?k1" "length (d_sendQueue ?k1) < kHostQueueMaxDepth"
    using s assms(3) by simp_all
  then obtain ts where ts: "d_sendQueue (snd (sendCmdResult r ?k1)) = d_sendQueue h @ [cmdResultFrame r ts]"
      "0 < sint (cr_tsMs r) \<longrightarrow> ts = cr_tsMs r"
    using sendCmdResult_room [of ?k1 r] a(2) s(2) by auto
  have "drainDeferredResults (runTask ?t ?k) = snd (sendCmdResult r ?k1)"
    using s(1) a sendCmdResult_accepted [OF k1(1) a(2)] by (cases "sendCmdResult r ?k1")
      (simp add: drainDeferredResults_def drainResult_def reportIf_def del: runTask.simps)
  then show ?thesis
    using r ts unfolding e b by auto
qed

section \<open>The fan-out\<close>

lemma findRuntime_mild: "mild A h h' \<Longrightarrow> findRuntime x h' = findRuntime x h"
  by (rule mild_view)

lemma fan_out:
  assumes "distinct (map fst es)" and "\<forall>(x, rt) \<in> set es. \<exists>rt'. findRuntime x h = Some rt' \<and> ready (rt_execution rt')"
  shows "pendingOf y (executeOnRuntimes c es h) = pendingOf y h
      @ map (\<lambda>rt. TaskCall (Some (rt_instance rt)) c) (case map_of es y of None \<Rightarrow> [] | Some rt \<Rightarrow> [rt])
    \<and> d_sendQueue (executeOnRuntimes c es h) = d_sendQueue h \<and> roster (executeOnRuntimes c es h) = roster h"
  using assms
proof (induction es arbitrary: h)
  case (Cons e es)
  obtain x rt where e: "e = (x, rt)"
    by (cases e)
  then obtain rt' where f: "findRuntime x h = Some rt'" "ready (rt_execution rt')"
    using Cons.prems(2) by auto
  let ?t = "TaskCall (Some (rt_instance rt)) c"
  obtain h1 where x: "executeOnRuntime x (Some ?t) h = (None, h1)"
    using executeOnRuntime_known(1) [OF f, of ?t] by (cases "executeOnRuntime x (Some ?t) h") simp
  have h1: "h1 = setExecution x (snd (backend_execute (Some ?t) (rt_execution rt'))) h"
    using executeOnRuntime_known(2) [OF f, of ?t] x by simp
  have p: "pendingOf y h1 = pendingOf y h @ (if y = x then [?t] else [])"
    using executeOnRuntime_known(3) [OF f, of y ?t] x by simp
  have v: "findRuntime z h1 = findRuntime z h" if "z \<noteq> x" for z
    using that h1 by (simp add: findRuntime_setExecution)
  have "\<exists>rt'. findRuntime z h1 = Some rt' \<and> ready (rt_execution rt')" if "(z, r) \<in> set es" for z r
  proof -
    have "z \<noteq> x"
      using Cons.prems(1) e that by force
    then show ?thesis
      using v [of z] bspec [OF Cons.prems(2), of "(z, r)"] that by simp
  qed
  then have "\<forall>(z, r) \<in> set es. \<exists>rt'. findRuntime z h1 = Some rt' \<and> ready (rt_execution rt')"
    by blast
  then have "pendingOf y (executeOnRuntimes c es h1) = pendingOf y h1
      @ map (\<lambda>rt. TaskCall (Some (rt_instance rt)) c) (case map_of es y of None \<Rightarrow> [] | Some rt \<Rightarrow> [rt])
    \<and> d_sendQueue (executeOnRuntimes c es h1) = d_sendQueue h1 \<and> roster (executeOnRuntimes c es h1) = roster h1"
    using Cons.IH [of h1] Cons.prems(1) by simp
  moreover have "map_of es x = None"
    using Cons.prems(1) e by (simp add: map_of_eq_None_iff)
  ultimately show ?case
    using e x p h1 by (simp add: reportIf_def)
qed simp

section \<open>The instance map\<close>

lemma roster_append: "roster (h\<lparr>h_instances := h_instances h @ [(x, rt)]\<rparr>) = roster h @ [(x, rt_instance rt)]"
  by (simp add: roster_def)

lemma roster_destroy: "roster (destroyInstance a h) = roster h" "length (roster h) = length (h_instances h)"
  by (simp_all add: roster_def destroyInstance_def)

lemma roster_rollback:
  "roster (rollbackInstance what a b h) = roster h" "h_objects (rollbackInstance what a b h) a = None"
proof -
  obtain e h1 where s: "stopBackend kExecutionBackendStopTimeout b h = (e, h1)"
    by fastforce
  then have "roster h1 = roster h"
    using roster_outline [OF outline_stopBackend] by (metis snd_conv)
  moreover have "roster (h1\<lparr>h_startAbandoned := True\<rparr>) = roster h1"
    by (simp add: roster_def)
  ultimately show "roster (rollbackInstance what a b h) = roster h"
    using s by (simp add: rollbackInstance_def roster_destroy roster_report split: option.split)
  show "h_objects (rollbackInstance what a b h) a = None"
    using s by (simp add: rollbackInstance_def destroyInstance_def split: option.split)
qed

lemma roster_startInstanceRuntime:
  assumes "startInstanceRuntime x a b h = (e, h')"
  shows "if e = None then roster h' = roster h @ [(x, a)] else roster h' = roster h \<and> h_objects h' a = None"
proof -
  obtain e1 b1 where x: "backend_execute (Some (TaskStart a)) b = (e1, b1)"
    by fastforce
  obtain b2 h1 where w: "hostWait kInstanceStartTimeout b1 h = (b2, h1)"
    by fastforce
  then have "roster h1 = roster h"
    using roster_outline [OF outline_hostWait] by (metis snd_conv)
  then show ?thesis
    using assms x w
    by (auto simp: startInstanceRuntime_def roster_rollback roster_append split: option.splits bool.splits)
qed

lemma roster_createInstanceRuntime:
  assumes "createInstanceRuntime q h = (e, h')" and "ad_externalId (cc_adapter q) = x"
  shows "if e = None then findInstance x h' \<noteq> None \<and> (roster h' = roster h
        \<or> roster h' = roster h @ [(x, h_nextObject h)] \<and> findInstance x h = None \<and> x \<noteq> []
          \<and> (\<exists>f. h_factory h = Some f \<and> (sint (ds_maxInstances (factory_descriptor (af_getters f))) \<le> 0
              \<or> int (length (h_instances h')) \<le> sint (ds_maxInstances (factory_descriptor (af_getters f))))))
      else roster h' = roster h \<and> (h_objects h' (h_nextObject h) = None \<or> h_nextObject h' = h_nextObject h)"
proof (cases "h_factory h")
  case None
  then show ?thesis
    using assms by (auto simp: createInstanceRuntime_def)
next
  case (Some f)
  let ?m = "sint (ds_maxInstances (factory_descriptor (af_getters f)))"
  obtain cn h1 where t: "takeCreation h = (cn, h1)"
    by fastforce
  have h1: "roster h1 = roster h" "h_nextObject h1 = h_nextObject h"
    using t by (auto simp: takeCreation_def roster_def split: list.splits)
  obtain a h2 where n: "newObject h1 = (a, h2)"
    by fastforce
  have h2: "roster h2 = roster h" "a = h_nextObject h"
    using n h1 by (auto simp: newObject_def roster_def)
  obtain thrown h3 where th: "takeThread h2 = (thrown, h3)"
    by fastforce
  have h3: "roster h3 = roster h"
    using th h2 by (auto simp: takeThread_def roster_def split: list.splits)
  consider (early) "x = [] \<or> findRuntime x h \<noteq> None \<or> (0 < ?m \<and> ?m \<le> int (length (h_instances h)))"
    | (go) "x \<noteq> []" "findRuntime x h = None" "\<not> (0 < ?m \<and> ?m \<le> int (length (h_instances h)))"
    by blast
  then show ?thesis
  proof cases
    case early
    then show ?thesis
      using assms Some by (auto simp: createInstanceRuntime_def Let_def findInstance_def split: if_splits)
  next
    case go
    have u: "roster (updateInstance a g h3) = roster h" for g
      using h3 by (simp add: updateInstance_def roster_def split: option.split)
    have c: "createInstanceRuntime q h =
       (if \<not> cn_instance cn then (Some ''Factory createInstance returned null'', h1)
        else if \<not> cn_execution cn
          then (Some ''Factory createInstanceExecutionBackend returned null'', destroyInstance a h2)
        else (case backend_start thrown newBackend of
            (Some e, b) \<Rightarrow> (Some (''Failed to start instance execution backend: '' @ e), destroyInstance a h3)
          | (None, b) \<Rightarrow> startInstanceRuntime x a b (updateInstance a (bindInstance q) h3)))"
    proof -
      have m: "(0 < ?m \<and> ?m \<le> int (length (h_instances h))) = False"
        using go(3) by blast
      show ?thesis
        unfolding createInstanceRuntime_def Let_def assms(2) Some option.case m using go(1,2) t n th by simp
    qed
    obtain e1 and b :: "host_task backend" where b: "backend_start thrown newBackend = (e1, b)"
      by fastforce
    show ?thesis
    proof (cases "cn_instance cn \<and> cn_execution cn \<and> e1 = None")
      case True
      then have s: "startInstanceRuntime x a b (updateInstance a (bindInstance q) h3) = (e, h')"
        using c b assms(1) by simp
      show ?thesis
      proof (cases e)
        case None
        then have r: "roster h' = roster h @ [(x, a)]"
          using roster_startInstanceRuntime [OF s] u by simp
        then have "length (h_instances h') = Suc (length (h_instances h))"
          by (metis length_append_singleton roster_destroy(2))
        moreover have "findInstance x h' \<noteq> None" "findInstance x h = None"
          using r go(2) by (simp_all add: findInstance_roster) (simp_all add: findInstance_def flip: findInstance_roster)
        ultimately show ?thesis
          using None r Some go(1,3) h2(2) by auto
      next
        case (Some m)
        then show ?thesis
          using roster_startInstanceRuntime [OF s] u h2(2) by simp
      qed
    next
      case False
      then show ?thesis
        using c b assms(1) h1 h2 h3 by (auto simp: roster_destroy destroyInstance_def roster_def split: if_splits)
    qed
  qed
qed

section \<open>Properties\<close>

text \<open>
  C13: where a command goes (the handlers of the six instance commands are defined as
  \<^const>\<open>dispatchCmd\<close> with their own texts). A command that names no instance or an unknown one is answered at once with one
  conforming InvalidArgument result that carries its id, and nothing else of the host changes; a
  command for a registered instance becomes the last task of that instance, no other instance gets a
  task, and nothing is sent.
\<close>

theorem commands_routed:
  assumes "core h" and "d_started h" and "length (d_sendQueue h) < kHostQueueMaxDepth"
    and "length x + length missing + length failed \<le> 9000"
  shows "case findInstance x h of
      None \<Rightarrow> \<exists>r ts. cr_id r = i \<and> cr_status r = CmdStatus_InvalidArgument \<and> conforming (cmdResultFrame r ts)
        \<and> d_sendQueue (dispatchCmd x i missing failed c h) = d_sendQueue h @ [cmdResultFrame r ts]
        \<and> dispatcher.more (dispatchCmd x i missing failed c h) = dispatcher.more h
    | Some a \<Rightarrow> d_sendQueue (dispatchCmd x i missing failed c h) = d_sendQueue h
        \<and> h_resultQueue (dispatchCmd x i missing failed c h) = h_resultQueue h
        \<and> roster (dispatchCmd x i missing failed c h) = roster h
        \<and> (\<forall>y. pendingOf y (dispatchCmd x i missing failed c h)
              = pendingOf y h @ (if y = x then [TaskCall (Some a) c] else []))"
proof (cases "findRuntime x h")
  case None
  then show ?thesis
    using dispatchCmd_refused [OF assms(2-4), of i c] conforming_cmdResultFrame by (simp add: findInstance_def)
next
  case (Some rt)
  obtain t h1 where n: "nowMs h = (t, h1)"
    by fastforce
  have h1: "d_sendQueue h1 = d_sendQueue h" "h_resultQueue h1 = h_resultQueue h" "h_instances h1 = h_instances h"
    using nowMs_started [OF n] only_instances [OF only_nowMs [of h]] n by simp_all
  then have "pendingOf y h1 = pendingOf y h" "roster h1 = roster h" for y
    by (simp_all add: pendingOf_def findRuntime_def roster_def)
  then show ?thesis
    using dispatchCmd_known(1) [OF assms(1) Some n, of i missing failed c] Some h1
      executeOnRuntime_known [OF dispatchCmd_known(2,3) [OF assms(1) Some n]]
    by (simp add: findInstance_def)
qed

theorem commands_routed_witness:
  "\<exists>r ts. cr_id r = 9 \<and> cr_status r = CmdStatus_InvalidArgument
    \<and> d_sendQueue (dispatchCmd ''b'' 9 ''missing'' ''failed'' InstanceConnected sampleRunning) = [cmdResultFrame r ts]"
proof -
  have "findInstance ''b'' sampleRunning = None" "d_started sampleRunning" "d_sendQueue sampleRunning = []"
    by (simp_all add: findInstance_def findRuntime_def sampleRunning_def sampleHost_def newHost_def rawHost_def)
  then show ?thesis
    using commands_routed [OF core_sampleRunning, of "''b''" "''missing''" "''failed''" 9 InstanceConnected]
    by (auto simp: kHostQueueMaxDepth_def)
qed

text \<open>
  C10: a channel command that the adapter does not handle is answered, from the frame to the frame.
  The request frame is decoded and its command queued at the instance; two steps of the instance's
  worker run the inherited hook; and the next drain of the deferred results queues exactly one
  conforming NotImplemented result for the command's id.
\<close>

theorem unhandled_channel_command_end_to_end:
  assumes "core h" and "d_started h" and "length (d_sendQueue h) < kHostQueueMaxDepth" and "i \<noteq> 0"
    and "findRuntime x h = Some rt" and "x_worker (b_cell (rt_execution rt)) = Some AtLoop"
    and "x_tasks (b_cell (rt_execution rt)) = []" and "h_objects h (rt_instance rt) = Some ob"
    and "in_cmdResultSubmitter ob" and "h_instanceHooks h = []" and "h_resultQueue h = []"
    and "hdr_type header = MsgRequest" and "\<forall>u. v \<noteq> ScalarDouble u"
  shows "\<exists>r ts. cr_id r = i \<and> cr_status r = CmdStatus_NotImplemented \<and> conforming (cmdResultFrame r ts)
    \<and> d_sendQueue (drainDeferredResults (stepInstance x (stepInstance x
          (snd (handleRequestFrame hostHandlers header
            (request_bytes CmdChannelInvoke i (channelInvokeFields x dv ch v)) h)))))
        = d_sendQueue h @ [cmdResultFrame r ts]"
proof -
  define P :: "cmd_response \<Rightarrow> bool" where "P r \<longleftrightarrow> cr_id r = i \<and> cr_status r = CmdStatus_NotImplemented \<and> length (cr_error r) \<le> 10000
    \<and> cr_errorContext r = [] \<and> cr_errorParams r = [] \<and> cr_finalValue r = ScalarNull" for r
  let ?q = "channelInvokeRequest i (membersOf [] (channelInvokeFields x dv ch v))"
  have q: "ci_cmdId ?q = i"
    using channelInvokeRequest_fields [OF assms(13)] by simp
  have "\<exists>r. P r \<and> h_resultQueue (snd (hostOnInstance (rt_instance rt) (InstanceChannelInvoke ?q) k))
            = h_resultQueue k @ [DeferredCmdResult r]
          \<and> d_sendQueue (snd (hostOnInstance (rt_instance rt) (InstanceChannelInvoke ?q) k)) = d_sendQueue k
          \<and> d_started (snd (hostOnInstance (rt_instance rt) (InstanceChannelInvoke ?q) k)) = d_started k"
    if "h_objects k (rt_instance rt) = Some ob" "h_instanceHooks k = h_instanceHooks h" for k
    using hook_submits [OF that(1) assms(9), of ?q] that(2) assms(4,10) q by (auto simp: P_def)
  moreover have "cr_id r \<noteq> 0 \<and> (\<forall>ts. admissible (cmdResultFrame r ts))" if "P r" for r
    using that assms(4) by (auto simp: P_def intro: plain_result_size)
  ultimately show ?thesis
    using channel_command_served [OF assms(1,2,3,5,6,7,8,11,12,13) refl, where P = P and i = i and dv = dv and ch = ch]
      conforming_cmdResultFrame
    by (auto simp: P_def)
qed


definition sampleDeferred :: deferred_result where
  "sampleDeferred = DeferredCmdResult (emptyCmdResponse\<lparr>cr_id := 7, cr_tsMs := 5\<rparr>)"

lemma deliverable_sample: "deliverable sampleDeferred"
proof -
  have "admissible (cmdResultFrame (emptyCmdResponse\<lparr>cr_id := 7, cr_tsMs := 5\<rparr>) 5)"
    by (rule plain_result_size) (simp_all add: emptyCmdResponse_def)
  then show ?thesis
    by (simp add: sampleDeferred_def)
qed


theorem unhandled_channel_command_end_to_end_witness:
  "\<exists>r ts. cr_id r = 7 \<and> cr_status r = CmdStatus_NotImplemented \<and> conforming (cmdResultFrame r ts)
    \<and> d_sendQueue (drainDeferredResults (stepInstance ''a'' (stepInstance ''a''
          (snd (handleRequestFrame hostHandlers (default_header\<lparr>hdr_type := MsgRequest\<rparr>)
            (request_bytes CmdChannelInvoke 7 (channelInvokeFields ''a'' ''d'' ''c'' (ScalarBool True))) sampleRunning)))))
        = d_sendQueue sampleRunning @ [cmdResultFrame r ts]"
  by (rule unhandled_channel_command_end_to_end [where ob = "bindInstance sampleConfig newInstance"
        and rt = "\<lparr>rt_externalId = ''a'', rt_instance = 0, rt_execution = snd (backend_start None newBackend)\<rparr>",
        OF core_sampleRunning])
    (simp_all add: sampleRunning_def sampleHost_def newHost_def rawHost_def kHostQueueMaxDepth_def findRuntime_def
      backend_start_def newBackend_def freshCell_def bindInstance_def instance_bindContext_def
      instance_bindResultSubmitters_def)

text \<open>
  C14: creating an instance is all or nothing. A success adds exactly one instance, the one asked for,
  at the end of the map, or the map has it already; it never exceeds a positive \<^verbatim>\<open>maxInstances\<close>. A
  failure (a null instance or backend, a thread that cannot be created, a start that fails or times
  out) leaves the map as it was, and the object it made is destroyed.
\<close>

theorem create_all_or_nothing:
  "if fst (createInstanceRuntime q h) = None
   then findInstance (ad_externalId (cc_adapter q)) (snd (createInstanceRuntime q h)) \<noteq> None
     \<and> (roster (snd (createInstanceRuntime q h)) = roster h
        \<or> roster (snd (createInstanceRuntime q h)) = roster h @ [(ad_externalId (cc_adapter q), h_nextObject h)]
          \<and> findInstance (ad_externalId (cc_adapter q)) h = None \<and> ad_externalId (cc_adapter q) \<noteq> []
          \<and> (\<exists>f. h_factory h = Some f
              \<and> (sint (ds_maxInstances (factory_descriptor (af_getters f))) \<le> 0
                \<or> int (length (h_instances (snd (createInstanceRuntime q h))))
                    \<le> sint (ds_maxInstances (factory_descriptor (af_getters f))))))
   else roster (snd (createInstanceRuntime q h)) = roster h
     \<and> (h_objects (snd (createInstanceRuntime q h)) (h_nextObject h) = None
        \<or> h_nextObject (snd (createInstanceRuntime q h)) = h_nextObject h)"
  by (rule roster_createInstanceRuntime) simp_all

text \<open>
  C16: a callback for all instances reaches each of them once. Under the host's invariant every
  registered instance gets exactly one further task, for its own object, behind those it has; nothing
  is reported or sent, and the map keeps its instances.
\<close>

theorem callbacks_reach_every_instance:
  assumes "core h"
  shows "(\<forall>y. pendingOf y (executeOnAllRuntimes c h) = pendingOf y h
       @ (case findInstance y h of None \<Rightarrow> [] | Some a \<Rightarrow> [TaskCall (Some a) c]))
    \<and> d_sendQueue (executeOnAllRuntimes c h) = d_sendQueue h
    \<and> roster (executeOnAllRuntimes c h) = roster h"
proof -
  have d: "distinct (map fst (h_instances h))"
    using assms by (simp add: core_def)
  moreover have "\<forall>(x, rt) \<in> set (h_instances h). \<exists>rt'. findRuntime x h = Some rt' \<and> ready (rt_execution rt')"
  proof (rule ballI)
    fix e
    assume e: "e \<in> set (h_instances h)"
    obtain x rt where x: "e = (x, rt)"
      by (cases e)
    then have "findRuntime x h = Some rt"
      using d e by (simp add: findRuntime_def)
    then show "case e of (x, rt) \<Rightarrow> \<exists>rt'. findRuntime x h = Some rt' \<and> ready (rt_execution rt')"
      using core_ready [OF assms] x by simp
  qed
  ultimately show ?thesis
    using fan_out [of "h_instances h" h _ c]
    by (auto simp: executeOnAllRuntimes_def findInstance_def findRuntime_def split: option.split)
qed

theorem callbacks_reach_every_instance_witness:
  "pendingOf ''a'' (executeOnAllRuntimes InstanceConnected sampleRunning) = [TaskCall (Some 0) InstanceConnected]"
proof -
  have "findInstance ''a'' sampleRunning = Some 0" "pendingOf ''a'' sampleRunning = []"
    by (simp_all add: findInstance_def findRuntime_def pendingOf_def backend_pending_def sampleRunning_def
        backend_start_def newBackend_def freshCell_def)
  then show ?thesis
    using callbacks_reach_every_instance [OF core_sampleRunning, of InstanceConnected] by simp
qed

definition descriptorFrame :: "correlation_id \<Rightarrow> adapter_descriptor \<Rightarrow> outbound_frame" where
  "descriptorFrame c ds = responseFrame c (envelope ResponseFactoryDescriptor
     [(''externalId'', jsonQuoted []), (''descriptor'', descriptorToJson ds)])"


definition quickFactory :: adapter_factory where
  "quickFactory = bindFactory (newFactory ((defaultGetters ''demo'')\<lparr>fg_timeoutMs := 5\<rparr>))"

lemma event_envelope_size: "length (envelope c fs) \<le> 200 + length (jsonObject fs)"
proof -
  have q: "length (jsonQuoted ''command'') = 9" "length (jsonQuoted ''payload'') = 9"
    by (simp_all add: jsonQuoted_def escapeChar_def)
  have "length (toStringU (toUint16 c)) \<le> 5"
    by (simp add: length_toStringU16)
  then show ?thesis
    using q by (simp add: envelope_def closeEnvelope_fields jsonObject_Cons)
qed

lemma quick_descriptor_admissible:
  "admissible (descriptorFrame 5 (withPluginType ''demo'' (factory_descriptor (af_getters quickFactory))))"
proof -
  let ?ds = "withPluginType ''demo'' (factory_descriptor (af_getters quickFactory))"
  let ?fs = "[(''externalId'', jsonQuoted []), (''descriptor'', descriptorToJson ?ds)]"
  have "drop 700 (jsonObject ?fs) = []"
    by code_simp
  then have "length (envelope ResponseFactoryDescriptor ?fs) \<le> 900"
    using event_envelope_size [of ResponseFactoryDescriptor ?fs] by simp
  moreover have "envelope ResponseFactoryDescriptor ?fs \<noteq> []"
    by (simp add: envelope_def closeEnvelope_fields)
  ultimately show ?thesis
    by (simp add: admissible_def descriptorFrame_def responseFrame_def kMaxPayloadSize_def)
qed


end
