(* ===== verification/Host_Exceptions.thy ===== *)
theory Host_Exceptions
  imports Host_Commands
begin

text \<open>
  How the host learns what became of a hook: the start hook of a new instance that succeeds, that
  fails and that throws, and the worker that goes on whatever a hook does.
\<close>

section \<open>Programs and what they leave alone\<close>

text \<open>All runs of a program end in the same way.\<close>

primrec ends :: "('s, 'o, 'r) program \<Rightarrow> 'r \<Rightarrow> bool" where
  "ends (Finish r) r' \<longleftrightarrow> r = r'"
| "ends (Invoke op k) r' \<longleftrightarrow> (\<forall>e. ends (k e) r')"
| "ends (Look k) r' \<longleftrightarrow> (\<forall>s. ends (k s) r')"

lemma runProgram_ends: "ends p r \<Longrightarrow> fst (runProgram exec view p h) = r"
  by (induction p arbitrary: h) (simp_all add: case_prod_beta)

text \<open>No operation completes a start or a stop, or calls another hook.\<close>

definition completes_nothing :: "host \<Rightarrow> host \<Rightarrow> bool" where
  "completes_nothing h h' \<longleftrightarrow>
     h_started h' = h_started h \<and> h_stopDone h' = h_stopDone h \<and> h_instanceHooks h' = h_instanceHooks h"

lemma completes_nothing_trans:
  "completes_nothing h h1 \<Longrightarrow> completes_nothing h1 h2 \<Longrightarrow> completes_nothing h h2"
  by (simp add: completes_nothing_def)

lemma completes_nothing_only: "only_dispatcher h h' \<Longrightarrow> completes_nothing h h'"
proof -
  assume "only_dispatcher h h'"
  then have "dispatcher.more h' = dispatcher.more h"
    by (simp add: only_dispatcher_def)
  then show ?thesis
    by (cases h; cases h'; simp add: completes_nothing_def)
qed

lemma completes_nothing_queue: "completes_nothing h (queueDeferredResult r h)"
proof -
  have "completes_nothing h (h\<lparr>h_resultQueue := h_resultQueue h @ [r]\<rparr>)"
    by (simp add: completes_nothing_def)
  then show ?thesis
    unfolding queueDeferredResult_def by (rule completes_nothing_trans [OF _ completes_nothing_only [OF only_wakeup]])
qed

lemma completes_nothing_submit:
  "completes_nothing h (submitCmdResult r h)" "completes_nothing h (submitActionResult ar h)"
  using completes_nothing_trans [OF completes_nothing_only [OF only_default(3)] completes_nothing_queue]
    completes_nothing_trans [OF completes_nothing_only [OF only_default(4)] completes_nothing_queue]
  by (simp_all add: submitCmdResult_def submitActionResult_def case_prod_beta)

lemma completes_nothing_refl: "completes_nothing h h"
  by (simp add: completes_nothing_def)

lemma completes_nothing_operation: "completes_nothing h (snd (instance_operation i op h))"
  by (cases op)
    (simp_all add: instance_log_def instance_sendError_def instance_sendCmdResult_def instance_sendActionResult_def
      completes_nothing_refl completes_nothing_submit completes_nothing_only only_rules)

interpretation completions: operations "instanceOperation a" "instanceAt a" completes_nothing for a
proof unfold_locales
  show "completes_nothing h h" for h
    by (rule completes_nothing_refl)
  show "completes_nothing h (snd (instanceOperation a op h))" for op h
    using completes_nothing_operation by (auto simp: instanceOperation_def completes_nothing_def split: option.split)
qed (rule completes_nothing_trans)

section \<open>The start hook\<close>

lemma callInstance_hook:
  assumes "h_objects h a \<noteq> None" and "h_instanceHooks h = [Overridden p]" and "ends p res"
  shows "\<exists>h'. callInstance a inherited h = (res, h') \<and> h_objects h' a \<noteq> None
    \<and> h_instanceHooks h' = [] \<and> h_started h' = h_started h"
proof -
  let ?h = "h\<lparr>h_instanceHooks := []\<rparr>"
  have "callInstance a inherited h = runProgram (instanceOperation a) (instanceAt a) p ?h"
    using assms(1,2) by (auto simp: callInstance_def takeInstanceHook_def)
  moreover have "h_objects (snd (runProgram (instanceOperation a) (instanceAt a) p ?h)) a \<noteq> None"
    using mild_alive [OF instance_code.le_program [of a ?h p], of a] assms(1) by simp
  ultimately show ?thesis
    using runProgram_ends [OF assms(3), of "instanceOperation a" "instanceAt a" ?h] completions.le_program [of ?h a p]
    by (intro exI [of _ "snd (runProgram (instanceOperation a) (instanceAt a) p ?h)"])
      (simp add: completes_nothing_def prod_eq_iff)
qed

text \<open>What the task of a start leaves for the host to see.\<close>

lemma runTask_start:
  assumes "h_objects h a \<noteq> None" and "h_instanceHooks h = [Overridden p]" and "ends p res" and "h_started h a = None"
  shows "h_started (runTask (TaskStart a) h) a = (case res of Returns ok \<Rightarrow> Some ok | Throws \<Rightarrow> None)"
proof -
  let ?h = "updateInstance a (instance_setStop False) h"
  have u: "h_objects ?h a \<noteq> None" "h_instanceHooks ?h = [Overridden p]" "h_started ?h a = None"
    using assms by (auto simp: updateInstance_def)
  obtain h1 where c: "instance_hostStart a h = (res, h1)"
    and h1: "h_objects h1 a \<noteq> None" "h_instanceHooks h1 = []" "h_started h1 a = None"
    using callInstance_hook [OF u(1,2) assms(3), of "\<lambda>h. (Returns True, h)"] u(3)
    by (auto simp: instance_hostStart_def)
  have "\<exists>h2. instance_onProtocolError a m h1 = (Returns True, h2)" for m
    using h1(1,2) by (auto simp: instance_onProtocolError_def callInstance_def takeInstanceHook_def)
  then obtain h2 where e: "instance_onProtocolError a ''Instance start() failed'' h1 = (Returns True, h2)"
    by blast
  show ?thesis
    using c e h1(3) by (simp split: outcome.split)
qed

lemma start_by_two_steps:
  assumes "b = snd (backend_start None newBackend)"
    and "h_waits h = (t, [Own, Own]) # ws"
    and "h0 = h\<lparr>h_waits := ws, h_now := h_now h + min (int t) (max 0 timeout)\<rparr>"
  shows "fst (backend_execute (Some task) b) = None"
    and "snd (hostWait timeout (snd (backend_execute (Some task) b)) h) = runTask task h0"
  using assms by (simp_all add: backend_start_def newBackend_def freshCell_def backend_execute_def hostWait_def
      worker_step_def finishTask_def)

lemma started_runtime:
  assumes "b = snd (backend_start None newBackend)" and "h_waits h = (t, [Own, Own]) # ws"
    and "h_objects h a \<noteq> None" and "h_instanceHooks h = [Overridden p]" and "ends p res" and "h_started h a = None"
    and "findRuntime x h = None"
  shows "fst (startInstanceRuntime x a b h) =
      (case res of
         Returns True \<Rightarrow> None
       | Returns False \<Rightarrow> Some (''Instance start() failed for externalId='' @ apostrophed x)
       | Throws \<Rightarrow> Some (''Timed out waiting for instance start completion for externalId='' @ apostrophed x))"
proof -
  define h0 where "h0 = h\<lparr>h_waits := ws, h_now := h_now h + min (int t) (max 0 kInstanceStartTimeout)\<rparr>"
  obtain b1 where e: "backend_execute (Some (TaskStart a)) b = (None, b1)"
    using start_by_two_steps(1) [OF assms(1,2) h0_def, of "TaskStart a"] by (metis prod.collapse)
  obtain b2 where w: "hostWait kInstanceStartTimeout b1 h = (b2, runTask (TaskStart a) h0)"
    using start_by_two_steps(2) [OF assms(1,2) h0_def, of "TaskStart a"] e by (metis prod.collapse snd_conv)
  have h0: "h_objects h0 a \<noteq> None" "h_instanceHooks h0 = [Overridden p]" "h_started h0 a = None" "findRuntime x h0 = None"
    using assms(3,4,6,7) by (simp_all add: h0_def findRuntime_def)
  have "findRuntime x (runTask (TaskStart a) h0) = None"
    using mild_view(1) [OF mild_runTask] h0(4) by (simp del: runTask.simps)
  then show ?thesis
    using e w runTask_start [OF h0(1,2) assms(5) h0(3)]
    by (simp add: startInstanceRuntime_def del: runTask.simps split: outcome.split bool.split)
qed

section \<open>Properties\<close>

text \<open>
  C15: how the start of a new instance ends. The worker runs the start hook, whatever it calls on its
  way, while the host waits. If the hook returns true the instance is registered under the next free
  address; if it returns false the request fails and says so; if it throws, nothing completes the start,
  and the request fails as one that timed out. In both failures the map is as before and the new object
  is destroyed.
\<close>

theorem start_hook_outcomes:
  assumes "h_factory h = Some f" and "ad_externalId (cc_adapter q) = x" and "x \<noteq> []" and "findRuntime x h = None"
    and "sint (ds_maxInstances (factory_descriptor (af_getters f))) \<le> 0"
    and "h_creations h = []" and "h_threads h = []" and "h_waits h = (t, [Own, Own]) # ws"
    and "h_instanceHooks h = [Overridden p]" and "ends p res"
  shows "fst (createInstanceRuntime q h) =
      (case res of
         Returns True \<Rightarrow> None
       | Returns False \<Rightarrow> Some (''Instance start() failed for externalId='' @ apostrophed x)
       | Throws \<Rightarrow> Some (''Timed out waiting for instance start completion for externalId='' @ apostrophed x))
    \<and> roster (snd (createInstanceRuntime q h)) = roster h @ (if res = Returns True then [(x, h_nextObject h)] else [])
    \<and> (res \<noteq> Returns True \<longrightarrow> h_objects (snd (createInstanceRuntime q h)) (h_nextObject h) = None)"
proof -
  let ?a = "h_nextObject h"
  obtain b :: "host_task backend" where b: "backend_start None newBackend = (None, b)"
    by (simp add: backend_start_def newBackend_def freshCell_def Let_def)
  obtain k where n: "newObject h = (?a, k)"
    by (simp add: newObject_def)
  let ?k = "updateInstance ?a (bindInstance q) k"
  have k: "h_waits ?k = (t, [Own, Own]) # ws" "h_objects ?k ?a \<noteq> None" "h_instanceHooks ?k = [Overridden p]"
    "h_started ?k ?a = None" "findRuntime x ?k = None" "roster ?k = roster h"
    using n assms(4,8,9) by (auto simp: newObject_def updateInstance_def findRuntime_def roster_def)
  have c: "createInstanceRuntime q h = startInstanceRuntime x ?a b ?k"
    using assms(1-7) n b by (simp add: createInstanceRuntime_def takeCreation_def takeThread_def newObject_def Let_def)
  obtain e h' where s: "startInstanceRuntime x ?a b ?k = (e, h')"
    by fastforce
  then have "e = (case res of
         Returns True \<Rightarrow> None
       | Returns False \<Rightarrow> Some (''Instance start() failed for externalId='' @ apostrophed x)
       | Throws \<Rightarrow> Some (''Timed out waiting for instance start completion for externalId='' @ apostrophed x))"
    using started_runtime [of b, OF _ k(1-3) assms(10) k(4,5)] b by simp
  moreover have "if e = None then roster h' = roster h @ [(x, ?a)] else roster h' = roster h \<and> h_objects h' ?a = None"
    using roster_startInstanceRuntime [OF s] k(6) by simp
  ultimately show ?thesis
    using c s by (cases res) (auto split: bool.splits)
qed

theorem start_hook_outcomes_witness:
  "fst (createInstanceRuntime sampleConfig (sampleHost\<lparr>h_waits := [(5, [Own, Own])],
      h_instanceHooks := [Overridden (Invoke (InstanceConnectionState True) (\<lambda>_. Finish Throws))]\<rparr>))
    = Some (''Timed out waiting for instance start completion for externalId='' @ apostrophed ''a'')"
  using start_hook_outcomes [of "sampleHost\<lparr>h_waits := [(5, [Own, Own])],
      h_instanceHooks := [Overridden (Invoke (InstanceConnectionState True) (\<lambda>_. Finish Throws))]\<rparr>"
      "bindFactory (newFactory (defaultGetters ''demo''))" sampleConfig "''a''" 5 "[]"
      "Invoke (InstanceConnectionState True) (\<lambda>_. Finish Throws)" Throws]
  by (simp add: sampleHost_def rawHost_def newHost_def sampleConfig_def findRuntime_def bindFactory_def newFactory_def
      defaultGetters_def factory_descriptor_def)

text \<open>
  The worker survives every hook: one that is inside a task is at its loop after the next step, with the
  tasks it had, and the object, its registration and the other instances are where they were.
\<close>

lemma worker_goes_on:
  assumes "findRuntime x h = Some rt" and "x_worker (b_cell (rt_execution rt)) = Some (InTask t)"
  shows "\<exists>b. findRuntime x (stepInstance x h) = Some (rt\<lparr>rt_execution := b\<rparr>) \<and> x_worker (b_cell b) = Some AtLoop
    \<and> x_tasks (b_cell b) = x_tasks (b_cell (rt_execution rt)) \<and> roster (stepInstance x h) = roster h"
proof -
  let ?b = "(rt_execution rt)\<lparr>b_cell := (b_cell (rt_execution rt))\<lparr>x_worker := Some AtLoop\<rparr>\<rparr>"
  let ?h = "setExecution x ?b h"
  have s: "stepInstance x h = runTask t ?h"
    using assms by (simp add: stepInstance_def worker_step_def finishTask_def del: runTask.simps)
  have "findRuntime x (runTask t ?h) = findRuntime x ?h" "roster (runTask t ?h) = roster ?h"
    using mild_runTask [of t ?h] by (simp_all add: mild_def findRuntime_def roster_def)
  then show ?thesis
    using assms by (intro exI [of _ ?b]) (simp add: s findRuntime_setExecution del: runTask.simps)
qed

end
