(* ===== verification/Sidecar_Main.thy ===== *)
theory Sidecar_Main
  imports Host_Teardown
begin

text \<open>
  \<^verbatim>\<open>runSidecarMain\<close> of \<^verbatim>\<open>src/sidecar_main.cpp\<close>: start, the poll loop, stop and the reaping of abandoned
  workers, with \<^verbatim>\<open>AbandonedThreadRegistry::reap\<close> of \<^verbatim>\<open>src/sidecar.cpp\<close> on the host's clock.

  The surroundings are parameters: for the n-th look at the stop flag and the n-th call of
  \<^verbatim>\<open>keepRunning\<close> what they say, and for the n-th iteration what \<^verbatim>\<open>onIteration\<close> and the workers do
  between two polls. The loop need not end, so its value is optional.
\<close>

section \<open>Reaping\<close>

definition kReapPollInterval :: int where "kReapPollInterval = 10"

text \<open>\<^verbatim>\<open>sleep_for\<close>; the steps of the workers meanwhile are the next entry of the script of waits.\<close>

definition sleepFor :: "int \<Rightarrow> host \<Rightarrow> host" where
  "sleepFor ms h =
     (case h_waits h of
        [] \<Rightarrow> h\<lparr>h_now := h_now h + ms\<rparr>
      | (_, steps) # rest \<Rightarrow> snd (fold stepWorker steps (newBackend, h\<lparr>h_waits := rest, h_now := h_now h + ms\<rparr>)))"

lemma now_sleepFor: "h_now (sleepFor ms h) = h_now h + ms" "h_delays (sleepFor ms h) = h_delays h"
  by (auto simp: sleepFor_def time_steps split: list.split)

definition reapOnce :: "host \<Rightarrow> host" where
  "reapOnce h = h\<lparr>h_registry := reapFinished (h_registry h)\<rparr>"

function reapUntil :: "int \<Rightarrow> host \<Rightarrow> nat \<times> host" where
  "reapUntil deadline h =
     (let h1 = reapOnce h in
      if h_registry h1 = [] then (0, h1)
      else case steadyNow h1 of
        (now', h2) \<Rightarrow>
          if deadline \<le> now' then (length (h_registry h2), h2)
          else reapUntil deadline (sleepFor kReapPollInterval h2))"
  by pat_completeness auto
termination
  by (relation "measure (\<lambda>(deadline, h). nat (deadline - h_now h))")
    (auto simp: now_sleepFor steadyNow_def reapOnce_def kReapPollInterval_def split: list.splits)

declare reapUntil.simps [simp del]

definition reapAbandonedExecutionThreads :: "int \<Rightarrow> host \<Rightarrow> nat \<times> host" where
  "reapAbandonedExecutionThreads grace h =
     (case steadyNow h of (now', h1) \<Rightarrow> reapUntil (now' + max 0 grace) h1)"

section \<open>The main loop\<close>

record main_options =
  mo_installSignalHandlers :: bool
  mo_keepRunning :: "(nat \<Rightarrow> bool) option"
  mo_onIteration :: "(nat \<Rightarrow> host \<Rightarrow> host) option"

record surroundings =
  sr_signalled :: "nat \<Rightarrow> bool"
  sr_workers :: "nat \<Rightarrow> host \<Rightarrow> host"

definition kPollFailureBackoff :: int where "kPollFailureBackoff = 200"
definition kAbandonedThreadGrace :: int where "kAbandonedThreadGrace = 250"

text \<open>Does the n-th iteration leave the loop?\<close>

definition leaves :: "main_options \<Rightarrow> surroundings \<Rightarrow> nat \<Rightarrow> bool" where
  "leaves options sr n =
     (mo_installSignalHandlers options \<and> sr_signalled sr n
      \<or> (case mo_keepRunning options of None \<Rightarrow> False | Some keepRunning \<Rightarrow> \<not> keepRunning n))"

definition iteration :: "main_options \<Rightarrow> surroundings \<Rightarrow> nat \<Rightarrow> host \<Rightarrow> host" where
  "iteration options sr n h =
     (let h1 = (case host_pollOnce h of
                  (None, h1) \<Rightarrow> h1
                | (Some pollError, h1) \<Rightarrow>
                    sleepFor kPollFailureBackoff (hostStderrLine (''[sidecar][pollFailure][host] '' @ pollError) h1));
          h2 = (case mo_onIteration options of None \<Rightarrow> h1 | Some onIteration \<Rightarrow> onIteration n h1)
      in sr_workers sr n h2)"

partial_function (option) mainLoop :: "main_options \<Rightarrow> surroundings \<Rightarrow> nat \<Rightarrow> host \<Rightarrow> host option" where
  "mainLoop options sr n h =
     (if leaves options sr n then Some h else mainLoop options sr (Suc n) (iteration options sr n h))"

datatype main_exit = Returned int | ExitedAtOnce int

definition leaveMain :: "host \<Rightarrow> main_exit \<times> host" where
  "leaveMain h =
     (case reapAbandonedExecutionThreads kAbandonedThreadGrace (host_stop kShutdownBudget h) of
        (remaining, h1) \<Rightarrow>
          if 0 < remaining
          then (ExitedAtOnce 0, hostStderrLine (''[sidecar][abandonedThreads] '' @ decimal remaining
                 @ '' execution thread(s) did not stop within the shutdown budget; ''
                 @ ''exiting without static destructors'') h1)
          else (Returned 0, h1))"

definition runSidecarMain :: "main_options \<Rightarrow> surroundings \<Rightarrow> host \<Rightarrow> (main_exit \<times> host) option" where
  "runSidecarMain options sr h =
     (case host_start h of
        (Some e, h1) \<Rightarrow> Some (Returned 1, hostStderrLine (''[sidecar][startFailure][host] '' @ e) h1)
      | (None, h1) \<Rightarrow> map_option leaveMain (mainLoop options sr 0 h1))"

section \<open>The loop runs to the first reason to leave\<close>

fun iterations :: "main_options \<Rightarrow> surroundings \<Rightarrow> nat \<Rightarrow> nat \<Rightarrow> host \<Rightarrow> host" where
  "iterations options sr n 0 h = h"
| "iterations options sr n (Suc k) h = iterations options sr (Suc n) k (iteration options sr n h)"

lemma mainLoop_returns:
  "\<forall>i < k. \<not> leaves options sr (n + i) \<Longrightarrow> leaves options sr (n + k) \<Longrightarrow>
     mainLoop options sr n h = Some (iterations options sr n k h)"
proof (induction k arbitrary: n h)
  case 0
  then show ?case
    by (simp add: mainLoop.simps)
next
  case (Suc k)
  have "\<not> leaves options sr n"
    using Suc.prems(1) by force
  moreover have "\<not> leaves options sr (Suc n + i)" if "i < k" for i
    using Suc.prems(1) that by (metis Suc_less_eq add_Suc_shift)
  ultimately show ?case
    using Suc.IH [of "Suc n" "iteration options sr n h"] Suc.prems(2) by (simp add: mainLoop.simps [of _ _ n])
qed

lemma mainLoop_leaves:
  assumes "mainLoop options sr n h = Some h'"
  shows "\<exists>k. leaves options sr (n + k)"
proof (rule mainLoop.raw_induct [where P = "\<lambda>opts sr n h h'. \<exists>k. leaves opts sr (n + k)", OF _ assms])
  fix f opts sr n h h'
  assume IH: "\<And>opts sr n h h'. f opts sr n h = Some h' \<Longrightarrow> \<exists>k. leaves opts sr (n + k)"
    and eq: "(if leaves opts sr n then Some h else f opts sr (Suc n) (iteration opts sr n h)) = Some h'"
  show "\<exists>k. leaves opts sr (n + k)"
  proof (cases "leaves opts sr n")
    case True
    then show ?thesis
      by (intro exI [of _ 0]) simp
  next
    case False
    then obtain k where "leaves opts sr (Suc n + k)"
      using IH [of opts sr "Suc n" "iteration opts sr n h" h'] eq False by auto
    then show ?thesis
      by (intro exI [of _ "Suc k"]) simp
  qed
qed

section \<open>Reaping is bounded\<close>

lemma late_steady: "steadyNow h = (t, h1) \<Longrightarrow> late h1 = late h \<and> h_now h1 = t \<and> sum_list (h_delays h1) \<le> sum_list (h_delays h)"
  by (auto simp: steadyNow_def late_def split: list.splits)

lemma reapUntil_spec:
  "late (snd (reapUntil deadline h)) \<le> max (late h) (deadline + kReapPollInterval + int (sum_list (h_delays h)))
   \<and> fst (reapUntil deadline h) = length (h_registry (snd (reapUntil deadline h)))
   \<and> list_all (\<lambda>c. \<not> x_workerExited c) (h_registry (snd (reapUntil deadline h)))"
proof (induction deadline h rule: reapUntil.induct)
  case (1 deadline h)
  let ?h1 = "reapOnce h"
  have h1: "late ?h1 = late h" "h_delays ?h1 = h_delays h" "list_all (\<lambda>c. \<not> x_workerExited c) (h_registry ?h1)"
    by (simp_all add: reapOnce_def late_def reapFinished_running)
  obtain t h2 where s: "steadyNow ?h1 = (t, h2)"
    by fastforce
  have h2: "late h2 = late h" "h_now h2 = t" "sum_list (h_delays h2) \<le> sum_list (h_delays h)"
    "h_registry h2 = h_registry ?h1"
    using late_steady [OF s] h1 s by (auto simp: steadyNow_def split: list.splits)
  consider (clean) "h_registry ?h1 = []" | (late) "h_registry ?h1 \<noteq> []" "deadline \<le> t"
    | (sleep) "h_registry ?h1 \<noteq> []" "\<not> deadline \<le> t"
    by blast
  then show ?case
  proof cases
    case clean
    then show ?thesis
      using h1 by (simp add: reapUntil.simps [of deadline h] Let_def)
  next
    case late
    then show ?thesis
      using h1 h2 s by (simp add: reapUntil.simps [of deadline h] Let_def)
  next
    case sleep
    let ?h3 = "sleepFor kReapPollInterval h2"
    have "reapUntil deadline h = reapUntil deadline ?h3"
      using sleep s by (simp add: reapUntil.simps [of deadline h] Let_def)
    moreover have "late ?h3 \<le> deadline + kReapPollInterval + int (sum_list (h_delays h))"
      using sleep(2) h2 by (simp add: late_def now_sleepFor)
    moreover have "sum_list (h_delays ?h3) \<le> sum_list (h_delays h)"
      using h2(3) by (simp add: now_sleepFor)
    ultimately show ?thesis
      using "1.IH" [OF refl sleep(1) s [symmetric] sleep(2)] by simp linarith
  qed
qed

lemma reapAbandoned_spec:
  "late (snd (reapAbandonedExecutionThreads grace h)) \<le> late h + max 0 grace + kReapPollInterval"
  "fst (reapAbandonedExecutionThreads grace h) = length (h_registry (snd (reapAbandonedExecutionThreads grace h)))"
  "list_all (\<lambda>c. \<not> x_workerExited c) (h_registry (snd (reapAbandonedExecutionThreads grace h)))"
proof -
  obtain t h1 where s: "steadyNow h = (t, h1)"
    by fastforce
  then have "late h1 = t + int (sum_list (h_delays h1))" "late h1 = late h"
    using late_steady [OF s] by (simp_all add: late_def)
  moreover have "0 \<le> kReapPollInterval" "0 \<le> max 0 grace"
    by (simp_all add: kReapPollInterval_def)
  ultimately show "late (snd (reapAbandonedExecutionThreads grace h)) \<le> late h + max 0 grace + kReapPollInterval"
    using reapUntil_spec [of "t + max 0 grace" h1] s by (simp add: reapAbandonedExecutionThreads_def)
  show "fst (reapAbandonedExecutionThreads grace h) = length (h_registry (snd (reapAbandonedExecutionThreads grace h)))"
    "list_all (\<lambda>c. \<not> x_workerExited c) (h_registry (snd (reapAbandonedExecutionThreads grace h)))"
    using reapUntil_spec [of "t + max 0 grace" h1] s by (simp_all add: reapAbandonedExecutionThreads_def)
qed

lemma outline_sleepFor: "outline (sleepFor ms h) = outline h"
proof -
  have "outline (h\<lparr>h_now := t\<rparr>) = outline h" "outline (h\<lparr>h_waits := w, h_now := t\<rparr>) = outline h" for t w
    by (simp_all add: outline_def)
  then show ?thesis
    by (simp add: sleepFor_def outline_fold split: list.split)
qed

lemma outline_reapUntil: "outline (snd (reapUntil deadline h)) = outline h"
proof (induction deadline h rule: reapUntil.induct)
  case (1 deadline h)
  obtain t h2 where s: "steadyNow (reapOnce h) = (t, h2)"
    by fastforce
  have o: "outline (reapOnce h) = outline h" "outline h2 = outline h"
    using s by (auto simp: steadyNow_def reapOnce_def outline_def split: list.splits)
  show ?case
  proof (cases "h_registry (reapOnce h) = [] \<or> deadline \<le> t")
    case True
    then show ?thesis
      using True o s by (auto simp: reapUntil.simps [of deadline h] Let_def)
  next
    case False
    then have "outline (snd (reapUntil deadline (sleepFor kReapPollInterval h2))) = outline h"
      using "1.IH" [OF refl _ s [symmetric]] o by (simp add: outline_sleepFor)
    then show ?thesis
      using False s by (simp add: reapUntil.simps [of deadline h] Let_def)
  qed
qed

lemma reapAbandoned_instances:
  "h_instances (snd (reapAbandonedExecutionThreads grace h)) = [] \<longleftrightarrow> h_instances h = []"
proof -
  obtain t h1 where s: "steadyNow h = (t, h1)"
    by fastforce
  then have "outline h1 = outline h"
    by (auto simp: steadyNow_def outline_def split: list.splits)
  then have "outline (snd (reapAbandonedExecutionThreads grace h)) = outline h"
    using s by (simp add: reapAbandonedExecutionThreads_def outline_reapUntil)
  then show ?thesis
    by (auto simp: outline_def dest: arg_cong [where f = length])
qed

section \<open>Properties\<close>

text \<open>
  C4: the main loop runs until it is told to stop, and then it ends. When the host does not start, the
  program returns 1 after one line on standard error and never polls. Otherwise it returns exactly if
  some iteration finds a signal (with handlers installed) or a false \<^verbatim>\<open>keepRunning\<close>; it then has run
  all iterations before the first of these and none after it, and goes on to stop the host.
\<close>

theorem main_runs_until_told:
  "runSidecarMain options sr h =
     (case host_start h of
        (Some e, h1) \<Rightarrow> Some (Returned 1, hostStderrLine (''[sidecar][startFailure][host] '' @ e) h1)
      | (None, h1) \<Rightarrow>
          if \<exists>n. leaves options sr n
          then Some (leaveMain (iterations options sr 0 (LEAST n. leaves options sr n) h1))
          else None)"
proof (cases "\<exists>n. leaves options sr n")
  case True
  define k where "k = (LEAST n. leaves options sr n)"
  have k: "leaves options sr (0 + k)" "\<forall>i < k. \<not> leaves options sr (0 + i)"
    unfolding k_def add_0 by (rule LeastI_ex [OF True], intro allI impI, rule not_less_Least)
  have "mainLoop options sr 0 h1 = Some (iterations options sr 0 k h1)" for h1
    by (rule mainLoop_returns [OF k(2,1)])
  then show ?thesis
    using True by (simp add: runSidecarMain_def flip: k_def split: prod.split option.split)
next
  case False
  then have "mainLoop options sr 0 h1 = None" for h1
    using mainLoop_leaves [of options sr 0 h1] by fastforce
  then show ?thesis
    using False by (simp add: runSidecarMain_def split: prod.split option.split)
qed


end
