(* ===== verification/Example_Sidecar.thy ===== *)
theory Example_Sidecar
  imports Sidecar_Main Host_Commands Source_Location
begin

text \<open>
  The example adapter of \<^verbatim>\<open>examples/phi-adapter-sidecar/main.cpp\<close>: its hooks as programs over the
  operations of the SDK, its factory, and its own main loop.

  What an overridden hook reads from its surroundings is an argument: \<^verbatim>\<open>now\<close> for
  \<^verbatim>\<open>system_clock::now()\<close> in milliseconds, \<^verbatim>\<open>src\<close> and \<^verbatim>\<open>line\<close> for the position that the logging macro
  takes from the preprocessor. The lines that the hooks write to standard error themselves are left out.
\<close>

section \<open>The instance\<close>

type_synonym instance_program = "(adapter_instance, instance_op, outcome) program"

definition done_void :: "string option \<Rightarrow> instance_program" where
  "done_void e = Finish (Returns True)"

definition example_onConnected :: "string \<Rightarrow> i32 \<Rightarrow> instance_program" where
  "example_onConnected src line =
     Look (\<lambda>i. Invoke
       (InstanceLog LogDebug CatLifecycle ''Core connected for %1'' [ScalarString (in_externalId i)]
          ''adapter.example.lifecycle.connected''
          (makeSourceLocationFieldsJson (Some src) line (Some ''onConnected'')) 0) done_void)"

definition example_onProtocolError :: "string \<Rightarrow> instance_program" where
  "example_onProtocolError message =
     Look (\<lambda>i. Invoke
       (InstanceSendError CatProtocol ''Protocol error for %1: %2''
          [ScalarString (in_externalId i), ScalarString message] ''adapter.example.protocol.error''
          ''{\"source\":\"example.protocol\"}'' 0) done_void)"

definition exampleResponse :: "i64 \<Rightarrow> channel_invoke_request \<Rightarrow> cmd_response" where
  "exampleResponse now q =
     emptyCmdResponse\<lparr>cr_id := ci_cmdId q, cr_status := CmdStatus_Success, cr_finalValue := ci_value q,
       cr_tsMs := now\<rparr>"

definition example_onChannelInvoke :: "i64 \<Rightarrow> channel_invoke_request \<Rightarrow> instance_program" where
  "example_onChannelInvoke now q = Invoke (InstanceCmdResult (exampleResponse now q)) done_void"

definition exampleActionResponse :: "i64 \<Rightarrow> adapter_action_invoke_request \<Rightarrow> action_response" where
  "exampleActionResponse now q =
     (let response = emptyActionResponse\<lparr>ar_id := ai_cmdId q, ar_status := CmdStatus_Success\<rparr>;
          filled =
            (if ai_actionId q = ''browseHosts'' then
               response\<lparr>ar_resultType := ActionResultType_None,
                 ar_formValuesJson := ''{\"trackedMacs\":[\"1c:90:ff:0b:58:77\",\"26:d2:aa:57:79:46\"]}'',
                 ar_fieldChoicesJson :=
                   ''{\"trackedMacs\":[{\"value\":\"1c:90:ff:0b:58:77\",\"label\":\"Zigbee (192.168.1.77)\"},''
                   @ ''{\"value\":\"26:d2:aa:57:79:46\",\"label\":\"Phone (192.168.1.76)\"},''
                   @ ''{\"value\":\"cc:8c:bf:76:0c:54\",\"label\":\"Heater (192.168.1.26)\"}]}'',
                 ar_reloadLayout := False\<rparr>
             else if ai_actionId q = ''startRun'' then
               response\<lparr>ar_resultType := ActionResultType_None,
                 ar_resultValueJson :=
                   ''{\"runId\":\"run-42\",\"streamKind\":\"adapter.run\",\"streamParams\":{\"runId\":\"run-42\",''
                   @ ''\"mode\":\"ws\",\"scenario\":\"handshake\"},\"batch\":false}''\<rparr>
             else
               response\<lparr>ar_resultType := ActionResultType_String, ar_resultValue := ScalarString ''ok''\<rparr>)
      in filled\<lparr>ar_tsMs := now\<rparr>)"

definition example_onAdapterActionInvoke :: "i64 \<Rightarrow> adapter_action_invoke_request \<Rightarrow> instance_program" where
  "example_onAdapterActionInvoke now q = Invoke (InstanceActionResult (exampleActionResponse now q)) done_void"

text \<open>The virtual table: the hooks the class overrides, and the inherited ones.\<close>

fun exampleHook ::
  "string \<Rightarrow> i32 \<Rightarrow> i64 \<Rightarrow> instance_call \<Rightarrow> (adapter_instance, instance_op, outcome) hook" where
  "exampleHook src line now InstanceConnected = Overridden (example_onConnected src line)"
| "exampleHook src line now InstanceDisconnected = Overridden (Finish (Returns True))"
| "exampleHook src line now (InstanceProtocolError message) = Overridden (example_onProtocolError message)"
| "exampleHook src line now (InstanceConfigChanged q) = Overridden (Finish (Returns True))"
| "exampleHook src line now (InstanceChannelInvoke q) = Overridden (example_onChannelInvoke now q)"
| "exampleHook src line now (InstanceAdapterAction q) = Overridden (example_onAdapterActionInvoke now q)"
| "exampleHook src line now _ = Inherited"

definition example_start :: "(adapter_instance, instance_op, outcome) hook" where
  "example_start = Overridden (Finish (Returns True))"

definition example_stop :: "(adapter_instance, instance_op, outcome) hook" where
  "example_stop = Overridden (Finish (Returns True))"

section \<open>The factory\<close>

definition exampleGetters :: factory_getters where
  "exampleGetters = (defaultGetters ''example'')\<lparr>fg_displayName := ''Example''\<rparr>"

definition example_createInstance :: creation where
  "example_createInstance = \<lparr>cn_instance = True, cn_execution = True\<rparr>"

fun exampleFactoryHook :: "factory_call \<Rightarrow> (adapter_factory, factory_op, unit) hook" where
  "exampleFactoryHook (FactoryActionInvoke q) =
     Overridden (Invoke
       (FactoryResult (emptyActionResponse\<lparr>ar_id := ai_cmdId q, ar_status := CmdStatus_Success,
          ar_resultType := ActionResultType_String, ar_resultValue := ScalarString ''factory-ok''\<rparr>))
       (\<lambda>_. Finish ()))"
| "exampleFactoryHook (FactoryBootstrap q) = Overridden (Finish ())"
| "exampleFactoryHook _ = Inherited"

section \<open>The program\<close>

definition exampleSocketPath :: "string list \<Rightarrow> string option \<Rightarrow> string" where
  "exampleSocketPath argv envSocketPath =
     (if 1 < length argv then argv ! 1
      else case envSocketPath of Some path \<Rightarrow> path | None \<Rightarrow> ''/tmp/phi-adapter-example.sock'')"

definition kHostPollTimeout :: int where "kHostPollTimeout = 16"

definition exampleHost :: "string \<Rightarrow> host \<Rightarrow> host" where
  "exampleHost socketPath environment =
     newHost (Some (newFactory exampleGetters)) (environment\<lparr>m_socketPath := socketPath\<rparr>)"

text \<open>
  One round of \<^verbatim>\<open>main\<close>'s loop; \<^verbatim>\<open>workers\<close> is what the worker threads do until the next round, and
  \<^verbatim>\<open>running n\<close> what the n-th look at \<^verbatim>\<open>g_running\<close> finds.
\<close>

definition exampleIteration :: "(nat \<Rightarrow> host \<Rightarrow> host) \<Rightarrow> nat \<Rightarrow> host \<Rightarrow> host" where
  "exampleIteration workers n h =
     workers n
       (case host_pollOnce h of
          (None, h1) \<Rightarrow> h1
        | (Some e, h1) \<Rightarrow> sleepFor kHostPollTimeout (hostStderrLine (''host poll failed: '' @ e) h1))"

partial_function (option) exampleLoop ::
  "(nat \<Rightarrow> bool) \<Rightarrow> (nat \<Rightarrow> host \<Rightarrow> host) \<Rightarrow> nat \<Rightarrow> host \<Rightarrow> host option" where
  "exampleLoop running workers n h =
     (if running n then exampleLoop running workers (Suc n) (exampleIteration workers n h) else Some h)"

text \<open>The last stop on each way out is that of the host's destructor.\<close>

definition exampleMain ::
  "string list \<Rightarrow> string option \<Rightarrow> host \<Rightarrow> (nat \<Rightarrow> bool) \<Rightarrow> (nat \<Rightarrow> host \<Rightarrow> host) \<Rightarrow> (int \<times> host) option" where
  "exampleMain argv envSocketPath environment running workers =
     (let socketPath = exampleSocketPath argv envSocketPath in
      case host_start (exampleHost socketPath environment) of
        (Some e, h1) \<Rightarrow> Some (1, host_stop kShutdownBudget (hostStderrLine (''host start failed: '' @ e) h1))
      | (None, h1) \<Rightarrow>
          map_option (\<lambda>h2. (0, host_stop kShutdownBudget (host_stop kShutdownBudget h2)))
            (exampleLoop running workers 0
              (hostStderrLine (''phi adapter sidecar host example listening on '' @ socketPath) h1)))"

lemma exampleMain_leaves_nothing:
  "exampleMain argv env environment running workers = Some (0, h) \<Longrightarrow> h_instances h = [] \<and> \<not> h_factoryActive h"
  by (auto simp: exampleMain_def Let_def stop_flags split: prod.splits option.splits)

section \<open>The example answers\<close>

text \<open>The literals of the example are JSON values.\<close>

lemma example_literals_are_json:
  "skipValueToken (ar_formValuesJson (exampleActionResponse now (q\<lparr>ai_actionId := ''browseHosts''\<rparr>))) = Inr []"
  "skipValueToken (ar_fieldChoicesJson (exampleActionResponse now (q\<lparr>ai_actionId := ''browseHosts''\<rparr>))) = Inr []"
  "skipValueToken (ar_resultValueJson (exampleActionResponse now (q\<lparr>ai_actionId := ''startRun''\<rparr>))) = Inr []"
  by (simp_all add: exampleActionResponse_def Let_def emptyActionResponse_def; code_simp)+

lemma example_hook_submits:
  assumes "h_objects k a = Some ob" and "in_cmdResultSubmitter ob" and "ci_cmdId q \<noteq> 0" and "0 < sint now"
    and "h_instanceHooks k = exampleHook src line now (InstanceChannelInvoke q) # hooks"
  shows "h_resultQueue (snd (hostOnInstance a (InstanceChannelInvoke q) k))
      = h_resultQueue k @ [DeferredCmdResult (exampleResponse now q)]
    \<and> d_sendQueue (snd (hostOnInstance a (InstanceChannelInvoke q) k)) = d_sendQueue k
    \<and> d_started (snd (hostOnInstance a (InstanceChannelInvoke q) k)) = d_started k"
  using assms
  by (simp add: callInstance_def takeInstanceHook_def example_onChannelInvoke_def instanceOperation_def
      instance_sendCmdResult_def submitCmdResult_def normalizeCmdResponse_def stampMs_def exampleResponse_def
      queueDeferredResult_def frame_rules done_void_def server_wakeup_def)


definition sampleExample :: host where
  "sampleExample = sampleRunning\<lparr>h_instanceHooks := [exampleHook ''main.cpp'' 40 5 (InstanceChannelInvoke
     (channelInvokeRequest 7 (membersOf [] (channelInvokeFields ''a'' ''d'' ''c'' (ScalarInt 42)))))]\<rparr>"

lemma core_sampleExample: "core sampleExample"
  using core_mild [OF mild_fields(2) [of "{}"] core_sampleRunning] by (simp add: sampleExample_def)


end
