(* ===== verification/Color.thy ===== *)
theory Color
  imports Complex_Main Prelude
begin

text \<open>
  The colour conversions of \<^verbatim>\<open>include/phi/adapter/v1/color.h\<close>.

  A finite \<^verbatim>\<open>double\<close> is the real number it denotes. Every definition takes the rounding
  \<^verbatim>\<open>rnd\<close> of the machine: the result of each operator (\<^verbatim>\<open>+ - * /\<close>) and each decimal literal is
  the rounding of the exact result, and comparison, \<^verbatim>\<open>fmod\<close>, \<^verbatim>\<open>fabs\<close>, \<^verbatim>\<open>max\<close>, \<^verbatim>\<open>min\<close> and
  negation are exact, as IEEE 754 has it. \<^verbatim>\<open>nearest\<close> is the rounding of IEEE binary64 (to
  nearest, ties to even, gradual underflow), \<^verbatim>\<open>\<lambda>x. x\<close> gives exact arithmetic. \<^verbatim>\<open>std::pow\<close>
  belongs to libm and is the parameter \<^verbatim>\<open>pow\<close>. NaN, infinities and overflow are not modelled.

  The locale \<^verbatim>\<open>rounding\<close> holds what the range lemmas need of a rounding (it is monotone, its
  results are fixed, and small integers are exact); both roundings interpret it.
\<close>

section \<open>Roundings\<close>

definition towardZero :: "real \<Rightarrow> int" where
  "towardZero x = (if x < 0 then - \<lfloor>- x\<rfloor> else \<lfloor>x\<rfloor>)"

definition fmod :: "real \<Rightarrow> real \<Rightarrow> real" where
  "fmod x y = x - y * of_int (towardZero (x / y))"

definition roundEven :: "real \<Rightarrow> int" where
  "roundEven y =
     (let k = \<lfloor>y\<rfloor>; d = y - of_int k in
      if d < 1 / 2 then k else if 1 / 2 < d then k + 1 else if even k then k else k + 1)"

definition binade :: "real \<Rightarrow> int" where
  "binade x = max (- 1022) \<lfloor>log 2 \<bar>x\<bar>\<rfloor>"

definition ulp :: "int \<Rightarrow> real" where
  "ulp e = 2 powr of_int (e - 52)"

definition nearest :: "real \<Rightarrow> real" where
  "nearest x = (if x = 0 then 0 else of_int (roundEven (x / ulp (binade x))) * ulp (binade x))"

locale rounding =
  fixes rnd :: "real \<Rightarrow> real"
  assumes mono: "x \<le> y \<Longrightarrow> rnd x \<le> rnd y"
    and idem: "rnd (rnd x) = rnd x"
    and small_int: "\<bar>k\<bar> \<le> 2 ^ 53 \<Longrightarrow> rnd (of_int k) = of_int k"
begin

lemma zero: "rnd 0 = 0"
  using small_int [of 0] by simp

lemma one: "rnd 1 = 1"
  using small_int [of 1] by simp

lemma full_turn: "rnd 360 = 360"
  using small_int [of 360] by simp

lemma nonneg: "0 \<le> x \<Longrightarrow> 0 \<le> rnd x"
  using mono [of 0 x] by (simp add: zero)

lemma at_most_one: "x \<le> 1 \<Longrightarrow> rnd x \<le> 1"
  using mono [of x 1] by (simp add: one)

lemma add_ge_left: "rnd a = a \<Longrightarrow> 0 \<le> b \<Longrightarrow> a \<le> rnd (a + b)"
  using mono [of a "a + b"] by simp

lemma add_ge_right: "rnd b = b \<Longrightarrow> 0 \<le> a \<Longrightarrow> b \<le> rnd (a + b)"
  using mono [of b "a + b"] by simp

lemma diff_le: "rnd a = a \<Longrightarrow> 0 \<le> b \<Longrightarrow> rnd (a - b) \<le> a"
  using mono [of "a - b" a] by simp

end

subsection \<open>IEEE rounding is a rounding\<close>

lemma roundEven_bounds: "\<lfloor>y\<rfloor> \<le> roundEven y" "roundEven y \<le> \<lfloor>y\<rfloor> + 1"
  by (simp_all add: roundEven_def Let_def)

lemma roundEven_of_int [simp]: "roundEven (of_int k) = k"
  by (simp add: roundEven_def)

lemma roundEven_mono: "roundEven x \<le> roundEven y" if "x \<le> y"
proof (cases "\<lfloor>x\<rfloor> = \<lfloor>y\<rfloor>")
  case True
  then show ?thesis
    using that by (auto simp: roundEven_def Let_def)
next
  case False
  then have "\<lfloor>x\<rfloor> + 1 \<le> \<lfloor>y\<rfloor>"
    using floor_mono [OF that] by simp
  then show ?thesis
    using roundEven_bounds(2) [of x] roundEven_bounds(1) [of y] by simp
qed

lemma roundEven_minus: "roundEven (- y) = - roundEven y"
proof (cases "y = of_int \<lfloor>y\<rfloor>")
  case True
  then show ?thesis
    by (metis of_int_minus roundEven_of_int)
next
  case False
  have "real_of_int \<lfloor>y\<rfloor> < y" "y < real_of_int \<lfloor>y\<rfloor> + 1"
    using False by linarith+
  then have "\<lfloor>- y\<rfloor> = - \<lfloor>y\<rfloor> - 1"
    by linarith
  then show ?thesis
    by (auto simp: roundEven_def Let_def)
qed

lemma ulp_pos [simp]: "0 < ulp e"
  by (simp add: ulp_def)

lemma ulp_shift: "ulp e = 2 ^ n * ulp (e - int n)"
  by (simp add: ulp_def powr_realpow [symmetric] powr_add [symmetric])

lemma two_power_ulp: "2 ^ n * ulp e = 2 powr of_int (e - 52 + int n)"
  by (simp add: ulp_def powr_realpow [symmetric] powr_add [symmetric] add.commute)

lemma ulp_powers:
  "9007199254740992 * ulp e = 2 powr (real_of_int e + 1)"
  "4503599627370496 * ulp e = 2 powr real_of_int e"
  using two_power_ulp [of 53 e] two_power_ulp [of 52 e] by (simp_all add: add.commute)

lemma binade_minus [simp]: "binade (- x) = binade x"
  by (simp add: binade_def)

lemma nearest_minus: "nearest (- x) = - nearest x"
  by (simp add: nearest_def roundEven_minus)

lemma binade_ge: "- 1022 \<le> binade x"
  by (simp add: binade_def)

lemma below_binade: "\<bar>x\<bar> < 2 powr of_int (binade x + 1)" if "x \<noteq> 0"
proof -
  have "log 2 \<bar>x\<bar> < of_int (binade x + 1)"
    unfolding binade_def by linarith
  then show ?thesis
    using that by (simp add: log_less_iff)
qed

lemma above_binade: "2 powr of_int (binade x) \<le> \<bar>x\<bar>" if "x \<noteq> 0" "- 1022 < binade x"
proof -
  have "of_int (binade x) \<le> log 2 \<bar>x\<bar>"
    using that(2) unfolding binade_def by linarith
  then show ?thesis
    using that(1) by (simp add: le_log_iff)
qed

lemma binade_mono: "binade x \<le> binade y" if "0 < x" "x \<le> y"
proof -
  have "\<lfloor>log 2 \<bar>x\<bar>\<rfloor> \<le> \<lfloor>log 2 \<bar>y\<bar>\<rfloor>"
    using that by (intro floor_mono) simp
  then show ?thesis
    unfolding binade_def by (rule max.mono [OF order_refl])
qed

lemma roundEven_nonneg: "0 \<le> y \<Longrightarrow> 0 \<le> roundEven y"
  using roundEven_bounds(1) [of y] zero_le_floor [of y] by linarith

lemma nearest_nonneg: "0 \<le> x \<Longrightarrow> 0 \<le> nearest x"
  by (simp add: nearest_def roundEven_nonneg less_imp_le)

lemma roundEven_power_le:
  assumes "0 < x"
  shows "roundEven (x / ulp (binade x)) \<le> 2 ^ 53"
proof -
  have "x / ulp (binade x) \<le> of_int (2 ^ 53)"
    using below_binade [of x] assms two_power_ulp [of 53 "binade x"]
    by (simp add: divide_le_eq less_imp_le add.commute)
  then show ?thesis
    using roundEven_mono roundEven_of_int by metis
qed

lemma nearest_le_next_binade: "nearest x \<le> 2 powr of_int (binade x + 1)" if "0 < x"
proof -
  have "real_of_int (roundEven (x / ulp (binade x))) \<le> 2 ^ 53"
    using roundEven_power_le [OF that] by (metis of_int_le_iff of_int_numeral of_int_power)
  then have "nearest x \<le> 2 ^ 53 * ulp (binade x)"
    using that by (simp add: nearest_def)
  then show ?thesis
    by (simp add: ulp_powers)
qed

lemma binade_le_nearest: "2 powr of_int (binade x) \<le> nearest x" if "0 < x" "- 1022 < binade x"
proof -
  have "of_int (2 ^ 52) \<le> x / ulp (binade x)"
    using above_binade [of x] that two_power_ulp [of 52 "binade x"] by (simp add: le_divide_eq)
  then have "2 ^ 52 \<le> roundEven (x / ulp (binade x))"
    using roundEven_mono roundEven_of_int by metis
  then have "(2::real) ^ 52 \<le> of_int (roundEven (x / ulp (binade x)))"
    by (metis of_int_le_iff of_int_numeral of_int_power)
  then have "2 ^ 52 * ulp (binade x) \<le> nearest x"
    using that by (simp add: nearest_def)
  then show ?thesis
    by (simp add: ulp_powers)
qed

lemma nearest_mono_pos: "nearest x \<le> nearest y" if "0 < x" "x \<le> y"
proof (cases "binade x = binade y")
  case True
  have "x / ulp (binade y) \<le> y / ulp (binade y)"
    using that(2) by (simp add: divide_right_mono less_imp_le)
  then show ?thesis
    using roundEven_mono that by (simp add: nearest_def True mult_right_mono less_imp_le)
next
  case False
  then have less: "binade x + 1 \<le> binade y"
    using binade_mono [OF that] by simp
  have "nearest x \<le> 2 powr of_int (binade x + 1)"
    using that(1) by (rule nearest_le_next_binade)
  also have "\<dots> \<le> 2 powr of_int (binade y)"
    using less by (intro powr_mono) (simp_all only: of_int_le_iff one_le_numeral)
  also have "\<dots> \<le> nearest y"
    using that less binade_ge [of x] by (intro binade_le_nearest) linarith+
  finally show ?thesis .
qed

lemma nearest_mono: "nearest x \<le> nearest y" if "x \<le> y"
proof (cases "0 < x")
  case True
  then show ?thesis
    using that by (rule nearest_mono_pos)
next
  case x: False
  show ?thesis
  proof (cases "y < 0")
    case True
    then show ?thesis
      using nearest_mono_pos [of "- y" "- x"] that by (simp add: nearest_minus)
  next
    case False
    then show ?thesis
      using nearest_nonneg [of y] nearest_nonneg [of "- x"] x by (simp add: nearest_minus)
  qed
qed

lemma nearest_multiple: "x = of_int k * ulp (binade x) \<Longrightarrow> nearest x = x"
  by (metis less_irrefl nearest_def nonzero_mult_div_cancel_right roundEven_of_int ulp_pos)

lemma nearest_representable_pos:
  assumes "0 < k" "k \<le> 2 ^ 53" "- 1022 \<le> e"
  shows "nearest (of_int k * ulp e) = of_int k * ulp e"
proof -
  let ?x = "of_int k * ulp e"
  have k: "(1::real) \<le> of_int k" "real_of_int k \<le> 2 ^ 53"
    using assms(1,2) by (simp, metis of_int_le_iff of_int_numeral of_int_power)
  have x: "0 < ?x"
    using k by simp
  show ?thesis
  proof (cases "binade ?x \<le> e")
    case True
    then have "ulp e = 2 ^ nat (e - binade ?x) * ulp (binade ?x)"
      using ulp_shift [of e "nat (e - binade ?x)"] by simp
    then have "?x = of_int (k * 2 ^ nat (e - binade ?x)) * ulp (binade ?x)"
      by simp
    then show ?thesis
      by (rule nearest_multiple)
  next
    case False
    have "?x \<le> 2 ^ 53 * ulp e"
      using k by (intro mult_right_mono) (simp_all add: less_imp_le)
    then have upper: "?x \<le> 2 powr of_int (e + 1)"
      by (simp add: ulp_powers)
    have lower: "2 powr of_int (binade ?x) \<le> ?x"
      using above_binade [of ?x] False assms(3) x unfolding abs_of_pos [OF x] by linarith
    have "2 powr real_of_int (binade ?x) \<le> 2 powr of_int (e + 1)"
      using lower upper by (rule order_trans)
    then have b: "binade ?x = e + 1"
      using False by (simp only: powr_le_cancel_iff one_less_numeral_iff semiring_norm of_int_le_iff)
    then have "?x = 2 powr of_int (e + 1)"
      using lower upper by simp
    then have "?x = of_int (2 ^ 52) * ulp (e + 1)"
      using ulp_powers(2) [of "e + 1"] by simp
    then show ?thesis
      using b nearest_multiple [of ?x "2 ^ 52"] by simp
  qed
qed

lemma nearest_representable:
  assumes "\<bar>k\<bar> \<le> 2 ^ 53" "- 1022 \<le> e"
  shows "nearest (of_int k * ulp e) = of_int k * ulp e"
proof -
  consider "0 < k" | "k = 0" | "0 < - k"
    by linarith
  then show ?thesis
  proof cases
    case 1
    then show ?thesis
      using nearest_representable_pos [of k e] assms by simp
  next
    case 2
    then show ?thesis
      by (simp add: nearest_def)
  next
    case 3
    then show ?thesis
      using nearest_representable_pos [of "- k" e] assms by (simp add: nearest_minus)
  qed
qed

lemma nearest_idem_pos: "nearest (nearest x) = nearest x" if "0 < x"
proof -
  have "0 \<le> roundEven (x / ulp (binade x))"
    using that by (simp add: roundEven_nonneg less_imp_le)
  then have "\<bar>roundEven (x / ulp (binade x))\<bar> \<le> 2 ^ 53"
    using roundEven_power_le [OF that] by simp
  then show ?thesis
    using nearest_representable [OF _ binade_ge] that by (simp add: nearest_def)
qed

lemma nearest_idem: "nearest (nearest x) = nearest x"
proof -
  consider "0 < x" | "x = 0" | "0 < - x"
    by linarith
  then show ?thesis
  proof cases
    case 3
    then show ?thesis
      using nearest_idem_pos [of "- x"] by (simp add: nearest_minus)
  qed (auto simp: nearest_idem_pos nearest_def [of 0])
qed

lemma nearest_small_int: "\<bar>k\<bar> \<le> 2 ^ 53 \<Longrightarrow> nearest (of_int k) = of_int k"
  using nearest_representable [of k 52] by (simp add: ulp_def)

interpretation ieee: rounding nearest
  by unfold_locales (fact nearest_mono, fact nearest_idem, fact nearest_small_int)

interpretation exact: rounding "\<lambda>x. x"
  by unfold_locales simp_all

section \<open>The conversions\<close>

record color =
  c_r :: real
  c_g :: real
  c_b :: real

record hsv =
  hsv_hDeg :: real
  hsv_s :: real
  hsv_v :: real

record xy =
  xy_x :: real
  xy_y :: real
  xy_bri :: real

record linear_rgb =
  lin_r :: real
  lin_g :: real
  lin_b :: real

definition clamp01 :: "real \<Rightarrow> real" where
  "clamp01 v = (if v < 0 then 0 else if 1 < v then 1 else v)"

definition makeColor :: "real \<Rightarrow> real \<Rightarrow> real \<Rightarrow> color" where
  "makeColor r g b = \<lparr>c_r = clamp01 r, c_g = clamp01 g, c_b = clamp01 b\<rparr>"

definition colorBlack :: color where
  "colorBlack = \<lparr>c_r = 0, c_g = 0, c_b = 0\<rparr>"

definition colorWhite :: color where
  "colorWhite = \<lparr>c_r = 1, c_g = 1, c_b = 1\<rparr>"

text \<open>
  \<^verbatim>\<open>weighted rnd p x q y r z\<close> is the C++ expression \<^verbatim>\<open>p * x + q * y + r * z\<close>, evaluated from the
  left; \<^verbatim>\<open>p\<close>, \<^verbatim>\<open>q\<close> and \<^verbatim>\<open>r\<close> are literals (a subtracted term has a negative one, which rounds
  alike).
\<close>

definition weighted :: "(real \<Rightarrow> real) \<Rightarrow> real \<Rightarrow> real \<Rightarrow> real \<Rightarrow> real \<Rightarrow> real \<Rightarrow> real \<Rightarrow> real" where
  "weighted rnd p x q y r z = rnd (rnd (rnd (rnd p * x) + rnd (rnd q * y)) + rnd (rnd r * z))"

definition colorLuminance :: "(real \<Rightarrow> real) \<Rightarrow> color \<Rightarrow> real" where
  "colorLuminance rnd c = weighted rnd 0.2126 (c_r c) 0.7152 (c_g c) 0.0722 (c_b c)"

definition wrapHue360 :: "(real \<Rightarrow> real) \<Rightarrow> real \<Rightarrow> real" where
  "wrapHue360 rnd h = (let r = fmod h 360 in if r < 0 then rnd (r + 360) else r)"

definition kelvinToMired :: "(real \<Rightarrow> real) \<Rightarrow> real \<Rightarrow> real" where
  "kelvinToMired rnd kelvin = (if 0 < kelvin then rnd (1000000 / kelvin) else 0)"

definition miredToKelvin :: "(real \<Rightarrow> real) \<Rightarrow> real \<Rightarrow> real" where
  "miredToKelvin rnd mired = (if 0 < mired then rnd (1000000 / mired) else 0)"

definition hsvToColor :: "(real \<Rightarrow> real) \<Rightarrow> real \<Rightarrow> real \<Rightarrow> real \<Rightarrow> color" where
  "hsvToColor rnd hDeg s01 v01 =
     (let h = wrapHue360 rnd hDeg; s = clamp01 s01; v = clamp01 v01 in
      if s \<le> 0 then makeColor v v v
      else
        let c = rnd (v * s);
            hPrime = rnd (h / 60);
            x = rnd (c * rnd (1 - \<bar>rnd (fmod hPrime 2 - 1)\<bar>));
            (r1, g1, b1) =
              (if 0 \<le> hPrime \<and> hPrime < 1 then (c, x, 0)
               else if 1 \<le> hPrime \<and> hPrime < 2 then (x, c, 0)
               else if 2 \<le> hPrime \<and> hPrime < 3 then (0, c, x)
               else if 3 \<le> hPrime \<and> hPrime < 4 then (0, x, c)
               else if 4 \<le> hPrime \<and> hPrime < 5 then (x, 0, c)
               else (c, 0, x));
            m = rnd (v - c)
        in makeColor (rnd (r1 + m)) (rnd (g1 + m)) (rnd (b1 + m)))"

definition colorToHsv :: "(real \<Rightarrow> real) \<Rightarrow> color \<Rightarrow> hsv" where
  "colorToHsv rnd col =
     (let r = clamp01 (c_r col); g = clamp01 (c_g col); b = clamp01 (c_b col);
          maxC = max r (max g b);
          minC = min r (min g b);
          delta = rnd (maxC - minC)
      in if delta \<le> rnd (1 / 10 ^ 9) then \<lparr>hsv_hDeg = 0, hsv_s = 0, hsv_v = maxC\<rparr>
         else
           let s = rnd (delta / maxC);
               h = (if maxC = r then rnd (60 * fmod (rnd (rnd (g - b) / delta)) 6)
                    else if maxC = g then rnd (60 * rnd (rnd (rnd (b - r) / delta) + 2))
                    else rnd (60 * rnd (rnd (rnd (r - g) / delta) + 4)))
           in \<lparr>hsv_hDeg = wrapHue360 rnd h, hsv_s = s, hsv_v = maxC\<rparr>)"

definition colorFromHsB :: "(real \<Rightarrow> real) \<Rightarrow> real \<Rightarrow> real \<Rightarrow> real \<Rightarrow> color" where
  "colorFromHsB rnd hDeg s01 b01 = hsvToColor rnd hDeg s01 b01"

definition srgbToLinear :: "(real \<Rightarrow> real) \<Rightarrow> (real \<Rightarrow> real \<Rightarrow> real) \<Rightarrow> real \<Rightarrow> real" where
  "srgbToLinear rnd pow c0 =
     (let c = clamp01 c0 in
      if c \<le> rnd 0.04045 then rnd (c / rnd 12.92)
      else pow (rnd (rnd (c + rnd 0.055) / rnd 1.055)) (rnd 2.4))"

definition linearToSrgb :: "(real \<Rightarrow> real) \<Rightarrow> (real \<Rightarrow> real \<Rightarrow> real) \<Rightarrow> real \<Rightarrow> real" where
  "linearToSrgb rnd pow c =
     (if c \<le> 0 then 0 else if 1 \<le> c then 1
      else if c \<le> rnd 0.0031308 then rnd (rnd 12.92 * c)
      else rnd (rnd (rnd 1.055 * pow c (rnd (1 / rnd 2.4))) - rnd 0.055))"

definition colorToLinear :: "(real \<Rightarrow> real) \<Rightarrow> (real \<Rightarrow> real \<Rightarrow> real) \<Rightarrow> color \<Rightarrow> linear_rgb" where
  "colorToLinear rnd pow c =
     \<lparr>lin_r = srgbToLinear rnd pow (c_r c), lin_g = srgbToLinear rnd pow (c_g c),
      lin_b = srgbToLinear rnd pow (c_b c)\<rparr>"

definition linearToColor :: "(real \<Rightarrow> real) \<Rightarrow> (real \<Rightarrow> real \<Rightarrow> real) \<Rightarrow> linear_rgb \<Rightarrow> color" where
  "linearToColor rnd pow lin =
     \<lparr>c_r = clamp01 (linearToSrgb rnd pow (lin_r lin)),
      c_g = clamp01 (linearToSrgb rnd pow (lin_g lin)),
      c_b = clamp01 (linearToSrgb rnd pow (lin_b lin))\<rparr>"

definition linearRgbToXyz :: "(real \<Rightarrow> real) \<Rightarrow> linear_rgb \<Rightarrow> real \<times> real \<times> real" where
  "linearRgbToXyz rnd l =
     (let r = lin_r l; g = lin_g l; b = lin_b l in
      (weighted rnd 0.4124 r 0.3576 g 0.1805 b,
       weighted rnd 0.2126 r 0.7152 g 0.0722 b,
       weighted rnd 0.0193 r 0.1192 g 0.9505 b))"

definition xyzToLinearRgb :: "(real \<Rightarrow> real) \<Rightarrow> real \<Rightarrow> real \<Rightarrow> real \<Rightarrow> linear_rgb" where
  "xyzToLinearRgb rnd X Y Z =
     \<lparr>lin_r = clamp01 (weighted rnd 3.2406 X (- 1.5372) Y (- 0.4986) Z),
      lin_g = clamp01 (weighted rnd (- 0.9689) X 1.8758 Y 0.0415 Z),
      lin_b = clamp01 (weighted rnd 0.0557 X (- 0.2040) Y 1.0570 Z)\<rparr>"

definition colorFromXy ::
    "(real \<Rightarrow> real) \<Rightarrow> (real \<Rightarrow> real \<Rightarrow> real) \<Rightarrow> real \<Rightarrow> real \<Rightarrow> real \<Rightarrow> color" where
  "colorFromXy rnd pow x y bri01 =
     (let bri = clamp01 bri01 in
      if y \<le> rnd (1 / 10 ^ 6) then makeColor bri bri bri
      else
        let X = rnd (rnd (bri / y) * x);
            Z = rnd (rnd (bri / y) * rnd (rnd (1 - x) - y))
        in linearToColor rnd pow (xyzToLinearRgb rnd X bri Z))"

definition colorToXy :: "(real \<Rightarrow> real) \<Rightarrow> (real \<Rightarrow> real \<Rightarrow> real) \<Rightarrow> color \<Rightarrow> xy" where
  "colorToXy rnd pow c =
     (let (X, Y, Z) = linearRgbToXyz rnd (colorToLinear rnd pow c);
          s = rnd (rnd (X + Y) + Z)
      in if s \<le> rnd (1 / 10 ^ 9) then \<lparr>xy_x = rnd 0.3127, xy_y = rnd 0.3290, xy_bri = 0\<rparr>
         else \<lparr>xy_x = rnd (X / s), xy_y = rnd (Y / s), xy_bri = clamp01 Y\<rparr>)"

definition colorToXyOut :: "(real \<Rightarrow> real) \<Rightarrow> (real \<Rightarrow> real \<Rightarrow> real) \<Rightarrow> color \<Rightarrow> real \<times> real" where
  "colorToXyOut rnd pow c = (let p = colorToXy rnd pow c in (xy_x p, xy_y p))"

section \<open>Ranges\<close>

definition unitColor :: "color \<Rightarrow> bool" where
  "unitColor c \<longleftrightarrow> 0 \<le> c_r c \<and> c_r c \<le> 1 \<and> 0 \<le> c_g c \<and> c_g c \<le> 1 \<and> 0 \<le> c_b c \<and> c_b c \<le> 1"

definition representable :: "(real \<Rightarrow> real) \<Rightarrow> color \<Rightarrow> bool" where
  "representable rnd c \<longleftrightarrow> rnd (c_r c) = c_r c \<and> rnd (c_g c) = c_g c \<and> rnd (c_b c) = c_b c"

lemma clamp01_bounds [simp]: "0 \<le> clamp01 v" "clamp01 v \<le> 1"
  by (simp_all add: clamp01_def)

lemma clamp01_id: "0 \<le> v \<Longrightarrow> v \<le> 1 \<Longrightarrow> clamp01 v = v"
  by (simp add: clamp01_def)

lemma makeColor_unit: "unitColor (makeColor r g b)"
  by (simp add: unitColor_def makeColor_def)

lemma makeColor_unit_id: "unitColor \<lparr>c_r = r, c_g = g, c_b = b\<rparr> \<Longrightarrow>
    makeColor r g b = \<lparr>c_r = r, c_g = g, c_b = b\<rparr>"
  by (simp add: unitColor_def makeColor_def clamp01_id)

lemma linearToColor_unit: "unitColor (linearToColor rnd pow l)"
  by (simp add: unitColor_def linearToColor_def)

lemma hsvToColor_unit: "unitColor (hsvToColor rnd h s v)"
  by (simp add: hsvToColor_def Let_def makeColor_unit split: prod.split)

lemma colorFromXy_unit: "unitColor (colorFromXy rnd pow x y bri)"
  by (simp add: colorFromXy_def Let_def makeColor_unit linearToColor_unit)

lemma towardZero_bound: "\<bar>q - of_int (towardZero q)\<bar> < 1"
  unfolding towardZero_def by (cases "q < 0"; simp; linarith)

lemma towardZero_small: "- 1 < q \<Longrightarrow> q < 1 \<Longrightarrow> towardZero q = 0"
  unfolding towardZero_def by (cases "q < 0"; simp; linarith)

lemma fmod_bound: "\<bar>fmod x y\<bar> < y" if "0 < y"
proof -
  have "fmod x y = y * (x / y - of_int (towardZero (x / y)))"
    using that by (simp add: fmod_def right_diff_distrib)
  moreover have "\<bar>x / y - of_int (towardZero (x / y))\<bar> < 1"
    by (rule towardZero_bound)
  ultimately show ?thesis
    using that mult_strict_left_mono [of "\<bar>x / y - of_int (towardZero (x / y))\<bar>" 1 y]
    by (simp add: abs_mult)
qed

lemma fmod_small: "fmod x y = x" if "\<bar>x\<bar> < y"
proof -
  have "towardZero (x / y) = 0"
    using that by (intro towardZero_small) (auto simp: less_divide_eq divide_less_eq abs_less_iff)
  then show ?thesis
    by (simp add: fmod_def)
qed

context rounding
begin

lemma wrap_range: "0 \<le> wrapHue360 rnd h \<and> wrapHue360 rnd h \<le> 360"
proof -
  have "- 360 < fmod h 360" "fmod h 360 < 360"
    using fmod_bound [of 360 h] by simp_all
  then show ?thesis
    using nonneg [of "fmod h 360 + 360"] mono [of "fmod h 360 + 360" 360]
    by (simp add: wrapHue360_def Let_def full_turn)
qed

lemma clamp01_representable: "rnd v = v \<Longrightarrow> rnd (clamp01 v) = clamp01 v"
  by (simp add: clamp01_def zero one)

lemma quotient_unit: "0 \<le> a \<Longrightarrow> a \<le> b \<Longrightarrow> 0 \<le> rnd (a / b) \<and> rnd (a / b) \<le> 1"
  by (cases "b = 0") (simp_all add: nonneg at_most_one zero)

lemma hsv_range:
  assumes "representable rnd c"
  shows "0 \<le> hsv_hDeg (colorToHsv rnd c) \<and> hsv_hDeg (colorToHsv rnd c) \<le> 360 \<and>
      0 \<le> hsv_s (colorToHsv rnd c) \<and> hsv_s (colorToHsv rnd c) \<le> 1 \<and>
      0 \<le> hsv_v (colorToHsv rnd c) \<and> hsv_v (colorToHsv rnd c) \<le> 1"
proof -
  let ?r = "clamp01 (c_r c)" and ?g = "clamp01 (c_g c)" and ?b = "clamp01 (c_b c)"
  let ?M = "max ?r (max ?g ?b)" and ?m = "min ?r (min ?g ?b)"
  have M: "rnd ?M = ?M"
    using assms by (simp add: representable_def clamp01_representable max_def)
  have m: "0 \<le> ?m" "?m \<le> ?M"
    by simp_all
  have delta: "0 \<le> rnd (?M - ?m)" "rnd (?M - ?m) \<le> ?M"
    using nonneg [of "?M - ?m"] diff_le [OF M m(1)] m(2) by simp_all
  have "0 \<le> ?M" "?M \<le> 1"
    by (simp_all add: le_max_iff_disj)
  then show ?thesis
    using quotient_unit [OF delta] wrap_range unfolding colorToHsv_def Let_def by simp
qed

lemma weighted_nonneg:
  "0 \<le> p \<Longrightarrow> 0 \<le> x \<Longrightarrow> 0 \<le> q \<Longrightarrow> 0 \<le> y \<Longrightarrow> 0 \<le> r \<Longrightarrow> 0 \<le> z \<Longrightarrow> 0 \<le> weighted rnd p x q y r z"
  by (simp add: weighted_def nonneg)

lemma weighted_representable: "rnd (weighted rnd p x q y r z) = weighted rnd p x q y r z"
  by (simp add: weighted_def idem)

lemma luminance_nonneg: "unitColor c \<Longrightarrow> 0 \<le> colorLuminance rnd c"
  by (simp add: colorLuminance_def unitColor_def weighted_nonneg)

lemma srgbToLinear_nonneg:
  assumes "\<And>a e. 0 \<le> a \<Longrightarrow> 0 \<le> pow a e"
  shows "0 \<le> srgbToLinear rnd pow c"
  using assms by (simp add: srgbToLinear_def Let_def nonneg)

lemma xy_range:
  assumes "\<And>a e. 0 \<le> a \<Longrightarrow> 0 \<le> pow a e"
  shows "0 \<le> xy_x (colorToXy rnd pow c) \<and> xy_x (colorToXy rnd pow c) \<le> 1 \<and>
      0 \<le> xy_y (colorToXy rnd pow c) \<and> xy_y (colorToXy rnd pow c) \<le> 1 \<and>
      0 \<le> xy_bri (colorToXy rnd pow c) \<and> xy_bri (colorToXy rnd pow c) \<le> 1"
proof -
  obtain X Y Z where xyz: "linearRgbToXyz rnd (colorToLinear rnd pow c) = (X, Y, Z)"
    by (metis prod_cases3)
  then have pos: "0 \<le> X" "0 \<le> Y" "0 \<le> Z" and rep: "rnd X = X" "rnd Y = Y"
    using srgbToLinear_nonneg [OF assms]
    by (auto simp: linearRgbToXyz_def colorToLinear_def Let_def weighted_nonneg weighted_representable)
  have le: "X \<le> rnd (X + Y)" "Y \<le> rnd (X + Y)" "rnd (X + Y) \<le> rnd (rnd (X + Y) + Z)"
    using pos rep by (auto intro: add_ge_left add_ge_right simp: idem)
  have q: "0 \<le> rnd (X / rnd (rnd (X + Y) + Z)) \<and> rnd (X / rnd (rnd (X + Y) + Z)) \<le> 1"
      "0 \<le> rnd (Y / rnd (rnd (X + Y) + Z)) \<and> rnd (Y / rnd (rnd (X + Y) + Z)) \<le> 1"
    using pos le by (auto intro!: quotient_unit [THEN conjunct1] quotient_unit [THEN conjunct2])
  have fallback: "0 \<le> rnd 0.3127 \<and> rnd 0.3127 \<le> 1" "0 \<le> rnd 0.3290 \<and> rnd 0.3290 \<le> 1"
    by (simp_all add: nonneg at_most_one)
  show ?thesis
    unfolding colorToXy_def xyz Let_def using q fallback by simp
qed

end

section \<open>Exact round trips\<close>

abbreviation (input) exactly :: "real \<Rightarrow> real" where
  "exactly \<equiv> \<lambda>x. x"

lemma fmod_eq:
  assumes "0 < y" "0 \<le> n" "of_int n * y \<le> x" "x < (of_int n + 1) * y"
  shows "fmod x y = x - of_int n * y"
proof -
  have "of_int n \<le> x / y" "x / y < of_int n + 1"
    using assms(3,4) by (simp_all only: pos_le_divide_eq [OF assms(1)] pos_divide_less_eq [OF assms(1)])
  moreover have "0 \<le> real_of_int n"
    using assms(2) by simp
  ultimately have "\<lfloor>x / y\<rfloor> = n" "\<not> x / y < 0"
    by (intro floor_unique, linarith+)
  then show ?thesis
    by (simp only: fmod_def towardZero_def if_False mult.commute)
qed

lemma fmod_two:
  "0 \<le> p \<Longrightarrow> p < 2 \<Longrightarrow> fmod p 2 = p"
  "2 \<le> p \<Longrightarrow> p < 4 \<Longrightarrow> fmod p 2 = p - 2"
  "4 \<le> p \<Longrightarrow> p < 6 \<Longrightarrow> fmod p 2 = p - 4"
  using fmod_eq [of 2 0 p] fmod_eq [of 2 1 p] fmod_eq [of 2 2 p] by simp_all

lemma wrap_exact: "- 1 \<le> p \<Longrightarrow> p < 6 \<Longrightarrow>
    wrapHue360 exactly (60 * p) = (if p < 0 then 60 * (p + 6) else 60 * p)"
  by (auto simp: wrapHue360_def Let_def fmod_small)

text \<open>The colour of a hue of \<^verbatim>\<open>60 * p\<close> degrees, by sector.\<close>

definition sectorColor :: "real \<Rightarrow> real \<Rightarrow> real \<Rightarrow> color" where
  "sectorColor p c v =
     (if p < 1 then makeColor v (v - c + c * p) (v - c)
      else if p < 2 then makeColor (v - c + c * (2 - p)) v (v - c)
      else if p < 3 then makeColor (v - c) v (v - c + c * (p - 2))
      else if p < 4 then makeColor (v - c) (v - c + c * (4 - p)) v
      else if p < 5 then makeColor (v - c + c * (p - 4)) (v - c) v
      else makeColor v (v - c) (v - c + c * (6 - p)))"

lemma hsvToColor_sector:
  assumes "0 \<le> p" "p < 6" "0 < c" "c \<le> v" "v \<le> 1" "wrapHue360 exactly h = 60 * p"
  shows "hsvToColor exactly h (c / v) v = sectorColor p c v"
proof -
  have v: "clamp01 v = v" "clamp01 (c / v) = c / v" "\<not> c / v \<le> 0" "v * (c / v) = c"
    using assms by (simp_all add: clamp01_id divide_le_eq)
  have "p < 1 \<or> 1 \<le> p \<and> p < 2 \<or> 2 \<le> p \<and> p < 3 \<or> 3 \<le> p \<and> p < 4 \<or> 4 \<le> p \<and> p < 5 \<or> 5 \<le> p"
    by linarith
  then show ?thesis
    using assms(1,2) unfolding hsvToColor_def Let_def assms(6) v if_not_P [OF v(3)]
    by (elim disjE conjE) (simp_all add: fmod_two sectorColor_def abs_if algebra_simps)
qed

lemma scaled:
  assumes "(0::real) < d" "d * q = x" "\<bar>x\<bar> \<le> d"
  shows "0 \<le> q \<Longrightarrow> 0 \<le> x" "q < 0 \<Longrightarrow> x < 0" "q \<le> 1" "- 1 \<le> q" "q = 1 \<Longrightarrow> x = d" "q = - 1 \<Longrightarrow> x = - d"
proof -
  have q: "q = x / d"
    using assms(1,2) by auto
  show "0 \<le> q \<Longrightarrow> 0 \<le> x" "q < 0 \<Longrightarrow> x < 0"
    using assms(1,2) by (auto simp: mult_pos_neg)
  show "q \<le> 1" "- 1 \<le> q"
    using assms(1,3) unfolding q by (simp_all add: pos_divide_le_eq pos_le_divide_eq abs_le_iff)
  show "q = 1 \<Longrightarrow> x = d" "q = - 1 \<Longrightarrow> x = - d"
    using assms(2) by auto
qed

lemma sectorColor_red:
  assumes c: "unitColor \<lparr>c_r = r, c_g = g, c_b = b\<rparr>"
    and M: "M = max r (max g b)" and d: "d = M - min r (min g b)" "0 < d"
    and h: "M = r" "d * q = g - b"
  shows "sectorColor (if q < 0 then q + 6 else q) d M = \<lparr>c_r = r, c_g = g, c_b = b\<rparr>"
proof -
  note made = c [THEN makeColor_unit_id]
  have "\<bar>g - b\<bar> \<le> d"
    using M d h(1) by (auto simp: max_def min_def split: if_splits)
  note q = scaled [OF d(2) h(2) this]
  have le: "g \<le> r" "b \<le> r"
    using M h(1) by simp_all
  consider "q < 0" | "0 \<le> q" "q < 1" | "q = 1"
    using q by linarith
  then show ?thesis
  proof cases
    case 1
    then have "g \<le> b"
      using q(2) by linarith
    then have "M - d = g"
      using d(1) le by simp
    then show ?thesis
      using 1 h q by (simp add: sectorColor_def made)
  next
    case 2
    then have "b \<le> g"
      using q(1) by linarith
    then have "M - d = b"
      using d(1) le by simp
    then show ?thesis
      using 2 h by (simp add: sectorColor_def made)
  next
    case 3
    then have "g - b = d"
      by (rule q(5))
    then have "d = r - b" "g = r"
      using M d h le by (auto simp: min_def split: if_splits)
    then show ?thesis
      using 3 h made by (simp add: sectorColor_def)
  qed
qed

lemma sectorColor_green:
  assumes c: "unitColor \<lparr>c_r = r, c_g = g, c_b = b\<rparr>"
    and M: "M = max r (max g b)" and d: "d = M - min r (min g b)" "0 < d"
    and h: "M \<noteq> r" "M = g" "d * q = b - r"
  shows "sectorColor (q + 2) d M = \<lparr>c_r = r, c_g = g, c_b = b\<rparr>"
proof -
  note made = c [THEN makeColor_unit_id]
  have "\<bar>b - r\<bar> \<le> d"
    using M d h(2) by (auto simp: max_def min_def split: if_splits)
  note q = scaled [OF d(2) h(3) this]
  consider "q = - 1" | "- 1 < q" "q < 0" | "0 \<le> q" "q < 1" | "q = 1"
    using q by linarith
  then show ?thesis
  proof cases
    case 2
    then have "M - d = b"
      using M d h q by (auto simp: max_def min_def split: if_splits)
    then show ?thesis
      using 2 h by (simp add: sectorColor_def made)
  next
    case 3
    then have "M - d = r"
      using M d h q by (auto simp: max_def min_def split: if_splits)
    then show ?thesis
      using 3 h by (simp add: sectorColor_def made)
  next
    case 4
    then have "d = g - r" "b = g"
      using M d h q by (auto simp: max_def min_def split: if_splits)
    then show ?thesis
      using 4 h made by (simp add: sectorColor_def)
  qed (use M d h q in \<open>auto simp: max_def min_def split: if_splits\<close>)
qed

lemma sectorColor_blue:
  assumes c: "unitColor \<lparr>c_r = r, c_g = g, c_b = b\<rparr>"
    and M: "M = max r (max g b)" and d: "d = M - min r (min g b)" "0 < d"
    and h: "M \<noteq> r" "M \<noteq> g" "d * q = r - g"
  shows "sectorColor (q + 4) d M = \<lparr>c_r = r, c_g = g, c_b = b\<rparr>"
proof -
  note made = c [THEN makeColor_unit_id]
  have b: "M = b"
    using M h by (auto simp: max_def split: if_splits)
  have "\<bar>r - g\<bar> \<le> d"
    using M d h(1,2) by (auto simp: max_def min_def split: if_splits)
  note q = scaled [OF d(2) h(3) this]
  consider "q = - 1" | "- 1 < q" "q < 0" | "0 \<le> q" "q < 1" | "q = 1"
    using q by linarith
  then show ?thesis
  proof cases
    case 2
    then have "M - d = r"
      using M d h q b by (auto simp: max_def min_def split: if_splits)
    then show ?thesis
      using 2 h b by (simp add: sectorColor_def made)
  next
    case 3
    then have "M - d = g"
      using M d h q b by (auto simp: max_def min_def split: if_splits)
    then show ?thesis
      using 3 h b by (simp add: sectorColor_def made)
  qed (use M d h q b in \<open>auto simp: max_def min_def split: if_splits\<close>)
qed

lemma hue_in_sector:
  assumes "\<bar>q\<bar> \<le> (1::real)"
  shows "wrapHue360 exactly (60 * fmod q 6) = 60 * (if q < 0 then q + 6 else q)"
    and "wrapHue360 exactly (60 * (q + 2)) = 60 * (q + 2)"
    and "wrapHue360 exactly (60 * (q + 4)) = 60 * (q + 4)"
  using assms wrap_exact [of q] wrap_exact [of "q + 2"] wrap_exact [of "q + 4"]
  by (simp_all add: fmod_small abs_le_iff)

lemma wrap_idem: "wrapHue360 exactly (wrapHue360 exactly h) = wrapHue360 exactly h"
proof -
  have "- 360 < fmod h 360" "fmod h 360 < 360"
    using fmod_bound [of 360 h] by simp_all
  then show ?thesis
    by (simp add: wrapHue360_def Let_def fmod_small)
qed

lemma colorToHsv_grey:
  assumes "clamp01 r = r" "clamp01 g = g" "clamp01 b = b"
    and "rnd (max r (max g b) - min r (min g b)) \<le> rnd (1 / 10 ^ 9)"
  shows "colorToHsv rnd \<lparr>c_r = r, c_g = g, c_b = b\<rparr> = \<lparr>hsv_hDeg = 0, hsv_s = 0, hsv_v = max r (max g b)\<rparr>"
  unfolding colorToHsv_def Let_def color.select_convs assms(1-3) if_P [OF assms(4)] ..

lemma hsvToColor_grey: "hsvToColor rnd h 0 v = makeColor (clamp01 v) (clamp01 v) (clamp01 v)"
  by (simp add: hsvToColor_def Let_def clamp01_def [of 0])

lemma hsv_roundtrip_components:
  assumes c: "unitColor \<lparr>c_r = r, c_g = g, c_b = b\<rparr>"
    and M: "M = max r (max g b)" and d: "d = M - min r (min g b)" "1 / 10 ^ 9 < d"
    and h: "h = colorToHsv exactly \<lparr>c_r = r, c_g = g, c_b = b\<rparr>"
  shows "hsvToColor exactly (hsv_hDeg h) (hsv_s h) (hsv_v h) = \<lparr>c_r = r, c_g = g, c_b = b\<rparr>"
proof -
  have clamped: "clamp01 r = r" "clamp01 g = g" "clamp01 b = b"
    using c by (simp_all add: unitColor_def clamp01_id)
  have dM: "0 < d" "d \<le> M" "M \<le> 1"
    using c M d by (auto simp: unitColor_def max_def min_def split: if_splits)
  define q where "q = (if M = r then g - b else if M = g then b - r else r - g) / d"
  have dq_le: "\<bar>d * q\<bar> \<le> d" and dq: "d * q = (if M = r then g - b else if M = g then b - r else r - g)"
    using dM(1) M d by (auto simp: q_def max_def min_def abs_if split: if_splits)
  have q: "\<bar>q\<bar> \<le> 1"
    using scaled(3,4) [OF dM(1) refl dq_le] by (simp add: abs_le_iff)
  define p where "p = (if M = r then if q < 0 then q + 6 else q else if M = g then q + 2 else q + 4)"
  have "hsv_s h = d / M \<and> hsv_v h = M \<and> hsv_hDeg h =
      wrapHue360 exactly (60 * (if M = r then fmod q 6 else if M = g then q + 2 else q + 4))"
    using d(2) unfolding h q_def colorToHsv_def Let_def color.select_convs clamped M [symmetric]
      d(1) [symmetric] by auto
  moreover have "wrapHue360 exactly
      (60 * (if M = r then fmod q 6 else if M = g then q + 2 else q + 4)) = 60 * p"
    unfolding p_def
    by (cases "M = r"; cases "M = g"; simp only: hue_in_sector [OF q] simp_thms if_True if_False)
  ultimately have sv: "hsv_s h = d / M" "hsv_v h = M" "wrapHue360 exactly (hsv_hDeg h) = 60 * p"
    using wrap_idem by simp_all metis
  moreover have "0 \<le> p" "p < 6"
    using q by (auto simp: p_def abs_le_iff)
  ultimately have "hsvToColor exactly (hsv_hDeg h) (hsv_s h) (hsv_v h) = sectorColor p d M"
    using dM by (simp add: hsvToColor_sector)
  also have "\<dots> = \<lparr>c_r = r, c_g = g, c_b = b\<rparr>"
    using dq sectorColor_red [OF c M d(1) dM(1)] sectorColor_green [OF c M d(1) dM(1)]
      sectorColor_blue [OF c M d(1) dM(1)] by (simp add: p_def split: if_splits)
  finally show ?thesis .
qed

text \<open>
  C34: In exact arithmetic the hue, saturation and value of a colour give back the colour, unless
  its components differ by at most 1e-9, when they give the grey of the largest component.
\<close>

theorem hsv_roundtrip:
  assumes "unitColor c"
  shows "let h = colorToHsv (\<lambda>x. x) c;
             M = max (c_r c) (max (c_g c) (c_b c));
             m = min (c_r c) (min (c_g c) (c_b c))
         in hsvToColor (\<lambda>x. x) (hsv_hDeg h) (hsv_s h) (hsv_v h) =
              (if M - m \<le> 1 / 10 ^ 9 then \<lparr>c_r = M, c_g = M, c_b = M\<rparr> else c)"
proof (cases c)
  case (fields r g b)
  then have unit: "unitColor \<lparr>c_r = r, c_g = g, c_b = b\<rparr>"
    using assms by simp
  show ?thesis
  proof (cases "max r (max g b) - min r (min g b) \<le> 1 / 10 ^ 9")
    case True
    have "clamp01 (max r (max g b)) = max r (max g b)" "clamp01 r = r" "clamp01 g = g" "clamp01 b = b"
      using unit by (simp_all add: unitColor_def clamp01_id le_max_iff_disj)
    then show ?thesis
      using True colorToHsv_grey [where rnd = exactly and r = r and g = g and b = b]
      by (simp add: fields makeColor_def Let_def hsvToColor_grey)
  next
    case False
    then show ?thesis
      using hsv_roundtrip_components [OF unit refl refl _ refl] by (simp add: fields Let_def)
  qed
qed

theorem hsv_roundtrip_witness:
  "let h = colorToHsv (\<lambda>x. x) \<lparr>c_r = 1, c_g = 1 / 2, c_b = 0\<rparr> in
   hsvToColor (\<lambda>x. x) (hsv_hDeg h) (hsv_s h) (hsv_v h) = \<lparr>c_r = 1, c_g = 1 / 2, c_b = 0\<rparr>"
  using hsv_roundtrip [of "\<lparr>c_r = 1, c_g = 1 / 2, c_b = 0\<rparr>"] by (simp add: unitColor_def Let_def)

lemma mired_involution: "0 < k \<Longrightarrow> miredToKelvin exactly (kelvinToMired exactly k) = k"
  by (simp add: miredToKelvin_def kelvinToMired_def)

text \<open>
  The two gamma branches meet to four decimals only: the linear branch of \<^verbatim>\<open>linearToSrgb\<close> ends at
  0.0031308, which is the image of 0.040449936. Outside that sliver below 0.04045 the two
  functions are inverse.
\<close>

lemma powr_above: "0.0031308 < x powr 2.4" if "0.09545 / 1.055 < x" for x :: real
proof -
  have x: "0 < x"
    using that by simp
  have "(0.0031308::real) ^ 5 < (0.09545 / 1.055) ^ 12"
    by (simp add: power_divide)
  also have "\<dots> < x ^ 12"
    using that by (intro power_strict_mono) simp_all
  also have "x ^ 12 = (x powr 2.4) powr 5"
    using powr_realpow [OF x, of 12] by (simp add: powr_powr)
  also have "\<dots> = (x powr 2.4) ^ 5"
    using powr_realpow [of "x powr 2.4" 5] x by simp
  finally show ?thesis
    by (rule power_less_imp_less_base) simp
qed

lemma gamma_roundtrip:
  assumes "0 \<le> c" "c \<le> 1" "c \<le> 0.040449936 \<or> 0.04045 < c"
  shows "linearToSrgb exactly (powr) (srgbToLinear exactly (powr) c) = c"
proof (cases "c \<le> 0.04045")
  case True
  then show ?thesis
    using assms by (auto simp: srgbToLinear_def linearToSrgb_def clamp01_id)
next
  case False
  define x where "x = (c + 0.055) / 1.055"
  have x: "0.09545 / 1.055 < x" "x \<le> 1" "1.055 * x - 0.055 = c"
    using False assms by (simp_all add: x_def field_simps)
  have linear: "srgbToLinear exactly (powr) c = x powr 2.4"
    using False assms by (simp add: srgbToLinear_def clamp01_id x_def)
  show ?thesis
  proof (cases "x = 1")
    case True
    then show ?thesis
      using linear x(3) by (simp add: linearToSrgb_def)
  next
    case False
    then have "x powr 2.4 < 1"
      using x powr_less_mono2 [of "2.4" x 1] by simp
    moreover have "(x powr 2.4) powr (1 / 2.4) = x"
      using x by (simp add: powr_powr)
    moreover have "0 < x"
      using x(1) by simp
    ultimately show ?thesis
      using powr_above [OF x(1)] x(3) unfolding linear linearToSrgb_def by simp
  qed
qed

section \<open>The machine arithmetic\<close>

text \<open>
  A hue a little below zero wraps to exactly 360 in binary64, since the sum is nearer to 360 than
  to the number below it. The colour is that of hue 0 all the same: the quotient by 60 is 6, the
  last branch of \<^verbatim>\<open>hsvToColor\<close> takes it, and \<^verbatim>\<open>fmod(6, 2)\<close> is 0.
\<close>

lemma nearest_below_360: "nearest (360 - 1 / 2 ^ 60) = 360"
proof -
  let ?x = "360 - 1 / 2 ^ 60 :: real"
  have "\<lfloor>log 2 ?x\<rfloor> = 8"
    by (subst floor_log_eq_powr_iff) simp_all
  then have e: "binade ?x = 8"
    by (simp add: binade_def)
  have "ulp 8 = 1 / 2 ^ 44"
    by (simp add: ulp_def powr_minus_divide)
  note u = this
  have "roundEven (?x * 2 ^ 44) = 360 * 2 ^ 44"
  proof -
    have "\<lfloor>?x * 2 ^ 44\<rfloor> = 360 * 2 ^ 44 - 1"
      by (rule floor_unique) simp_all
    then show ?thesis
      by (simp add: roundEven_def Let_def)
  qed
  then show ?thesis
    unfolding nearest_def e u by simp
qed

lemma hue_seam: "wrapHue360 nearest (- (1 / 2 ^ 60)) = 360"
  using nearest_below_360 by (simp add: wrapHue360_def Let_def fmod_small)

lemma hue_360_is_red:
  "sectorColor 0 1 1 = makeColor 1 0 0" "hsvToColor exactly 360 1 1 = makeColor 1 0 0"
  by (simp_all add: sectorColor_def hsvToColor_def wrapHue360_def Let_def clamp01_def fmod_def towardZero_def)



end
