(* ===== verification/Spec2Isabelle.thy ===== *)
theory Spec2Isabelle
  imports Prelude Ipc_Command Frame Json_Token Number_Text Contract_Types Contract_Schema Json_Decode
    Enum_Names Json_Text Json_Encode Source_Location Log_Filter Frame_Stream Transport Send_Queue
    Send_Frames Requests Dispatcher Exec_Backend Adapter_Plane Host Host_Loop Poll_Frame Host_Rules
    Host_Invariant Host_Safety Host_Frame Host_Teardown Host_Commands Host_Exceptions Sidecar_Main Example_Sidecar Color
begin

text \<open>
  A model of phi-adapter-sdk, the C++ library with which a sidecar process connects device adapters to
  phi-core over a Unix socket, and proofs of what it promises.

  The program. \<^verbatim>\<open>runSidecarMain\<close> (\<^verbatim>\<open>src/sidecar_main.cpp\<close>) starts a \<^verbatim>\<open>SidecarHost\<close>, polls it until it is
  told to stop, stops it and reaps what is left. The host owns a \<^verbatim>\<open>SidecarDispatcher\<close>, the adapter
  factory and the adapter instances; each instance, and the factory if it asks for it, has an execution
  backend, a worker thread with a task queue. The dispatcher owns the runtime and its transport, an
  epoll server with at most one client. Bytes from the socket become frames, frames become requests,
  requests become tasks of a worker, the adapter's hook answers with a result, the result waits in the
  host's queue until the next poll, becomes a JSON envelope in the outbound queue and goes to the socket.

  Where it is modelled, bottom up (file under \<^verbatim>\<open>src/\<close>, then theory):
  \<^item> \<^verbatim>\<open>include/phi/adapter/v1\<close>: \<^verbatim>\<open>ipc_command.h\<close> in \<^verbatim>\<open>Ipc_Command\<close>; \<^verbatim>\<open>frame.h\<close> in \<^verbatim>\<open>Frame\<close>; the
    data structs and enums in \<^verbatim>\<open>Contract_Types\<close> and \<^verbatim>\<open>Contract_Schema\<close>; \<^verbatim>\<open>enum_names.h\<close> in
    \<^verbatim>\<open>Enum_Names\<close>; \<^verbatim>\<open>color.h\<close> in \<^verbatim>\<open>Color\<close>.
  \<^item> \<^verbatim>\<open>src/sidecar.cpp\<close>, JSON: scanners in \<^verbatim>\<open>Json_Token\<close>, decoders in \<^verbatim>\<open>Json_Decode\<close>, number
    conversions in \<^verbatim>\<open>Number_Text\<close>, quoting and envelopes in \<^verbatim>\<open>Json_Text\<close>, entities in
    \<^verbatim>\<open>Json_Encode\<close>, source positions in \<^verbatim>\<open>Source_Location\<close>; the log filter in \<^verbatim>\<open>Log_Filter\<close>.
  \<^item> \<^verbatim>\<open>src/linux/uds_epoll_transport.{h,cpp}\<close>: \<^verbatim>\<open>Frame_Stream\<close> (the parse step on unread bytes) and
    \<^verbatim>\<open>Transport\<close> (the record \<^verbatim>\<open>server\<close> and the member functions of \<^verbatim>\<open>UdsEpollServer\<close>).
  \<^item> \<^verbatim>\<open>SidecarDispatcher\<close> (with \<^verbatim>\<open>src/runtime.cpp\<close>): the outbound queue in \<^verbatim>\<open>Send_Queue\<close>, the senders
    in \<^verbatim>\<open>Send_Frames\<close>, \<^verbatim>\<open>handleRequestFrame\<close> in \<^verbatim>\<open>Requests\<close>, start, stop and poll in \<^verbatim>\<open>Dispatcher\<close>.
  \<^item> \<^verbatim>\<open>DefaultInstanceExecutionBackend\<close> and the registry of abandoned threads: \<^verbatim>\<open>Exec_Backend\<close>.
  \<^item> \<^verbatim>\<open>AdapterFactory\<close> and \<^verbatim>\<open>AdapterInstance\<close>: \<^verbatim>\<open>Adapter_Plane\<close>.
  \<^item> \<^verbatim>\<open>SidecarHost\<close>: tasks, instances and their life in \<^verbatim>\<open>Host\<close>; deferred results, handlers, start, poll
    and stop in \<^verbatim>\<open>Host_Loop\<close>.
  \<^item> \<^verbatim>\<open>runSidecarMain\<close> and \<^verbatim>\<open>reapAbandonedExecutionThreads\<close>: \<^verbatim>\<open>Sidecar_Main\<close>.
  \<^item> \<^verbatim>\<open>examples/phi-adapter-sidecar/main.cpp\<close>: \<^verbatim>\<open>Example_Sidecar\<close>, an adapter on top of all of this.

  State. The records nest as the objects do: \<^verbatim>\<open>host\<close> extends \<^verbatim>\<open>dispatcher\<close> extends \<^verbatim>\<open>server\<close>, so a callback
  is a function on whatever its owner builds around the callee, and runs where the code runs it. What is
  not under \<^verbatim>\<open>src/\<close> is a script in the state, read one entry per call: the results of system calls and
  epoll, the clock, whether a thread can be created, how the steps of the workers fall between those of
  the host, what each hook of an adapter does (a finite program of calls of the SDK's operations that
  sees their results; a hook of an instance may end in an exception, which its worker contains). A statement for every state is therefore one for every environment, every
  interleaving and every adapter. Integers have the width of the code, a \<^verbatim>\<open>double\<close> of a message is a
  sign, mantissa and exponent with exact decimal conversion, and an error text is the left side of a sum
  or a present option.

  Interfaces, each a locale with its laws and an interpretation on the model: \<^verbatim>\<open>kv_store\<close> (member maps),
  \<^verbatim>\<open>name_table\<close>, \<^verbatim>\<open>incremental_decoder\<close> (why the cut of the byte stream into reads does not matter),
  \<^verbatim>\<open>lossy_queue\<close> (shedding), \<^verbatim>\<open>task_queue\<close> (a backend as its client sees it), \<^verbatim>\<open>operations\<close> (what
  adapter code can reach), \<^verbatim>\<open>owner_relation\<close> and \<^verbatim>\<open>plane_relation\<close> (what a poll, and what the handlers
  of the host, leave to their owner), \<^verbatim>\<open>rounding\<close> (floating-point arithmetic).

  What is shown:
  \<^item> Text: scanners accept exactly one value of everything the encoders emit, and decoding what was
    encoded gives it back (\<^verbatim>\<open>Json_Text\<close>, \<^verbatim>\<open>Json_Encode\<close>, \<^verbatim>\<open>Send_Frames\<close>); enum names and flag lists read
    back (\<^verbatim>\<open>Enum_Names\<close>); the cached log filter is the documented rule (\<^verbatim>\<open>Log_Filter\<close>).
  \<^item> Transport: frames arrive once and in order under any chunking, the receive buffer is bounded, a send
    is whole or ends the session, connect and disconnect alternate (\<^verbatim>\<open>Frame_Stream\<close>, \<^verbatim>\<open>Transport\<close>).
  \<^item> Dispatcher: responses are never shed, drops are counted, every sender conforms to the contract, an
    unhandled command is answered once, a poll keeps both invariants, and what is flushed decodes to what
    was queued (\<^verbatim>\<open>Send_Queue\<close>, \<^verbatim>\<open>Send_Frames\<close>, \<^verbatim>\<open>Requests\<close>, \<^verbatim>\<open>Dispatcher\<close>).
  \<^item> Workers: the backend refines a queue service over all interleavings, a stop drains or hands over, and
    the worker ends (\<^verbatim>\<open>Exec_Backend\<close>).
  \<^item> Host: no code runs on a destroyed instance as long as no rolled-back start times out
    (\<^verbatim>\<open>Host_Invariant\<close>, \<^verbatim>\<open>Host_Safety\<close>); the bounds of transport and queue hold in every reachable host
    (\<^verbatim>\<open>Poll_Frame\<close>, \<^verbatim>\<open>Host_Frame\<close>); a stop ends within its budget plus a share per instance and leaves
    nothing (\<^verbatim>\<open>Host_Teardown\<close>); commands reach their instance or an answer, results reach the peer,
    creation is all or nothing (\<^verbatim>\<open>Host_Commands\<close>), a start hook may succeed, fail or throw
    (\<^verbatim>\<open>Host_Exceptions\<close>); the program ends when told (\<^verbatim>\<open>Sidecar_Main\<close>); the example answers its
    commands (\<^verbatim>\<open>Example_Sidecar\<close>).
  \<^item> Colours stay in range in binary64 and go through HSV and back in exact arithmetic (\<^verbatim>\<open>Color\<close>).

  What the proofs also show of the code: a start hook that overruns both of its deadlines is destroyed
  under its worker (\<^verbatim>\<open>start_timeout_destroys_running_instance\<close>), a restarted host refuses the results of
  its factory (\<^verbatim>\<open>restart_loses_factory_results\<close>), the minimum slices make the stop of stuck instances
  grow with their number (\<^verbatim>\<open>stuck_stop_exceeds_budget\<close>), a start hook that throws is waited for and
  reported as a time-out (\<^verbatim>\<open>start_hook_outcomes\<close>), \<^verbatim>\<open>InternalError\<close> has no name
  (\<^verbatim>\<open>internal_error_has_no_name\<close>), and a hue just below zero wraps to exactly 360 (\<^verbatim>\<open>hue_seam\<close>).

  Termination and fuel. The only fuel is that of the parse loop of \<^verbatim>\<open>readClient\<close>: each round takes at
  least a header from the buffer, so the length of the buffer plus one is enough
  (\<^verbatim>\<open>frameLoop_frames\<close>). All other loops are structural or end by a measure: the rest of the text, of a
  script or of a queue, or the time to a deadline, since \<^verbatim>\<open>sleep_for\<close> advances the clock. The main loop
  need not end and is an optional value; \<^verbatim>\<open>main_runs_until_told\<close> says exactly when it does.

  Not modelled:
  \<^item> Mutexes, atomics and data races below the critical sections; a critical section is one step. The
    steps of the workers fall between the operations of the host thread and into its waits.
  \<^item> Exceptions that leave a hook of the factory: on the host thread they would leave the program.
    A hook that does not return is a worker that makes no step. Adapters with their own execution
    backend or \<^verbatim>\<open>destroyInstance\<close>.
  \<^item> Exhausted memory, and the stack depth of the recursive scanners.
  \<^item> Poll and socket timeouts as durations: the script says what a poll finds.
  \<^item> NaN, infinities and overflow in \<^verbatim>\<open>color.h\<close>; \<^verbatim>\<open>std::pow\<close> is a parameter.
  \<^item> \<^verbatim>\<open>tests/\<close>, the logging macros, and the one-line accessors, delegations and type aliases of the
    headers and of \<^verbatim>\<open>src/runtime.cpp\<close>.
\<close>

end
